(* ===== verification/Prelude.thy ===== *)
theory Prelude
  imports Main "HOL-Library.Word" "HOL-Library.AList"
begin

text \<open>
  Shared vocabulary of the development: machine integers, the error type and
  the two result disciplines of the source, and the generic lemmas the
  components use.

  Fallible Rust code that returns \<open>Result<T>\<close> is a value of \<open>'a result\<close>; the
  question mark operator is \<open>and_then\<close>. Fallible code that also changes state
  through \<open>&mut\<close> is a value of \<open>('a, 's) outcome\<close>, a result paired with the
  state at the point of return: an early return keeps the changes made before
  it, as in the source.
\<close>

section \<open>Machine integers and time\<close>

type_synonym u8 = "8 word"
type_synonym u16 = "16 word"
type_synonym u32 = "32 word"
type_synonym u64 = "64 word"
type_synonym usize = "64 word"
type_synonym bytes = "u8 list"

text \<open>
  \<open>Instant\<close> counts nanoseconds from an arbitrary origin, \<open>Duration\<close> is a number
  of nanoseconds. \<open>Instant::now()\<close> is an input of the operation that reads it.
\<close>

type_synonym instant = int
type_synonym duration = nat

section \<open>Errors and results\<close>

text \<open>
  The variants of \<open>shared::error::Error\<close> that the source builds or tests;
  \<open>ErrForeign\<close> stands for every error that a dependency hands over and that the
  source only passes on. \<open>Panic\<close> is no value of that type: it marks the points where
  \<open>unwrap\<close> would abort the program.
\<close>

datatype int_error_kind = Empty | InvalidDigit | PosOverflow

datatype error =
    Other string
  | ErrParseInt int_error_kind
  | ErrUtf8
  | ErrClientTransportNotSet
  | ErrAttributeNotFound
  | ErrInvalidCertificate
  | ErrNoSuchSrtpProfile
  | ErrAlertFatalOrClose
  | ErrOutboundPacketTooLarge
  | ErrAssociationNotExisted
  | ErrForeign string
  | Panic string

type_synonym 'a result = "error + 'a"
type_synonym ('a, 's) outcome = "'a result \<times> 's"

abbreviation Ok :: "'a \<Rightarrow> 'a result" where "Ok \<equiv> Inr"
abbreviation Err :: "error \<Rightarrow> 'a result" where "Err \<equiv> Inl"

fun and_then :: "'a result \<Rightarrow> ('a \<Rightarrow> 'b result) \<Rightarrow> 'b result" where
  "and_then (Inl e) f = Inl e"
| "and_then (Inr x) f = f x"

fun ok_or :: "'a option \<Rightarrow> error \<Rightarrow> 'a result" where
  "ok_or None e = Inl e"
| "ok_or (Some x) e = Inr x"

fun is_ok :: "'a result \<Rightarrow> bool" where
  "is_ok (Inl e) = False"
| "is_ok (Inr x) = True"

text \<open>A loop whose body ends in a question mark and pushes one element per item.\<close>

fun try_map :: "('a \<Rightarrow> 'b result) \<Rightarrow> 'a list \<Rightarrow> 'b list result" where
  "try_map f [] = Inr []"
| "try_map f (x # xs) = and_then (f x) (\<lambda>y. and_then (try_map f xs) (\<lambda>ys. Inr (y # ys)))"

text \<open>A loop whose body changes a value and may return early.\<close>

fun try_fold :: "('a \<Rightarrow> 's \<Rightarrow> 's result) \<Rightarrow> 'a list \<Rightarrow> 's \<Rightarrow> 's result" where
  "try_fold f [] s = Inr s"
| "try_fold f (x # xs) s = and_then (f x s) (try_fold f xs)"

text \<open>The same loop over state that outlives the early return.\<close>

fun for_each :: "('a \<Rightarrow> 's \<Rightarrow> (unit, 's) outcome) \<Rightarrow> 'a list \<Rightarrow> 's \<Rightarrow> (unit, 's) outcome" where
  "for_each f [] s = (Inr (), s)"
| "for_each f (x # xs) s =
     (case f x s of (Inl e, s') \<Rightarrow> (Inl e, s') | (Inr u, s') \<Rightarrow> for_each f xs s')"

named_theorems result_simps \<open>inversion of results\<close>

lemma and_then_Inr_iff [result_simps]:
  "and_then r f = Inr y \<longleftrightarrow> (\<exists>x. r = Inr x \<and> f x = Inr y)"
  by (cases r) auto

lemma and_then_Inl_iff [result_simps]:
  "and_then r f = Inl e \<longleftrightarrow> r = Inl e \<or> (\<exists>x. r = Inr x \<and> f x = Inl e)"
  by (cases r) auto

lemma ok_or_Inr_iff [result_simps]: "ok_or m e = Inr x \<longleftrightarrow> m = Some x"
  by (cases m) auto

lemma ok_or_Inl_iff [result_simps]: "ok_or m e = Inl e' \<longleftrightarrow> m = None \<and> e' = e"
  by (cases m) auto

lemma is_ok_iff [result_simps]: "is_ok r \<longleftrightarrow> (\<exists>x. r = Inr x)"
  by (cases r) auto

lemma try_map_Inr_length: "try_map f xs = Inr ys \<Longrightarrow> length ys = length xs"
  by (induction xs arbitrary: ys) (auto simp: result_simps)

lemma try_map_Inr_iff: "try_map f xs = Inr ys \<longleftrightarrow> list_all2 (\<lambda>x y. f x = Inr y) xs ys"
proof (induction xs arbitrary: ys)
  case Nil
  then show ?case by auto
next
  case (Cons x xs)
  then show ?case by (cases ys) (auto simp: result_simps)
qed

lemma for_each_invariant:
  assumes "\<And>x s. x \<in> set xs \<Longrightarrow> I s \<Longrightarrow> I (snd (f x s))"
    and "I s"
  shows "I (snd (for_each f xs s))"
  using assms
proof (induction xs arbitrary: s)
  case Nil
  then show ?case by simp
next
  case (Cons x xs)
  obtain r s' where f: "f x s = (r, s')" by (cases "f x s") auto
  have "I s'" using Cons.prems f by (metis list.set_intros(1) snd_conv)
  then show ?case using Cons f by (cases r) auto
qed

lemma for_each_append:
  "for_each f (xs @ ys) s =
     (case for_each f xs s of (Inl e, s') \<Rightarrow> (Inl e, s') | (Inr u, s') \<Rightarrow> for_each f ys s')"
  by (induction xs arbitrary: s) (auto split: prod.splits sum.splits)

lemma try_fold_invariant:
  assumes "\<And>x s s'. x \<in> set xs \<Longrightarrow> I s \<Longrightarrow> f x s = Inr s' \<Longrightarrow> I s'"
    and "I s" and "try_fold f xs s = Inr s'"
  shows "I s'"
  using assms
proof (induction xs arbitrary: s)
  case Nil
  then show ?case by simp
next
  case (Cons x xs)
  then obtain s1 where s1: "f x s = Inr s1" and rest: "try_fold f xs s1 = Inr s'"
    by (auto simp: result_simps)
  have "I s1" using Cons.prems(1)[OF _ Cons.prems(2) s1] by simp
  then show ?case using Cons.IH[OF _ _ rest] Cons.prems(1) by auto
qed

lemma try_fold_append: "try_fold f (xs @ ys) s = and_then (try_fold f xs s) (try_fold f ys)"
proof (induction xs arbitrary: s)
  case (Cons x xs)
  then show ?case by (cases "f x s") simp_all
qed simp

lemma try_fold_is_ok:
  assumes "\<And>x s. is_ok (f x s) \<longleftrightarrow> P x"
  shows "is_ok (try_fold f xs s) \<longleftrightarrow> (\<forall>x\<in>set xs. P x)"
proof (induction xs arbitrary: s)
  case (Cons x xs)
  then show ?case using assms[of x s] by (cases "f x s") simp_all
qed simp

lemma is_ok_and_then: "is_ok (and_then r f) \<longleftrightarrow> (\<exists>x. r = Ok x \<and> is_ok (f x))"
  by (cases r) simp_all

lemma is_ok_then_Ok [simp]:
  "is_ok (and_then r (\<lambda>x. Ok (g x))) \<longleftrightarrow> is_ok r" "is_ok (and_then r' (\<lambda>(a, b). Ok (h a b))) \<longleftrightarrow> is_ok r'"
  by (cases r; simp) (cases r'; simp add: case_prod_beta)

section \<open>Lists\<close>

lemma find_Some_in_set: "find P xs = Some x \<Longrightarrow> x \<in> set xs \<and> P x"
  by (auto simp: find_Some_iff)

end
