(* ===== verification/Rust_Text.thy ===== *)
theory Rust_Text
  imports Prelude "HOL-Library.Sublist"
begin

text \<open>
  The string operations of the Rust standard library that the source uses.
  A Rust string is its sequence of UTF-8 bytes, a HOL \<open>string\<close>; the case
  mapping and the white space test cover the ASCII range and leave other bytes
  alone, which is the range of the SDP tokens, MIME types and hex digits the
  source applies them to.
\<close>

section \<open>Case mapping and white space\<close>

definition upper_char :: "char \<Rightarrow> char" where
  "upper_char c = (let n = (of_char c :: nat) in if 97 \<le> n \<and> n \<le> 122 then char_of (n - 32) else c)"

definition lower_char :: "char \<Rightarrow> char" where
  "lower_char c = (let n = (of_char c :: nat) in if 65 \<le> n \<and> n \<le> 90 then char_of (n + 32) else c)"

definition to_uppercase :: "string \<Rightarrow> string" where
  "to_uppercase = map upper_char"

definition to_lowercase :: "string \<Rightarrow> string" where
  "to_lowercase = map lower_char"

definition is_ws :: "char \<Rightarrow> bool" where
  "is_ws c = (let n = (of_char c :: nat) in n = 32 \<or> (9 \<le> n \<and> n \<le> 13))"

section \<open>Splitting and joining\<close>

fun split_on :: "char \<Rightarrow> string \<Rightarrow> string list" where
  "split_on c [] = [[]]"
| "split_on c (x # xs) =
     (if x = c then [] # split_on c xs
      else (case split_on c xs of [] \<Rightarrow> [[x]] | y # ys \<Rightarrow> (x # y) # ys))"

definition splitn2 :: "char \<Rightarrow> string \<Rightarrow> string list" where
  "splitn2 c s =
     (case dropWhile (\<lambda>x. x \<noteq> c) s of
        [] \<Rightarrow> [s]
      | _ # rest \<Rightarrow> [takeWhile (\<lambda>x. x \<noteq> c) s, rest])"

lemma length_dropWhile_termination [termination_simp]:
  "length (dropWhile P xs) < Suc (length xs)"
  by (simp add: length_dropWhile_le le_imp_less_Suc)

fun split_whitespace :: "string \<Rightarrow> string list" where
  "split_whitespace [] = []"
| "split_whitespace (c # cs) =
     (if is_ws c then split_whitespace cs
      else (c # takeWhile (\<lambda>x. \<not> is_ws x) cs)
             # split_whitespace (dropWhile (\<lambda>x. \<not> is_ws x) cs))"

definition trim :: "string \<Rightarrow> string" where
  "trim s = rev (dropWhile is_ws (rev (dropWhile is_ws s)))"

function trim_start_matches :: "string \<Rightarrow> string \<Rightarrow> string" where
  "trim_start_matches p s =
     (if p \<noteq> [] \<and> prefix p s then trim_start_matches p (drop (length p) s) else s)"
  by pat_completeness auto
termination
proof (relation "measure (\<lambda>(p, s). length s)")
  fix p s :: string
  assume "p \<noteq> [] \<and> prefix p s"
  then have "0 < length p" "length p \<le> length s" by (auto dest: prefix_length_le)
  then have "length s - length p < length s" by linarith
  then show "((p, drop (length p) s), (p, s)) \<in> measure (\<lambda>(p, s). length s)" by simp
qed simp

declare trim_start_matches.simps [simp del]

fun join :: "string \<Rightarrow> string list \<Rightarrow> string" where
  "join sep [] = []"
| "join sep [s] = s"
| "join sep (s # t # ts) = s @ sep @ join sep (t # ts)"

definition contains_str :: "string \<Rightarrow> string \<Rightarrow> bool" where
  "contains_str s pat = sublist pat s"

lemma split_on_not_Nil [simp]: "split_on c s \<noteq> []"
  by (induction s) (auto split: list.splits)

lemma split_on_no_sep: "c \<notin> set s \<Longrightarrow> split_on c s = [s]"
  by (induction s) auto

lemma split_on_append:
  "c \<notin> set s \<Longrightarrow> split_on c (s @ c # t) = s # split_on c t"
  by (induction s) auto

lemma split_on_join:
  "ss \<noteq> [] \<Longrightarrow> \<forall>s\<in>set ss. c \<notin> set s \<Longrightarrow> split_on c (join [c] ss) = ss"
proof (induction "[c]" ss rule: join.induct)
  case (2 s)
  then show ?case by (simp add: split_on_no_sep)
next
  case (3 s t ts)
  then show ?case by (simp add: split_on_append)
qed simp

lemma join_split_on: "join [c] (split_on c s) = s"
proof (induction s)
  case Nil
  then show ?case by simp
next
  case (Cons x s)
  obtain y ys where "split_on c s = y # ys" by (cases "split_on c s") auto
  with Cons show ?case by (cases ys) auto
qed

definition is_token :: "string \<Rightarrow> bool" where
  "is_token w \<longleftrightarrow> w \<noteq> [] \<and> (\<forall>c\<in>set w. \<not> is_ws c)"

lemma is_token_takeWhile: "\<not> is_ws c \<Longrightarrow> is_token (c # takeWhile (\<lambda>x. \<not> is_ws x) cs)"
  unfolding is_token_def by (induction cs) auto

lemma split_whitespace_tokens: "\<forall>w\<in>set (split_whitespace s). is_token w"
  by (induction s rule: split_whitespace.induct) (simp_all add: is_token_takeWhile)

section \<open>Decimal numbers\<close>

definition digit_char :: "nat \<Rightarrow> char" where
  "digit_char d = char_of (48 + d)"

definition is_digit_char :: "char \<Rightarrow> bool" where
  "is_digit_char c = (let n = (of_char c :: nat) in 48 \<le> n \<and> n \<le> 57)"

definition digit_value :: "char \<Rightarrow> nat" where
  "digit_value c = of_char c - 48"

fun show_nat :: "nat \<Rightarrow> string" where
  "show_nat n = (if n < 10 then [digit_char n] else show_nat (n div 10) @ [digit_char (n mod 10)])"

declare show_nat.simps [simp del]

text \<open>
  \<open>from_str_radix\<close> in base 10 for an unsigned type with greatest value \<open>m\<close>: in
  each step a bad digit is reported before an overflow.
\<close>

fun parse_digits :: "nat \<Rightarrow> nat \<Rightarrow> string \<Rightarrow> int_error_kind + nat" where
  "parse_digits m acc [] = Inr acc"
| "parse_digits m acc (c # cs) =
     (if \<not> is_digit_char c then Inl InvalidDigit
      else if m < acc * 10 + digit_value c then Inl PosOverflow
      else parse_digits m (acc * 10 + digit_value c) cs)"

definition parse_uint :: "nat \<Rightarrow> string \<Rightarrow> int_error_kind + nat" where
  "parse_uint m s =
     (if s = [] then Inl Empty
      else if s = ''+'' \<or> s = ''-'' then Inl InvalidDigit
      else if hd s = CHR ''+'' then parse_digits m 0 (tl s)
      else parse_digits m 0 s)"

definition parse_u8 :: "string \<Rightarrow> u8 result" where
  "parse_u8 s = (case parse_uint 255 s of Inl k \<Rightarrow> Inl (ErrParseInt k) | Inr n \<Rightarrow> Inr (of_nat n))"

definition parse_u16 :: "string \<Rightarrow> u16 result" where
  "parse_u16 s = (case parse_uint 65535 s of Inl k \<Rightarrow> Inl (ErrParseInt k) | Inr n \<Rightarrow> Inr (of_nat n))"

definition parse_u32 :: "string \<Rightarrow> u32 result" where
  "parse_u32 s = (case parse_uint 4294967295 s of Inl k \<Rightarrow> Inl (ErrParseInt k) | Inr n \<Rightarrow> Inr (of_nat n))"

definition show_word :: "'a::len word \<Rightarrow> string" where
  "show_word w = show_nat (unat w)"

lemma of_char_digit: "d < 10 \<Longrightarrow> (of_char (digit_char d) :: nat) = 48 + d"
  by (simp add: digit_char_def)

lemma digit_char_props [simp]:
  "d < 10 \<Longrightarrow> is_digit_char (digit_char d)"
  "d < 10 \<Longrightarrow> digit_value (digit_char d) = d"
  by (simp_all add: is_digit_char_def digit_value_def of_char_digit)

lemma show_nat_not_Nil [simp]: "show_nat n \<noteq> []"
  by (subst show_nat.simps) simp

lemma show_nat_digits: "\<forall>c\<in>set (show_nat n). is_digit_char c"
proof (induction n rule: show_nat.induct)
  case (1 n)
  then show ?case by (subst show_nat.simps) auto
qed

lemma parse_digits_append:
  "parse_digits m acc (s @ t) =
     (case parse_digits m acc s of Inl k \<Rightarrow> Inl k | Inr n \<Rightarrow> parse_digits m n t)"
  by (induction s arbitrary: acc) auto

lemma parse_digits_show: "n \<le> m \<Longrightarrow> parse_digits m 0 (show_nat n) = Inr n"
proof (induction n rule: show_nat.induct)
  case (1 n)
  show ?case
  proof (cases "n < 10")
    case True
    have "show_nat n = [digit_char n]" using True by (subst show_nat.simps) simp
    then show ?thesis using True \<open>n \<le> m\<close> by simp
  next
    case False
    have "n div 10 \<le> m" using \<open>n \<le> m\<close> by (meson div_le_dividend le_trans)
    then have IH: "parse_digits m 0 (show_nat (n div 10)) = Inr (n div 10)"
      using 1(1)[OF False] by blast
    have eq: "show_nat n = show_nat (n div 10) @ [digit_char (n mod 10)]"
      using False by (subst show_nat.simps) simp
    have "n div 10 * 10 + n mod 10 = n" by (rule div_mult_mod_eq)
    then show ?thesis using \<open>n \<le> m\<close> unfolding eq parse_digits_append IH by simp
  qed
qed

lemma not_digit_chars [simp]:
  "\<not> is_digit_char CHR ''+''" "\<not> is_digit_char CHR ''-''" "\<not> is_digit_char CHR '':''"
  "\<not> is_digit_char CHR '' ''"
  by (simp_all add: is_digit_char_def)

lemma parse_uint_show: "n \<le> m \<Longrightarrow> parse_uint m (show_nat n) = Inr n"
proof -
  assume "n \<le> m"
  have d: "is_digit_char (hd (show_nat n))"
    using show_nat_digits[of n] by (simp add: hd_in_set)
  then have "hd (show_nat n) \<noteq> CHR ''+''" "hd (show_nat n) \<noteq> CHR ''-''"
    by (auto simp del: show_nat_not_Nil)
  then have "hd (show_nat n) \<noteq> CHR ''+''" "show_nat n \<noteq> ''+''" "show_nat n \<noteq> ''-''"
    by auto
  then show ?thesis using \<open>n \<le> m\<close> by (simp add: parse_uint_def parse_digits_show)
qed

lemma show_nat_inject [simp]: "show_nat m = show_nat n \<longleftrightarrow> m = n"
proof
  assume eq: "show_nat m = show_nat n"
  have "parse_digits (m + n) 0 (show_nat m) = Inr m" by (rule parse_digits_show) (rule le_add1)
  moreover have "parse_digits (m + n) 0 (show_nat n) = Inr n" by (rule parse_digits_show) (rule le_add2)
  ultimately show "m = n" unfolding eq by simp
qed simp

lemma show_word_inject [simp]: "show_word v = show_word w \<longleftrightarrow> v = w"
  by (simp add: show_word_def word_unat_eq_iff)

lemma show_word_no_sep:
  "\<not> is_digit_char c \<Longrightarrow> c \<notin> set (show_word w)"
  using show_nat_digits by (auto simp: show_word_def)

lemma parse_u32_show_word: "parse_u32 (show_word w) = Inr w"
proof -
  have "unat w < 2 ^ 32" using unsigned_less[of w] by simp
  then have "unat w \<le> 4294967295" by simp
  then show ?thesis by (simp add: parse_u32_def show_word_def parse_uint_show)
qed

lemma parse_u8_show_word: "parse_u8 (show_word w) = Inr w"
proof -
  have "unat w < 2 ^ 8" using unsigned_less[of w] by simp
  then have "unat w \<le> 255" by simp
  then show ?thesis by (simp add: parse_u8_def show_word_def parse_uint_show)
qed

end
