(* ===== verification/Messages.thy ===== *)
theory Messages
  imports Rust_Text
begin

text \<open>
  \<open>src/types.rs\<close> and \<open>src/messages.rs\<close>: addresses, four tuples and the message
  type that travels through the handler pipeline.

  Values of types that belong to a dependency and that the source never looks
  into are declared types without constructors: an ECN code point, a decoded
  STUN message and its transaction id, the unread part of RTP and RTCP packets.
  Where the source reads a field of such a type, the field is a record field.
\<close>

section \<open>Addresses\<close>

datatype ip_addr = IpV4 u32 | IpV6 "128 word"

datatype socket_addr =
    SocketAddrV4 u32 u16
  | SocketAddrV6 "128 word" u16 u32 u32

fun addr_ip :: "socket_addr \<Rightarrow> ip_addr" where
  "addr_ip (SocketAddrV4 a p) = IpV4 a"
| "addr_ip (SocketAddrV6 a p f s) = IpV6 a"

fun addr_port :: "socket_addr \<Rightarrow> u16" where
  "addr_port (SocketAddrV4 a p) = p"
| "addr_port (SocketAddrV6 a p f s) = p"

typedecl ecn_codepoint

record TransportContext =
  ctx_local_addr :: socket_addr
  ctx_peer_addr :: socket_addr
  ecn :: "ecn_codepoint option"

type_synonym SessionId = u64
type_synonym EndpointId = u64
type_synonym UserName = string
type_synonym Mid = string

record FourTuple =
  local_addr :: socket_addr
  peer_addr :: socket_addr

definition four_tuple_from :: "TransportContext \<Rightarrow> FourTuple" where
  "four_tuple_from value = \<lparr>local_addr = ctx_local_addr value, peer_addr = ctx_peer_addr value\<rparr>"

section \<open>Packets of the protocol crates\<close>

typedecl stun_message
typedecl transaction_id
typedecl rtp_rest
typedecl sender_report_rest
typedecl rtcp_rest

record rtp_packet =
  rtp_ssrc :: u32
  rtp_sequence_number :: u16
  rtp_timestamp :: u32
  rtp_rest_of :: rtp_rest

record rtcp_sender_report =
  sr_ssrc :: u32
  sr_ntp_time :: u64
  sr_rest :: sender_report_rest

record reception_report =
  rep_ssrc :: u32
  rep_last_sequence_number :: u32
  rep_last_sender_report :: u32
  rep_fraction_lost :: u8
  rep_total_lost :: u32
  rep_delay :: u32
  rep_jitter :: u32

record rtcp_receiver_report =
  rr_ssrc :: u32
  rr_reports :: "reception_report list"

text \<open>\<open>Box<dyn rtcp::packet::Packet>\<close>: the two kinds the source builds or downcasts to, and the rest.\<close>

datatype rtcp_packet =
    RtcpSenderReport rtcp_sender_report
  | RtcpReceiverReport rtcp_receiver_report
  | RtcpOther rtcp_rest

datatype packet_type = PtReceiverReport | PtTransportSpecificFeedback | PtOther u8

datatype ReliabilityType = Reliable | Rexmit | Timed

section \<open>Pipeline messages\<close>

datatype DataChannelMessageType = DcNone | DcControl | DcBinary | DcText

record DataChannelMessageParams =
  unordered :: bool
  reliability_type :: ReliabilityType
  reliability_parameter :: u32

datatype DataChannelEvent = DcOpen | DcMessage bytes | DcClose

record DataChannelMessage =
  dcm_association_handle :: usize
  dcm_stream_id :: u16
  dcm_data_message_type :: DataChannelMessageType
  dcm_params :: "DataChannelMessageParams option"
  dcm_payload :: bytes

record ApplicationMessage =
  app_association_handle :: usize
  app_stream_id :: u16
  app_data_channel_event :: DataChannelEvent

datatype STUNMessageEvent = StunRaw bytes | StunMsg stun_message

datatype DTLSMessageEvent = DtlsRaw bytes | DtlsSctp DataChannelMessage | DtlsDataChannel ApplicationMessage

datatype RTPMessageEvent = RtpRaw bytes | RtpPacket rtp_packet | RtcpPackets "rtcp_packet list"

datatype MessageEvent = Stun STUNMessageEvent | Dtls DTLSMessageEvent | Rtp RTPMessageEvent

record TaggedMessageEvent =
  msg_now :: instant
  msg_transport :: TransportContext
  msg_message :: MessageEvent

record TaggedBytesMut =
  raw_now :: instant
  raw_transport :: TransportContext
  raw_message :: bytes

section \<open>The interface of a pipeline handler\<close>

text \<open>
  A handler reacts to an event by calls on its \<open>Context\<close>: it passes a message or
  an exception on. A step of a handler returns its new state and the calls it
  made, in order.
\<close>

datatype 'm ctx_call = FireRead 'm | FireException error | FireTimeout instant

end
