(* ===== verification/Demuxer.thy ===== *)
theory Demuxer
  imports Messages
begin

text \<open>
  \<open>src/handlers/demuxer.rs\<close>: the first handler sorts datagrams by their first
  byte (RFC 7983), and on the way out turns raw messages back into datagrams.
\<close>

definition match_range :: "u8 \<Rightarrow> u8 \<Rightarrow> bytes \<Rightarrow> bool" where
  "match_range lower upper buf =
     (if buf = [] then False else (let b = buf ! 0 in b \<ge> lower \<and> b \<le> upper))"

definition match_dtls :: "bytes \<Rightarrow> bool" where
  "match_dtls b = match_range 20 63 b"

definition match_srtp :: "bytes \<Rightarrow> bool" where
  "match_srtp b = match_range 128 191 b"

definition demuxer_handle_read :: "TaggedBytesMut \<Rightarrow> TaggedMessageEvent ctx_call list" where
  "demuxer_handle_read msg =
     (if raw_message msg = [] then []
      else if match_dtls (raw_message msg) then
        [FireRead \<lparr>msg_now = raw_now msg, msg_transport = raw_transport msg,
                   msg_message = Dtls (DtlsRaw (raw_message msg))\<rparr>]
      else if match_srtp (raw_message msg) then
        [FireRead \<lparr>msg_now = raw_now msg, msg_transport = raw_transport msg,
                   msg_message = Rtp (RtpRaw (raw_message msg))\<rparr>]
      else
        [FireRead \<lparr>msg_now = raw_now msg, msg_transport = raw_transport msg,
                   msg_message = Stun (StunRaw (raw_message msg))\<rparr>])"

text \<open>The argument is what \<open>ctx.fire_poll_write()\<close> returned.\<close>

definition demuxer_poll_write :: "TaggedMessageEvent option \<Rightarrow> TaggedBytesMut option" where
  "demuxer_poll_write polled =
     (case polled of
        None \<Rightarrow> None
      | Some msg \<Rightarrow>
          (case msg_message msg of
             Stun (StunRaw message) \<Rightarrow>
               Some \<lparr>raw_now = msg_now msg, raw_transport = msg_transport msg, raw_message = message\<rparr>
           | Dtls (DtlsRaw message) \<Rightarrow>
               Some \<lparr>raw_now = msg_now msg, raw_transport = msg_transport msg, raw_message = message\<rparr>
           | Rtp (RtpRaw message) \<Rightarrow>
               Some \<lparr>raw_now = msg_now msg, raw_transport = msg_transport msg, raw_message = message\<rparr>
           | _ \<Rightarrow> None))"

text \<open>The ranges of RFC 7983 as the comment in the source draws them.\<close>

datatype protocol = ProtoStun | ProtoZrtp | ProtoDtls | ProtoTurnChannel | ProtoRtp | ProtoUnassigned

definition rfc7983 :: "u8 \<Rightarrow> protocol" where
  "rfc7983 b =
     (if b \<le> 3 then ProtoStun
      else if 16 \<le> b \<and> b \<le> 19 then ProtoZrtp
      else if 20 \<le> b \<and> b \<le> 63 then ProtoDtls
      else if 64 \<le> b \<and> b \<le> 79 then ProtoTurnChannel
      else if 128 \<le> b \<and> b \<le> 191 then ProtoRtp
      else ProtoUnassigned)"

fun event_protocol :: "MessageEvent \<Rightarrow> protocol" where
  "event_protocol (Stun e) = ProtoStun"
| "event_protocol (Dtls e) = ProtoDtls"
| "event_protocol (Rtp e) = ProtoRtp"

lemma match_range_Cons: "match_range lower upper (b # bs) \<longleftrightarrow> lower \<le> b \<and> b \<le> upper"
  by (simp add: match_range_def Let_def)

lemma demux_ranges_disjoint: "\<not> (match_dtls bs \<and> match_srtp bs)"
proof (cases bs)
  case Nil
  then show ?thesis by (simp add: match_dtls_def match_range_def)
next
  case (Cons b bs')
  have False if "b \<le> 63" "(128::u8) \<le> b"
  proof -
    have "(128::u8) \<le> 63" using that by (rule order_trans[rotated])
    then show False by simp
  qed
  with Cons show ?thesis by (auto simp: match_dtls_def match_srtp_def match_range_Cons)
qed

lemma rfc7983_not_stun_prefix:
  assumes "rfc7983 b \<in> {ProtoStun, ProtoDtls, ProtoRtp}"
  shows "rfc7983 b = (if 20 \<le> b \<and> b \<le> 63 then ProtoDtls
                      else if 128 \<le> b \<and> b \<le> 191 then ProtoRtp else ProtoStun)"
proof -
  have disj: "\<not> (b \<le> 3 \<and> 20 \<le> b)" "\<not> (b \<le> 3 \<and> 128 \<le> b)"
    using order_trans[of "20::u8" b 3] order_trans[of "128::u8" b 3] by auto
  from assms show ?thesis using disj by (auto simp: rfc7983_def split: if_splits)
qed

section \<open>Properties\<close>

text \<open>
  C39: A datagram whose first byte lies in one of the ranges RFC 7983 gives to STUN, DTLS and RTP is
  passed on once, unchanged and under its own transport and time, as a raw message of that protocol.
\<close>

theorem demuxer_classifies:
  assumes "raw_message msg = b # bs" "rfc7983 b \<in> {ProtoStun, ProtoDtls, ProtoRtp}"
  shows "\<exists>out. demuxer_handle_read msg = [FireRead out] \<and> event_protocol (msg_message out) = rfc7983 b \<and>
    demuxer_poll_write (Some out) = Some msg"
proof -
  have m: "msg = \<lparr>raw_now = raw_now msg, raw_transport = raw_transport msg, raw_message = b # bs\<rparr>"
    using assms(1) by (cases msg) simp
  show ?thesis
    unfolding rfc7983_not_stun_prefix[OF assms(2)] demuxer_handle_read_def match_dtls_def match_srtp_def assms(1)
      match_range_Cons
    using m by (auto simp: demuxer_poll_write_def)
qed

definition sample_datagram :: "bytes \<Rightarrow> TaggedBytesMut" where
  "sample_datagram bs = \<lparr>raw_now = 0,
     raw_transport = \<lparr>ctx_local_addr = SocketAddrV4 1 3478, ctx_peer_addr = SocketAddrV4 2 4000, ecn = None\<rparr>,
     raw_message = bs\<rparr>"

theorem demuxer_classifies_witness:
  "\<exists>out. demuxer_handle_read (sample_datagram [128, 1]) = [FireRead out] \<and>
     event_protocol (msg_message out) = ProtoRtp \<and> demuxer_poll_write (Some out) = Some (sample_datagram [128, 1])"
  using demuxer_classifies[of "sample_datagram [128, 1]" 128 "[1]"]
  by (simp add: sample_datagram_def rfc7983_def)

text \<open>
  Every other datagram that is not empty, also one the ranges give to ZRTP or to TURN channels or
  leave unassigned, is treated as STUN; an empty one is dropped.
\<close>

theorem demuxer_default_is_stun:
  assumes "raw_message msg = b # bs" "rfc7983 b \<notin> {ProtoDtls, ProtoRtp}"
  shows "demuxer_handle_read msg = [FireRead \<lparr>msg_now = raw_now msg, msg_transport = raw_transport msg,
    msg_message = Stun (StunRaw (raw_message msg))\<rparr>]"
proof -
  have "\<not> (20 \<le> b \<and> b \<le> 63)" "\<not> (128 \<le> b \<and> b \<le> 191)"
  proof -
    have "\<not> (20 \<le> b \<and> b \<le> 3)" "\<not> (20 \<le> b \<and> b \<le> 19 \<and> 16 \<le> b)" "\<not> (128 \<le> b \<and> b \<le> 3)" "\<not> (128 \<le> b \<and> b \<le> 19)"
      "\<not> (128 \<le> b \<and> b \<le> 63)" "\<not> (128 \<le> b \<and> b \<le> 79)"
      using order_trans[of "20::u8" b 3] order_trans[of "20::u8" b 19] order_trans[of "128::u8" b 3]
        order_trans[of "128::u8" b 19] order_trans[of "128::u8" b 63] order_trans[of "128::u8" b 79] by auto
    then show "\<not> (20 \<le> b \<and> b \<le> 63)" "\<not> (128 \<le> b \<and> b \<le> 191)"
      using assms(2) by (auto simp: rfc7983_def split: if_splits)
  qed
  then show ?thesis
    using assms(1) by (simp add: demuxer_handle_read_def match_dtls_def match_srtp_def match_range_Cons)
qed

theorem demuxer_default_is_stun_witness:
  "event_protocol (msg_message (case demuxer_handle_read (sample_datagram [64]) of [FireRead out] \<Rightarrow> out)) = ProtoStun"
  using demuxer_default_is_stun[of "sample_datagram [64]" 64 "[]"] by (simp add: sample_datagram_def rfc7983_def)

end
