(* ===== verification/Stun_Handler.thy ===== *)
theory Stun_Handler
  imports Messages
begin

text \<open>
  \<open>src/handlers/stun.rs\<close> and \<open>src/handlers/exception.rs\<close>: STUN messages are decoded on the way in and encoded on
  the way out; the exception handler only logs. \<open>stun_codec\<close> holds \<open>Message::decode\<close> on a message with the given
  raw bytes and the raw bytes after \<open>Message::encode\<close>, both of the \<open>stun\<close> crate.
\<close>

section \<open>STUN\<close>

record stun_codec =
  stun_decode :: "bytes \<Rightarrow> stun_message result"
  stun_encode :: "stun_message \<Rightarrow> bytes"

definition stun_handle_read :: "stun_codec \<Rightarrow> TaggedMessageEvent \<Rightarrow> TaggedMessageEvent ctx_call list" where
  "stun_handle_read S msg =
     (case msg_message msg of
        Stun (StunRaw message) \<Rightarrow>
          (case stun_decode S message of
             Inr stun_message \<Rightarrow>
               [FireRead \<lparr>msg_now = msg_now msg, msg_transport = msg_transport msg,
                          msg_message = Stun (StunMsg stun_message)\<rparr>]
           | Inl err \<Rightarrow> [FireException err])
      | _ \<Rightarrow> [FireRead msg])"

definition stun_poll_write :: "stun_codec \<Rightarrow> TaggedMessageEvent option \<Rightarrow> TaggedMessageEvent option" where
  "stun_poll_write S polled =
     (case polled of
        None \<Rightarrow> None
      | Some msg \<Rightarrow>
          (case msg_message msg of
             Stun (StunMsg stun_message) \<Rightarrow>
               Some \<lparr>msg_now = msg_now msg, msg_transport = msg_transport msg,
                     msg_message = Stun (StunRaw (stun_encode S stun_message))\<rparr>
           | _ \<Rightarrow> Some msg))"

section \<open>Exceptions\<close>

definition exception_handle_read :: "TaggedMessageEvent \<Rightarrow> TaggedMessageEvent ctx_call list" where
  "exception_handle_read msg = [FireRead msg]"

definition exception_handle_exception :: "error \<Rightarrow> TaggedMessageEvent ctx_call list" where
  "exception_handle_exception err = [FireException err]"

definition exception_poll_write :: "TaggedMessageEvent option \<Rightarrow> TaggedMessageEvent option" where
  "exception_poll_write polled = polled"

end
