(* ===== verification/Transmit_Queue.thy ===== *)
theory Transmit_Queue
  imports Prelude
begin

text \<open>
  \<open>std::collections::VecDeque\<close> as the handlers use it: a queue of outgoing messages. Every handler's
  \<open>poll_write\<close> has the same shape: a message of the next handler goes through the queue, then the
  oldest message leaves it.
\<close>

type_synonym 'a vecdeque = "'a list"

definition push_back :: "'a \<Rightarrow> 'a vecdeque \<Rightarrow> 'a vecdeque" where
  "push_back x q = q @ [x]"

definition pop_front :: "'a vecdeque \<Rightarrow> 'a option \<times> 'a vecdeque" where
  "pop_front q = (case q of [] \<Rightarrow> (None, []) | x # r \<Rightarrow> (Some x, r))"

definition poll_queue :: "'a option \<Rightarrow> 'a vecdeque \<Rightarrow> 'a option \<times> 'a vecdeque" where
  "poll_queue inner q = pop_front (case inner of Some m \<Rightarrow> push_back m q | None \<Rightarrow> q)"

section \<open>The contract of a queue\<close>

datatype 'a queue_op = Push 'a | Pop

fun pushed :: "'a queue_op list \<Rightarrow> 'a list" where
  "pushed [] = []"
| "pushed (Push x # ops) = x # pushed ops"
| "pushed (Pop # ops) = pushed ops"

fun run_queue :: "('a \<Rightarrow> 'q \<Rightarrow> 'q) \<Rightarrow> ('q \<Rightarrow> 'a option \<times> 'q) \<Rightarrow> 'a queue_op list \<Rightarrow> 'q \<Rightarrow> 'a list \<times> 'q" where
  "run_queue push pop [] q = ([], q)"
| "run_queue push pop (Push x # ops) q = run_queue push pop ops (push x q)"
| "run_queue push pop (Pop # ops) q =
     (case pop q of (r, q') \<Rightarrow>
        (case run_queue push pop ops q' of (out, q'') \<Rightarrow> (case r of Some x \<Rightarrow> x # out | None \<Rightarrow> out, q'')))"

locale fifo =
  fixes push :: "'a \<Rightarrow> 'q \<Rightarrow> 'q"
    and pop :: "'q \<Rightarrow> 'a option \<times> 'q"
    and contents :: "'q \<Rightarrow> 'a list"
  assumes contents_push: "contents (push x q) = contents q @ [x]"
    and fst_pop: "fst (pop q) = (case contents q of [] \<Rightarrow> None | x # _ \<Rightarrow> Some x)"
    and contents_pop: "contents (snd (pop q)) = tl (contents q)"
begin

lemma pop_cases:
  obtains "contents q = []" "fst (pop q) = None" "contents (snd (pop q)) = []"
    | x r where "contents q = x # r" "fst (pop q) = Some x" "contents (snd (pop q)) = r"
  using fst_pop[of q] contents_pop[of q] by (cases "contents q") auto

text \<open>Nothing is lost, duplicated or reordered: what came out and what is left is what was put in.\<close>

lemma run_fifo: "run_queue push pop ops q = (out, q') \<Longrightarrow> out @ contents q' = contents q @ pushed ops"
proof (induction ops arbitrary: q out)
  case (Cons op ops)
  show ?case
  proof (cases op)
    case (Push x)
    then show ?thesis using Cons by (simp add: contents_push)
  next
    case Pop
    obtain r q1 where r: "pop q = (r, q1)" by fastforce
    obtain out1 where o: "run_queue push pop ops q1 = (out1, q')"
      and out: "out = (case r of Some x \<Rightarrow> x # out1 | None \<Rightarrow> out1)"
      using Cons.prems Pop r by (auto split: prod.splits)
    show ?thesis using Cons.IH[OF o] Pop r out by (cases rule: pop_cases[of q]) auto
  qed
qed simp

lemma drained: "length (contents q) \<le> n \<Longrightarrow> contents (((\<lambda>q. snd (pop q)) ^^ n) q) = []"
proof (induction n arbitrary: q)
  case (Suc n)
  have "length (contents (snd (pop q))) \<le> n" using Suc.prems by (simp add: contents_pop)
  from Suc.IH[OF this] show ?case by (simp only: funpow_Suc_right comp_apply)
qed simp

end

interpretation vd: fifo push_back pop_front "\<lambda>q. q"
  by unfold_locales (simp_all add: push_back_def pop_front_def split: list.splits)

lemma fold_push_back: "fold push_back xs q = q @ xs"
  by (induction xs arbitrary: q) (simp_all add: push_back_def)

lemma poll_queue_cases:
  "poll_queue inner q =
     (case q of [] \<Rightarrow> (inner, [])
      | x # r \<Rightarrow> (Some x, r @ (case inner of Some m \<Rightarrow> [m] | None \<Rightarrow> [])))"
  by (cases q; cases inner) (simp_all add: poll_queue_def push_back_def pop_front_def)

end
