(* ===== verification/Data_Channel_Handler.thy ===== *)
theory Data_Channel_Handler
  imports Messages Transmit_Queue
begin

text \<open>
  \<open>src/handlers/datachannel.rs\<close>: the data channel establishment protocol. A control message that asks for a channel
  is acknowledged and reported as an open channel, every other message is application data.

  \<open>datachannel_lib\<close> holds the parsers and the printer of the \<open>datachannel\<close> crate: \<open>MessageType::unmarshal\<close> returns
  the type and the rest of the buffer, \<open>DataChannelOpen::unmarshal\<close> the channel type and the reliability parameter.
\<close>

datatype MessageType = MtDataChannelAck | MtDataChannelOpen

datatype ChannelType =
    ChReliable
  | ChReliableUnordered
  | ChPartialReliableRexmit
  | ChPartialReliableRexmitUnordered
  | ChPartialReliableTimed
  | ChPartialReliableTimedUnordered

record datachannel_lib =
  message_type_unmarshal :: "bytes \<Rightarrow> (MessageType \<times> bytes) result"
  data_channel_open_unmarshal :: "bytes \<Rightarrow> (ChannelType \<times> u32) result"
  data_channel_ack_marshal :: "bytes result"

fun get_reliability_params :: "ChannelType \<Rightarrow> bool \<times> ReliabilityType" where
  "get_reliability_params ChReliable = (False, Reliable)"
| "get_reliability_params ChReliableUnordered = (True, Reliable)"
| "get_reliability_params ChPartialReliableRexmit = (False, Rexmit)"
| "get_reliability_params ChPartialReliableRexmitUnordered = (True, Rexmit)"
| "get_reliability_params ChPartialReliableTimed = (False, Timed)"
| "get_reliability_params ChPartialReliableTimedUnordered = (True, Timed)"

definition application_message :: "DataChannelMessage \<Rightarrow> DataChannelEvent \<Rightarrow> ApplicationMessage" where
  "application_message message event =
     \<lparr>app_association_handle = dcm_association_handle message, app_stream_id = dcm_stream_id message,
      app_data_channel_event = event\<rparr>"

definition datachannel_try_read ::
  "datachannel_lib \<Rightarrow> DataChannelMessage \<Rightarrow> (ApplicationMessage option \<times> DataChannelMessage option) result" where
  "datachannel_try_read D message =
     (if dcm_data_message_type message = DcControl then
        and_then (message_type_unmarshal D (dcm_payload message)) (\<lambda>(mt, buf).
          if mt = MtDataChannelOpen then
            and_then (data_channel_open_unmarshal D buf) (\<lambda>(channel_type, param).
            and_then (data_channel_ack_marshal D) (\<lambda>payload.
              Ok (Some (application_message message DcOpen),
                  Some \<lparr>dcm_association_handle = dcm_association_handle message,
                        dcm_stream_id = dcm_stream_id message, dcm_data_message_type = DcControl,
                        dcm_params = Some \<lparr>unordered = fst (get_reliability_params channel_type),
                                           reliability_type = snd (get_reliability_params channel_type),
                                           reliability_parameter = param\<rparr>,
                        dcm_payload = payload\<rparr>)))
          else Ok (None, None))
      else Ok (Some (application_message message (DcMessage (dcm_payload message))), None))"

text \<open>The state of the handler is its queue of outgoing messages.\<close>

definition datachannel_handle_read ::
  "datachannel_lib \<Rightarrow> TaggedMessageEvent \<Rightarrow> TaggedMessageEvent vecdeque
   \<Rightarrow> TaggedMessageEvent ctx_call list \<times> TaggedMessageEvent vecdeque" where
  "datachannel_handle_read D msg q =
     (case msg_message msg of
        Dtls (DtlsSctp message) \<Rightarrow>
          (case datachannel_try_read D message of
             Inl err \<Rightarrow> ([FireException err], q)
           | Inr (inbound, outbound) \<Rightarrow>
               (case inbound of
                  Some m \<Rightarrow> [FireRead \<lparr>msg_now = msg_now msg, msg_transport = msg_transport msg,
                                       msg_message = Dtls (DtlsDataChannel m)\<rparr>]
                | None \<Rightarrow> [],
                case outbound of
                  Some m \<Rightarrow> push_back \<lparr>msg_now = msg_now msg, msg_transport = msg_transport msg,
                                       msg_message = Dtls (DtlsSctp m)\<rparr> q
                | None \<Rightarrow> q))
      | _ \<Rightarrow> ([FireRead msg], q))"

definition datachannel_poll_write ::
  "TaggedMessageEvent option \<Rightarrow> TaggedMessageEvent vecdeque \<Rightarrow> TaggedMessageEvent option \<times> TaggedMessageEvent vecdeque" where
  "datachannel_poll_write polled q =
     pop_front
       (case polled of
          None \<Rightarrow> q
        | Some msg \<Rightarrow>
            (case msg_message msg of
               Dtls (DtlsDataChannel message) \<Rightarrow>
                 (case app_data_channel_event message of
                    DcMessage payload \<Rightarrow>
                      push_back \<lparr>msg_now = msg_now msg, msg_transport = msg_transport msg,
                        msg_message = Dtls (DtlsSctp
                          \<lparr>dcm_association_handle = app_association_handle message,
                           dcm_stream_id = app_stream_id message, dcm_data_message_type = DcText,
                           dcm_params = None, dcm_payload = payload\<rparr>)\<rparr> q
                  | _ \<Rightarrow> q)
             | _ \<Rightarrow> push_back msg q))"

section \<open>Properties\<close>



definition sample_datachannel :: datachannel_lib where
  "sample_datachannel = \<lparr>message_type_unmarshal = \<lambda>b. case b of
       [] \<Rightarrow> Err (Other ''short'') | x # xs \<Rightarrow> Ok (if x = 3 then MtDataChannelOpen else MtDataChannelAck, xs),
     data_channel_open_unmarshal = \<lambda>_. Ok (ChReliableUnordered, 0), data_channel_ack_marshal = Ok [2]\<rparr>"

definition sample_control :: TaggedMessageEvent where
  "sample_control = \<lparr>msg_now = 0,
     msg_transport = \<lparr>ctx_local_addr = SocketAddrV4 1 3478, ctx_peer_addr = SocketAddrV4 2 4000, ecn = None\<rparr>,
     msg_message = Dtls (DtlsSctp \<lparr>dcm_association_handle = 1, dcm_stream_id = 2, dcm_data_message_type = DcControl,
       dcm_params = None, dcm_payload = [3, 0]\<rparr>)\<rparr>"



end
