(* ===== verification/Sdp.thy ===== *)
theory Sdp
  imports Rust_Text
begin

text \<open>
  The data types of the \<open>sdp\<close> crate that the program builds and reads, and the
  functions of that crate (and of \<open>url\<close>) that it calls, as the record
  \<open>sdp_lib\<close>: every definition that calls them takes the record as an argument.
  A field of a crate type that the program neither reads nor writes is part of
  an opaque rest.

  \<open>sdp_builders\<close> states what the crate documents of its builder methods: each adds
  attributes after the ones a description has, \<open>with_media\<close> adds a media
  section after the ones a session has, a default origin has version 0, and lookups return the first
  attribute with a key.
\<close>

section \<open>Descriptions\<close>

typedecl sdp_bandwidth
typedecl session_rest
typedecl origin_rest
typedecl url

record Attribute =
  attr_key :: string
  attr_value :: "string option"

record RangedPort =
  port_value :: int
  port_range :: "int option"

record MediaName =
  media :: string
  port :: RangedPort
  protos :: "string list"
  formats :: "string list"

record Address =
  address_string :: string
  address_ttl :: "int option"
  address_range :: "int option"

record ConnectionInformation =
  network_type :: string
  address_type :: string
  address :: "Address option"

record MediaDescription =
  media_name :: MediaName
  media_title :: "string option"
  connection_information :: "ConnectionInformation option"
  bandwidth :: "sdp_bandwidth list"
  encryption_key :: "string option"
  attributes :: "Attribute list"

record Origin =
  origin_session_id :: u64
  origin_session_version :: u64
  origin_rest_of :: origin_rest

record SessionDescription =
  origin :: Origin
  media_descriptions :: "MediaDescription list"
  session_attributes :: "Attribute list"
  session_rest_of :: session_rest

record sdp_codec =
  codec_name :: string
  codec_clock_rate :: u32
  codec_encoding_parameters :: string
  codec_fmtp_line :: string
  codec_rtcp_feedback :: "string list"

datatype ConnectionRole = RoleUnspecified | RoleActive | RolePassive | RoleActpass | RoleHoldconn

section \<open>The functions of the crates\<close>

record sdp_lib =
  ATTR_KEY_CONNECTION_SETUP :: string
  ATTR_KEY_EXT_MAP :: string
  ATTR_KEY_GROUP :: string
  ATTR_KEY_ICELITE :: string
  ATTR_KEY_MID :: string
  ATTR_KEY_RTCPMUX :: string
  ATTR_KEY_RTCPRSIZE :: string
  default_session :: SessionDescription
  default_origin :: Origin
  new_jsep_media_description :: "string \<Rightarrow> string list \<Rightarrow> MediaDescription"
  media_with_value_attribute :: "string \<Rightarrow> string \<Rightarrow> MediaDescription \<Rightarrow> MediaDescription"
  media_with_property_attribute :: "string \<Rightarrow> MediaDescription \<Rightarrow> MediaDescription"
  media_with_ice_credentials :: "string \<Rightarrow> string \<Rightarrow> MediaDescription \<Rightarrow> MediaDescription"
  media_with_fingerprint :: "string \<Rightarrow> string \<Rightarrow> MediaDescription \<Rightarrow> MediaDescription"
  media_with_codec :: "u8 \<Rightarrow> string \<Rightarrow> u32 \<Rightarrow> u16 \<Rightarrow> string \<Rightarrow> MediaDescription \<Rightarrow> MediaDescription"
  media_with_extmap :: "int \<Rightarrow> url option \<Rightarrow> MediaDescription \<Rightarrow> MediaDescription"
  media_with_media_source :: "u32 \<Rightarrow> string \<Rightarrow> string \<Rightarrow> string \<Rightarrow> MediaDescription \<Rightarrow> MediaDescription"
  media_attribute :: "string \<Rightarrow> MediaDescription \<Rightarrow> string option option"
  session_attribute :: "string \<Rightarrow> SessionDescription \<Rightarrow> string option"
  with_media :: "MediaDescription \<Rightarrow> SessionDescription \<Rightarrow> SessionDescription"
  session_with_fingerprint :: "string \<Rightarrow> string \<Rightarrow> SessionDescription \<Rightarrow> SessionDescription"
  session_with_property_attribute :: "string \<Rightarrow> SessionDescription \<Rightarrow> SessionDescription"
  session_with_value_attribute :: "string \<Rightarrow> string \<Rightarrow> SessionDescription \<Rightarrow> SessionDescription"
  get_codec_for_payload_type :: "u8 \<Rightarrow> SessionDescription \<Rightarrow> string + sdp_codec"
  session_unmarshal :: "string \<Rightarrow> string + SessionDescription"
  session_marshal :: "SessionDescription \<Rightarrow> string"
  attribute_to_string :: "Attribute \<Rightarrow> string"
  extmap_unmarshal :: "string \<Rightarrow> string + (int \<times> url option)"
  connection_role_to_string :: "ConnectionRole \<Rightarrow> string"
  url_parse :: "string \<Rightarrow> url option"
  url_to_string :: "url \<Rightarrow> string"

section \<open>Attributes\<close>

definition value_attr :: "string \<Rightarrow> string \<Rightarrow> Attribute" where
  "value_attr k v = \<lparr>attr_key = k, attr_value = Some v\<rparr>"

definition property_attr :: "string \<Rightarrow> Attribute" where
  "property_attr k = \<lparr>attr_key = k, attr_value = None\<rparr>"

definition add_attrs :: "Attribute list \<Rightarrow> MediaDescription \<Rightarrow> MediaDescription" where
  "add_attrs as m = m\<lparr>attributes := attributes m @ as\<rparr>"

lemma attributes_add_attrs [simp]: "attributes (add_attrs as m) = attributes m @ as"
  by (simp add: add_attrs_def)

lemma add_attrs_append [simp]: "add_attrs bs (add_attrs as m) = add_attrs (as @ bs) m"
  by (simp add: add_attrs_def)

lemma add_attrs_Nil [simp]: "add_attrs [] m = m"
  by (simp add: add_attrs_def)

lemma attr_simps [simp]:
  "attr_key (value_attr k v) = k" "attr_value (value_attr k v) = Some v"
  "attr_key (property_attr k) = k" "attr_value (property_attr k) = None"
  by (simp_all add: value_attr_def property_attr_def)

definition first_attr :: "string \<Rightarrow> Attribute list \<Rightarrow> string option option" where
  "first_attr k as = map_option attr_value (find (\<lambda>a. attr_key a = k) as)"

lemma first_attr_append:
  "first_attr k (as @ bs) = (case first_attr k as of Some v \<Rightarrow> Some v | None \<Rightarrow> first_attr k bs)"
  by (induction as) (auto simp: first_attr_def)

lemma first_attr_Cons [simp]: "first_attr k (a # as) = (if attr_key a = k then Some (attr_value a) else first_attr k as)"
  by (simp add: first_attr_def)

lemma first_attr_Nil [simp]: "first_attr k [] = None"
  by (simp add: first_attr_def)

lemma first_attr_None_iff: "first_attr k as = None \<longleftrightarrow> k \<notin> attr_key ` set as"
  by (induction as) auto

section \<open>What the crate documents\<close>

definition sdp_keys :: "sdp_lib \<Rightarrow> bool" where
  "sdp_keys L \<longleftrightarrow>
     ATTR_KEY_CONNECTION_SETUP L = ''setup'' \<and> ATTR_KEY_EXT_MAP L = ''extmap'' \<and>
     ATTR_KEY_GROUP L = ''group'' \<and> ATTR_KEY_ICELITE L = ''ice-lite'' \<and> ATTR_KEY_MID L = ''mid'' \<and>
     ATTR_KEY_RTCPMUX L = ''rtcp-mux'' \<and> ATTR_KEY_RTCPRSIZE L = ''rtcp-rsize''"

text \<open>
  \<open>with_codec\<close> adds an \<open>rtpmap\<close> and, for a codec with parameters, an \<open>fmtp\<close> attribute,
  \<open>with_extmap\<close> one attribute that starts with \<open>extmap\<close>, \<open>with_media_source\<close> four \<open>ssrc\<close> attributes.
\<close>

definition sdp_media_builders :: "sdp_lib \<Rightarrow> bool" where
  "sdp_media_builders L \<longleftrightarrow>
     (\<forall>k v m. media_with_value_attribute L k v m = add_attrs [value_attr k v] m) \<and>
     (\<forall>k m. media_with_property_attribute L k m = add_attrs [property_attr k] m) \<and>
     (\<forall>u p m. media_with_ice_credentials L u p m =
        add_attrs [value_attr ''ice-ufrag'' u, value_attr ''ice-pwd'' p] m) \<and>
     (\<forall>a v m. media_with_fingerprint L a v m = add_attrs [value_attr ''fingerprint'' (a @ '' '' @ v)] m) \<and>
     (\<forall>pt n r c f m. \<exists>as. attributes (media_with_codec L pt n r c f m) = attributes m @ as \<and>
        attr_key ` set as \<subseteq> {''rtpmap'', ''fmtp''} \<and>
        media (media_name (media_with_codec L pt n r c f m)) = media (media_name m)) \<and>
     (\<forall>i u m. \<exists>a. media_with_extmap L i u m = add_attrs [a] m \<and> take 6 (attr_key a) = ''extmap'') \<and>
     (\<forall>s c l t m. media_with_media_source L s c l t m =
        add_attrs [value_attr ''ssrc'' (show_word s @ '' cname:'' @ c),
                   value_attr ''ssrc'' (show_word s @ '' msid:'' @ l @ '' '' @ t),
                   value_attr ''ssrc'' (show_word s @ '' mslabel:'' @ l),
                   value_attr ''ssrc'' (show_word s @ '' label:'' @ t)] m) \<and>
     (\<forall>k fs. attributes (new_jsep_media_description L k fs) = [] \<and>
        media (media_name (new_jsep_media_description L k fs)) = k) \<and>
     (\<forall>k m. media_attribute L k m = first_attr k (attributes m))"

definition sdp_session_builders :: "sdp_lib \<Rightarrow> bool" where
  "sdp_session_builders L \<longleftrightarrow>
     origin_session_version (default_origin L) = 0 \<and>
     (\<forall>m d. with_media L m d = d\<lparr>media_descriptions := media_descriptions d @ [m]\<rparr>) \<and>
     (\<forall>k v d. session_with_value_attribute L k v d =
        d\<lparr>session_attributes := session_attributes d @ [value_attr k v]\<rparr>) \<and>
     (\<forall>k d. session_with_property_attribute L k d =
        d\<lparr>session_attributes := session_attributes d @ [property_attr k]\<rparr>) \<and>
     (\<forall>a v d. session_with_fingerprint L a v d =
        d\<lparr>session_attributes := session_attributes d @ [value_attr ''fingerprint'' (a @ '' '' @ v)]\<rparr>)"

definition sdp_builders :: "sdp_lib \<Rightarrow> bool" where
  "sdp_builders L \<longleftrightarrow> sdp_keys L \<and> sdp_media_builders L \<and> sdp_session_builders L"

section \<open>An instance\<close>

text \<open>
  Functions with the documented behaviour of the builders, for the witnesses: every parser of
  a text format returns what its argument says it returns.
\<close>

definition empty_session :: SessionDescription where
  "empty_session = \<lparr>origin = \<lparr>origin_session_id = 0, origin_session_version = 0, origin_rest_of = undefined\<rparr>,
     media_descriptions = [], session_attributes = [], session_rest_of = undefined\<rparr>"

definition empty_media :: "string \<Rightarrow> string list \<Rightarrow> MediaDescription" where
  "empty_media k fs = \<lparr>
     media_name = \<lparr>media = k, port = \<lparr>port_value = 9, port_range = None\<rparr>, protos = [], formats = fs\<rparr>,
     media_title = None, connection_information = None, bandwidth = [], encryption_key = None, attributes = []\<rparr>"

definition sample_sdp ::
  "(string \<Rightarrow> string + SessionDescription) \<Rightarrow> (u8 \<Rightarrow> SessionDescription \<Rightarrow> string + sdp_codec) \<Rightarrow> sdp_lib" where
  "sample_sdp unm codec_for = \<lparr>
     ATTR_KEY_CONNECTION_SETUP = ''setup'', ATTR_KEY_EXT_MAP = ''extmap'', ATTR_KEY_GROUP = ''group'',
     ATTR_KEY_ICELITE = ''ice-lite'', ATTR_KEY_MID = ''mid'', ATTR_KEY_RTCPMUX = ''rtcp-mux'',
     ATTR_KEY_RTCPRSIZE = ''rtcp-rsize'', default_session = empty_session,
     default_origin = origin empty_session,
     new_jsep_media_description = (\<lambda>k fs. empty_media k []),
     media_with_value_attribute = (\<lambda>k v. add_attrs [value_attr k v]),
     media_with_property_attribute = (\<lambda>k. add_attrs [property_attr k]),
     media_with_ice_credentials = (\<lambda>u p. add_attrs [value_attr ''ice-ufrag'' u, value_attr ''ice-pwd'' p]),
     media_with_fingerprint = (\<lambda>a v. add_attrs [value_attr ''fingerprint'' (a @ '' '' @ v)]),
     media_with_codec = (\<lambda>pt n r c f. add_attrs [value_attr ''rtpmap'' (show_word pt @ '' '' @ n)]),
     media_with_extmap = (\<lambda>i u. add_attrs [property_attr ''extmap:'']),
     media_with_media_source = (\<lambda>s c l t.
        add_attrs [value_attr ''ssrc'' (show_word s @ '' cname:'' @ c),
                   value_attr ''ssrc'' (show_word s @ '' msid:'' @ l @ '' '' @ t),
                   value_attr ''ssrc'' (show_word s @ '' mslabel:'' @ l),
                   value_attr ''ssrc'' (show_word s @ '' label:'' @ t)]),
     media_attribute = (\<lambda>k m. first_attr k (attributes m)),
     session_attribute = (\<lambda>k d. Option.bind (first_attr k (session_attributes d)) id),
     with_media = (\<lambda>m d. d\<lparr>media_descriptions := media_descriptions d @ [m]\<rparr>),
     session_with_fingerprint =
       (\<lambda>a v d. d\<lparr>session_attributes := session_attributes d @ [value_attr ''fingerprint'' (a @ '' '' @ v)]\<rparr>),
     session_with_property_attribute =
       (\<lambda>k d. d\<lparr>session_attributes := session_attributes d @ [property_attr k]\<rparr>),
     session_with_value_attribute =
       (\<lambda>k v d. d\<lparr>session_attributes := session_attributes d @ [value_attr k v]\<rparr>),
     get_codec_for_payload_type = codec_for,
     session_unmarshal = unm, session_marshal = (\<lambda>d. ''v=0''),
     attribute_to_string = attr_key, extmap_unmarshal = (\<lambda>s. Inl ''no extmap''),
     connection_role_to_string = (\<lambda>r. case r of RoleUnspecified \<Rightarrow> ''Unspecified'' | RoleActive \<Rightarrow> ''active''
        | RolePassive \<Rightarrow> ''passive'' | RoleActpass \<Rightarrow> ''actpass'' | RoleHoldconn \<Rightarrow> ''holdconn''),
     url_parse = (\<lambda>s. Some undefined), url_to_string = (\<lambda>u. [])\<rparr>"

lemma sample_sdp_builders: "sdp_builders (sample_sdp unm codec_for)"
  by (simp add: sdp_builders_def sdp_keys_def sdp_media_builders_def sdp_session_builders_def
      sample_sdp_def empty_media_def empty_session_def)
    (auto simp: add_attrs_def intro!: exI[of _ "property_attr ''extmap:''"])

end
