(* ===== verification/Fmtp.thy ===== *)
theory Fmtp
  imports Rust_Text Hash_Map
begin

text \<open>
  \<open>src/description/fmtp\<close>: format parameters of a codec. The trait object
  \<open>Box<dyn Fmtp>\<close> is a datatype with one constructor per implementation, and a
  trait method is a function by cases. \<open>hex::decode\<close> belongs to a dependency and
  is the argument \<open>hexd\<close> of the functions that call it (\<open>None\<close> for its error).
\<close>

section \<open>Case-insensitive comparison\<close>

lemma case_char_iff: "lower_char a = lower_char b \<longleftrightarrow> upper_char a = upper_char b"
proof -
  have inj: "a = b" if "(of_char a :: nat) - 32 = of_char b - 32" "(97::nat) \<le> of_char a" "(97::nat) \<le> of_char b"
  proof -
    have "(of_char a :: nat) = of_char b" using that by linarith
    then show ?thesis by simp
  qed
  have "(of_char a :: nat) < 256" "(of_char b :: nat) < 256" by simp_all
  then have "of_char (lower_char a) = (of_char (lower_char b) :: nat) \<longleftrightarrow>
      of_char (upper_char a) = (of_char (upper_char b) :: nat)"
    by (auto simp: lower_char_def upper_char_def Let_def dest: inj)
  then show ?thesis by simp
qed

lemma case_insensitive_iff: "to_lowercase s = to_lowercase t \<longleftrightarrow> to_uppercase s = to_uppercase t"
  unfolding to_lowercase_def to_uppercase_def
proof (induction s arbitrary: t)
  case Nil
  then show ?case by simp
next
  case (Cons c s)
  then show ?case by (cases t) (simp_all add: case_char_iff)
qed

section \<open>Parsing\<close>

type_synonym fmtp_parameters = "(string, string) hashmap"

datatype fmtp =
    GenericFmtp string fmtp_parameters
  | H264Fmtp fmtp_parameters

fun fmtp_parameters_of :: "fmtp \<Rightarrow> fmtp_parameters" where
  "fmtp_parameters_of (GenericFmtp m p) = p"
| "fmtp_parameters_of (H264Fmtp p) = p"

fun fmtp_mime_type :: "fmtp \<Rightarrow> string" where
  "fmtp_mime_type (GenericFmtp m p) = m"
| "fmtp_mime_type (H264Fmtp p) = ''video/h264''"

definition fmtp_parameter :: "fmtp \<Rightarrow> string \<Rightarrow> string option" where
  "fmtp_parameter f key = hm_get (fmtp_parameters_of f) key"

definition parse_fmtp_pair :: "string \<Rightarrow> fmtp_parameters \<Rightarrow> fmtp_parameters" where
  "parse_fmtp_pair p parameters =
     (let pp = splitn2 CHR ''='' (trim p);
          key = to_lowercase (pp ! 0);
          value = (if 1 < length pp then pp ! 1 else [])
      in hm_insert key value parameters)"

definition parse_fmtp :: "string \<Rightarrow> string \<Rightarrow> fmtp" where
  "parse_fmtp mime_type line =
     (let parameters = fold parse_fmtp_pair (split_on CHR '';'' line) []
      in if to_uppercase mime_type = to_uppercase ''video/h264'' then H264Fmtp parameters
         else GenericFmtp mime_type parameters)"

section \<open>Matching\<close>

definition fmtp_half_consist :: "fmtp_parameters \<Rightarrow> fmtp_parameters \<Rightarrow> bool" where
  "fmtp_half_consist a b =
     list_all (\<lambda>(k, v). case hm_get b k of
                          Some vb \<Rightarrow> to_uppercase vb = to_uppercase v
                        | None \<Rightarrow> True) a"

definition fmtp_consist :: "fmtp_parameters \<Rightarrow> fmtp_parameters \<Rightarrow> bool" where
  "fmtp_consist a b = (if \<not> fmtp_half_consist a b then False
                       else if \<not> fmtp_half_consist b a then False else True)"

definition profile_level_id_matches :: "(string \<Rightarrow> bytes option) \<Rightarrow> string \<Rightarrow> string \<Rightarrow> bool" where
  "profile_level_id_matches hexd a b =
     (case hexd a of None \<Rightarrow> False
      | Some aa \<Rightarrow> if length aa < 2 then False
        else case hexd b of None \<Rightarrow> False
             | Some bb \<Rightarrow> if length bb < 2 then False
               else aa ! 0 = bb ! 0 \<and> aa ! 1 = bb ! 1)"

definition generic_match :: "string \<times> fmtp_parameters \<Rightarrow> string \<times> fmtp_parameters \<Rightarrow> bool" where
  "generic_match g c =
     (if to_lowercase (fst g) \<noteq> to_lowercase (fst c) then False
      else fmtp_consist (snd g) (snd c))"

definition h264_match :: "(string \<Rightarrow> bytes option) \<Rightarrow> fmtp_parameters \<Rightarrow> fmtp_parameters \<Rightarrow> bool" where
  "h264_match hexd h c =
     (case hm_get h ''packetization-mode'' of None \<Rightarrow> False
      | Some hpmode \<Rightarrow> case hm_get c ''packetization-mode'' of None \<Rightarrow> False
      | Some cpmode \<Rightarrow>
          if hpmode \<noteq> cpmode then False
          else case hm_get h ''profile-level-id'' of None \<Rightarrow> False
      | Some hplid \<Rightarrow> case hm_get c ''profile-level-id'' of None \<Rightarrow> False
      | Some cplid \<Rightarrow> profile_level_id_matches hexd hplid cplid)"

fun match_fmtp :: "(string \<Rightarrow> bytes option) \<Rightarrow> fmtp \<Rightarrow> fmtp \<Rightarrow> bool" where
  "match_fmtp hexd (GenericFmtp m p) (GenericFmtp m' p') = generic_match (m, p) (m', p')"
| "match_fmtp hexd (H264Fmtp p) (H264Fmtp p') = h264_match hexd p p'"
| "match_fmtp hexd f g = False"

section \<open>The contract of the trait\<close>

text \<open>
  An implementation of \<open>Fmtp\<close> compares two descriptions of the same MIME type,
  and the comparison does not depend on which side is the local one.
\<close>

locale fmtp_contract =
  fixes mime :: "'f \<Rightarrow> string"
    and matches :: "'f \<Rightarrow> 'f \<Rightarrow> bool"
  assumes matches_sym: "matches f g \<Longrightarrow> matches g f"
    and matches_mime: "matches f g \<Longrightarrow> to_uppercase (mime f) = to_uppercase (mime g)"
begin

lemma matches_commute: "matches f g \<longleftrightarrow> matches g f"
  using matches_sym by blast

lemma matches_only_same_mime: "to_uppercase (mime f) \<noteq> to_uppercase (mime g) \<Longrightarrow> \<not> matches f g"
  using matches_mime by blast

end

lemma fmtp_consist_commute: "fmtp_consist a b = fmtp_consist b a"
  by (auto simp: fmtp_consist_def)

lemma fmtp_half_consist_iff:
  "hm_wf a \<Longrightarrow> fmtp_half_consist a b \<longleftrightarrow>
     (\<forall>k va vb. hm_get a k = Some va \<longrightarrow> hm_get b k = Some vb \<longrightarrow> to_uppercase va = to_uppercase vb)"
  unfolding fmtp_half_consist_def list_all_iff
  by (subst hm.all_entries) (fastforce split: option.splits)+

lemma profile_level_id_commute: "profile_level_id_matches hexd a b = profile_level_id_matches hexd b a"
  by (auto simp: profile_level_id_matches_def split: option.splits)

interpretation generic: fmtp_contract fst generic_match
  by unfold_locales
    (auto simp: generic_match_def fmtp_consist_commute case_insensitive_iff split: if_splits)

interpretation h264: fmtp_contract "\<lambda>_. ''video/h264''" "h264_match hexd" for hexd
  by unfold_locales
    (auto simp: h264_match_def profile_level_id_commute split: option.splits if_splits)

interpretation fmtp: fmtp_contract fmtp_mime_type "match_fmtp hexd" for hexd
proof
  fix f g
  assume m: "match_fmtp hexd f g"
  show "match_fmtp hexd g f"
    using m by (cases f; cases g) (auto dest: generic.matches_sym h264.matches_sym)
  show "to_uppercase (fmtp_mime_type f) = to_uppercase (fmtp_mime_type g)"
    using m by (cases f; cases g) (auto dest: generic.matches_mime)
qed

lemma hm_wf_parse_pairs: "hm_wf acc \<Longrightarrow> hm_wf (fold parse_fmtp_pair ps acc)"
  by (induction ps arbitrary: acc) (simp_all add: parse_fmtp_pair_def Let_def)

lemma hm_wf_parse_fmtp [simp]: "hm_wf (fmtp_parameters_of (parse_fmtp m l))"
  by (simp add: parse_fmtp_def Let_def hm_wf_parse_pairs)

lemma mime_parse_fmtp [simp]: "to_uppercase (fmtp_mime_type (parse_fmtp m l)) = to_uppercase m"
  by (simp add: parse_fmtp_def Let_def)

section \<open>Properties\<close>

text \<open>
  Two parsed format lines of codecs other than H264 match exactly if their MIME types agree up to
  case and every parameter that both lines give has the same value up to case.
\<close>

theorem generic_lines_match_iff:
  assumes "to_uppercase m \<noteq> to_uppercase ''video/h264''" "to_uppercase m' \<noteq> to_uppercase ''video/h264''"
  shows "match_fmtp hexd (parse_fmtp m a) (parse_fmtp m' b) \<longleftrightarrow>
    to_uppercase m = to_uppercase m' \<and>
    (\<forall>k va vb. fmtp_parameter (parse_fmtp m a) k = Some va \<longrightarrow> fmtp_parameter (parse_fmtp m' b) k = Some vb \<longrightarrow>
       to_uppercase va = to_uppercase vb)"
proof -
  have p: "hm_wf (fmtp_parameters_of (parse_fmtp m a))" "hm_wf (fmtp_parameters_of (parse_fmtp m' b))" by simp_all
  have eq: "parse_fmtp m a = GenericFmtp m (fmtp_parameters_of (parse_fmtp m a))"
    "parse_fmtp m' b = GenericFmtp m' (fmtp_parameters_of (parse_fmtp m' b))"
    using assms by (simp_all add: parse_fmtp_def Let_def)
  have "fmtp_consist (fmtp_parameters_of (parse_fmtp m a)) (fmtp_parameters_of (parse_fmtp m' b)) \<longleftrightarrow>
    (\<forall>k va vb. fmtp_parameter (parse_fmtp m a) k = Some va \<longrightarrow> fmtp_parameter (parse_fmtp m' b) k = Some vb \<longrightarrow>
       to_uppercase va = to_uppercase vb)"
    unfolding fmtp_consist_def fmtp_parameter_def fmtp_half_consist_iff[OF p(1)] fmtp_half_consist_iff[OF p(2)]
    by metis
  then show ?thesis
    by (subst eq(1), subst eq(2)) (simp add: generic_match_def case_insensitive_iff)
qed

theorem generic_lines_match_iff_witness:
  "match_fmtp (\<lambda>_. None) (parse_fmtp ''video/VP9'' ''profile-id=0'') (parse_fmtp ''video/vp9'' [])"
proof -
  have mime: "to_uppercase ''video/VP9'' \<noteq> to_uppercase ''video/h264''"
    "to_uppercase ''video/vp9'' \<noteq> to_uppercase ''video/h264''"
    "to_uppercase ''video/VP9'' = to_uppercase ''video/vp9''" by code_simp+
  have "parse_fmtp ''video/vp9'' [] = GenericFmtp ''video/vp9'' [([], [])]"
    "parse_fmtp ''video/VP9'' ''profile-id=0'' = GenericFmtp ''video/VP9'' [(''profile-id'', ''0'')]" by code_simp+
  then show ?thesis
    using generic_lines_match_iff[OF mime(1,2), of "\<lambda>_. None" "''profile-id=0''" "[]"] mime(3)
    by (simp add: fmtp_parameter_def hm_get_def)
qed

text \<open>
  Matching of format parameters is symmetric, and only descriptions of the same MIME type match.
\<close>

theorem match_fmtp_symmetric:
  "match_fmtp hexd f g = match_fmtp hexd g f \<and>
   \<not> (match_fmtp hexd f g \<and> to_uppercase (fmtp_mime_type f) \<noteq> to_uppercase (fmtp_mime_type g))"
  using fmtp.matches_commute[of hexd f g] fmtp.matches_mime[of hexd f g] by blast

end
