(* ===== verification/Direction.thy ===== *)
theory Direction
  imports Rust_Text
begin

text \<open>
  \<open>src/description/rtp_transceiver_direction.rs\<close> and \<open>src/description/sdp_type.rs\<close>:
  the two enumerations that steer the offer/answer exchange, with their string
  forms and the direction algebra.
\<close>

definition UNSPECIFIED_STR :: string where
  "UNSPECIFIED_STR = ''Unspecified''"

section \<open>Transceiver directions\<close>

datatype RTCRtpTransceiverDirection = Unspecified | Sendrecv | Sendonly | Recvonly | Inactive

definition direction_from_str :: "string \<Rightarrow> RTCRtpTransceiverDirection" where
  "direction_from_str raw =
     (if raw = ''sendrecv'' then Sendrecv
      else if raw = ''sendonly'' then Sendonly
      else if raw = ''recvonly'' then Recvonly
      else if raw = ''inactive'' then Inactive
      else Unspecified)"

definition direction_from_u8 :: "u8 \<Rightarrow> RTCRtpTransceiverDirection" where
  "direction_from_u8 v =
     (if v = 1 then Sendrecv else if v = 2 then Sendonly else if v = 3 then Recvonly
      else if v = 4 then Inactive else Unspecified)"

fun direction_to_string :: "RTCRtpTransceiverDirection \<Rightarrow> string" where
  "direction_to_string Sendrecv = ''sendrecv''"
| "direction_to_string Sendonly = ''sendonly''"
| "direction_to_string Recvonly = ''recvonly''"
| "direction_to_string Inactive = ''inactive''"
| "direction_to_string Unspecified = UNSPECIFIED_STR"

fun reverse_direction :: "RTCRtpTransceiverDirection \<Rightarrow> RTCRtpTransceiverDirection" where
  "reverse_direction Sendonly = Recvonly"
| "reverse_direction Recvonly = Sendonly"
| "reverse_direction d = d"

fun from_send_recv :: "bool \<Rightarrow> bool \<Rightarrow> RTCRtpTransceiverDirection" where
  "from_send_recv True True = Sendrecv"
| "from_send_recv True False = Sendonly"
| "from_send_recv False True = Recvonly"
| "from_send_recv False False = Inactive"

definition has_send :: "RTCRtpTransceiverDirection \<Rightarrow> bool" where
  "has_send d \<longleftrightarrow> d = Sendrecv \<or> d = Sendonly"

definition has_recv :: "RTCRtpTransceiverDirection \<Rightarrow> bool" where
  "has_recv d \<longleftrightarrow> d = Sendrecv \<or> d = Recvonly"

definition intersect_direction ::
  "RTCRtpTransceiverDirection \<Rightarrow> RTCRtpTransceiverDirection \<Rightarrow> RTCRtpTransceiverDirection" where
  "intersect_direction d other = from_send_recv (has_send d \<and> has_send other) (has_recv d \<and> has_recv other)"

lemma has_send_from_send_recv [simp]: "has_send (from_send_recv s r) = s"
  by (cases s; cases r) (simp_all add: has_send_def)

lemma has_recv_from_send_recv [simp]: "has_recv (from_send_recv s r) = r"
  by (cases s; cases r) (simp_all add: has_recv_def)

lemma has_send_reverse [simp]: "has_send (reverse_direction d) = has_recv d"
  by (cases d) (simp_all add: has_send_def has_recv_def)

lemma has_recv_reverse [simp]: "has_recv (reverse_direction d) = has_send d"
  by (cases d) (simp_all add: has_send_def has_recv_def)

lemma reverse_reverse [simp]: "reverse_direction (reverse_direction d) = d"
  by (cases d) simp_all

text \<open>The directions that carry media information: an \<open>Unspecified\<close> one has no meaning yet.\<close>

lemma direction_eqI:
  "\<lbrakk>d \<noteq> Unspecified; d' \<noteq> Unspecified; has_send d = has_send d'; has_recv d = has_recv d'\<rbrakk> \<Longrightarrow> d = d'"
  by (cases d; cases d') (simp_all add: has_send_def has_recv_def)

lemma from_send_recv_specified [simp]: "from_send_recv s r \<noteq> Unspecified"
  by (cases s; cases r) simp_all

section \<open>The algebra of directions as a contract\<close>

text \<open>
  What an offer/answer client relies on: a direction is determined by its two
  capabilities, reversing swaps them and intersecting keeps the common ones.
\<close>

locale direction_algebra =
  fixes snd_ok rcv_ok :: "'d \<Rightarrow> bool"
    and rev_dir :: "'d \<Rightarrow> 'd"
    and meet :: "'d \<Rightarrow> 'd \<Rightarrow> 'd"
    and specified :: "'d \<Rightarrow> bool"
  assumes meet_send: "snd_ok (meet d e) \<longleftrightarrow> snd_ok d \<and> snd_ok e"
    and meet_recv: "rcv_ok (meet d e) \<longleftrightarrow> rcv_ok d \<and> rcv_ok e"
    and rev_send: "snd_ok (rev_dir d) = rcv_ok d"
    and rev_recv: "rcv_ok (rev_dir d) = snd_ok d"
    and ext: "\<lbrakk>specified d; specified e; snd_ok d = snd_ok e; rcv_ok d = rcv_ok e\<rbrakk> \<Longrightarrow> d = e"
    and meet_specified: "specified (meet d e)"
    and rev_specified: "specified (rev_dir d) = specified d"
begin

lemma meet_commute: "meet d e = meet e d"
  by (rule ext) (auto simp: meet_send meet_recv meet_specified)

lemma meet_assoc: "meet (meet d e) f = meet d (meet e f)"
  by (rule ext) (auto simp: meet_send meet_recv meet_specified)

lemma meet_idem: "specified d \<Longrightarrow> meet d d = d"
  by (rule ext) (auto simp: meet_send meet_recv meet_specified)

lemma rev_meet: "rev_dir (meet d e) = meet (rev_dir d) (rev_dir e)"
  by (rule ext) (auto simp: meet_send meet_recv meet_specified rev_send rev_recv rev_specified)

text \<open>An answer formed by reversing the offer and meeting a local wish never asks for more than the offer gives.\<close>

lemma answer_within_offer:
  "(snd_ok (meet (rev_dir offer) l) \<longrightarrow> rcv_ok offer) \<and> (rcv_ok (meet (rev_dir offer) l) \<longrightarrow> snd_ok offer)"
  by (simp add: meet_send meet_recv rev_send rev_recv)

end

interpretation dir: direction_algebra has_send has_recv reverse_direction intersect_direction
  "\<lambda>d. d \<noteq> Unspecified"
proof
  show "(reverse_direction d \<noteq> Unspecified) = (d \<noteq> Unspecified)" for d
    by (cases d) simp_all
qed (auto simp: intersect_direction_def intro: direction_eqI)

section \<open>SDP types\<close>

datatype RTCSdpType = SdpUnspecified | Offer | Pranswer | Answer | Rollback

definition sdp_type_from_str :: "string \<Rightarrow> RTCSdpType" where
  "sdp_type_from_str raw =
     (if raw = ''offer'' then Offer
      else if raw = ''pranswer'' then Pranswer
      else if raw = ''answer'' then Answer
      else if raw = ''rollback'' then Rollback
      else SdpUnspecified)"

fun sdp_type_to_string :: "RTCSdpType \<Rightarrow> string" where
  "sdp_type_to_string Offer = ''offer''"
| "sdp_type_to_string Pranswer = ''pranswer''"
| "sdp_type_to_string Answer = ''answer''"
| "sdp_type_to_string Rollback = ''rollback''"
| "sdp_type_to_string SdpUnspecified = UNSPECIFIED_STR"

lemma direction_string_roundtrip [simp]: "direction_from_str (direction_to_string d) = d"
  by (cases d) (simp_all add: direction_from_str_def UNSPECIFIED_STR_def)

lemma sdp_type_string_roundtrip [simp]: "sdp_type_from_str (sdp_type_to_string t) = t"
  by (cases t) (simp_all add: sdp_type_from_str_def UNSPECIFIED_STR_def)

lemma direction_string_inverse: "direction_from_str s \<noteq> Unspecified \<Longrightarrow> direction_to_string (direction_from_str s) = s"
  by (auto simp: direction_from_str_def split: if_splits)

lemma sdp_type_string_inverse: "sdp_type_from_str s \<noteq> SdpUnspecified \<Longrightarrow> sdp_type_to_string (sdp_type_from_str s) = s"
  by (auto simp: sdp_type_from_str_def split: if_splits)

text \<open>
  Directions and SDP types survive printing and parsing, and no other text parses to a specified
  value: a text parses to a specified direction (or type) only if it is the printed form of it.
\<close>

theorem tokens_roundtrip:
  "direction_from_str (direction_to_string d) = d \<and> sdp_type_from_str (sdp_type_to_string t) = t \<and>
   (direction_from_str s \<noteq> Unspecified \<longrightarrow> direction_to_string (direction_from_str s) = s) \<and>
   (sdp_type_from_str s \<noteq> SdpUnspecified \<longrightarrow> sdp_type_to_string (sdp_type_from_str s) = s)"
  by (simp add: direction_string_inverse sdp_type_string_inverse)

theorem tokens_roundtrip_witness:
  "direction_to_string (direction_from_str ''sendonly'') = ''sendonly'' \<and>
   sdp_type_to_string (sdp_type_from_str ''answer'') = ''answer''"
  using tokens_roundtrip[of Sendonly Answer "''sendonly''"] tokens_roundtrip[of Sendonly Answer "''answer''"]
  by (simp add: direction_from_str_def sdp_type_from_str_def)

text \<open>
  Intersecting directions is commutative and associative, reversing is an involution that
  distributes over intersection, and an answer direction formed by intersecting the reversed offer
  with a local direction sends only what the offer receives and receives only what it sends.
\<close>

theorem direction_algebra_laws:
  "intersect_direction d e = intersect_direction e d \<and>
   intersect_direction (intersect_direction d e) f = intersect_direction d (intersect_direction e f) \<and>
   reverse_direction (reverse_direction d) = d \<and>
   reverse_direction (intersect_direction d e) = intersect_direction (reverse_direction d) (reverse_direction e) \<and>
   \<not> (has_send (intersect_direction (reverse_direction d) e) \<and> \<not> has_recv d) \<and>
   \<not> (has_recv (intersect_direction (reverse_direction d) e) \<and> \<not> has_send d)"
  using dir.meet_commute[of d e] dir.meet_assoc[of d e f] dir.rev_meet[of d e] dir.answer_within_offer[of d e] by auto

end
