(* ===== verification/Codec.thy ===== *)
theory Codec
  imports Fmtp Direction
begin

text \<open>
  \<open>src/description/rtp_codec.rs\<close> and \<open>src/description/rtp_transceiver.rs\<close>: codec
  descriptions, the fuzzy codec search, and the transceiver record that the
  session layer stores.
\<close>

section \<open>Codec types and parameters\<close>

type_synonym SSRC = u32
type_synonym PayloadType = u8

datatype RTPCodecType = CodecUnspecified | Audio | Video

definition codec_type_from_str :: "string \<Rightarrow> RTPCodecType" where
  "codec_type_from_str raw =
     (if raw = ''audio'' then Audio else if raw = ''video'' then Video else CodecUnspecified)"

definition codec_type_from_u8 :: "u8 \<Rightarrow> RTPCodecType" where
  "codec_type_from_u8 v = (if v = 1 then Audio else if v = 2 then Video else CodecUnspecified)"

fun codec_type_to_string :: "RTPCodecType \<Rightarrow> string" where
  "codec_type_to_string Audio = ''audio''"
| "codec_type_to_string Video = ''video''"
| "codec_type_to_string CodecUnspecified = UNSPECIFIED_STR"

definition TYPE_RTCP_FB_TRANSPORT_CC :: string where
  "TYPE_RTCP_FB_TRANSPORT_CC = ''transport-cc''"

record RTCPFeedback =
  fb_typ :: string
  fb_parameter :: string

record RTCRtpCodecCapability =
  mime_type :: string
  clock_rate :: u32
  channels :: u16
  sdp_fmtp_line :: string
  rtcp_feedbacks :: "RTCPFeedback list"

record RTCRtpHeaderExtensionCapability =
  cap_uri :: string

record RTCRtpHeaderExtensionParameters =
  ext_uri :: string
  ext_id :: int

record RTCRtpCodecParameters =
  capability :: RTCRtpCodecCapability
  payload_type :: PayloadType
  stats_id :: u64

record RTCRtpParameters =
  params_header_extensions :: "RTCRtpHeaderExtensionParameters list"
  params_codecs :: "RTCRtpCodecParameters list"

definition default_capability :: RTCRtpCodecCapability where
  "default_capability = \<lparr>mime_type = [], clock_rate = 0, channels = 0, sdp_fmtp_line = [], rtcp_feedbacks = []\<rparr>"

definition default_codec_parameters :: RTCRtpCodecParameters where
  "default_codec_parameters = \<lparr>capability = default_capability, payload_type = 0, stats_id = 0\<rparr>"

section \<open>Payloaders\<close>

definition MIME_TYPE_H264 :: string where "MIME_TYPE_H264 = ''video/H264''"
definition MIME_TYPE_OPUS :: string where "MIME_TYPE_OPUS = ''audio/opus''"
definition MIME_TYPE_VP8 :: string where "MIME_TYPE_VP8 = ''video/VP8''"
definition MIME_TYPE_VP9 :: string where "MIME_TYPE_VP9 = ''video/VP9''"
definition MIME_TYPE_AV1 :: string where "MIME_TYPE_AV1 = ''video/AV1''"
definition MIME_TYPE_G722 :: string where "MIME_TYPE_G722 = ''audio/G722''"
definition MIME_TYPE_PCMU :: string where "MIME_TYPE_PCMU = ''audio/PCMU''"
definition MIME_TYPE_PCMA :: string where "MIME_TYPE_PCMA = ''audio/PCMA''"
definition MIME_TYPE_TELEPHONE_EVENT :: string where
  "MIME_TYPE_TELEPHONE_EVENT = ''audio/telephone-event''"

lemmas mime_defs = MIME_TYPE_H264_def MIME_TYPE_OPUS_def MIME_TYPE_VP8_def MIME_TYPE_VP9_def
  MIME_TYPE_AV1_def MIME_TYPE_G722_def MIME_TYPE_PCMU_def MIME_TYPE_PCMA_def
  MIME_TYPE_TELEPHONE_EVENT_def

text \<open>Which payloader of the \<open>rtp\<close> crate is built; the flag is \<open>enable_picture_id\<close>.\<close>

datatype payloader = H264Payloader | Vp8Payloader bool | Vp9Payloader | OpusPayloader | G7xxPayloader | Av1Payloader

definition payloader_for_codec :: "RTCRtpCodecCapability \<Rightarrow> payloader result" where
  "payloader_for_codec self =
     (let mt = to_lowercase (mime_type self)
      in if mt = to_lowercase MIME_TYPE_H264 then Ok H264Payloader
         else if mt = to_lowercase MIME_TYPE_VP8 then Ok (Vp8Payloader True)
         else if mt = to_lowercase MIME_TYPE_VP9 then Ok Vp9Payloader
         else if mt = to_lowercase MIME_TYPE_OPUS then Ok OpusPayloader
         else if mt = to_lowercase MIME_TYPE_G722 \<or> mt = to_lowercase MIME_TYPE_PCMU
              \<or> mt = to_lowercase MIME_TYPE_PCMA \<or> mt = to_lowercase MIME_TYPE_TELEPHONE_EVENT
         then Ok G7xxPayloader
         else if mt = to_lowercase MIME_TYPE_AV1 then Ok Av1Payloader
         else Err (Other ''ErrNoPayloaderForCodec''))"

section \<open>Fuzzy search\<close>

datatype CodecMatch = MatchNone | MatchPartial | MatchExact

definition codec_fmtp :: "RTCRtpCodecParameters \<Rightarrow> fmtp" where
  "codec_fmtp c = parse_fmtp (mime_type (capability c)) (sdp_fmtp_line (capability c))"

definition codec_parameters_fuzzy_search ::
  "(string \<Rightarrow> bytes option) \<Rightarrow> RTCRtpCodecParameters \<Rightarrow> RTCRtpCodecParameters list
   \<Rightarrow> RTCRtpCodecParameters \<times> CodecMatch" where
  "codec_parameters_fuzzy_search hexd needle haystack =
     (let needle_fmtp = codec_fmtp needle
      in case find (\<lambda>c. match_fmtp hexd needle_fmtp (codec_fmtp c)) haystack of
           Some c \<Rightarrow> (c, MatchExact)
         | None \<Rightarrow>
             (case find (\<lambda>c. to_uppercase (mime_type (capability c)) =
                             to_uppercase (mime_type (capability needle))) haystack of
                Some c \<Rightarrow> (c, MatchPartial)
              | None \<Rightarrow> (default_codec_parameters, MatchNone)))"

definition same_mime :: "RTCRtpCodecParameters \<Rightarrow> RTCRtpCodecParameters \<Rightarrow> bool" where
  "same_mime a b \<longleftrightarrow> to_uppercase (mime_type (capability a)) = to_uppercase (mime_type (capability b))"

lemma exact_same_mime: "match_fmtp hexd (codec_fmtp a) (codec_fmtp b) \<Longrightarrow> same_mime a b"
  using fmtp.matches_mime[of hexd "codec_fmtp a" "codec_fmtp b"]
  by (simp add: codec_fmtp_def same_mime_def)

lemma fuzzy_search_Exact:
  "codec_parameters_fuzzy_search hexd n h = (c, MatchExact) \<Longrightarrow>
     c \<in> set h \<and> match_fmtp hexd (codec_fmtp n) (codec_fmtp c)"
  by (auto simp: codec_parameters_fuzzy_search_def Let_def split: option.splits dest: find_Some_in_set)

lemma fuzzy_search_Partial:
  "codec_parameters_fuzzy_search hexd n h = (c, MatchPartial) \<Longrightarrow>
     c \<in> set h \<and> same_mime n c \<and> (\<forall>d\<in>set h. \<not> match_fmtp hexd (codec_fmtp n) (codec_fmtp d))"
  by (auto simp: codec_parameters_fuzzy_search_def Let_def same_mime_def find_None_iff
      split: option.splits dest: find_Some_in_set)

lemma fuzzy_search_None:
  "snd (codec_parameters_fuzzy_search hexd n h) = MatchNone \<longleftrightarrow> (\<forall>d\<in>set h. \<not> same_mime n d)"
  by (auto simp: codec_parameters_fuzzy_search_def Let_def same_mime_def find_None_iff
      split: option.splits dest: find_Some_in_set exact_same_mime[unfolded same_mime_def])
    (metis (mono_tags, lifting) find_Some_in_set)

section \<open>Transceivers\<close>

record MediaStreamId =
  stream_id :: string
  track_id :: string

record SsrcGroup =
  group_name :: string
  group_ssrcs :: "SSRC list"

record RTCRtpSender =
  cname :: string
  msid :: MediaStreamId
  ssrcs :: "SSRC list"
  ssrc_groups :: "SsrcGroup list"

record RTCRtpTransceiver =
  mid :: string
  sender :: "RTCRtpSender option"
  direction :: RTCRtpTransceiverDirection
  current_direction :: RTCRtpTransceiverDirection
  rtp_params :: RTCRtpParameters
  kind :: RTPCodecType

definition set_current_direction ::
  "RTCRtpTransceiverDirection \<Rightarrow> RTCRtpTransceiver \<Rightarrow> RTCRtpTransceiver" where
  "set_current_direction d t = t\<lparr>current_direction := d\<rparr>"

section \<open>Properties\<close>

text \<open>
  The fuzzy search returns an exact match whenever one exists, the registered codec it matches;
  else a partial match, a codec of the same MIME type, whenever one exists; else nothing. In
  particular an exact match is always of the same MIME type.
\<close>

theorem fuzzy_search_characterised:
  "case codec_parameters_fuzzy_search hexd n h of
     (c, MatchExact) \<Rightarrow> c \<in> set h \<and> match_fmtp hexd (codec_fmtp n) (codec_fmtp c) \<and> same_mime n c
   | (c, MatchPartial) \<Rightarrow> c \<in> set h \<and> same_mime n c \<and>
       \<not> (\<exists>d. d \<in> set h \<and> match_fmtp hexd (codec_fmtp n) (codec_fmtp d))
   | (c, MatchNone) \<Rightarrow> \<not> (\<exists>d. d \<in> set h \<and> same_mime n d)"
proof (cases "codec_parameters_fuzzy_search hexd n h")
  case (Pair c m)
  then show ?thesis
    using fuzzy_search_Exact[of hexd n h c] fuzzy_search_Partial[of hexd n h c] fuzzy_search_None[of hexd n h]
      exact_same_mime[of hexd n c]
    by (cases m) auto
qed

end
