(* ===== verification/Sdp_Extract.thy ===== *)
theory Sdp_Extract
  imports Sdp Codec Hash_Map
begin

text \<open>
  The functions of \<open>src/description/mod.rs\<close> that read a session description: the
  wrapper with its constructors, mids, directions, names and ids of sources,
  fingerprints, codecs and header extensions.
\<close>

section \<open>Session descriptions\<close>

definition SDP_ATTRIBUTE_RID :: string where "SDP_ATTRIBUTE_RID = ''rid''"

definition MEDIA_SECTION_APPLICATION :: string where "MEDIA_SECTION_APPLICATION = ''application''"

record RTCSessionDescription =
  sdp_type :: RTCSdpType
  sdp :: string
  parsed :: "SessionDescription option"

definition rsd_unmarshal :: "sdp_lib \<Rightarrow> RTCSessionDescription \<Rightarrow> SessionDescription result" where
  "rsd_unmarshal L self =
     (case session_unmarshal L (sdp self) of Inr p \<Rightarrow> Ok p | Inl err \<Rightarrow> Err (Other err))"

definition rsd_new :: "sdp_lib \<Rightarrow> RTCSdpType \<Rightarrow> string \<Rightarrow> RTCSessionDescription result" where
  "rsd_new L typ s =
     (let desc = \<lparr>sdp_type = typ, sdp = s, parsed = None\<rparr>
      in and_then (rsd_unmarshal L desc) (\<lambda>p. Ok (desc\<lparr>parsed := Some p\<rparr>)))"

definition rsd_answer :: "sdp_lib \<Rightarrow> string \<Rightarrow> RTCSessionDescription result" where
  "rsd_answer L s = rsd_new L Answer s"

definition rsd_offer :: "sdp_lib \<Rightarrow> string \<Rightarrow> RTCSessionDescription result" where
  "rsd_offer L s = rsd_new L Offer s"

definition rsd_pranswer :: "sdp_lib \<Rightarrow> string \<Rightarrow> RTCSessionDescription result" where
  "rsd_pranswer L s = rsd_new L Pranswer s"

definition get_rids :: "MediaDescription \<Rightarrow> (string, string) hashmap" where
  "get_rids m =
     fold (\<lambda>attr rids.
        if attr_key attr = SDP_ATTRIBUTE_RID then
          (case attr_value attr of
             Some value \<Rightarrow> hm_insert (hd (split_on CHR '' '' value)) value rids
           | None \<Rightarrow> rids)
        else rids) (attributes m) []"

section \<open>Mids and directions\<close>

definition get_mid_value :: "MediaDescription \<Rightarrow> string option" where
  "get_mid_value m =
     (case find (\<lambda>attr. attr_key attr = ''mid'') (attributes m) of
        Some attr \<Rightarrow> attr_value attr | None \<Rightarrow> None)"

fun peer_direction_of :: "Attribute list \<Rightarrow> RTCRtpTransceiverDirection" where
  "peer_direction_of [] = Unspecified"
| "peer_direction_of (a # as) =
     (let direction = direction_from_str (attr_key a)
      in if direction \<noteq> Unspecified then direction else peer_direction_of as)"

definition get_peer_direction :: "MediaDescription \<Rightarrow> RTCRtpTransceiverDirection" where
  "get_peer_direction m = peer_direction_of (attributes m)"

section \<open>Sources\<close>

fun cname_of :: "Attribute list \<Rightarrow> string option" where
  "cname_of [] = None"
| "cname_of (a # as) =
     (if attr_key a = ''ssrc'' then
        (case attr_value a of
           Some value \<Rightarrow>
             (if contains_str value ''cname'' then Some (List.last (split_on CHR '':'' value)) else cname_of as)
         | None \<Rightarrow> cname_of as)
      else cname_of as)"

definition get_cname :: "MediaDescription \<Rightarrow> string option" where
  "get_cname m = cname_of (attributes m)"

fun two_fields :: "string list \<Rightarrow> MediaStreamId option" where
  "two_fields [a, b] = Some \<lparr>stream_id = a, track_id = b\<rparr>"
| "two_fields _ = None"

fun msid_of :: "Attribute list \<Rightarrow> MediaStreamId option" where
  "msid_of [] = None"
| "msid_of (a # as) =
     (let here =
        (if attr_key a = ''msid'' then
           (case attr_value a of Some value \<Rightarrow> two_fields (split_whitespace value) | None \<Rightarrow> None)
         else if attr_key a = ''ssrc'' then
           (case attr_value a of
              Some value \<Rightarrow>
                (if contains_str value ''msid''
                 then two_fields (split_whitespace (List.last (split_on CHR '':'' value)))
                 else None)
            | None \<Rightarrow> None)
         else None)
      in case here of Some r \<Rightarrow> Some r | None \<Rightarrow> msid_of as)"

definition get_msid :: "MediaDescription \<Rightarrow> MediaStreamId option" where
  "get_msid m = msid_of (attributes m)"

fun ssrc_groups_of :: "Attribute list \<Rightarrow> SsrcGroup list result" where
  "ssrc_groups_of [] = Ok []"
| "ssrc_groups_of (a # as) =
     (case (if attr_key a = ''ssrc-group'' then attr_value a else None) of
        None \<Rightarrow> ssrc_groups_of as
      | Some value \<Rightarrow>
          (let fields = split_whitespace value
           in if 3 \<le> length fields then
                and_then (try_map parse_u32 (tl fields)) (\<lambda>ssrcs.
                and_then (ssrc_groups_of as) (\<lambda>rest.
                Ok (\<lparr>group_name = hd fields, group_ssrcs = ssrcs\<rparr> # rest)))
              else ssrc_groups_of as))"

definition get_ssrc_groups :: "MediaDescription \<Rightarrow> SsrcGroup list result" where
  "get_ssrc_groups m = ssrc_groups_of (attributes m)"

definition add_ssrc :: "Attribute \<Rightarrow> SSRC list \<Rightarrow> SSRC list result" where
  "add_ssrc a acc =
     (case (if attr_key a = ''ssrc'' then attr_value a else None) of
        None \<Rightarrow> Ok acc
      | Some value \<Rightarrow>
          (case split_whitespace value of
             [] \<Rightarrow> Ok acc
           | field # _ \<Rightarrow>
               and_then (parse_u32 field) (\<lambda>ssrc.
               Ok (if ssrc \<in> set acc then acc else acc @ [ssrc]))))"

definition get_ssrcs :: "MediaDescription \<Rightarrow> SSRC list result" where
  "get_ssrcs m = try_fold add_ssrc (attributes m) []"

section \<open>Fingerprints\<close>

definition all_fingerprints :: "sdp_lib \<Rightarrow> SessionDescription \<Rightarrow> string list" where
  "all_fingerprints L desc =
     (case session_attribute L ''fingerprint'' desc of Some f \<Rightarrow> [f] | None \<Rightarrow> []) @
     concat (map (\<lambda>m. case media_attribute L ''fingerprint'' m of Some (Some f) \<Rightarrow> [f] | _ \<Rightarrow> [])
       (media_descriptions desc))"

definition extract_fingerprint :: "sdp_lib \<Rightarrow> SessionDescription \<Rightarrow> (string \<times> string) result" where
  "extract_fingerprint L desc =
     (let fingerprints = all_fingerprints L desc
      in if fingerprints = [] then Err (Other ''ErrSessionDescriptionNoFingerprint'')
         else if list_ex (\<lambda>f. f \<noteq> hd fingerprints) (tl fingerprints)
           then Err (Other ''ErrSessionDescriptionConflictingFingerprints'')
         else (let parts = split_on CHR '' '' (hd fingerprints)
               in if length parts \<noteq> 2 then Err (Other ''ErrSessionDescriptionInvalidFingerprint'')
                  else Ok (parts ! 1, parts ! 0)))"

section \<open>Sections\<close>

definition have_application_media_section :: "SessionDescription \<Rightarrow> bool" where
  "have_application_media_section desc =
     list_ex (\<lambda>m. media (media_name m) = MEDIA_SECTION_APPLICATION) (media_descriptions desc)"

definition get_by_mid :: "sdp_lib \<Rightarrow> string \<Rightarrow> RTCSessionDescription \<Rightarrow> MediaDescription option" where
  "get_by_mid L search_mid desc =
     (case parsed desc of
        None \<Rightarrow> None
      | Some p \<Rightarrow> find (\<lambda>m. media_attribute L (ATTR_KEY_MID L) m = Some (Some search_mid)) (media_descriptions p))"

definition have_data_channel :: "RTCSessionDescription \<Rightarrow> MediaDescription option" where
  "have_data_channel desc =
     (case parsed desc of
        None \<Rightarrow> None
      | Some p \<Rightarrow> find (\<lambda>d. media (media_name d) = MEDIA_SECTION_APPLICATION) (media_descriptions p))"

section \<open>Codecs and header extensions\<close>

definition feedback_of :: "string \<Rightarrow> RTCPFeedback" where
  "feedback_of raw =
     (let split = split_on CHR '' '' raw
      in if length split = 2 then \<lparr>fb_typ = split ! 0, fb_parameter = split ! 1\<rparr>
         else \<lparr>fb_typ = split ! 0, fb_parameter = []\<rparr>)"

definition codec_of_payload :: "sdp_lib \<Rightarrow> MediaDescription \<Rightarrow> string \<Rightarrow> RTCRtpCodecParameters option result" where
  "codec_of_payload L m payload_str =
     and_then (parse_u8 payload_str) (\<lambda>pt.
       case get_codec_for_payload_type L pt ((default_session L)\<lparr>media_descriptions := [m]\<rparr>) of
         Inl err \<Rightarrow> (if pt = 0 then Ok None else Err (Other err))
       | Inr codec \<Rightarrow>
           Ok (Some \<lparr>capability = \<lparr>
                 mime_type = media (media_name m) @ ''/'' @ codec_name codec,
                 clock_rate = codec_clock_rate codec,
                 channels = (case parse_u16 (codec_encoding_parameters codec) of Inr c \<Rightarrow> c | Inl _ \<Rightarrow> 0),
                 sdp_fmtp_line = codec_fmtp_line codec,
                 rtcp_feedbacks = map feedback_of (codec_rtcp_feedback codec)\<rparr>,
               payload_type = pt, stats_id = 0\<rparr>))"

definition codecs_from_media_description ::
  "sdp_lib \<Rightarrow> MediaDescription \<Rightarrow> RTCRtpCodecParameters list result" where
  "codecs_from_media_description L m =
     and_then (try_map (codec_of_payload L m) (formats (media_name m))) (\<lambda>cs. Ok (List.map_filter id cs))"

definition extension_of ::
  "sdp_lib \<Rightarrow> Attribute \<Rightarrow> RTCRtpHeaderExtensionParameters option result" where
  "extension_of L a =
     (if attr_key a = ATTR_KEY_EXT_MAP L then
        (case extmap_unmarshal L (attribute_to_string L a) of
           Inl err \<Rightarrow> Err (Other err)
         | Inr (val, uri) \<Rightarrow> Ok (map_option (\<lambda>u. \<lparr>ext_uri = url_to_string L u, ext_id = val\<rparr>) uri))
      else Ok None)"

definition rtp_extensions_from_media_description ::
  "sdp_lib \<Rightarrow> MediaDescription \<Rightarrow> RTCRtpHeaderExtensionParameters list result" where
  "rtp_extensions_from_media_description L m =
     and_then (try_map (extension_of L) (attributes m)) (\<lambda>es. Ok (List.map_filter id es))"

definition update_sdp_origin :: "Origin \<Rightarrow> SessionDescription \<Rightarrow> Origin \<times> SessionDescription" where
  "update_sdp_origin saved d =
     (if origin_session_version saved = 0 then
        (saved\<lparr>origin_session_version := origin_session_version (origin d),
               origin_session_id := origin_session_id (origin d)\<rparr>, d)
      else
        (saved\<lparr>origin_session_version := origin_session_version saved + 1\<rparr>,
         d\<lparr>origin := (origin d)\<lparr>origin_session_id := origin_session_id saved,
                                origin_session_version := origin_session_version (origin d) + 1\<rparr>\<rparr>))"

section \<open>Properties\<close>

lemma split_on_parts: "p \<in> set (split_on c s) \<Longrightarrow> c \<notin> set p"
  by (induction s arbitrary: p) (auto split: list.splits if_splits)

lemma split_on_two:
  "split_on c s = [a, b] \<longleftrightarrow> s = a @ c # b \<and> c \<notin> set a \<and> c \<notin> set b"
proof
  assume "split_on c s = [a, b]"
  then show "s = a @ c # b \<and> c \<notin> set a \<and> c \<notin> set b"
    using join_split_on[of c s] split_on_parts[of _ c s] by simp
qed (simp add: split_on_append split_on_no_sep)

text \<open>
  A fingerprint is extracted exactly if the description gives one and the same fingerprint wherever
  it gives any, made of an algorithm and a value separated by a single space.
\<close>

theorem extract_fingerprint_iff:
  "extract_fingerprint L d = Ok (v, a) \<longleftrightarrow>
     set (all_fingerprints L d) = {a @ '' '' @ v} \<and> CHR '' '' \<notin> set a \<and> CHR '' '' \<notin> set v"
proof (cases "all_fingerprints L d")
  case Nil
  then show ?thesis by (simp add: extract_fingerprint_def)
next
  case (Cons f fs)
  let ?parts = "split_on CHR '' '' f"
  have "extract_fingerprint L d = Ok (v, a) \<longleftrightarrow> \<not> list_ex (\<lambda>g. g \<noteq> f) fs \<and> length ?parts = 2 \<and> (?parts ! 1, ?parts ! 0) = (v, a)"
    by (auto simp: extract_fingerprint_def Cons Let_def)
  also have "\<dots> \<longleftrightarrow> (\<forall>g\<in>set fs. g = f) \<and> ?parts = [a, v]"
    by (auto simp: list_ex_iff length_Suc_conv numeral_2_eq_2)
  also have "\<dots> \<longleftrightarrow> set (all_fingerprints L d) = {a @ '' '' @ v} \<and> CHR '' '' \<notin> set a \<and> CHR '' '' \<notin> set v"
    by (auto simp: split_on_two Cons)
  finally show ?thesis .
qed

end
