(* ===== verification/Receiver_Stream.thy ===== *)
theory Receiver_Stream
  imports Messages Complex_Main
begin

unbundle bit_operations_syntax

text \<open>
  \<open>src/interceptors/report/receiver_stream.rs\<close>: the per-SSRC reception statistics
  behind RTCP receiver reports. Integers keep their width: sequence numbers are
  \<open>u16\<close>, the received bits live in \<open>u64\<close> words, and the two \<open>i32\<close> counters are
  integers whose range the invariant bounds. Additions wrap, as in a release
  build. The \<open>f64\<close> values of the jitter and delay estimates are real numbers
  without rounding; a cast to an integer truncates and saturates, as in Rust.
\<close>

record ReceiverStream =
  stream_ssrc :: u32
  receiver_ssrc :: u32
  stream_clock_rate :: real
  packets :: "u64 list"
  started :: bool
  seq_num_cycles :: u16
  last_seq_num :: int
  last_report_seq_num :: int
  last_rtp_time_rtp :: u32
  last_rtp_time_time :: instant
  jitter :: real
  last_sender_report :: u32
  last_sender_report_time :: instant
  total_lost :: u32

definition receiver_stream_new :: "u32 \<Rightarrow> instant \<Rightarrow> u32 \<Rightarrow> u32 \<Rightarrow> ReceiverStream" where
  "receiver_stream_new random_ssrc now s rate =
     \<lparr>stream_ssrc = s, receiver_ssrc = random_ssrc, stream_clock_rate = real (unat rate),
      packets = replicate 128 0, started = False, seq_num_cycles = 0, last_seq_num = 0,
      last_report_seq_num = 0, last_rtp_time_rtp = 0, last_rtp_time_time = now, jitter = 0,
      last_sender_report = 0, last_sender_report_time = now, total_lost = 0\<rparr>"

section \<open>The received bits\<close>

definition packet_pos :: "ReceiverStream \<Rightarrow> u16 \<Rightarrow> nat" where
  "packet_pos self seq = unat seq mod length (packets self)"

definition set_received :: "u16 \<Rightarrow> ReceiverStream \<Rightarrow> ReceiverStream" where
  "set_received seq self =
     (let pos = packet_pos self seq
      in self\<lparr>packets := (packets self)[pos div 64 := packets self ! (pos div 64) OR push_bit (pos mod 64) 1]\<rparr>)"

definition del_received :: "u16 \<Rightarrow> ReceiverStream \<Rightarrow> ReceiverStream" where
  "del_received seq self =
     (let pos = packet_pos self seq
      in self\<lparr>packets := (packets self)[pos div 64 :=
           packets self ! (pos div 64) AND (- 1 XOR push_bit (pos mod 64) 1)]\<rparr>)"

definition get_received :: "ReceiverStream \<Rightarrow> u16 \<Rightarrow> bool" where
  "get_received self seq =
     (let pos = packet_pos self seq
      in packets self ! (pos div 64) AND push_bit (pos mod 64) 1 \<noteq> 0)"

section \<open>Packets and reports\<close>

definition duration_since :: "instant \<Rightarrow> instant \<Rightarrow> duration" where
  "duration_since now earlier = nat (now - earlier)"

definition as_secs_f64 :: "duration \<Rightarrow> real" where
  "as_secs_f64 d = real d / 1000000000"

definition f64_as_u32 :: "real \<Rightarrow> u32" where
  "f64_as_u32 x = (if x \<le> 0 then 0 else if 4294967295 \<le> x then 4294967295 else of_int \<lfloor>x\<rfloor>)"

text \<open>
  \<open>(a as f64 / b as f64) as u8\<close> on unsigned integers: \<open>0 / 0\<close> is not a number and
  casts to 0, a positive number over 0 is infinite and saturates.
\<close>

definition ratio_as_u8 :: "nat \<Rightarrow> nat \<Rightarrow> u8" where
  "ratio_as_u8 a b =
     (if b = 0 then (if a = 0 then 0 else 255)
      else if 255 \<le> a div b then 255 else of_nat (a div b))"

text \<open>The sequence numbers of \<open>last_seq_num + 1..seq\<close>, a Rust range over \<open>i32\<close>.\<close>

definition missing_range :: "int \<Rightarrow> int \<Rightarrow> int list" where
  "missing_range a b = [a + 1..b - 1]"

definition process_rtp :: "instant \<Rightarrow> rtp_packet \<Rightarrow> ReceiverStream \<Rightarrow> ReceiverStream" where
  "process_rtp now pkt self =
     (let seq = rtp_sequence_number pkt;
          s1 =
            (if \<not> started self then
               (set_received seq (self\<lparr>started := True\<rparr>))
                 \<lparr>last_seq_num := uint seq, last_report_seq_num := uint seq - 1\<rparr>
             else
               let s2 = set_received seq self;
                   diff = uint seq - last_seq_num s2;
                   s3 =
                     (if \<not> (- 4095 \<le> diff \<and> diff \<le> 0) then
                        let s4 = (if diff < - 4095 then s2\<lparr>seq_num_cycles := seq_num_cycles s2 + 1\<rparr> else s2);
                            s5 = fold (\<lambda>i. del_received (of_int i)) (missing_range (last_seq_num s4) (uint seq)) s4
                        in s5\<lparr>last_seq_num := uint seq\<rparr>
                      else s2);
                   d = as_secs_f64 (duration_since now (last_rtp_time_time s3)) * stream_clock_rate s3
                       - (real (unat (rtp_timestamp pkt)) - real (unat (last_rtp_time_rtp s3)))
               in s3\<lparr>jitter := jitter s3 + (\<bar>d\<bar> - jitter s3) / 16\<rparr>)
      in s1\<lparr>last_rtp_time_rtp := rtp_timestamp pkt, last_rtp_time_time := now\<rparr>)"

definition process_sender_report :: "instant \<Rightarrow> rtcp_sender_report \<Rightarrow> ReceiverStream \<Rightarrow> ReceiverStream" where
  "process_sender_report now sr self =
     self\<lparr>last_sender_report := ucast (drop_bit 16 (sr_ntp_time sr)), last_sender_report_time := now\<rparr>"

text \<open>The loop that walks the sequence numbers since the last report, with wrap-around.\<close>

function count_lost :: "ReceiverStream \<Rightarrow> u16 \<Rightarrow> u16 \<Rightarrow> u32 \<Rightarrow> u32" where
  "count_lost self i stop ret =
     (if i = stop then ret
      else count_lost self (i + 1) stop (if \<not> get_received self i then ret + 1 else ret))"
  by pat_completeness auto
termination
proof (relation "measure (\<lambda>(self, i, stop, ret). unat (stop - i))")
  fix i stop :: u16
  assume "i \<noteq> stop"
  then have "stop - i \<noteq> 0" by simp
  then have "unat (stop - i - 1) < unat (stop - i)" by (simp add: unat_minus_one unat_gt_0)
  then have "unat (stop - (i + 1)) < unat (stop - i)" by (simp only: diff_diff_eq)
  then show "((self, i + 1, stop, if \<not> get_received self i then ret + 1 else ret), self, i, stop, ret)
      \<in> measure (\<lambda>(self, i, stop, ret). unat (stop - i))" for self ret
    by simp
qed simp

declare count_lost.simps [simp del]

definition clamp24 :: "u32 \<Rightarrow> u32" where
  "clamp24 x = (if x > 0xFFFFFF then 0xFFFFFF else x)"

definition total_lost_since :: "ReceiverStream \<Rightarrow> u32" where
  "total_lost_since self =
     (if last_seq_num self = last_report_seq_num self then 0
      else count_lost self (of_int (last_report_seq_num self + 1)) (of_int (last_seq_num self)) 0)"

definition generate_report :: "instant \<Rightarrow> ReceiverStream \<Rightarrow> rtcp_receiver_report \<times> ReceiverStream" where
  "generate_report now self =
     (let total_since_report = (of_int (last_seq_num self - last_report_seq_num self) :: u16);
          total_lost_since_report = total_lost_since self;
          self1 = self\<lparr>total_lost := total_lost self + total_lost_since_report\<rparr>;
          lost = clamp24 total_lost_since_report;
          self2 = self1\<lparr>total_lost := clamp24 (total_lost self1)\<rparr>;
          r = \<lparr>rr_ssrc = receiver_ssrc self2,
               rr_reports = [\<lparr>
                 rep_ssrc = stream_ssrc self2,
                 rep_last_sequence_number =
                   push_bit 16 (ucast (seq_num_cycles self2)) OR of_int (last_seq_num self2),
                 rep_last_sender_report = last_sender_report self2,
                 rep_fraction_lost = ratio_as_u8 (unat (lost * 256)) (unat total_since_report),
                 rep_total_lost = total_lost self2,
                 rep_delay = f64_as_u32 (as_secs_f64 (duration_since now (last_sender_report_time self2)) * 65536),
                 rep_jitter = f64_as_u32 (jitter self2)\<rparr>]\<rparr>
      in (r, self2\<lparr>last_report_seq_num := last_seq_num self2\<rparr>))"

section \<open>Bit-level lemmas\<close>

lemma get_received_bit:
  "get_received s q = bit (packets s ! (packet_pos s q div 64)) (packet_pos s q mod 64)"
  by (simp add: get_received_def Let_def bit_iff_and_push_bit_not_eq_0)

lemma packet_pos_bound: "packets s \<noteq> [] \<Longrightarrow> packet_pos s q div 64 < length (packets s)"
proof -
  assume "packets s \<noteq> []"
  then have "packet_pos s q < length (packets s)" by (simp add: packet_pos_def)
  then show ?thesis by linarith
qed

lemma pos_split: "(a::nat) div 64 = b div 64 \<Longrightarrow> a mod 64 = b mod 64 \<Longrightarrow> a = b"
  by (metis div_mult_mod_eq)

lemma length_packets_set [simp]: "length (packets (set_received q s)) = length (packets s)"
  by (simp add: set_received_def Let_def)

lemma length_packets_del [simp]: "length (packets (del_received q s)) = length (packets s)"
  by (simp add: del_received_def Let_def)

lemma packet_pos_set [simp]: "packet_pos (set_received q s) r = packet_pos s r"
  by (simp add: packet_pos_def)

lemma packet_pos_del [simp]: "packet_pos (del_received q s) r = packet_pos s r"
  by (simp add: packet_pos_def)

lemma get_set_received:
  assumes "packets s \<noteq> []"
  shows "get_received (set_received q s) r \<longleftrightarrow> packet_pos s r = packet_pos s q \<or> get_received s r"
proof -
  let ?w = "\<lambda>x. packet_pos s x div 64" and ?b = "\<lambda>x. packet_pos s x mod 64"
  have "get_received (set_received q s) r =
      bit ((packets s)[?w q := packets s ! ?w q OR push_bit (?b q) 1] ! ?w r) (?b r)"
    by (simp add: get_received_bit) (simp add: set_received_def Let_def)
  also have "\<dots> \<longleftrightarrow> (?w r = ?w q \<and> ?b r = ?b q) \<or> bit (packets s ! ?w r) (?b r)"
    using packet_pos_bound[OF assms, of q]
    by (cases "?w r = ?w q"; cases "?b r = ?b q") (simp_all add: bit_or_iff bit_exp_iff)
  also have "\<dots> \<longleftrightarrow> packet_pos s r = packet_pos s q \<or> get_received s r"
    using pos_split[of "packet_pos s r" "packet_pos s q"] get_received_bit by metis
  finally show ?thesis .
qed

lemma get_del_received:
  assumes "packets s \<noteq> []"
  shows "get_received (del_received q s) r \<longleftrightarrow> packet_pos s r \<noteq> packet_pos s q \<and> get_received s r"
proof -
  let ?w = "\<lambda>x. packet_pos s x div 64" and ?b = "\<lambda>x. packet_pos s x mod 64"
  have "get_received (del_received q s) r =
      bit ((packets s)[?w q := packets s ! ?w q AND (- 1 XOR push_bit (?b q) 1)] ! ?w r) (?b r)"
    by (simp add: get_received_bit) (simp add: del_received_def Let_def)
  also have "\<dots> \<longleftrightarrow> \<not> (?w r = ?w q \<and> ?b r = ?b q) \<and> bit (packets s ! ?w r) (?b r)"
    using packet_pos_bound[OF assms, of q]
    by (cases "?w r = ?w q"; cases "?b r = ?b q") (simp_all add: bit_and_iff bit_not_iff bit_exp_iff)
  also have "\<dots> \<longleftrightarrow> packet_pos s r \<noteq> packet_pos s q \<and> get_received s r"
    using pos_split[of "packet_pos s r" "packet_pos s q"] get_received_bit by metis
  finally show ?thesis .
qed

section \<open>Well-formed streams\<close>

definition stream_wf :: "ReceiverStream \<Rightarrow> bool" where
  "stream_wf s \<longleftrightarrow> length (packets s) = 128
     \<and> 0 \<le> last_seq_num s \<and> last_seq_num s \<le> 65535
     \<and> - 1 \<le> last_report_seq_num s \<and> last_report_seq_num s \<le> 65535
     \<and> total_lost s \<le> 0xFFFFFF"

lemma uint_u16_bounds: "0 \<le> uint (q::u16)" "uint (q::u16) \<le> 65535"
proof -
  have "uint q < 2 ^ 16" using uint_bounded[of q] by simp
  then show "uint q \<le> 65535" by simp
qed simp

text \<open>Setting and clearing bits writes no field but \<open>packets\<close>.\<close>

lemma set_received_frame [simp]:
  "last_seq_num (set_received q s) = last_seq_num s"
  "last_report_seq_num (set_received q s) = last_report_seq_num s"
  "total_lost (set_received q s) = total_lost s"
  "started (set_received q s) = started s"
  by (simp_all add: set_received_def Let_def)

lemma fold_del_frame [simp]:
  "length (packets (fold (\<lambda>i. del_received (f i)) is s)) = length (packets s)"
  "last_seq_num (fold (\<lambda>i. del_received (f i)) is s) = last_seq_num s"
  "last_report_seq_num (fold (\<lambda>i. del_received (f i)) is s) = last_report_seq_num s"
  "total_lost (fold (\<lambda>i. del_received (f i)) is s) = total_lost s"
  "started (fold (\<lambda>i. del_received (f i)) is s) = started s"
  by (induction "is" arbitrary: s) (simp_all add: del_received_def Let_def)

lemma get_fold_del:
  "packets s \<noteq> [] \<Longrightarrow>
   get_received (fold (\<lambda>i. del_received (f i)) is s) r \<longleftrightarrow>
     get_received s r \<and> (\<forall>i\<in>set is. packet_pos s r \<noteq> packet_pos s (f i))"
proof (induction "is" arbitrary: s)
  case Nil
  then show ?case by simp
next
  case (Cons i "is")
  have "packets (del_received (f i) s) \<noteq> []" using Cons.prems by (metis length_0_conv length_packets_del)
  from Cons.IH[OF this] show ?case using get_del_received[OF Cons.prems] by auto
qed

lemma stream_wf_new: "stream_wf (receiver_stream_new r now s rate)"
  by (simp add: stream_wf_def receiver_stream_new_def)

lemma stream_wf_process_rtp: "stream_wf s \<Longrightarrow> stream_wf (process_rtp now p s)"
  using uint_u16_bounds[of "rtp_sequence_number p"]
  by (auto simp: stream_wf_def process_rtp_def Let_def intro: less_le_trans[of _ 0])

lemma stream_wf_process_sender_report: "stream_wf s \<Longrightarrow> stream_wf (process_sender_report now sr s)"
  by (simp add: stream_wf_def process_sender_report_def)

lemma clamp24_le: "clamp24 x \<le> 0xFFFFFF"
  by (simp add: clamp24_def linorder_not_less)

lemma stream_wf_generate_report: "stream_wf s \<Longrightarrow> stream_wf (snd (generate_report now s))"
  by (simp add: stream_wf_def generate_report_def Let_def clamp24_le)

section \<open>Counting losses\<close>

lemma unat_diff_Suc:
  fixes i stop :: u16
  assumes "i \<noteq> stop"
  shows "unat (stop - i) = Suc (unat (stop - (i + 1)))"
proof -
  have "stop - i \<noteq> 0" using assms by simp
  then have "unat (stop - i - 1) = unat (stop - i) - 1" "0 < unat (stop - i)"
    by (simp_all add: unat_minus_one unat_gt_0)
  then show ?thesis by (simp add: diff_diff_eq)
qed

lemma count_lost_eq:
  "unat ret + unat (stop - i) < 2 ^ 32 \<Longrightarrow>
   unat (count_lost s i stop ret) =
     unat ret + length (filter (\<lambda>k. \<not> get_received s (i + of_nat k)) [0..<unat (stop - i)])"
proof (induction s i stop ret rule: count_lost.induct)
  case (1 s i stop ret)
  show ?case
  proof (cases "i = stop")
    case True
    then show ?thesis by (subst count_lost.simps) simp
  next
    case False
    let ?ret = "if \<not> get_received s i then ret + 1 else ret"
    have n: "unat (stop - i) = Suc (unat (stop - (i + 1)))" using unat_diff_Suc[OF False] .
    have "unat ret + 1 < 2 ^ 32" using "1.prems" n by linarith
    then have r1: "unat (ret + 1) = unat ret + 1"
      by (simp add: unat_word_ariths)
    have IH: "unat (count_lost s (i + 1) stop ?ret) = unat ?ret +
        length (filter (\<lambda>k. \<not> get_received s (i + 1 + of_nat k)) [0..<unat (stop - (i + 1))])"
      using "1.IH"[OF False] "1.prems" n r1 by auto
    have shift: "[0..<unat (stop - i)] = 0 # map Suc [0..<unat (stop - (i + 1))]"
      unfolding n by (simp add: upt_conv_Cons map_Suc_upt del: upt_Suc)
    have "length (filter (\<lambda>k. \<not> get_received s (i + of_nat k)) [0..<unat (stop - i)]) =
       (if get_received s i then 0 else 1) +
       length (filter (\<lambda>k. \<not> get_received s (i + 1 + of_nat k)) [0..<unat (stop - (i + 1))])"
      unfolding shift by (simp add: filter_map o_def add.assoc)
    moreover have "count_lost s i stop ret = count_lost s (i + 1) stop ?ret"
      using False by (subst count_lost.simps) simp
    ultimately show ?thesis using IH r1 by simp
  qed
qed

section \<open>In-order runs within the bitmap\<close>

text \<open>The packets of one reporting interval, fed one after the other.\<close>

definition run_rtp :: "(instant \<times> rtp_packet) list \<Rightarrow> ReceiverStream \<Rightarrow> ReceiverStream" where
  "run_rtp ps s = fold (\<lambda>(now, p). process_rtp now p) ps s"

lemma packet_pos_of_int:
  assumes "length (packets s) = 128" "0 \<le> q" "q \<le> 65535"
  shows "packet_pos s (of_int q) = nat q mod 128"
proof -
  have "unat (word_of_int q :: u16) = nat q"
    using assms by (simp add: unat_eq_nat_uint uint_word_of_int)
  then show ?thesis using assms by (simp add: packet_pos_def)
qed

lemma window_pos_inject:
  fixes a b :: int
  assumes "0 \<le> a" "0 \<le> b" "\<bar>a - b\<bar> < 128" "nat a mod 128 = nat b mod 128"
  shows "a = b"
proof -
  have "int (nat a mod 128) = int (nat b mod 128)" using assms(4) by simp
  then have "a mod 128 = b mod 128" using assms(1,2) by (simp add: zmod_int)
  then have "128 dvd a - b" by (simp add: mod_eq_dvd_iff)
  with assms(3) show ?thesis using zdvd_not_zless[of "\<bar>a - b\<bar>" 128] by fastforce
qed

definition window :: "int \<Rightarrow> int list \<Rightarrow> ReceiverStream \<Rightarrow> bool" where
  "window f xs s \<longleftrightarrow> length (packets s) = 128 \<and> started s \<and> xs \<noteq> [] \<and>
     last_report_seq_num s = f - 1 \<and> last_seq_num s = List.last xs \<and>
     (\<forall>q. f \<le> q \<longrightarrow> q \<le> List.last xs \<longrightarrow> (get_received s (of_int q) \<longleftrightarrow> q \<in> set xs))"

lemma get_received_cong: "packets s = packets t \<Longrightarrow> get_received s = get_received t"
  by (rule ext) (simp add: get_received_def packet_pos_def)

lemma process_rtp_first:
  assumes "length (packets s) = 128" "\<not> started s"
  shows "window (uint (rtp_sequence_number p)) [uint (rtp_sequence_number p)] (process_rtp now p s)"
proof -
  let ?n = "rtp_sequence_number p"
  have ne: "packets s \<noteq> []" using assms(1) by auto
  have pk: "packets (process_rtp now p s) = packets (set_received ?n s)"
    using assms(2) by (simp add: process_rtp_def set_received_def packet_pos_def Let_def)
  have "get_received (process_rtp now p s) (of_int q)" if "uint ?n \<le> q" "q \<le> uint ?n" for q
  proof -
    have "q = uint ?n" using that by simp
    then have "of_int q = ?n" by (simp only: word_of_int_uint)
    then show ?thesis using get_received_cong[OF pk] get_set_received[OF ne] by simp
  qed
  then show ?thesis using assms by (auto simp: window_def process_rtp_def Let_def)
qed

definition mark_received :: "u16 \<Rightarrow> ReceiverStream \<Rightarrow> ReceiverStream" where
  "mark_received seq s =
     fold (\<lambda>i. del_received (of_int i)) (missing_range (last_seq_num s) (uint seq)) (set_received seq s)"

lemma process_rtp_forward:
  assumes "started s" "last_seq_num s < uint (rtp_sequence_number p)"
  shows "packets (process_rtp now p s) = packets (mark_received (rtp_sequence_number p) s)"
    "last_seq_num (process_rtp now p s) = uint (rtp_sequence_number p)"
    "last_report_seq_num (process_rtp now p s) = last_report_seq_num s"
    "started (process_rtp now p s)"
  using assms by (simp_all add: process_rtp_def mark_received_def Let_def)

lemma window_step:
  assumes w: "window f xs s" and f: "0 \<le> f"
    and n: "List.last xs < uint (rtp_sequence_number p)" "uint (rtp_sequence_number p) - f < 128"
    and fl: "f \<le> List.last xs" and le: "\<forall>x\<in>set xs. x \<le> List.last xs"
  shows "window f (xs @ [uint (rtp_sequence_number p)]) (process_rtp now p s)"
proof -
  let ?n = "uint (rtp_sequence_number p)"
  let ?s = "process_rtp now p s"
  have len: "length (packets s) = 128" "started s" and lst: "last_seq_num s = List.last xs"
    using w by (simp_all add: window_def)
  note fwd = process_rtp_forward[OF len(2), of p now] 
  have bit: "get_received ?s (of_int q) \<longleftrightarrow> q \<in> set (xs @ [?n])" if q: "f \<le> q" "q \<le> ?n" for q
  proof -
    have pos: "packet_pos s (of_int a) = packet_pos s (of_int b) \<longleftrightarrow> a = b"
      if "f \<le> a" "a \<le> ?n" "f \<le> b" "b \<le> ?n" for a b
      using that n(2) f uint_u16_bounds[of "rtp_sequence_number p"] window_pos_inject[of a b]
      by (auto simp: packet_pos_of_int[OF len(1)])
    have ne: "packets s \<noteq> []" using len(1) by auto
    have ne': "packets (set_received (rtp_sequence_number p) s) \<noteq> []"
      using ne by (metis length_0_conv length_packets_set)
    have posn: "packet_pos s (of_int q) = packet_pos s (rtp_sequence_number p) \<longleftrightarrow> q = ?n"
      using pos[OF q, of ?n] n fl by (simp only: word_of_int_uint)
    have posi: "packet_pos s (of_int q) = packet_pos s (of_int i) \<longleftrightarrow> q = i"
      if "i \<in> {List.last xs + 1..<?n}" for i using pos[OF q, of i] that fl by simp
    have range: "set (missing_range (last_seq_num s) ?n) = {List.last xs + 1..<?n}"
      using lst by (auto simp: missing_range_def)
    have "get_received ?s (of_int q) = get_received (mark_received (rtp_sequence_number p) s) (of_int q)"
      using get_received_cong[OF fwd(1)] n(1) lst by simp
    also have "\<dots> \<longleftrightarrow> (q = ?n \<or> get_received s (of_int q)) \<and> (\<forall>i\<in>{List.last xs + 1..<?n}. q \<noteq> i)"
      unfolding mark_received_def using posn posi ne ne'
      by (subst get_fold_del) (simp_all add: get_set_received range)
    also have "\<dots> \<longleftrightarrow> q \<in> set (xs @ [?n])"
      using w q le n(1) unfolding window_def by (cases "q \<le> List.last xs") force+
    finally show ?thesis .
  qed
  show ?thesis unfolding window_def using bit fwd n(1) w lst
    by (auto simp: window_def mark_received_def)
qed

definition seqs :: "(instant \<times> rtp_packet) list \<Rightarrow> int list" where
  "seqs ps = map (\<lambda>(now, p). uint (rtp_sequence_number p)) ps"

lemma window_run:
  assumes "window f xs s" "0 \<le> f" "f \<le> List.last xs" "\<forall>x\<in>set xs. x \<le> List.last xs"
    "sorted_wrt (<) (List.last xs # seqs ps)" "List.last (List.last xs # seqs ps) - f < 128"
  shows "window f (xs @ seqs ps) (run_rtp ps s)"
  using assms
proof (induction ps arbitrary: xs s)
  case Nil
  then show ?case by (simp add: seqs_def run_rtp_def)
next
  case (Cons tp ps)
  obtain now p where tp: "tp = (now, p)" by fastforce
  let ?n = "uint (rtp_sequence_number p)"
  have seqs: "seqs (tp # ps) = ?n # seqs ps" by (simp add: seqs_def tp)
  have lt: "List.last xs < ?n" and srt: "sorted_wrt (<) (?n # seqs ps)"
    using Cons.prems(5) by (simp_all add: seqs)
  have "?n \<le> List.last (?n # seqs ps)"
    using srt by (auto simp: less_imp_le)
  then have "?n - f < 128" using Cons.prems(6) by (simp add: seqs split: if_splits)
  with Cons.prems lt have w: "window f (xs @ [?n]) (process_rtp now p s)"
    by (intro window_step) auto
  have le: "\<forall>x\<in>set (xs @ [?n]). x \<le> List.last (xs @ [?n])"
    using Cons.prems(4) lt by fastforce
  have "window f ((xs @ [?n]) @ seqs ps) (run_rtp ps (process_rtp now p s))"
    using Cons.IH[OF w Cons.prems(2) _ le] Cons.prems(3,6) lt srt by (auto simp: seqs split: if_splits)
  then show ?case unfolding seqs by (simp add: tp run_rtp_def)
qed

lemma sorted_bounds:
  fixes xs :: "int list"
  assumes "sorted_wrt (<) xs" "xs \<noteq> []"
  shows "set xs \<subseteq> {hd xs..List.last xs}"
proof
  fix x assume "x \<in> set xs"
  then obtain i where i: "i < length xs" "x = xs ! i" by (metis in_set_conv_nth)
  have "sorted xs" using assms(1) by (simp add: strict_sorted_iff)
  then have "xs ! 0 \<le> xs ! i" "xs ! i \<le> xs ! (length xs - 1)" using i(1) by (auto intro: sorted_nth_mono)
  then show "x \<in> {hd xs..List.last xs}" using i assms(2) by (simp add: hd_conv_nth last_conv_nth)
qed

lemma window_report_count:
  assumes w: "window f xs s" and f: "0 \<le> f" "f \<le> List.last xs" "List.last xs \<le> 65535"
    and s: "sorted_wrt (<) xs" and hd: "hd xs = f"
  shows "int (unat (total_lost_since s)) = List.last xs - f + 1 - int (length xs)"
proof -
  let ?l = "List.last xs" and ?n = "nat (List.last xs - f)"
  have ne: "xs \<noteq> []" using w by (simp add: window_def)
  have len: "unat (of_int ?l - of_int f :: u16) = ?n"
    using f by (simp add: unat_eq_nat_uint uint_word_of_int flip: of_int_diff)
  have tl: "total_lost_since s = count_lost s (of_int f) (of_int ?l) 0"
    using w f by (simp add: window_def total_lost_since_def)
  have get: "get_received s (of_int f + of_nat k) \<longleftrightarrow> f + int k \<in> set xs" if "k < ?n" for k
  proof -
    have "f \<le> f + int k" "f + int k \<le> ?l" using that by auto
    then have "get_received s (of_int (f + int k)) \<longleftrightarrow> f + int k \<in> set xs"
      using w unfolding window_def by blast
    then show ?thesis by simp
  qed
  have "unat (total_lost_since s) =
      length (filter (\<lambda>k. \<not> get_received s (of_int f + of_nat k)) [0..<?n])"
    unfolding tl using f by (subst count_lost_eq) (simp_all add: len)
  also have "\<dots> = card {k. k < ?n \<and> f + int k \<notin> set xs}"
    using get by (subst distinct_card[symmetric]) (auto intro!: arg_cong[of _ _ card])
  also have "\<dots> = card ((\<lambda>k. f + int k) ` {k. k < ?n \<and> f + int k \<notin> set xs})"
    by (rule card_image[symmetric]) (simp add: inj_on_def)
  also have "(\<lambda>k. f + int k) ` {k. k < ?n \<and> f + int k \<notin> set xs} = {f..<?l} - set xs"
  proof (intro equalityI subsetI)
    fix q assume "q \<in> {f..<?l} - set xs"
    then have "q = f + int (nat (q - f))" "nat (q - f) < ?n" "f + int (nat (q - f)) \<notin> set xs" by auto
    then show "q \<in> (\<lambda>k. f + int k) ` {k. k < ?n \<and> f + int k \<notin> set xs}" by blast
  qed auto
  also have "card ({f..<?l} - set xs) = card ({f..?l} - set xs)"
    using ne by (intro arg_cong[of _ _ card]) (auto simp: order_le_less)
  also have "\<dots> = card {f..?l} - card (set xs)"
    using sorted_bounds[OF s ne] hd by (intro card_Diff_subset) auto
  also have "card (set xs) = length xs"
    using s by (simp add: distinct_card strict_sorted_iff)
  finally have eq: "unat (total_lost_since s) = nat (?l - f + 1) - length xs" by simp
  have "card (set xs) \<le> card {f..?l}" using sorted_bounds[OF s ne] hd by (intro card_mono) auto
  then have "length xs \<le> nat (?l - f + 1)"
    using s by (simp add: distinct_card strict_sorted_iff)
  with eq f show ?thesis by linarith
qed


text \<open>The one reception report of the packet that \<open>generate_report\<close> returns.\<close>

definition report_block :: "instant \<Rightarrow> ReceiverStream \<Rightarrow> reception_report" where
  "report_block now s = hd (rr_reports (fst (generate_report now s)))"

lemma total_lost_since_eq:
  "unat (total_lost_since s) =
     (if last_seq_num s = last_report_seq_num s then 0
      else length (filter (\<lambda>k. \<not> get_received s (of_int (last_report_seq_num s + 1) + of_nat k))
             [0..<unat (of_int (last_seq_num s) - of_int (last_report_seq_num s + 1) :: u16)]))"
proof -
  have "unat (x::u16) < 2 ^ 16" for x using unsigned_less[of x] by simp
  then have "unat (x::u16) < 2 ^ 32" for x by (rule less_trans) simp
  then show ?thesis unfolding total_lost_since_def
    using count_lost_eq[of 0 "of_int (last_seq_num s)" "of_int (last_report_seq_num s + 1)" s] by simp
qed

lemma total_lost_since_bound: "unat (total_lost_since s) < 65536"
proof -
  have "length (filter P [0..<unat x]) < 65536" for P and x :: u16
    using unsigned_less[of x] by (intro le_less_trans[OF length_filter_le]) simp
  then show ?thesis unfolding total_lost_since_eq by (auto split: if_splits)
qed

lemma clamp24_small: "unat x \<le> 0xFFFFFF \<Longrightarrow> clamp24 x = x"
  by (simp add: clamp24_def word_less_nat_alt)

lemma clamp24_unat: "unat (clamp24 x) = min 0xFFFFFF (unat x)"
  by (simp add: clamp24_def word_less_nat_alt min_def)

lemma report_total_lost:
  assumes "stream_wf s"
  shows "unat (rep_total_lost (report_block now s)) = min 0xFFFFFF (unat (total_lost s) + unat (total_lost_since s))"
proof -
  have "unat (total_lost s) \<le> 0xFFFFFF" using assms by (simp add: stream_wf_def word_le_nat_alt)
  then have "unat (total_lost s + total_lost_since s) = unat (total_lost s) + unat (total_lost_since s)"
    using total_lost_since_bound[of s] by (simp add: unat_word_ariths)
  then show ?thesis by (simp add: report_block_def generate_report_def Let_def clamp24_unat)
qed


lemma run_rtp_window:
  assumes "ps \<noteq> []" "sorted_wrt (<) (seqs ps)" "List.last (seqs ps) - hd (seqs ps) < 128"
  shows "window (hd (seqs ps)) (seqs ps) (run_rtp ps (receiver_stream_new r t0 ssrc rate))"
proof -
  obtain t p ps' where ps: "ps = (t, p) # ps'" using assms(1) by (cases ps) auto
  let ?s0 = "receiver_stream_new r t0 ssrc rate" and ?n = "uint (rtp_sequence_number p)"
  have hd: "seqs ps = ?n # seqs ps'" by (simp add: ps seqs_def)
  have w: "window ?n [?n] (process_rtp t p ?s0)"
    by (rule process_rtp_first) (simp_all add: receiver_stream_new_def)
  have "window ?n ([?n] @ seqs ps') (run_rtp ps' (process_rtp t p ?s0))"
    by (rule window_run[OF w]) (use assms(2,3) in \<open>simp_all add: hd\<close>)
  then show ?thesis unfolding hd by (simp add: ps run_rtp_def)
qed

lemma stream_wf_run: "stream_wf s \<Longrightarrow> stream_wf (run_rtp ps s)"
  unfolding run_rtp_def
  by (induction ps arbitrary: s) (auto intro: stream_wf_process_rtp)

lemma total_lost_run: "total_lost (run_rtp ps s) = total_lost s"
  unfolding run_rtp_def
  by (induction ps arbitrary: s) (auto simp: process_rtp_def Let_def)

lemma ratio_as_u8_below:
  assumes "a < b" "b > 0"
  shows "unat (ratio_as_u8 (a * 256) b) = a * 256 div b"
proof -
  have "a * 256 div b < 256" using assms by (simp add: div_less_iff_less_mult)
  then show ?thesis using assms(2) by (auto simp: ratio_as_u8_def unat_of_nat)
qed

lemma report_fraction_lost:
  "rep_fraction_lost (report_block now s) =
     ratio_as_u8 (unat (total_lost_since s) * 256) (unat (of_int (last_seq_num s - last_report_seq_num s) :: u16))"
proof -
  have "unat (clamp24 (total_lost_since s) * 256) = unat (total_lost_since s) * 256"
    using total_lost_since_bound[of s] by (simp add: clamp24_small unat_word_ariths)
  then show ?thesis by (simp add: report_block_def generate_report_def Let_def)
qed

text \<open>The number of sequence numbers from the first to the last packet of a run.\<close>

definition seq_span :: "(instant \<times> rtp_packet) list \<Rightarrow> int" where
  "seq_span ps = List.last (seqs ps) - hd (seqs ps) + 1"

text \<open>A packet with a given sequence number.\<close>

definition sample_packet :: "u16 \<Rightarrow> rtp_packet" where
  "sample_packet q = \<lparr>rtp_ssrc = 2, rtp_sequence_number = q, rtp_timestamp = 0, rtp_rest_of = undefined\<rparr>"

text \<open>
  C11: A stream that receives, from its first packet on, packets with strictly increasing sequence
  numbers spanning at most 128 values reports as lost exactly the packets missing from that
  span, and as fraction lost the missing share of the span in 256ths, rounded down.
\<close>

theorem report_counts_losses_in_order:
  assumes ps: "ps \<noteq> []" and inc: "sorted_wrt (<) (seqs ps)" and short: "seq_span ps \<le> 128"
  shows "uint (rep_total_lost (report_block now (run_rtp ps (receiver_stream_new r t0 ssrc rate)))) =
      seq_span ps - int (length ps)
    \<and> uint (rep_fraction_lost (report_block now (run_rtp ps (receiver_stream_new r t0 ssrc rate)))) =
      (seq_span ps - int (length ps)) * 256 div seq_span ps"
proof -
  let ?s = "run_rtp ps (receiver_stream_new r t0 ssrc rate)"
  have ne: "seqs ps \<noteq> []" and len: "length (seqs ps) = length ps" using ps by (simp_all add: seqs_def)
  have w: "window (hd (seqs ps)) (seqs ps) ?s"
    using run_rtp_window[OF ps inc] short by (simp add: seq_span_def)
  have rng: "x \<in> set (seqs ps) \<Longrightarrow> 0 \<le> x \<and> x \<le> 65535" for x
    using uint_u16_bounds by (auto simp: seqs_def)
  have le: "hd (seqs ps) \<le> List.last (seqs ps)" 
    using sorted_bounds[OF inc ne] hd_in_set[OF ne] by auto
  then have pos: "0 < seq_span ps" by (simp add: seq_span_def)
  have lost: "int (unat (total_lost_since ?s)) = seq_span ps - int (length ps)"
    using window_report_count[OF w _ le _ inc] rng[of "hd (seqs ps)"] rng[of "List.last (seqs ps)"] ne len
    by (simp add: seq_span_def)
  have "total_lost ?s = 0" by (simp add: total_lost_run receiver_stream_new_def)
  then have total: "rep_total_lost (report_block now ?s) = total_lost_since ?s"
    using report_total_lost[OF stream_wf_run[OF stream_wf_new]] total_lost_since_bound[of ?s]
    by (simp add: word_unat_eq_iff)
  have "last_seq_num ?s - last_report_seq_num ?s = seq_span ps"
    using w by (simp add: window_def seq_span_def)
  moreover have "unat (of_int (seq_span ps) :: u16) = nat (seq_span ps)"
    using pos short by (simp add: unat_eq_nat_uint uint_word_of_int)
  moreover have "int (unat (total_lost_since ?s)) < seq_span ps"
    using lost length_greater_0_conv[of ps] ps by linarith
  then have "unat (total_lost_since ?s) < nat (seq_span ps)" by (simp only: zless_nat_eq_int_zless)
  ultimately have "unat (rep_fraction_lost (report_block now ?s)) =
      unat (total_lost_since ?s) * 256 div nat (seq_span ps)"
    using pos by (simp add: report_fraction_lost ratio_as_u8_below)
  then have "int (unat (rep_fraction_lost (report_block now ?s))) =
      int (unat (total_lost_since ?s)) * 256 div seq_span ps" using pos by (simp add: zdiv_int)
  with total lost show ?thesis by simp
qed

theorem report_counts_losses_in_order_witness:
  "uint (rep_total_lost (report_block 0 (run_rtp [(0, sample_packet 5), (0, sample_packet 8)]
       (receiver_stream_new 1 0 2 90000)))) = 2
   \<and> uint (rep_fraction_lost (report_block 0 (run_rtp [(0, sample_packet 5), (0, sample_packet 8)]
       (receiver_stream_new 1 0 2 90000)))) = 128"
  using report_counts_losses_in_order[of "[(0, sample_packet 5), (0, sample_packet 8)]" 0 1 0 2 90000]
  by (simp add: seqs_def seq_span_def sample_packet_def)

text \<open>
  The report of a well-formed stream states the running total of lost packets, saturated at the
  24 bits of the wire format: the previous total plus the sequence numbers, walked from the one
  after the last report up to the last received one with wrap-around, whose bit is clear.
\<close>

theorem report_total_lost_saturates:
  assumes "stream_wf s" "last_seq_num s \<noteq> last_report_seq_num s"
  shows "unat (rep_total_lost (report_block now s)) = min 0xFFFFFF (unat (total_lost s) +
    length (filter (\<lambda>k. \<not> get_received s (of_int (last_report_seq_num s + 1) + of_nat k))
      [0..<unat (of_int (last_seq_num s) - of_int (last_report_seq_num s + 1) :: u16)]))"
  using assms by (simp add: report_total_lost total_lost_since_eq)

theorem report_total_lost_saturates_witness:
  "unat (rep_total_lost (report_block 0 ((receiver_stream_new 1 0 2 90000)\<lparr>last_seq_num := 3, total_lost := 0xFFFFFE\<rparr>)))
     = 0xFFFFFF"
  using report_total_lost_saturates
    [of "(receiver_stream_new 1 0 2 90000)\<lparr>last_seq_num := 3, total_lost := 0xFFFFFE\<rparr>" 0]
  by (simp add: stream_wf_def receiver_stream_new_def get_received_def packet_pos_def upt_rec)

text \<open>
  Two sequence numbers that agree modulo 128 share one bit of the history, although the history
  has room for 8192: receiving a packet marks as received every packet 128 numbers away from it.
\<close>

theorem set_received_aliases:
  assumes "stream_wf s"
  shows "get_received (set_received q s) r \<longleftrightarrow> unat r mod 128 = unat q mod 128 \<or> get_received s r"
proof -
  have len: "length (packets s) = 128" using assms by (simp add: stream_wf_def)
  then have "packets s \<noteq> []" by auto
  from get_set_received[OF this] show ?thesis by (simp add: packet_pos_def len)
qed

theorem set_received_aliases_witness:
  "get_received (set_received 10 (receiver_stream_new 1 0 2 90000)) 138"
  using set_received_aliases[OF stream_wf_new[of 1 0 2 90000], of 10 138] by simp

text \<open>
  Every operation of a receiver stream keeps it well formed: the history keeps its length, the
  sequence numbers stay in the range of a 16-bit integer and the total of lost packets within 24 bits.
\<close>

theorem stream_operations_keep_wf:
  "stream_wf (receiver_stream_new r t0 ssrc rate) \<and>
   (stream_wf s \<longrightarrow> stream_wf (process_rtp now p s) \<and> stream_wf (process_sender_report now sr s) \<and>
      stream_wf (snd (generate_report now s)))"
  by (simp add: stream_wf_new stream_wf_process_rtp stream_wf_process_sender_report stream_wf_generate_report)
theorem stream_operations_keep_wf_witness:
  "stream_wf (snd (generate_report 7 (receiver_stream_new 1 0 2 90000)))
   \<and> stream_wf (process_rtp 7 (sample_packet 3) (receiver_stream_new 1 0 2 90000))"
  using stream_operations_keep_wf[of 1 0 2 90000 "receiver_stream_new 1 0 2 90000" 7 "sample_packet 3"]
  by blast

end
