(* ===== verification/Interceptor.thy ===== *)
theory Interceptor
  imports Receiver_Stream Hash_Map
begin

text \<open>
  \<open>src/interceptors/mod.rs\<close>, \<open>report/mod.rs\<close>, \<open>report/receiver_report.rs\<close> and
  \<open>report/sender_report.rs\<close>: the chain of interceptors of an endpoint, the registry that
  builds it and the two interceptors of the program. A trait object is a
  constructor of \<open>interceptor\<close>; the optional \<open>next\<close> is the rest of the chain.

  \<open>packet_type_of\<close> stands for \<open>rtcp_packet.header().packet_type\<close> of the \<open>rtcp\<close> crate.
\<close>

section \<open>Interceptors\<close>

datatype InterceptorEvent =
    Inbound TaggedMessageEvent
  | Outbound TaggedMessageEvent
  | ErrorEvent error

record ReceiverReport =
  interval :: duration
  eto :: instant
  streams :: "(u32, ReceiverStream) hashmap"

datatype interceptor =
    NoOp
  | SenderReport "interceptor option"
  | ReceiverReport ReceiverReport "interceptor option"

type_synonym packet_types = "rtcp_packet \<Rightarrow> packet_type"

fun chain :: "interceptor \<Rightarrow> interceptor \<Rightarrow> interceptor" where
  "chain NoOp _ = NoOp"
| "chain (SenderReport _) nxt = SenderReport (Some nxt)"
| "chain (ReceiverReport self _) nxt = ReceiverReport self (Some nxt)"

fun next_interceptor :: "interceptor \<Rightarrow> interceptor option" where
  "next_interceptor NoOp = None"
| "next_interceptor (SenderReport nxt) = nxt"
| "next_interceptor (ReceiverReport _ nxt) = nxt"

section \<open>Receiver reports\<close>

definition process_sender_reports ::
  "instant \<Rightarrow> rtcp_packet list \<Rightarrow> (u32, ReceiverStream) hashmap \<Rightarrow> (u32, ReceiverStream) hashmap" where
  "process_sender_reports now rtcp_packets strs =
     fold (\<lambda>rtcp_packet strs.
        case rtcp_packet of
          RtcpSenderReport sr \<Rightarrow> hm_modify (sr_ssrc sr) (process_sender_report now sr) strs
        | _ \<Rightarrow> strs) rtcp_packets strs"

definition receiver_report_read :: "TaggedMessageEvent \<Rightarrow> ReceiverReport \<Rightarrow> ReceiverReport" where
  "receiver_report_read msg self =
     (case msg_message msg of
        Rtp (RtcpPackets rtcp_packets) \<Rightarrow>
          self\<lparr>streams := process_sender_reports (msg_now msg) rtcp_packets (streams self)\<rparr>
      | Rtp (RtpPacket rtp_packet) \<Rightarrow>
          self\<lparr>streams := hm_modify (rtp_ssrc rtp_packet) (process_rtp (msg_now msg) rtp_packet) (streams self)\<rparr>
      | _ \<Rightarrow> self)"

definition report_to :: "instant \<Rightarrow> rtcp_receiver_report \<Rightarrow> FourTuple \<Rightarrow> InterceptorEvent" where
  "report_to now rr four_tuple =
     Outbound \<lparr>msg_now = now,
       msg_transport = \<lparr>ctx_local_addr = local_addr four_tuple, ctx_peer_addr = peer_addr four_tuple, ecn = None\<rparr>,
       msg_message = Rtp (RtcpPackets [RtcpReceiverReport rr])\<rparr>"

definition receiver_report_timeout ::
  "instant \<Rightarrow> FourTuple list \<Rightarrow> ReceiverReport \<Rightarrow> InterceptorEvent list \<times> ReceiverReport" where
  "receiver_report_timeout now four_tuples self =
     (if eto self \<le> now then
        (concat (map (\<lambda>(_, stream). map (report_to now (fst (generate_report now stream))) four_tuples) (streams self)),
         self\<lparr>eto := now + int (interval self),
              streams := map (\<lambda>(k, stream). (k, snd (generate_report now stream))) (streams self)\<rparr>)
      else ([], self))"

section \<open>Sender reports\<close>

definition hop_by_hop :: "packet_types \<Rightarrow> rtcp_packet \<Rightarrow> bool" where
  "hop_by_hop packet_type_of rtcp_packet =
     (packet_type_of rtcp_packet = PtReceiverReport \<or>
      packet_type_of rtcp_packet = PtTransportSpecificFeedback)"

definition sender_report_read :: "packet_types \<Rightarrow> TaggedMessageEvent \<Rightarrow> InterceptorEvent list" where
  "sender_report_read packet_type_of msg =
     (case msg_message msg of
        Rtp (RtcpPackets rtcp_packets) \<Rightarrow>
          (let inbound_rtcp_packets = filter (\<lambda>p. \<not> hop_by_hop packet_type_of p) rtcp_packets
           in if inbound_rtcp_packets \<noteq> [] then
                [Inbound \<lparr>msg_now = msg_now msg, msg_transport = msg_transport msg,
                          msg_message = Rtp (RtcpPackets inbound_rtcp_packets)\<rparr>]
              else [])
      | _ \<Rightarrow> [])"

section \<open>The chain\<close>

fun interceptor_read ::
  "packet_types \<Rightarrow> TaggedMessageEvent \<Rightarrow> interceptor \<Rightarrow> InterceptorEvent list \<times> interceptor" where
  "interceptor_read pt msg NoOp = ([], NoOp)"
| "interceptor_read pt msg (SenderReport None) = (sender_report_read pt msg, SenderReport None)"
| "interceptor_read pt msg (SenderReport (Some nxt)) =
     (let (events, nxt') = interceptor_read pt msg nxt
      in (sender_report_read pt msg @ events, SenderReport (Some nxt')))"
| "interceptor_read pt msg (ReceiverReport self None) = ([], ReceiverReport (receiver_report_read msg self) None)"
| "interceptor_read pt msg (ReceiverReport self (Some nxt)) =
     (let (events, nxt') = interceptor_read pt msg nxt
      in (events, ReceiverReport (receiver_report_read msg self) (Some nxt')))"

text \<open>No interceptor of the program overrides \<open>write\<close>.\<close>

fun interceptor_write :: "TaggedMessageEvent \<Rightarrow> interceptor \<Rightarrow> InterceptorEvent list \<times> interceptor" where
  "interceptor_write msg NoOp = ([], NoOp)"
| "interceptor_write msg (SenderReport None) = ([], SenderReport None)"
| "interceptor_write msg (SenderReport (Some nxt)) =
     (let (events, nxt') = interceptor_write msg nxt in (events, SenderReport (Some nxt')))"
| "interceptor_write msg (ReceiverReport self None) = ([], ReceiverReport self None)"
| "interceptor_write msg (ReceiverReport self (Some nxt)) =
     (let (events, nxt') = interceptor_write msg nxt in (events, ReceiverReport self (Some nxt')))"

fun interceptor_handle_timeout ::
  "instant \<Rightarrow> FourTuple list \<Rightarrow> interceptor \<Rightarrow> InterceptorEvent list \<times> interceptor" where
  "interceptor_handle_timeout now fts NoOp = ([], NoOp)"
| "interceptor_handle_timeout now fts (SenderReport None) = ([], SenderReport None)"
| "interceptor_handle_timeout now fts (SenderReport (Some nxt)) =
     (let (events, nxt') = interceptor_handle_timeout now fts nxt in (events, SenderReport (Some nxt')))"
| "interceptor_handle_timeout now fts (ReceiverReport self None) =
     (let (events, self') = receiver_report_timeout now fts self in (events, ReceiverReport self' None))"
| "interceptor_handle_timeout now fts (ReceiverReport self (Some nxt)) =
     (let (events, self') = receiver_report_timeout now fts self;
          (events', nxt') = interceptor_handle_timeout now fts nxt
      in (events @ events', ReceiverReport self' (Some nxt')))"

fun interceptor_poll_timeout :: "interceptor \<Rightarrow> instant \<Rightarrow> instant" where
  "interceptor_poll_timeout NoOp t = t"
| "interceptor_poll_timeout (SenderReport None) t = t"
| "interceptor_poll_timeout (SenderReport (Some nxt)) t = interceptor_poll_timeout nxt t"
| "interceptor_poll_timeout (ReceiverReport self None) t = (if eto self < t then eto self else t)"
| "interceptor_poll_timeout (ReceiverReport self (Some nxt)) t =
     interceptor_poll_timeout nxt (if eto self < t then eto self else t)"

section \<open>Builders and the registry\<close>

record ReportBuilder =
  is_rr :: bool
  builder_interval :: "duration option"

definition with_interval :: "duration \<Rightarrow> ReportBuilder \<Rightarrow> ReportBuilder" where
  "with_interval i self = self\<lparr>builder_interval := Some i\<rparr>"

definition receiver_report_builder :: ReportBuilder where
  "receiver_report_builder = \<lparr>is_rr = True, builder_interval = None\<rparr>"

definition sender_report_builder :: ReportBuilder where
  "sender_report_builder = \<lparr>is_rr = False, builder_interval = None\<rparr>"

text \<open>\<open>Instant::now()\<close> is the argument \<open>now\<close>; one second is \<open>10 ^ 9\<close> nanoseconds.\<close>

definition build_rr :: "instant \<Rightarrow> ReportBuilder \<Rightarrow> interceptor" where
  "build_rr now self =
     ReceiverReport \<lparr>interval = (case builder_interval self of Some i \<Rightarrow> i | None \<Rightarrow> 10 ^ 9),
                     eto = now, streams = []\<rparr> None"

definition build_sr :: "ReportBuilder \<Rightarrow> interceptor" where
  "build_sr self = SenderReport None"

definition builder_build :: "instant \<Rightarrow> ReportBuilder \<Rightarrow> interceptor" where
  "builder_build now self = (if is_rr self then build_rr now self else build_sr self)"

text \<open>A registry is its list of builders; \<open>clock i\<close> is the clock reading of the \<open>i\<close>-th build.\<close>

type_synonym Registry = "ReportBuilder list"

definition registry_add :: "ReportBuilder \<Rightarrow> Registry \<Rightarrow> Registry" where
  "registry_add builder self = self @ [builder]"

definition registry_build :: "(nat \<Rightarrow> instant) \<Rightarrow> Registry \<Rightarrow> interceptor" where
  "registry_build clock self =
     fold (\<lambda>(i, b) nxt. chain (builder_build (clock i) b) nxt) (enumerate 0 (rev self)) NoOp"

section \<open>Reading a chain as a list of stages\<close>

fun chain_kinds :: "interceptor \<Rightarrow> bool list" where
  "chain_kinds NoOp = []"
| "chain_kinds (SenderReport None) = [False]"
| "chain_kinds (SenderReport (Some nxt)) = False # chain_kinds nxt"
| "chain_kinds (ReceiverReport self None) = [True]"
| "chain_kinds (ReceiverReport self (Some nxt)) = True # chain_kinds nxt"

fun receiver_reports :: "interceptor \<Rightarrow> ReceiverReport list" where
  "receiver_reports NoOp = []"
| "receiver_reports (SenderReport None) = []"
| "receiver_reports (SenderReport (Some nxt)) = receiver_reports nxt"
| "receiver_reports (ReceiverReport self None) = [self]"
| "receiver_reports (ReceiverReport self (Some nxt)) = self # receiver_reports nxt"

definition sender_stages :: "interceptor \<Rightarrow> nat" where
  "sender_stages i = length (filter Not (chain_kinds i))"

lemma sender_stages_simps [simp]:
  "sender_stages NoOp = 0"
  "sender_stages (SenderReport None) = 1"
  "sender_stages (SenderReport (Some nxt)) = Suc (sender_stages nxt)"
  "sender_stages (ReceiverReport self None) = 0"
  "sender_stages (ReceiverReport self (Some nxt)) = sender_stages nxt"
  by (simp_all add: sender_stages_def)

lemma read_events:
  "fst (interceptor_read pt msg i) = concat (replicate (sender_stages i) (sender_report_read pt msg))"
  by (induction pt msg i rule: interceptor_read.induct) (auto split: prod.splits)

lemma read_stages:
  "chain_kinds (snd (interceptor_read pt msg i)) = chain_kinds i"
  "receiver_reports (snd (interceptor_read pt msg i)) = map (receiver_report_read msg) (receiver_reports i)"
  by (induction pt msg i rule: interceptor_read.induct) (auto split: prod.splits)

lemma write_identity: "interceptor_write msg i = ([], i)"
  by (induction msg i rule: interceptor_write.induct) auto

lemma timeout_events:
  "fst (interceptor_handle_timeout now fts i) =
     concat (map (\<lambda>r. fst (receiver_report_timeout now fts r)) (receiver_reports i))"
  by (induction now fts i rule: interceptor_handle_timeout.induct) (auto split: prod.splits)

lemma timeout_stages:
  "chain_kinds (snd (interceptor_handle_timeout now fts i)) = chain_kinds i"
  "receiver_reports (snd (interceptor_handle_timeout now fts i)) =
     map (\<lambda>r. snd (receiver_report_timeout now fts r)) (receiver_reports i)"
  by (induction now fts i rule: interceptor_handle_timeout.induct) (auto split: prod.splits)

lemma poll_timeout_fold:
  "interceptor_poll_timeout i t = fold (\<lambda>r. min (eto r)) (receiver_reports i) t"
  by (induction i t rule: interceptor_poll_timeout.induct) (auto simp: min_def)

lemma fold_min_less:
  fixes now :: int
  shows "now < fold (\<lambda>r. min (f r)) rs t \<longleftrightarrow> now < t \<and> (\<forall>r\<in>set rs. now < f r)"
  by (induction rs arbitrary: t) auto

lemma chain_kinds_chain: "chain_kinds (chain (builder_build now b) nxt) = is_rr b # chain_kinds nxt"
  by (simp add: builder_build_def build_rr_def build_sr_def)

lemma receiver_reports_chain:
  "set (receiver_reports (chain (builder_build now b) nxt)) \<subseteq>
     insert \<lparr>interval = (case builder_interval b of Some i \<Rightarrow> i | None \<Rightarrow> 10 ^ 9), eto = now, streams = []\<rparr>
       (set (receiver_reports nxt))"
  by (auto simp: builder_build_def build_rr_def build_sr_def)

lemma fold_build_kinds:
  "chain_kinds (fold (\<lambda>(i, b) nxt. chain (builder_build (clock i) b) nxt) (enumerate n bs) nxt) =
     rev (map is_rr bs) @ chain_kinds nxt"
  by (induction bs arbitrary: n nxt) (simp_all add: chain_kinds_chain)

lemma fold_build_streams:
  "\<forall>r\<in>set (receiver_reports nxt). streams r = [] \<Longrightarrow>
   r \<in> set (receiver_reports (fold (\<lambda>(i, b) nxt. chain (builder_build (clock i) b) nxt) (enumerate n bs) nxt)) \<Longrightarrow>
   streams r = []"
proof (induction bs arbitrary: n nxt)
  case (Cons b bs)
  have "\<forall>r\<in>set (receiver_reports (chain (builder_build (clock n) b) nxt)). streams r = []"
    using receiver_reports_chain[of "clock n" b nxt] Cons.prems(1) by fastforce
  from Cons.IH[OF this] Cons.prems(2) show ?case by simp
qed simp

section \<open>What a client may rely on\<close>

definition streams_wf :: "(u32, ReceiverStream) hashmap \<Rightarrow> bool" where
  "streams_wf m \<longleftrightarrow> hm_wf m \<and> (\<forall>s\<in>set (hm_values m). stream_wf s)"

definition interceptor_wf :: "interceptor \<Rightarrow> bool" where
  "interceptor_wf i \<longleftrightarrow> (\<forall>r\<in>set (receiver_reports i). streams_wf (streams r))"

text \<open>
  The contract the pipeline handler relies on: reading a message yields no
  events but inbound copies of it that carry some of its RTCP packets, a
  timeout yields no events but reports to the four tuples it was given, and
  both keep the interceptor well formed.
\<close>

locale interceptor_contract =
  fixes wf :: "'i \<Rightarrow> bool"
    and rd :: "TaggedMessageEvent \<Rightarrow> 'i \<Rightarrow> InterceptorEvent list \<times> 'i"
    and tick :: "instant \<Rightarrow> FourTuple list \<Rightarrow> 'i \<Rightarrow> InterceptorEvent list \<times> 'i"
    and fwd :: "rtcp_packet \<Rightarrow> bool"
  assumes rd_wf: "wf i \<Longrightarrow> wf (snd (rd msg i))"
    and tick_wf: "wf i \<Longrightarrow> wf (snd (tick now fts i))"
    and rd_events: "ev \<in> set (fst (rd msg i)) \<Longrightarrow>
      \<exists>ps. msg_message msg = Rtp (RtcpPackets ps) \<and> filter fwd ps \<noteq> [] \<and>
        ev = Inbound (msg\<lparr>msg_message := Rtp (RtcpPackets (filter fwd ps))\<rparr>)"
    and tick_events: "ev \<in> set (fst (tick now fts i)) \<Longrightarrow> \<exists>ft\<in>set fts. \<exists>rr. ev = report_to now rr ft"
begin

lemma rd_no_outbound: "Outbound m \<notin> set (fst (rd msg i))"
  using rd_events by blast

lemma rd_no_error: "ErrorEvent e \<notin> set (fst (rd msg i))"
  using rd_events by blast

lemma rd_rtp_silent: "msg_message msg = Rtp (RtpPacket p) \<Longrightarrow> fst (rd msg i) = []"
  using rd_events[of _ msg i] by (cases "fst (rd msg i)") (simp, fastforce)

lemma rd_inbound_packets:
  "Inbound m \<in> set (fst (rd msg i)) \<Longrightarrow>
   msg_transport m = msg_transport msg \<and> msg_now m = msg_now msg \<and>
   (\<exists>ps qs. msg_message msg = Rtp (RtcpPackets ps) \<and> msg_message m = Rtp (RtcpPackets qs) \<and> qs \<noteq> [] \<and>
      set qs \<subseteq> set ps \<and> (\<forall>q\<in>set qs. fwd q))"
  using rd_events[of "Inbound m" msg i] by auto

lemma tick_no_inbound: "Inbound m \<notin> set (fst (tick now fts i))"
  using tick_events[of "Inbound m" now fts i] by (auto simp: report_to_def)

lemma tick_no_error: "ErrorEvent e \<notin> set (fst (tick now fts i))"
  using tick_events[of "ErrorEvent e" now fts i] by (auto simp: report_to_def)

lemma tick_no_transport: "fst (tick now [] i) = []"
  using tick_events[of _ now "[]" i] by (cases "fst (tick now [] i)") (simp, fastforce)

end

lemma streams_wf_modify:
  "streams_wf m \<Longrightarrow> (\<And>s. stream_wf s \<Longrightarrow> stream_wf (f s)) \<Longrightarrow> streams_wf (hm_modify k f m)"
  by (auto simp: streams_wf_def hm_values_def hm_modify_def hm_wf_def o_def case_prod_unfold)

lemma streams_wf_process_sender_reports: "streams_wf m \<Longrightarrow> streams_wf (process_sender_reports now ps m)"
  unfolding process_sender_reports_def
proof (induction ps arbitrary: m)
  case (Cons p ps)
  then have "streams_wf (case p of
      RtcpSenderReport sr \<Rightarrow> hm_modify (sr_ssrc sr) (process_sender_report now sr) m | _ \<Rightarrow> m)"
    by (cases p) (auto intro: streams_wf_modify stream_wf_process_sender_report)
  with Cons.IH show ?case by simp
qed simp

lemma receiver_report_read_wf: "streams_wf (streams r) \<Longrightarrow> streams_wf (streams (receiver_report_read msg r))"
  by (auto simp: receiver_report_read_def split: MessageEvent.splits RTPMessageEvent.splits
      intro: streams_wf_modify streams_wf_process_sender_reports stream_wf_process_rtp)

lemma receiver_report_timeout_wf:
  "streams_wf (streams r) \<Longrightarrow> streams_wf (streams (snd (receiver_report_timeout now fts r)))"
  by (auto simp: receiver_report_timeout_def streams_wf_def hm_wf_def hm_values_def o_def case_prod_unfold
      intro: stream_wf_generate_report)

lemma sender_report_read_events:
  "ev \<in> set (sender_report_read pt msg) \<longleftrightarrow>
     (\<exists>ps. msg_message msg = Rtp (RtcpPackets ps) \<and> filter (\<lambda>p. \<not> hop_by_hop pt p) ps \<noteq> [] \<and>
        ev = Inbound (msg\<lparr>msg_message := Rtp (RtcpPackets (filter (\<lambda>p. \<not> hop_by_hop pt p) ps))\<rparr>))"
  by (cases msg) (auto simp: sender_report_read_def Let_def split: MessageEvent.splits RTPMessageEvent.splits)

interpretation ic: interceptor_contract interceptor_wf "interceptor_read pt" interceptor_handle_timeout
    "\<lambda>p. \<not> hop_by_hop pt p" for pt
proof unfold_locales
  fix i msg assume "interceptor_wf i"
  then show "interceptor_wf (snd (interceptor_read pt msg i))"
    by (simp add: interceptor_wf_def read_stages receiver_report_read_wf)
next
  fix i now fts assume "interceptor_wf i"
  then show "interceptor_wf (snd (interceptor_handle_timeout now fts i))"
    by (simp add: interceptor_wf_def timeout_stages receiver_report_timeout_wf)
next
  fix ev msg i assume "ev \<in> set (fst (interceptor_read pt msg i))"
  then have "ev \<in> set (sender_report_read pt msg)" by (auto simp: read_events)
  then show "\<exists>ps. msg_message msg = Rtp (RtcpPackets ps) \<and> filter (\<lambda>p. \<not> hop_by_hop pt p) ps \<noteq> [] \<and>
      ev = Inbound (msg\<lparr>msg_message := Rtp (RtcpPackets (filter (\<lambda>p. \<not> hop_by_hop pt p) ps))\<rparr>)"
    by (simp add: sender_report_read_events)
next
  fix ev now fts i assume "ev \<in> set (fst (interceptor_handle_timeout now fts i))"
  then show "\<exists>ft\<in>set fts. \<exists>rr. ev = report_to now rr ft"
    by (auto simp: timeout_events receiver_report_timeout_def split: if_splits)
qed

section \<open>The chains a registry can reach\<close>

inductive interceptor_reach :: "packet_types \<Rightarrow> Registry \<Rightarrow> interceptor \<Rightarrow> bool" for pt bs where
  built: "interceptor_reach pt bs (registry_build clock bs)"
| after_read: "interceptor_reach pt bs i \<Longrightarrow> interceptor_reach pt bs (snd (interceptor_read pt msg i))"
| after_write: "interceptor_reach pt bs i \<Longrightarrow> interceptor_reach pt bs (snd (interceptor_write msg i))"
| after_timeout: "interceptor_reach pt bs i \<Longrightarrow> interceptor_reach pt bs (snd (interceptor_handle_timeout now fts i))"

lemma reach_kinds: "interceptor_reach pt bs i \<Longrightarrow> chain_kinds i = map is_rr bs"
  by (induction rule: interceptor_reach.induct)
    (simp_all add: read_stages timeout_stages write_identity registry_build_def fold_build_kinds rev_map)

lemma receiver_report_read_empty: "streams r = [] \<Longrightarrow> streams (receiver_report_read msg r) = []"
proof -
  have "process_sender_reports now ps [] = []" for now ps
    unfolding process_sender_reports_def
    by (induction ps) (auto simp: hm_modify_def split: rtcp_packet.split)
  then show "streams r = [] \<Longrightarrow> ?thesis"
    by (auto simp: receiver_report_read_def hm_modify_def split: MessageEvent.splits RTPMessageEvent.splits)
qed

lemma receiver_report_timeout_empty:
  "streams r = [] \<Longrightarrow> streams (snd (receiver_report_timeout now fts r)) = []"
  "streams r = [] \<Longrightarrow> fst (receiver_report_timeout now fts r) = []"
  by (auto simp: receiver_report_timeout_def)

lemma reach_streams: "interceptor_reach pt bs i \<Longrightarrow> r \<in> set (receiver_reports i) \<Longrightarrow> streams r = []"
proof (induction arbitrary: r rule: interceptor_reach.induct)
  case (built clock)
  then show ?case using fold_build_streams[of NoOp r clock 0 "rev bs"] by (simp add: registry_build_def)
qed (auto simp: read_stages timeout_stages write_identity receiver_report_read_empty receiver_report_timeout_empty)

text \<open>
  A registry chains its interceptors in the order its builders were added: the first added is
  the outermost one, and reads and timeouts never change the chain.
\<close>

theorem registry_chain_order:
  "interceptor_reach pt bs i \<Longrightarrow> chain_kinds i = map is_rr bs"
  by (rule reach_kinds)

theorem registry_chain_order_witness:
  "chain_kinds (snd (interceptor_handle_timeout 5 [] (registry_build (\<lambda>_. 0) [sender_report_builder, receiver_report_builder])))
     = [False, True]"
  using registry_chain_order[OF after_timeout[OF built[of _ "[sender_report_builder, receiver_report_builder]" "\<lambda>_. 0"]]]
  by (simp add: sender_report_builder_def receiver_report_builder_def)

text \<open>
  A chain with one sender report interceptor passes on of an RTCP message exactly the packets
  that are not hop by hop, in their order and under the message's own transport and time, and
  nothing at all when none is left.
\<close>

theorem chain_forwards_end_to_end_rtcp:
  assumes "interceptor_reach pt bs i" "length (filter (\<lambda>b. \<not> is_rr b) bs) = 1"
    "msg_message msg = Rtp (RtcpPackets ps)"
  shows "fst (interceptor_read pt msg i) =
    (if filter (\<lambda>p. \<not> hop_by_hop pt p) ps = [] then []
     else [Inbound (msg\<lparr>msg_message := Rtp (RtcpPackets (filter (\<lambda>p. \<not> hop_by_hop pt p) ps))\<rparr>)])"
proof -
  have "sender_stages i = 1"
    using reach_kinds[OF assms(1)] assms(2) by (simp add: sender_stages_def filter_map o_def)
  then show ?thesis using assms(3) by (cases msg) (simp add: read_events sender_report_read_def Let_def)
qed

text \<open>The packet type of the two packets the model names; any other packet is of another type.\<close>

fun sample_packet_type :: "rtcp_packet \<Rightarrow> packet_type" where
  "sample_packet_type (RtcpReceiverReport _) = PtReceiverReport"
| "sample_packet_type (RtcpSenderReport _) = PtOther 200"
| "sample_packet_type (RtcpOther _) = PtOther 206"

definition sample_rtcp :: TaggedMessageEvent where
  "sample_rtcp = \<lparr>msg_now = 7,
     msg_transport = \<lparr>ctx_local_addr = SocketAddrV4 1 3478, ctx_peer_addr = SocketAddrV4 2 4000, ecn = None\<rparr>,
     msg_message = Rtp (RtcpPackets [RtcpReceiverReport \<lparr>rr_ssrc = 1, rr_reports = []\<rparr>, RtcpOther undefined])\<rparr>"

theorem chain_forwards_end_to_end_rtcp_witness:
  "fst (interceptor_read sample_packet_type sample_rtcp (registry_build (\<lambda>_. 0) [sender_report_builder])) =
     [Inbound (sample_rtcp\<lparr>msg_message := Rtp (RtcpPackets [RtcpOther undefined])\<rparr>)]"
  using chain_forwards_end_to_end_rtcp[OF built[of sample_packet_type "[sender_report_builder]" "\<lambda>_. 0"], of sample_rtcp]
  by (simp add: sample_rtcp_def sender_report_builder_def hop_by_hop_def)

text \<open>
  No chain that a registry builds ever emits a receiver report: no operation adds a stream to a
  receiver report interceptor, so its map of streams stays empty and every timeout yields no event.
\<close>

theorem registry_chain_never_reports:
  "interceptor_reach pt bs i \<Longrightarrow> fst (interceptor_handle_timeout now fts i) = []"
  using reach_streams[of pt bs i] by (simp add: timeout_events receiver_report_timeout_empty)

theorem registry_chain_never_reports_witness:
  "fst (interceptor_handle_timeout 5 [four_tuple_from (msg_transport sample_rtcp)]
     (registry_build (\<lambda>_. 0) [sender_report_builder, receiver_report_builder])) = []"
  by (rule registry_chain_never_reports[OF built])

text \<open>
  After a chain has handled a timeout, the next deadline it polls lies in the future, so timeout
  handling makes progress.
\<close>

theorem chain_timeout_progress:
  assumes "\<forall>r\<in>set (receiver_reports i). 0 < interval r" "now < t"
  shows "now < interceptor_poll_timeout (snd (interceptor_handle_timeout now fts i)) t"
  using assms by (auto simp: poll_timeout_fold fold_min_less timeout_stages receiver_report_timeout_def)

theorem chain_timeout_progress_witness:
  "(5::int) < interceptor_poll_timeout
     (snd (interceptor_handle_timeout 5 [] (registry_build (\<lambda>_. 0) [receiver_report_builder]))) 20"
  using chain_timeout_progress[of "registry_build (\<lambda>_. 0) [receiver_report_builder]" 5 20 "[]"]
  by (simp add: registry_build_def receiver_report_builder_def builder_build_def build_rr_def)

end
