(* ===== verification/Media_Config.thy ===== *)
theory Media_Config
  imports Sdp_Extract Interceptor
begin

text \<open>
  \<open>src/configs/media_config.rs\<close>: the codecs, header extensions and interceptors a
  server offers, their registration, and the negotiation against a remote
  description. \<open>hexd\<close> stands for \<open>hex::decode\<close>, which compares H264 profiles.
\<close>

section \<open>Header extensions\<close>

definition VALID_EXT_IDS :: "int list" where
  "VALID_EXT_IDS = [1..14]"

text \<open>\<open>VALID_EXT_IDS.end\<close>, one past the last valid id.\<close>

definition VALID_EXT_IDS_end :: nat where
  "VALID_EXT_IDS_end = 15"

record RTCRtpHeaderExtension =
  hx_uri :: string
  is_audio :: bool
  is_video :: bool
  allowed_direction :: "RTCRtpTransceiverDirection option"

definition is_matching_direction :: "RTCRtpTransceiverDirection \<Rightarrow> RTCRtpHeaderExtension \<Rightarrow> bool" where
  "is_matching_direction dir self =
     (case allowed_direction self of
        Some allowed \<Rightarrow>
          allowed = Inactive \<and> dir = Inactive
          \<or> has_send allowed \<and> has_send dir
          \<or> has_recv allowed \<and> has_recv dir
      | None \<Rightarrow> True)"

definition extension_for_kind :: "RTPCodecType \<Rightarrow> RTCRtpHeaderExtension \<Rightarrow> bool" where
  "extension_for_kind typ e \<longleftrightarrow> is_audio e \<and> typ = Audio \<or> is_video e \<and> typ = Video"

section \<open>The configuration\<close>

record MediaConfig =
  registry :: Registry
  negotiated_video :: bool
  negotiated_audio :: bool
  video_codecs :: "RTCRtpCodecParameters list"
  audio_codecs :: "RTCRtpCodecParameters list"
  negotiated_video_codecs :: "RTCRtpCodecParameters list"
  negotiated_audio_codecs :: "RTCRtpCodecParameters list"
  header_extensions :: "RTCRtpHeaderExtension list"
  proposed_header_extensions :: "(int, RTCRtpHeaderExtension) hashmap"
  negotiated_header_extensions :: "(int, RTCRtpHeaderExtension) hashmap"

definition same_codec :: "RTCRtpCodecParameters \<Rightarrow> RTCRtpCodecParameters \<Rightarrow> bool" where
  "same_codec c codec \<longleftrightarrow>
     mime_type (capability c) = mime_type (capability codec) \<and> payload_type c = payload_type codec"

definition add_codec :: "RTCRtpCodecParameters list \<Rightarrow> RTCRtpCodecParameters \<Rightarrow> RTCRtpCodecParameters list" where
  "add_codec codecs codec =
     (if list_ex (\<lambda>c. same_codec c codec) codecs then codecs else codecs @ [codec])"

definition register_codec :: "RTCRtpCodecParameters \<Rightarrow> RTPCodecType \<Rightarrow> MediaConfig \<Rightarrow> (unit, MediaConfig) outcome" where
  "register_codec codec typ self =
     (case typ of
        Audio \<Rightarrow> (Ok (), self\<lparr>audio_codecs := add_codec (audio_codecs self) codec\<rparr>)
      | Video \<Rightarrow> (Ok (), self\<lparr>video_codecs := add_codec (video_codecs self) codec\<rparr>)
      | CodecUnspecified \<Rightarrow> (Err (Other ''ErrUnknownType''), self))"

fun update_first :: "('a \<Rightarrow> bool) \<Rightarrow> ('a \<Rightarrow> 'a) \<Rightarrow> 'a list \<Rightarrow> 'a list" where
  "update_first P f [] = []"
| "update_first P f (x # xs) = (if P x then f x # xs else x # update_first P f xs)"

definition enable_extension :: "string \<Rightarrow> RTPCodecType \<Rightarrow> RTCRtpHeaderExtension \<Rightarrow> RTCRtpHeaderExtension" where
  "enable_extension uri typ ext =
     (if typ = Audio then ext\<lparr>is_audio := True\<rparr> else if typ = Video then ext\<lparr>is_video := True\<rparr> else ext)
       \<lparr>hx_uri := uri\<rparr>"

definition register_header_extension ::
  "RTCRtpHeaderExtensionCapability \<Rightarrow> RTPCodecType \<Rightarrow> RTCRtpTransceiverDirection option
   \<Rightarrow> MediaConfig \<Rightarrow> (unit, MediaConfig) outcome" where
  "register_header_extension extension typ allowed self =
     (case find (\<lambda>ext. hx_uri ext = cap_uri extension) (header_extensions self) of
        Some ext \<Rightarrow>
          (let self' = self\<lparr>header_extensions :=
                 update_first (\<lambda>ext. hx_uri ext = cap_uri extension)
                   (enable_extension (cap_uri extension) typ) (header_extensions self)\<rparr>
           in if allowed_direction ext \<noteq> allowed
              then (Err (Other ''ErrRegisterHeaderExtensionInvalidDirection''), self')
              else (Ok (), self'))
      | None \<Rightarrow>
          (if length (header_extensions self) > VALID_EXT_IDS_end
           then (Err (Other ''ErrRegisterHeaderExtensionNoFreeID''), self)
           else (Ok (), self\<lparr>header_extensions := header_extensions self @
                  [enable_extension (cap_uri extension) typ
                     \<lparr>hx_uri = [], is_audio = False, is_video = False, allowed_direction = allowed\<rparr>]\<rparr>)))"

definition push_feedback :: "RTCPFeedback \<Rightarrow> RTCRtpCodecParameters \<Rightarrow> RTCRtpCodecParameters" where
  "push_feedback fb c =
     c\<lparr>capability := (capability c)\<lparr>rtcp_feedbacks := rtcp_feedbacks (capability c) @ [fb]\<rparr>\<rparr>"

definition register_rtcp_feedback :: "RTCPFeedback \<Rightarrow> RTPCodecType \<Rightarrow> MediaConfig \<Rightarrow> MediaConfig" where
  "register_rtcp_feedback fb typ self =
     (case typ of
        Video \<Rightarrow> self\<lparr>video_codecs := map (push_feedback fb) (video_codecs self)\<rparr>
      | Audio \<Rightarrow> self\<lparr>audio_codecs := map (push_feedback fb) (audio_codecs self)\<rparr>
      | CodecUnspecified \<Rightarrow> self)"

section \<open>Defaults\<close>

definition codec_entry :: "string \<Rightarrow> u32 \<Rightarrow> u16 \<Rightarrow> string \<Rightarrow> PayloadType \<Rightarrow> RTCRtpCodecParameters" where
  "codec_entry mime rate chans fmtp_line pt =
     default_codec_parameters\<lparr>
       capability := \<lparr>mime_type = mime, clock_rate = rate, channels = chans, sdp_fmtp_line = fmtp_line,
                      rtcp_feedbacks = []\<rparr>,
       payload_type := pt\<rparr>"

definition default_audio_codecs :: "RTCRtpCodecParameters list" where
  "default_audio_codecs = [
     codec_entry MIME_TYPE_OPUS 48000 2 ''minptime=10;useinbandfec=1'' 111,
     codec_entry MIME_TYPE_G722 8000 0 [] 9,
     codec_entry MIME_TYPE_PCMU 8000 0 [] 0,
     codec_entry MIME_TYPE_PCMA 8000 0 [] 8]"

definition default_video_codecs :: "RTCRtpCodecParameters list" where
  "default_video_codecs = [
     codec_entry MIME_TYPE_VP8 90000 0 [] 96,
     codec_entry MIME_TYPE_VP9 90000 0 ''profile-id=0'' 98,
     codec_entry MIME_TYPE_VP9 90000 0 ''profile-id=1'' 100,
     codec_entry MIME_TYPE_H264 90000 0
       ''level-asymmetry-allowed=1;packetization-mode=1;profile-level-id=42001f'' 102,
     codec_entry MIME_TYPE_H264 90000 0
       ''level-asymmetry-allowed=1;packetization-mode=0;profile-level-id=42001f'' 127,
     codec_entry MIME_TYPE_H264 90000 0
       ''level-asymmetry-allowed=1;packetization-mode=1;profile-level-id=42e01f'' 125,
     codec_entry MIME_TYPE_H264 90000 0
       ''level-asymmetry-allowed=1;packetization-mode=0;profile-level-id=42e01f'' 108,
     codec_entry MIME_TYPE_H264 90000 0
       ''level-asymmetry-allowed=1;packetization-mode=0;profile-level-id=42001f'' 127,
     codec_entry MIME_TYPE_H264 90000 0
       ''level-asymmetry-allowed=1;packetization-mode=1;profile-level-id=640032'' 123,
     codec_entry MIME_TYPE_AV1 90000 0 ''profile-id=0'' 41,
     codec_entry ''video/ulpfec'' 90000 0 [] 116]"

definition register_default_codecs :: "MediaConfig \<Rightarrow> (unit, MediaConfig) outcome" where
  "register_default_codecs self =
     (case for_each (\<lambda>codec. register_codec codec Audio) default_audio_codecs self of
        (Inl err, self') \<Rightarrow> (Err err, self')
      | (Inr _, self') \<Rightarrow> for_each (\<lambda>codec. register_codec codec Video) default_video_codecs self')"

definition configure_rtcp_reports :: "MediaConfig \<Rightarrow> MediaConfig" where
  "configure_rtcp_reports self =
     self\<lparr>registry := registry_add receiver_report_builder (registry_add sender_report_builder (registry self))\<rparr>"

definition register_default_interceptors :: "MediaConfig \<Rightarrow> (unit, MediaConfig) outcome" where
  "register_default_interceptors self = (Ok (), configure_rtcp_reports self)"

definition empty_media_config :: MediaConfig where
  "empty_media_config = \<lparr>registry = [], negotiated_video = False, negotiated_audio = False,
     video_codecs = [], audio_codecs = [], negotiated_video_codecs = [], negotiated_audio_codecs = [],
     header_extensions = [], proposed_header_extensions = [], negotiated_header_extensions = []\<rparr>"

definition default_media_config :: MediaConfig where
  "default_media_config =
     snd (register_default_interceptors (snd (register_default_codecs empty_media_config)))"

definition configure_nack :: "MediaConfig \<Rightarrow> MediaConfig" where
  "configure_nack self =
     register_rtcp_feedback \<lparr>fb_typ = ''nack'', fb_parameter = ''pli''\<rparr> Video
       (register_rtcp_feedback \<lparr>fb_typ = ''nack'', fb_parameter = []\<rparr> Video self)"

text \<open>The URI \<open>sdp::extmap::TRANSPORT_CC_URI\<close> is the argument \<open>tcc\<close>.\<close>

definition twcc_feedback :: "RTPCodecType \<Rightarrow> MediaConfig \<Rightarrow> MediaConfig" where
  "twcc_feedback typ = register_rtcp_feedback \<lparr>fb_typ = TYPE_RTCP_FB_TRANSPORT_CC, fb_parameter = []\<rparr> typ"

definition configure_twcc :: "string \<Rightarrow> MediaConfig \<Rightarrow> (unit, MediaConfig) outcome" where
  "configure_twcc tcc self =
     (case register_header_extension \<lparr>cap_uri = tcc\<rparr> Video None (twcc_feedback Video self) of
        (Inl err, self') \<Rightarrow> (Err err, self')
      | (Inr _, self') \<Rightarrow> register_header_extension \<lparr>cap_uri = tcc\<rparr> Audio None (twcc_feedback Audio self'))"

definition configure_twcc_sender_only :: "string \<Rightarrow> MediaConfig \<Rightarrow> (unit, MediaConfig) outcome" where
  "configure_twcc_sender_only tcc self =
     (case register_header_extension \<lparr>cap_uri = tcc\<rparr> Video None self of
        (Inl err, self') \<Rightarrow> (Err err, self')
      | (Inr _, self') \<Rightarrow> register_header_extension \<lparr>cap_uri = tcc\<rparr> Audio None self')"

definition configure_twcc_receiver_only :: "string \<Rightarrow> MediaConfig \<Rightarrow> (unit, MediaConfig) outcome" where
  "configure_twcc_receiver_only tcc self =
     (case register_header_extension \<lparr>cap_uri = tcc\<rparr> Video None (twcc_feedback Video self) of
        (Inl err, self') \<Rightarrow> (Err err, self')
      | (Inr _, self') \<Rightarrow> register_header_extension \<lparr>cap_uri = tcc\<rparr> Audio None (twcc_feedback Audio self'))"

definition get_header_extension_id :: "RTCRtpHeaderExtensionCapability \<Rightarrow> MediaConfig \<Rightarrow> int \<times> bool \<times> bool" where
  "get_header_extension_id extension self =
     (case find (\<lambda>(i, h). cap_uri extension = hx_uri h) (negotiated_header_extensions self) of
        Some (i, h) \<Rightarrow> (i, is_audio h, is_video h)
      | None \<Rightarrow> (0, False, False))"

definition clone_to :: "MediaConfig \<Rightarrow> MediaConfig" where
  "clone_to self = default_media_config\<lparr>video_codecs := video_codecs self, audio_codecs := audio_codecs self,
     header_extensions := header_extensions self\<rparr>"

definition get_codec_by_payload :: "PayloadType \<Rightarrow> MediaConfig \<Rightarrow> (RTCRtpCodecParameters \<times> RTPCodecType) result" where
  "get_codec_by_payload pt self =
     (case find (\<lambda>c. payload_type c = pt) (negotiated_video_codecs self) of
        Some codec \<Rightarrow> Ok (codec, Video)
      | None \<Rightarrow>
          (case find (\<lambda>c. payload_type c = pt) (negotiated_audio_codecs self) of
             Some codec \<Rightarrow> Ok (codec, Audio)
           | None \<Rightarrow> Err (Other ''ErrCodecNotFound'')))"

section \<open>Negotiation\<close>

definition match_remote_codec ::
  "(string \<Rightarrow> bytes option) \<Rightarrow> RTCRtpCodecParameters \<Rightarrow> RTPCodecType \<Rightarrow> RTCRtpCodecParameters list
   \<Rightarrow> RTCRtpCodecParameters list \<Rightarrow> MediaConfig \<Rightarrow> CodecMatch result" where
  "match_remote_codec hexd remote_codec typ exact_matches partial_matches self =
     (let codecs = (if typ = Audio then audio_codecs self else video_codecs self)
      in case fmtp_parameter (codec_fmtp remote_codec) ''apt'' of
           Some apt \<Rightarrow>
             and_then (parse_u8 apt) (\<lambda>pt.
               let apt_match =
                 (if list_ex (\<lambda>c. payload_type c = pt) exact_matches then MatchExact
                  else if list_ex (\<lambda>c. payload_type c = pt) partial_matches then MatchPartial
                  else MatchNone)
               in if apt_match = MatchNone then Ok MatchNone
                  else (let match_type = snd (codec_parameters_fuzzy_search hexd remote_codec codecs)
                        in Ok (if match_type = MatchExact \<and> apt_match = MatchPartial
                               then MatchPartial else match_type)))
         | None \<Rightarrow> Ok (snd (codec_parameters_fuzzy_search hexd remote_codec codecs)))"

definition update_extension_step ::
  "int \<Rightarrow> string \<Rightarrow> RTPCodecType \<Rightarrow> RTCRtpHeaderExtension \<Rightarrow> MediaConfig \<Rightarrow> MediaConfig" where
  "update_extension_step i uri typ local_extension self =
     (if hx_uri local_extension \<noteq> uri then self
      else
        (let self' =
           (case find (\<lambda>(_, ext). hx_uri ext = uri) (negotiated_header_extensions self) of
              Some (nid, _) \<Rightarrow>
                (if nid = i then
                   self\<lparr>negotiated_header_extensions :=
                     hm_modify nid (\<lambda>e. e\<lparr>is_video := is_video e \<or> typ = Video,
                                          is_audio := is_audio e \<or> typ = Audio\<rparr>)
                       (negotiated_header_extensions self)\<rparr>
                 else self)
            | None \<Rightarrow>
                (case hm_get (negotiated_header_extensions self) i of
                   Some _ \<Rightarrow> self
                 | None \<Rightarrow>
                     self\<lparr>negotiated_header_extensions :=
                       hm_insert i \<lparr>hx_uri = uri,
                           is_audio = is_audio local_extension \<and> typ = Audio,
                           is_video = is_video local_extension \<and> typ = Video,
                           allowed_direction = allowed_direction local_extension\<rparr>
                         (negotiated_header_extensions self)\<rparr>))
         in self'\<lparr>proposed_header_extensions := hm_remove i (proposed_header_extensions self')\<rparr>))"

definition update_header_extension :: "int \<Rightarrow> string \<Rightarrow> RTPCodecType \<Rightarrow> MediaConfig \<Rightarrow> (unit, MediaConfig) outcome" where
  "update_header_extension i uri typ self =
     (Ok (), fold (update_extension_step i uri typ) (header_extensions self) self)"

definition push_codec :: "RTPCodecType \<Rightarrow> RTCRtpCodecParameters \<Rightarrow> MediaConfig \<Rightarrow> MediaConfig" where
  "push_codec typ codec self =
     (if typ = Audio then self\<lparr>negotiated_audio_codecs := add_codec (negotiated_audio_codecs self) codec\<rparr>
      else if typ = Video then self\<lparr>negotiated_video_codecs := add_codec (negotiated_video_codecs self) codec\<rparr>
      else self)"

definition push_codecs :: "RTCRtpCodecParameters list \<Rightarrow> RTPCodecType \<Rightarrow> MediaConfig \<Rightarrow> MediaConfig" where
  "push_codecs codecs typ self = fold (push_codec typ) codecs self"

definition match_codec_step ::
  "(string \<Rightarrow> bytes option) \<Rightarrow> RTPCodecType \<Rightarrow> MediaConfig \<Rightarrow> RTCRtpCodecParameters
   \<Rightarrow> RTCRtpCodecParameters list \<times> RTCRtpCodecParameters list
   \<Rightarrow> (RTCRtpCodecParameters list \<times> RTCRtpCodecParameters list) result" where
  "match_codec_step hexd typ self codec matches =
     (case matches of (exact_matches, partial_matches) \<Rightarrow>
        and_then (match_remote_codec hexd codec typ exact_matches partial_matches self) (\<lambda>match_type.
          Ok (if match_type = MatchExact then (exact_matches @ [codec], partial_matches)
              else if match_type = MatchPartial then (exact_matches, partial_matches @ [codec])
              else (exact_matches, partial_matches))))"

definition negotiate_media ::
  "sdp_lib \<Rightarrow> (string \<Rightarrow> bytes option) \<Rightarrow> RTPCodecType \<Rightarrow> MediaDescription \<Rightarrow> MediaConfig
   \<Rightarrow> (unit, MediaConfig) outcome" where
  "negotiate_media L hexd typ m self =
     (case and_then (codecs_from_media_description L m)
             (\<lambda>codecs. try_fold (match_codec_step hexd typ self) codecs ([], [])) of
        Inl err \<Rightarrow> (Err err, self)
      | Inr (exact_matches, partial_matches) \<Rightarrow>
          (if exact_matches = [] \<and> partial_matches = [] then (Ok (), self)
           else
             (let self' = push_codecs (if exact_matches \<noteq> [] then exact_matches else partial_matches) typ self
              in case rtp_extensions_from_media_description L m of
                   Inl err \<Rightarrow> (Err err, self')
                 | Inr extensions \<Rightarrow>
                     for_each (\<lambda>extension. update_header_extension (ext_id extension) (ext_uri extension) typ)
                       extensions self')))"

definition update_media ::
  "sdp_lib \<Rightarrow> (string \<Rightarrow> bytes option) \<Rightarrow> MediaDescription \<Rightarrow> MediaConfig \<Rightarrow> (unit, MediaConfig) outcome" where
  "update_media L hexd m self =
     (if \<not> negotiated_audio self \<and> to_lowercase (media (media_name m)) = ''audio'' then
        negotiate_media L hexd Audio m (self\<lparr>negotiated_audio := True\<rparr>)
      else if \<not> negotiated_video self \<and> to_lowercase (media (media_name m)) = ''video'' then
        negotiate_media L hexd Video m (self\<lparr>negotiated_video := True\<rparr>)
      else (Ok (), self))"

definition update_from_remote_description ::
  "sdp_lib \<Rightarrow> (string \<Rightarrow> bytes option) \<Rightarrow> SessionDescription \<Rightarrow> MediaConfig \<Rightarrow> (unit, MediaConfig) outcome" where
  "update_from_remote_description L hexd desc self =
     for_each (update_media L hexd) (media_descriptions desc) self"

section \<open>Parameters\<close>

definition get_codecs_by_kind :: "RTPCodecType \<Rightarrow> MediaConfig \<Rightarrow> RTCRtpCodecParameters list" where
  "get_codecs_by_kind typ self =
     (if typ = Video then
        (if negotiated_video self then negotiated_video_codecs self else video_codecs self)
      else if typ = Audio then
        (if negotiated_audio self then negotiated_audio_codecs self else audio_codecs self)
      else [])"

definition negotiated_kind :: "RTPCodecType \<Rightarrow> MediaConfig \<Rightarrow> bool" where
  "negotiated_kind typ self \<longleftrightarrow> negotiated_video self \<and> typ = Video \<or> negotiated_audio self \<and> typ = Audio"

definition negotiated_extension_params ::
  "RTPCodecType \<Rightarrow> RTCRtpTransceiverDirection \<Rightarrow> MediaConfig \<Rightarrow> RTCRtpHeaderExtensionParameters list" where
  "negotiated_extension_params typ dir self =
     map (\<lambda>(i, e). \<lparr>ext_uri = hx_uri e, ext_id = i\<rparr>)
       (filter (\<lambda>(i, e). is_matching_direction dir e \<and> extension_for_kind typ e)
         (negotiated_header_extensions self))"

definition unused_ext_id :: "MediaConfig \<Rightarrow> int option" where
  "unused_ext_id self =
     find (\<lambda>i. \<not> hm_contains_key (negotiated_header_extensions self) i
             \<and> \<not> hm_contains_key (proposed_header_extensions self) i) VALID_EXT_IDS"

definition extension_params ::
  "RTPCodecType \<Rightarrow> RTCRtpTransceiverDirection \<Rightarrow> MediaConfig \<Rightarrow> RTCRtpHeaderExtension
   \<Rightarrow> RTCRtpHeaderExtensionParameters list" where
  "extension_params typ dir self e =
     (if \<not> (is_matching_direction dir e \<and> extension_for_kind typ e) then []
      else case find (\<lambda>(_, n). hx_uri n = hx_uri e) (negotiated_header_extensions self) of
             Some (i, n) \<Rightarrow> [\<lparr>ext_uri = hx_uri n, ext_id = i\<rparr>]
           | None \<Rightarrow>
               (case find (\<lambda>(_, n). hx_uri n = hx_uri e) (proposed_header_extensions self) of
                  Some (i, n) \<Rightarrow> [\<lparr>ext_uri = hx_uri n, ext_id = i\<rparr>]
                | None \<Rightarrow>
                    (case unused_ext_id self of
                       Some i \<Rightarrow> [\<lparr>ext_uri = hx_uri e, ext_id = i\<rparr>]
                     | None \<Rightarrow> [])))"

definition get_rtp_parameters_by_kind ::
  "RTPCodecType \<Rightarrow> RTCRtpTransceiverDirection \<Rightarrow> MediaConfig \<Rightarrow> RTCRtpParameters" where
  "get_rtp_parameters_by_kind typ dir self = \<lparr>
     params_header_extensions =
       (if negotiated_kind typ self then negotiated_extension_params typ dir self
        else concat (map (extension_params typ dir self) (header_extensions self))),
     params_codecs = get_codecs_by_kind typ self\<rparr>"

definition mut_extension_params ::
  "RTPCodecType \<Rightarrow> RTCRtpTransceiverDirection \<Rightarrow> RTCRtpHeaderExtension
   \<Rightarrow> RTCRtpHeaderExtensionParameters list \<times> MediaConfig \<Rightarrow> RTCRtpHeaderExtensionParameters list \<times> MediaConfig" where
  "mut_extension_params typ dir e st =
     (case st of (out, self) \<Rightarrow>
        if \<not> (is_matching_direction dir e \<and> extension_for_kind typ e) then (out, self)
        else case find (\<lambda>(_, n). hx_uri n = hx_uri e) (negotiated_header_extensions self) of
               Some (i, n) \<Rightarrow>
                 (out @ [\<lparr>ext_uri = hx_uri n, ext_id = i\<rparr>],
                  self\<lparr>negotiated_header_extensions :=
                    hm_modify i (\<lambda>n. n\<lparr>is_audio := is_audio n \<or> typ = Audio, is_video := is_video n \<or> typ = Video\<rparr>)
                      (negotiated_header_extensions self)\<rparr>)
             | None \<Rightarrow>
                 (case find (\<lambda>(_, n). hx_uri n = hx_uri e) (proposed_header_extensions self) of
                    Some (i, n) \<Rightarrow> (out @ [\<lparr>ext_uri = hx_uri n, ext_id = i\<rparr>], self)
                  | None \<Rightarrow>
                      (case unused_ext_id self of
                         Some i \<Rightarrow>
                           (out @ [\<lparr>ext_uri = hx_uri e, ext_id = i\<rparr>],
                            self\<lparr>proposed_header_extensions := hm_insert i e (proposed_header_extensions self)\<rparr>)
                       | None \<Rightarrow> (out, self))))"

definition get_mut_rtp_parameters_by_kind ::
  "RTPCodecType \<Rightarrow> RTCRtpTransceiverDirection \<Rightarrow> MediaConfig \<Rightarrow> RTCRtpParameters \<times> MediaConfig" where
  "get_mut_rtp_parameters_by_kind typ dir self =
     (let (exts, self') =
        (if negotiated_kind typ self then (negotiated_extension_params typ dir self, self)
         else fold (mut_extension_params typ dir) (header_extensions self) ([], self))
      in (\<lparr>params_header_extensions = exts, params_codecs = get_codecs_by_kind typ self'\<rparr>, self'))"

definition get_rtp_parameters_by_payload_type :: "PayloadType \<Rightarrow> MediaConfig \<Rightarrow> RTCRtpParameters result" where
  "get_rtp_parameters_by_payload_type pt self =
     and_then (get_codec_by_payload pt self) (\<lambda>(codec, typ).
       Ok \<lparr>params_header_extensions =
             map (\<lambda>(i, e). \<lparr>ext_uri = hx_uri e, ext_id = i\<rparr>)
               (filter (\<lambda>(i, e). extension_for_kind typ e) (negotiated_header_extensions self)),
           params_codecs = [codec]\<rparr>)"

section \<open>Well-formed configurations\<close>

definition codec_key :: "RTCRtpCodecParameters \<Rightarrow> string \<times> PayloadType" where
  "codec_key c = (mime_type (capability c), payload_type c)"

definition codecs_wf :: "RTCRtpCodecParameters list \<Rightarrow> bool" where
  "codecs_wf cs \<longleftrightarrow> distinct (map codec_key cs)"

definition uris_unique :: "(int, RTCRtpHeaderExtension) hashmap \<Rightarrow> bool" where
  "uris_unique m \<longleftrightarrow>
     (\<forall>i j a b. hm_get m i = Some a \<longrightarrow> hm_get m j = Some b \<longrightarrow> hx_uri a = hx_uri b \<longrightarrow> i = j)"

definition ext_maps_wf :: "MediaConfig \<Rightarrow> bool" where
  "ext_maps_wf self \<longleftrightarrow>
     hm_wf (negotiated_header_extensions self) \<and> hm_wf (proposed_header_extensions self) \<and>
     uris_unique (negotiated_header_extensions self) \<and> uris_unique (proposed_header_extensions self) \<and>
     (\<forall>i. hm_get (negotiated_header_extensions self) i = None \<or> hm_get (proposed_header_extensions self) i = None)"

definition media_config_wf :: "MediaConfig \<Rightarrow> bool" where
  "media_config_wf self \<longleftrightarrow>
     codecs_wf (audio_codecs self) \<and> codecs_wf (video_codecs self) \<and>
     codecs_wf (negotiated_audio_codecs self) \<and> codecs_wf (negotiated_video_codecs self) \<and>
     distinct (map hx_uri (header_extensions self)) \<and> ext_maps_wf self"

lemma same_codec_key: "same_codec c d \<longleftrightarrow> codec_key c = codec_key d"
  by (simp add: same_codec_def codec_key_def)

lemma codecs_wf_add: "codecs_wf cs \<Longrightarrow> codecs_wf (add_codec cs c)"
  by (auto simp: codecs_wf_def add_codec_def same_codec_key list_ex_iff)

lemma set_add_codec: "set (add_codec cs c) \<subseteq> insert c (set cs)"
  by (auto simp: add_codec_def)

lemma codecs_wf_feedback: "codecs_wf (map (push_feedback fb) cs) = codecs_wf cs"
proof -
  have "codec_key (push_feedback fb c) = codec_key c" for c
    by (simp add: codec_key_def push_feedback_def)
  then show ?thesis by (simp add: codecs_wf_def o_def)
qed

lemma map_uri_update_first:
  "map hx_uri (update_first (\<lambda>e. hx_uri e = u) (enable_extension u typ) es) = map hx_uri es"
  by (induction es) (auto simp: enable_extension_def)

lemma media_config_wf_register_codec:
  "media_config_wf self \<Longrightarrow> media_config_wf (snd (register_codec c typ self))"
  by (auto simp: register_codec_def media_config_wf_def ext_maps_wf_def codecs_wf_add split: RTPCodecType.splits)

lemma media_config_wf_register_feedback:
  "media_config_wf self \<Longrightarrow> media_config_wf (register_rtcp_feedback fb typ self)"
  by (auto simp: register_rtcp_feedback_def media_config_wf_def ext_maps_wf_def codecs_wf_feedback split: RTPCodecType.splits)

lemma media_config_wf_register_extension:
  "media_config_wf self \<Longrightarrow> media_config_wf (snd (register_header_extension ext typ dir self))"
  by (auto simp: register_header_extension_def media_config_wf_def ext_maps_wf_def Let_def
      map_uri_update_first enable_extension_def find_None_iff split: option.splits)

lemma find_uri_Some:
  assumes "hm_wf m" "find (\<lambda>(_, n). hx_uri n = u) m = Some (i, n)"
  shows "hm_get m i = Some n" "hx_uri n = u"
  using assms find_Some_in_set[OF assms(2)] hm.entries_get[OF assms(1)] by auto

lemma find_uri_None:
  assumes "hm_wf m" "find (\<lambda>(_, n). hx_uri n = u) m = None" "hm_get m i = Some n"
  shows "hx_uri n \<noteq> u"
  using assms(2,3) hm.entries_get[OF assms(1)] by (fastforce simp: find_None_iff)

lemma uris_unique_modify:
  "uris_unique m \<Longrightarrow> (\<And>n. hx_uri (f n) = hx_uri n) \<Longrightarrow> uris_unique (hm_modify i f m)"
  unfolding uris_unique_def by (auto split: if_splits)

lemma uris_unique_insert:
  "uris_unique m \<Longrightarrow> (\<And>j n. hm_get m j = Some n \<Longrightarrow> hx_uri n \<noteq> hx_uri e) \<Longrightarrow> uris_unique (hm_insert i e m)"
  unfolding uris_unique_def by (auto split: if_splits) (metis+)

lemma uris_unique_remove: "uris_unique m \<Longrightarrow> uris_unique (hm_remove i m)"
  unfolding uris_unique_def by (auto split: if_splits)

lemma unused_ext_id_Some:
  "unused_ext_id self = Some i \<Longrightarrow>
   hm_get (negotiated_header_extensions self) i = None \<and> hm_get (proposed_header_extensions self) i = None \<and>
   1 \<le> i \<and> i \<le> 14"
  unfolding unused_ext_id_def VALID_EXT_IDS_def
  by (drule find_Some_in_set) (auto simp: hm_contains_key_def)


lemma ext_maps_wf_update_step:
  assumes "ext_maps_wf self"
  shows "ext_maps_wf (update_extension_step i u typ e self)"
proof -
  let ?neg = "negotiated_header_extensions self"
  have wf: "hm_wf ?neg" using assms by (simp add: ext_maps_wf_def)
  show ?thesis
  proof (cases "find (\<lambda>(_, ext). hx_uri ext = u) ?neg")
    case (Some x)
    obtain nid n where "x = (nid, n)" by (cases x)
    with Some show ?thesis using assms
      by (auto simp: update_extension_step_def ext_maps_wf_def Let_def
          intro!: uris_unique_modify uris_unique_remove)
  next
    case None
    have "uris_unique (hm_insert i f ?neg)" if "hx_uri f = u" for f
      using assms find_uri_None[OF wf None] that by (intro uris_unique_insert) (auto simp: ext_maps_wf_def)
    with None show ?thesis using assms
      by (auto simp: update_extension_step_def ext_maps_wf_def Let_def intro!: uris_unique_remove split: option.splits)
  qed
qed

lemma update_step_frame:
  "audio_codecs (update_extension_step i u typ e self) = audio_codecs self"
  "video_codecs (update_extension_step i u typ e self) = video_codecs self"
  "negotiated_audio_codecs (update_extension_step i u typ e self) = negotiated_audio_codecs self"
  "negotiated_video_codecs (update_extension_step i u typ e self) = negotiated_video_codecs self"
  "header_extensions (update_extension_step i u typ e self) = header_extensions self"
  "negotiated_audio (update_extension_step i u typ e self) = negotiated_audio self"
  "negotiated_video (update_extension_step i u typ e self) = negotiated_video self"
  by (auto simp: update_extension_step_def Let_def split: option.splits)

lemma media_config_wf_update_extension:
  "media_config_wf self \<Longrightarrow> media_config_wf (snd (update_header_extension i u typ self))"
proof -
  have step: "media_config_wf s \<Longrightarrow> media_config_wf (update_extension_step i u typ e s)" for s e
    by (simp add: media_config_wf_def update_step_frame ext_maps_wf_update_step)
  have "media_config_wf s \<Longrightarrow> media_config_wf (fold (update_extension_step i u typ) es s)" for es s
    by (induction es arbitrary: s) (auto intro: step)
  then show "media_config_wf self \<Longrightarrow> ?thesis" by (simp add: update_header_extension_def)
qed

lemma media_config_wf_push_codecs: "media_config_wf self \<Longrightarrow> media_config_wf (push_codecs cs typ self)"
  unfolding push_codecs_def
proof (induction cs arbitrary: self)
  case (Cons c cs)
  have "media_config_wf (push_codec typ c self)"
    using Cons.prems by (auto simp: push_codec_def media_config_wf_def ext_maps_wf_def codecs_wf_add)
  with Cons.IH show ?case by simp
qed simp

lemma media_config_wf_extensions:
  assumes "media_config_wf self"
  shows "media_config_wf (snd (for_each (\<lambda>x. update_header_extension (ext_id x) (ext_uri x) typ) xs self))"
  by (rule for_each_invariant[where I = media_config_wf])
    (simp_all add: assms media_config_wf_update_extension)

lemma media_config_wf_negotiate:
  assumes "media_config_wf self"
  shows "media_config_wf (snd (negotiate_media L hexd typ m self))"
  using assms
  by (auto simp: negotiate_media_def Let_def media_config_wf_extensions media_config_wf_push_codecs
      split: sum.splits)

lemma media_config_wf_flags [simp]:
  "media_config_wf (self\<lparr>negotiated_audio := b\<rparr>) = media_config_wf self"
  "media_config_wf (self\<lparr>negotiated_video := b\<rparr>) = media_config_wf self"
  "media_config_wf (self\<lparr>registry := r\<rparr>) = media_config_wf self"
  by (simp_all add: media_config_wf_def ext_maps_wf_def)

lemma media_config_wf_update_remote:
  "media_config_wf self \<Longrightarrow> media_config_wf (snd (update_from_remote_description L hexd d self))"
  unfolding update_from_remote_description_def
  by (rule for_each_invariant[where I = media_config_wf])
    (auto simp: update_media_def media_config_wf_negotiate)

section \<open>Ids of proposed header extensions\<close>

definition bound_param :: "MediaConfig \<Rightarrow> RTCRtpHeaderExtensionParameters \<Rightarrow> bool" where
  "bound_param self p \<longleftrightarrow> (\<exists>n. hx_uri n = ext_uri p \<and>
     (hm_get (negotiated_header_extensions self) (ext_id p) = Some n \<or>
      hm_get (proposed_header_extensions self) (ext_id p) = Some n))"

lemma bound_param_inject:
  assumes "ext_maps_wf self" "bound_param self p" "bound_param self q" "ext_id p = ext_id q"
  shows "ext_uri p = ext_uri q"
  using assms unfolding bound_param_def ext_maps_wf_def by (metis option.distinct(1) option.inject)

lemma ext_maps_wf_modify:
  assumes "ext_maps_wf self" "\<And>n. hx_uri (f n) = hx_uri n"
  shows "ext_maps_wf (self\<lparr>negotiated_header_extensions := hm_modify i f (negotiated_header_extensions self)\<rparr>)"
proof -
  have "hm_get (negotiated_header_extensions self) j = None \<or> hm_get (proposed_header_extensions self) j = None" for j
    using assms(1) by (simp add: ext_maps_wf_def)
  then show ?thesis using assms by (auto simp: ext_maps_wf_def intro: uris_unique_modify)
qed

lemma bound_param_modify:
  assumes "\<And>n. hx_uri (f n) = hx_uri n"
  shows "bound_param (self\<lparr>negotiated_header_extensions := hm_modify i f (negotiated_header_extensions self)\<rparr>) p
    = bound_param self p"
  using assms unfolding bound_param_def by (auto split: if_splits) metis+

text \<open>What the loop of \<open>get_mut_rtp_parameters_by_kind\<close> keeps after the extensions with the given URIs.\<close>

definition ext_loop_inv :: "string set \<Rightarrow> RTCRtpHeaderExtensionParameters list \<times> MediaConfig \<Rightarrow> bool" where
  "ext_loop_inv seen st \<longleftrightarrow>
     ext_maps_wf (snd st) \<and> distinct (map ext_id (fst st)) \<and> ext_uri ` set (fst st) \<subseteq> seen \<and>
     (\<forall>p\<in>set (fst st). bound_param (snd st) p)"

lemma ext_loop_push:
  assumes inv: "ext_loop_inv seen (out, self)" and fresh: "u \<notin> seen"
    and self': "ext_maps_wf self'" "\<And>p. bound_param self p \<Longrightarrow> bound_param self' p"
    and q: "bound_param self' q" "ext_uri q = u"
  shows "ext_loop_inv (insert u seen) (out @ [q], self')"
proof -
  have "ext_id q \<notin> ext_id ` set out"
  proof
    assume "ext_id q \<in> ext_id ` set out"
    then obtain p where p: "p \<in> set out" "ext_id p = ext_id q" by auto
    have "bound_param self' p" "ext_uri p \<in> seen" using inv self'(2) p(1) by (auto simp: ext_loop_inv_def)
    with bound_param_inject[OF self'(1) _ q(1) p(2)] q(2) fresh show False by simp
  qed
  then show ?thesis using assms by (auto simp: ext_loop_inv_def)
qed

lemma ext_loop_step:
  assumes inv: "ext_loop_inv seen (out, self)" and fresh: "hx_uri e \<notin> seen"
  shows "ext_loop_inv (insert (hx_uri e) seen) (mut_extension_params typ dir e (out, self))"
proof -
  let ?neg = "negotiated_header_extensions self" and ?prp = "proposed_header_extensions self"
  have wf: "ext_maps_wf self" "hm_wf ?neg" "hm_wf ?prp"
    using inv by (auto simp: ext_loop_inv_def ext_maps_wf_def)
  have skip: "ext_loop_inv (insert (hx_uri e) seen) (out, self)" using inv by (auto simp: ext_loop_inv_def)
  note push = ext_loop_push[OF inv fresh]
  show ?thesis
  proof (cases "is_matching_direction dir e \<and> extension_for_kind typ e")
    case False
    then show ?thesis using skip by (simp add: mut_extension_params_def)
  next
    case relevant: True
    show ?thesis
    proof (cases "find (\<lambda>(_, n). hx_uri n = hx_uri e) ?neg")
      case (Some x)
      obtain i n where x: "x = (i, n)" by (cases x)
      note n = find_uri_Some[OF wf(2) Some[unfolded x]]
      then have "bound_param self \<lparr>ext_uri = hx_uri n, ext_id = i\<rparr>" by (auto simp: bound_param_def)
      then show ?thesis using relevant Some x n wf(1)
        by (auto simp: mut_extension_params_def bound_param_modify ext_maps_wf_modify intro!: push)
    next
      case noneg: None
      show ?thesis
      proof (cases "find (\<lambda>(_, n). hx_uri n = hx_uri e) ?prp")
        case (Some x)
        obtain i n where x: "x = (i, n)" by (cases x)
        note n = find_uri_Some[OF wf(3) Some[unfolded x]]
        show ?thesis using relevant noneg Some x n wf(1)
          by (auto simp: mut_extension_params_def bound_param_def intro!: push)
      next
        case noprop: None
        show ?thesis
        proof (cases "unused_ext_id self")
          case None
          then show ?thesis using relevant noneg noprop skip by (simp add: mut_extension_params_def)
        next
          case (Some i)
          have "uris_unique (hm_insert i e ?prp)"
            using wf find_uri_None[OF wf(3) noprop] by (intro uris_unique_insert) (auto simp: ext_maps_wf_def)
          then show ?thesis using relevant noneg noprop Some unused_ext_id_Some[OF Some] wf(1)
            by (auto simp: mut_extension_params_def intro!: push)
              (auto simp: ext_maps_wf_def bound_param_def)
        qed
      qed
    qed
  qed
qed

lemma ext_loop:
  "ext_loop_inv seen st \<Longrightarrow> distinct (map hx_uri es) \<Longrightarrow> seen \<inter> hx_uri ` set es = {} \<Longrightarrow>
   ext_loop_inv (seen \<union> hx_uri ` set es) (fold (mut_extension_params typ dir) es st)"
proof (induction es arbitrary: seen st)
  case (Cons e es)
  have "ext_loop_inv (insert (hx_uri e) seen) (mut_extension_params typ dir e st)"
    using ext_loop_step[of seen "fst st" "snd st" e "typ" dir] Cons.prems by simp
  from Cons.IH[OF this] Cons.prems show ?case by auto
qed simp

lemma mut_params_frame:
  "audio_codecs (snd (mut_extension_params typ dir e st)) = audio_codecs (snd st)"
  "video_codecs (snd (mut_extension_params typ dir e st)) = video_codecs (snd st)"
  "negotiated_audio_codecs (snd (mut_extension_params typ dir e st)) = negotiated_audio_codecs (snd st)"
  "negotiated_video_codecs (snd (mut_extension_params typ dir e st)) = negotiated_video_codecs (snd st)"
  "header_extensions (snd (mut_extension_params typ dir e st)) = header_extensions (snd st)"
  by (auto simp: mut_extension_params_def split: prod.splits option.splits)

lemma fold_mut_params_frame:
  "audio_codecs (snd (fold (mut_extension_params typ dir) es st)) = audio_codecs (snd st)"
  "video_codecs (snd (fold (mut_extension_params typ dir) es st)) = video_codecs (snd st)"
  "negotiated_audio_codecs (snd (fold (mut_extension_params typ dir) es st)) = negotiated_audio_codecs (snd st)"
  "negotiated_video_codecs (snd (fold (mut_extension_params typ dir) es st)) = negotiated_video_codecs (snd st)"
  "header_extensions (snd (fold (mut_extension_params typ dir) es st)) = header_extensions (snd st)"
  by (induction es arbitrary: st) (simp_all add: mut_params_frame)

lemma get_mut_loop:
  assumes "media_config_wf self"
  shows "ext_loop_inv (hx_uri ` set (header_extensions self))
    (fold (mut_extension_params typ dir) (header_extensions self) ([], self))"
  using ext_loop[of "{}" "([], self)" "header_extensions self"] assms
  by (simp add: media_config_wf_def ext_loop_inv_def)

lemma media_config_wf_get_mut:
  assumes "media_config_wf self"
  shows "media_config_wf (snd (get_mut_rtp_parameters_by_kind typ dir self))"
  using assms get_mut_loop[OF assms, of "typ" dir]
  by (auto simp: get_mut_rtp_parameters_by_kind_def Let_def case_prod_unfold media_config_wf_def
      fold_mut_params_frame ext_loop_inv_def)

lemma media_config_wf_default: "media_config_wf default_media_config"
proof -
  have 0: "media_config_wf empty_media_config"
    by (simp add: media_config_wf_def empty_media_config_def codecs_wf_def ext_maps_wf_def uris_unique_def)
  have step: "media_config_wf s \<Longrightarrow> media_config_wf (snd (for_each (\<lambda>codec. register_codec codec typ) cs s))" for "typ" cs s
    by (rule for_each_invariant[where I = media_config_wf]) (simp_all add: media_config_wf_register_codec)
  have "media_config_wf (snd (register_default_codecs empty_media_config))"
    using step[OF 0] step unfolding register_default_codecs_def
    by (auto split: prod.splits sum.splits) (metis snd_conv)+
  then show ?thesis
    by (simp add: default_media_config_def register_default_interceptors_def configure_rtcp_reports_def)
qed

section \<open>Properties\<close>

text \<open>
  C33: The default configuration is well formed and every operation of a configuration keeps it so:
  no codec list holds two entries with one MIME type and payload type, header extension URIs are
  registered once, and a header extension id stands for one URI, negotiated or proposed but not both.
\<close>

theorem media_config_operations_keep_wf:
  "media_config_wf default_media_config \<and>
   (media_config_wf self \<longrightarrow>
      media_config_wf (snd (register_codec codec typ self)) \<and>
      media_config_wf (snd (register_header_extension ext typ allowed self)) \<and>
      media_config_wf (register_rtcp_feedback fb typ self) \<and>
      media_config_wf (snd (update_from_remote_description L hexd desc self)) \<and>
      media_config_wf (snd (get_mut_rtp_parameters_by_kind typ dir self)))"
  by (simp add: media_config_wf_default media_config_wf_register_codec media_config_wf_register_extension
      media_config_wf_register_feedback media_config_wf_update_remote media_config_wf_get_mut)

theorem media_config_operations_keep_wf_witness:
  "media_config_wf (snd (register_header_extension \<lparr>cap_uri = ''urn:a''\<rparr> Audio None default_media_config))"
  using media_config_operations_keep_wf[where self = default_media_config] by blast

text \<open>
  C35: The parameters that \<open>get_mut_rtp_parameters_by_kind\<close> returns never use one header extension id twice.
\<close>

theorem mut_parameters_ids_distinct:
  assumes "media_config_wf self"
  shows "distinct (map ext_id (params_header_extensions (fst (get_mut_rtp_parameters_by_kind typ dir self))))"
proof -
  have "distinct (map ext_id (negotiated_extension_params typ dir self))"
    using assms
    by (simp add: negotiated_extension_params_def media_config_wf_def ext_maps_wf_def hm_wf_def o_def
        case_prod_unfold distinct_map_filter)
  then show ?thesis using get_mut_loop[OF assms, of "typ" dir]
    by (simp add: get_mut_rtp_parameters_by_kind_def Let_def case_prod_unfold ext_loop_inv_def)
qed

text \<open>A configuration with two header extensions for audio.\<close>

definition two_extensions :: MediaConfig where
  "two_extensions = empty_media_config\<lparr>header_extensions := [
     \<lparr>hx_uri = ''urn:a'', is_audio = True, is_video = False, allowed_direction = None\<rparr>,
     \<lparr>hx_uri = ''urn:b'', is_audio = True, is_video = False, allowed_direction = None\<rparr>]\<rparr>"

theorem mut_parameters_ids_distinct_witness:
  "distinct (map ext_id (params_header_extensions (fst (get_mut_rtp_parameters_by_kind Audio Sendrecv two_extensions))))"
  by (rule mut_parameters_ids_distinct)
    (simp add: two_extensions_def media_config_wf_def empty_media_config_def codecs_wf_def ext_maps_wf_def uris_unique_def)

text \<open>
  The read-only \<open>get_rtp_parameters_by_kind\<close>, which the media sections of an offer or answer are
  built from, gives every header extension that was neither negotiated nor proposed before the same
  id 1, because it does not record the ids it hands out.
\<close>

theorem rtp_parameters_share_one_id:
  assumes "\<not> negotiated_kind typ self" "negotiated_header_extensions self = []" "proposed_header_extensions self = []"
  shows "map ext_id (params_header_extensions (get_rtp_parameters_by_kind typ dir self)) =
    replicate (length (filter (\<lambda>e. is_matching_direction dir e \<and> extension_for_kind typ e) (header_extensions self))) 1"
proof -
  have id: "unused_ext_id self = Some 1"
    using assms by (simp add: unused_ext_id_def VALID_EXT_IDS_def hm_contains_key_def upto.simps)
  have "map ext_id (concat (map (extension_params typ dir self) es)) =
      replicate (length (filter (\<lambda>e. is_matching_direction dir e \<and> extension_for_kind typ e) es)) 1" for es
    by (induction es) (auto simp: extension_params_def assms id)
  then show ?thesis using assms(1) by (simp add: get_rtp_parameters_by_kind_def)
qed

theorem rtp_parameters_share_one_id_witness:
  "map ext_id (params_header_extensions (get_rtp_parameters_by_kind Audio Sendrecv two_extensions)) = [1, 1]"
  using rtp_parameters_share_one_id[of Audio two_extensions Sendrecv]
  by (simp add: two_extensions_def empty_media_config_def negotiated_kind_def is_matching_direction_def
      extension_for_kind_def)

definition supported :: "RTCRtpCodecParameters list \<Rightarrow> RTCRtpCodecParameters list \<Rightarrow> bool" where
  "supported remote_codecs local_codecs \<longleftrightarrow> (\<forall>c\<in>set remote_codecs. \<exists>d\<in>set local_codecs. same_mime c d)"

definition negotiated_supported :: "MediaConfig \<Rightarrow> bool" where
  "negotiated_supported self \<longleftrightarrow>
     supported (negotiated_audio_codecs self) (audio_codecs self) \<and>
     supported (negotiated_video_codecs self) (video_codecs self)"

definition kind_codecs :: "RTPCodecType \<Rightarrow> MediaConfig \<Rightarrow> RTCRtpCodecParameters list" where
  "kind_codecs typ self = (if typ = Audio then audio_codecs self else video_codecs self)"

lemma fuzzy_search_supported:
  "snd (codec_parameters_fuzzy_search hexd n h) \<noteq> MatchNone \<Longrightarrow> \<exists>d\<in>set h. same_mime n d"
  using fuzzy_search_None by blast

lemma match_remote_codec_supported:
  assumes "match_remote_codec hexd c typ ex par self = Inr mt" "mt \<noteq> MatchNone"
  shows "\<exists>d\<in>set (kind_codecs typ self). same_mime c d"
  using assms
  by (auto simp: match_remote_codec_def Let_def kind_codecs_def result_simps
      intro!: fuzzy_search_supported[of hexd c] split: option.splits if_splits)

lemma match_codecs_supported:
  assumes "try_fold (match_codec_step hexd typ self) codecs ([], []) = Inr (ex, par)"
  shows "supported ex (kind_codecs typ self) \<and> supported par (kind_codecs typ self)"
proof -
  let ?I = "\<lambda>(ex, par). supported ex (kind_codecs typ self) \<and> supported par (kind_codecs typ self)"
  have "?I (ex, par)"
  proof (rule try_fold_invariant[OF _ _ assms])
    fix c s s' assume "?I s" "match_codec_step hexd typ self c s = Inr s'"
    then show "?I s'"
      by (auto simp: match_codec_step_def supported_def result_simps dest: match_remote_codec_supported
          split: prod.splits if_splits)
  qed (simp add: supported_def)
  then show ?thesis by simp
qed

lemma push_codecs_supported:
  assumes "negotiated_supported self" "supported cs (kind_codecs typ self)"
  shows "negotiated_supported (push_codecs cs typ self)"
  using assms unfolding push_codecs_def
proof (induction cs arbitrary: self)
  case (Cons c cs)
  have frame: "kind_codecs typ (push_codec typ c self) = kind_codecs typ self"
    by (simp add: kind_codecs_def push_codec_def)
  have "negotiated_supported (push_codec typ c self)"
    using Cons.prems set_add_codec[of "negotiated_audio_codecs self" c] set_add_codec[of "negotiated_video_codecs self" c]
    by (fastforce simp: negotiated_supported_def supported_def kind_codecs_def push_codec_def split: if_splits)
  with Cons frame show ?case by (simp add: supported_def)
qed simp

lemma update_extension_supported:
  "negotiated_supported (snd (update_header_extension i u typ self)) = negotiated_supported self"
proof -
  have "negotiated_supported (fold (update_extension_step i u typ) es s) = negotiated_supported s" for es s
    by (induction es arbitrary: s) (simp_all add: negotiated_supported_def update_step_frame)
  then show ?thesis by (simp add: update_header_extension_def)
qed

lemma negotiate_media_supported:
  assumes "negotiated_supported self"
  shows "negotiated_supported (snd (negotiate_media L hexd typ m self))"
proof -
  have exts: "negotiated_supported (snd (for_each (\<lambda>x. update_header_extension (ext_id x) (ext_uri x) typ) xs s))"
    if "negotiated_supported s" for xs s
    using that by (intro for_each_invariant[where I = negotiated_supported]) (simp_all add: update_extension_supported)
  have push: "negotiated_supported (push_codecs (if ex \<noteq> [] then ex else par) typ self)"
    if "and_then (codecs_from_media_description L m) (\<lambda>codecs. try_fold (match_codec_step hexd typ self) codecs ([], []))
      = Inr (ex, par)" for ex par
    using that match_codecs_supported[of hexd "typ" self _ ex par] assms
    by (auto simp: result_simps intro!: push_codecs_supported)
  show ?thesis using assms exts push by (auto simp: negotiate_media_def Let_def split: sum.splits)
qed

text \<open>
  C34: Negotiation against a remote description, also one that ends in an error, adds no codec whose
  MIME type the server did not register for that kind of media.
\<close>

theorem negotiated_codecs_supported:
  assumes "negotiated_supported self"
  shows "negotiated_supported (snd (update_from_remote_description L hexd desc self))"
  unfolding update_from_remote_description_def
proof (rule for_each_invariant[where I = negotiated_supported])
  fix m s assume s: "negotiated_supported s"
  have "negotiated_supported (s\<lparr>negotiated_audio := True\<rparr>)" "negotiated_supported (s\<lparr>negotiated_video := True\<rparr>)"
    using s by (simp_all add: negotiated_supported_def)
  with s show "negotiated_supported (snd (update_media L hexd m s))"
    by (auto simp: update_media_def intro: negotiate_media_supported)
qed (rule assms)

theorem negotiated_codecs_supported_witness:
  "negotiated_supported (snd (update_from_remote_description (sample_sdp Inl (\<lambda>_ _. Inl [])) (\<lambda>_. None)
     (empty_session\<lparr>media_descriptions := [empty_media ''audio'' [''0'']]\<rparr>) empty_media_config))"
  by (rule negotiated_codecs_supported)
    (simp add: negotiated_supported_def supported_def empty_media_config_def)

lemma for_each_register_audio:
  "for_each (\<lambda>c. register_codec c Audio) cs s = (Ok (), s\<lparr>audio_codecs := foldl add_codec (audio_codecs s) cs\<rparr>)"
  by (induction cs arbitrary: s) (simp_all add: register_codec_def)

lemma for_each_register_video:
  "for_each (\<lambda>c. register_codec c Video) cs s = (Ok (), s\<lparr>video_codecs := foldl add_codec (video_codecs s) cs\<rparr>)"
  by (induction cs arbitrary: s) (simp_all add: register_codec_def)

lemma default_audio_types: "map payload_type (foldl add_codec [] default_audio_codecs) = [111, 9, 0, 8]"
  by code_simp

lemma default_video_types:
  "map payload_type (foldl add_codec [] default_video_codecs) = [96, 98, 100, 102, 127, 125, 108, 123, 41, 116]"
  by code_simp

text \<open>
  Registering the default codecs succeeds; the server then offers the audio payload types 111, 9,
  0 and 8 and the video payload types 96, 98, 100, 102, 127, 125, 108, 123, 41 and 116, in this order
  (the second entry with payload type 127 repeats the first and is dropped).
\<close>

theorem default_codecs_payload_types:
  "fst (register_default_codecs empty_media_config) = Ok () \<and>
   map payload_type (get_codecs_by_kind Audio default_media_config) = [111, 9, 0, 8] \<and>
   map payload_type (get_codecs_by_kind Video default_media_config) = [96, 98, 100, 102, 127, 125, 108, 123, 41, 116]"
  by (simp add: default_media_config_def register_default_interceptors_def configure_rtcp_reports_def
      register_default_codecs_def for_each_register_audio for_each_register_video empty_media_config_def
      get_codecs_by_kind_def default_audio_types default_video_types)

end
