(* ===== verification/Certificate.thy ===== *)
theory Certificate
  imports Rust_Text
begin

text \<open>
  \<open>src/server/certificate.rs\<close>: certificates and their fingerprints. A certificate is its chain of DER
  encodings, its private key and its expiry time, in nanoseconds since the Unix epoch. SHA-256 belongs to the
  \<open>sha2\<close> crate and is the argument \<open>sha256\<close>. How certificates are generated and stored is the subject of
  the theory on certificate files.
\<close>

typedecl ed25519_key_pair
typedecl ecdsa_key_pair
typedecl rsa_key_pair

datatype CryptoPrivateKeyKind = KeyEd25519 ed25519_key_pair | KeyEcdsa256 ecdsa_key_pair | KeyRsa256 rsa_key_pair

record CryptoPrivateKey =
  key_kind :: CryptoPrivateKeyKind
  key_serialized_der :: bytes

record dtls_certificate =
  certificate :: "bytes list"
  cert_private_key :: CryptoPrivateKey

type_synonym system_time = int

record RTCCertificate =
  cert_dtls_certificate :: dtls_certificate
  cert_expires :: system_time

record RTCDtlsFingerprint =
  algorithm :: string
  fp_value :: string

definition fingerprint_try_from :: "string \<Rightarrow> RTCDtlsFingerprint result" where
  "fingerprint_try_from value =
     (let fields = split_whitespace value
      in if length fields = 2 then Ok \<lparr>algorithm = fields ! 0, fp_value = fields ! 1\<rparr>
         else Err (Other ''invalid fingerprint''))"

definition certificate_from_existing :: "dtls_certificate \<Rightarrow> system_time \<Rightarrow> RTCCertificate" where
  "certificate_from_existing c expires = \<lparr>cert_dtls_certificate = c, cert_expires = expires\<rparr>"

text \<open>\<open>format!("{x:02x}")\<close> of a byte: two lower case hexadecimal digits.\<close>

definition hex_digit :: "nat \<Rightarrow> char" where
  "hex_digit n = (if n < 10 then char_of (48 + n) else char_of (87 + n))"

definition hex_byte :: "u8 \<Rightarrow> string" where
  "hex_byte x = [hex_digit (unat x div 16), hex_digit (unat x mod 16)]"

definition get_fingerprints :: "(bytes \<Rightarrow> bytes) \<Rightarrow> RTCCertificate \<Rightarrow> RTCDtlsFingerprint list" where
  "get_fingerprints sha256 self =
     map (\<lambda>c. \<lparr>algorithm = ''sha-256'', fp_value = join '':'' (map hex_byte (sha256 c))\<rparr>)
       (certificate (cert_dtls_certificate self))"

definition RUNES_ALPHA :: string where
  "RUNES_ALPHA = ''abcdefghijklmnopqrstuvwxyzABCDEFGHIJKLMNOPQRSTUVWXYZ''"

text \<open>The argument lists the random indices, each drawn below \<open>RUNES_ALPHA.len()\<close>.\<close>

definition math_rand_alpha :: "nat list \<Rightarrow> string" where
  "math_rand_alpha idxs = map (\<lambda>idx. RUNES_ALPHA ! idx) idxs"

section \<open>Fingerprints as SDP attribute values\<close>

text \<open>The text that a description carries for a fingerprint.\<close>

definition fingerprint_attr :: "RTCDtlsFingerprint \<Rightarrow> string" where
  "fingerprint_attr f = algorithm f @ '' '' @ to_uppercase (fp_value f)"

lemma split_whitespace_token: "is_token w \<Longrightarrow> split_whitespace w = [w]"
proof (cases w)
  case (Cons c cs)
  assume "is_token w"
  then have "\<not> is_ws c" "\<forall>x\<in>set cs. \<not> is_ws x" using Cons by (simp_all add: is_token_def)
  then have "takeWhile (\<lambda>x. \<not> is_ws x) cs = cs" "dropWhile (\<lambda>x. \<not> is_ws x) cs = []"
    by (simp_all add: takeWhile_eq_all_conv dropWhile_eq_Nil_conv)
  then show ?thesis unfolding Cons split_whitespace.simps(2) using \<open>\<not> is_ws c\<close>
    by (simp only: if_False split_whitespace.simps(1))
qed (simp add: is_token_def)

lemma split_whitespace_word:
  assumes "is_token w" "is_ws c"
  shows "split_whitespace (w @ c # rest) = w # split_whitespace rest"
proof -
  obtain d ds where w: "w = d # ds" using assms(1) by (cases w) (auto simp: is_token_def)
  have "\<not> is_ws d" "\<forall>x\<in>set ds. \<not> is_ws x" using assms(1) w by (simp_all add: is_token_def)
  then have "takeWhile (\<lambda>x. \<not> is_ws x) (ds @ c # rest) = ds" "dropWhile (\<lambda>x. \<not> is_ws x) (ds @ c # rest) = c # rest"
    using assms(2) by (simp_all add: takeWhile_append2 dropWhile_append2)
  with w \<open>\<not> is_ws d\<close> assms(2) show ?thesis by simp
qed

lemma is_ws_space: "is_ws CHR '' ''"
  by (simp add: is_ws_def)

lemma upper_not_ws: "\<not> is_ws c \<Longrightarrow> \<not> is_ws (upper_char c)"
  by (auto simp: is_ws_def upper_char_def Let_def)

lemma is_token_upper: "is_token w \<Longrightarrow> is_token (to_uppercase w)"
  using upper_not_ws by (auto simp: is_token_def to_uppercase_def)

lemma hex_digit_not_ws: "n < 16 \<Longrightarrow> \<not> is_ws (hex_digit n)"
  by (auto simp: hex_digit_def is_ws_def Let_def)

lemma hex_byte_no_ws: "\<forall>c\<in>set (hex_byte x). \<not> is_ws c"
proof -
  have "unat x < 2 ^ 8" using unsigned_less[of x] by simp
  then have "unat x div 16 < 16" by simp
  then show ?thesis by (simp add: hex_byte_def hex_digit_not_ws)
qed

lemma join_no_ws:
  "(\<And>s. s \<in> set ss \<Longrightarrow> \<forall>c\<in>set s. \<not> is_ws c) \<Longrightarrow> \<forall>c\<in>set sep. \<not> is_ws c \<Longrightarrow> \<forall>c\<in>set (join sep ss). \<not> is_ws c"
  by (induction sep ss rule: join.induct) auto

lemma is_token_digest:
  assumes "bs \<noteq> []"
  shows "is_token (join '':'' (map hex_byte bs))"
proof -
  have "join '':'' (map hex_byte bs) \<noteq> []"
    using assms by (cases bs; cases "tl bs") (simp_all add: hex_byte_def)
  moreover have "\<forall>c\<in>set (join '':'' (map hex_byte bs)). \<not> is_ws c"
    by (rule join_no_ws) (use hex_byte_no_ws in \<open>auto simp: is_ws_def\<close>)
  ultimately show ?thesis by (simp add: is_token_def)
qed


definition sample_certificate :: RTCCertificate where
  "sample_certificate =
     certificate_from_existing \<lparr>certificate = [[1, 2]], cert_private_key = undefined\<rparr> 0"


end
