(* ===== verification/Config.thy ===== *)
theory Config
  imports Media_Config Certificate Messages
begin

text \<open>
  \<open>src/configs/server_config.rs\<close> and \<open>session_config.rs\<close>, with the text form of an address
  that candidates in a description use. The configuration types of the \<open>dtls\<close> and
  \<open>sctp\<close> crates are opaque but for the two numbers the program reads; their defaults are arguments.
\<close>

section \<open>Configurations\<close>

typedecl dtls_handshake_config
typedecl sctp_endpoint_config
typedecl sctp_server_rest

record sctp_server_config =
  sctp_port :: u16
  sctp_max_message_size :: u32
  sctp_server_rest_of :: sctp_server_rest

record ServerConfig =
  certificates :: "RTCCertificate list"
  cfg_dtls_handshake_config :: dtls_handshake_config
  cfg_sctp_endpoint_config :: sctp_endpoint_config
  cfg_sctp_server_config :: sctp_server_config
  media_config :: MediaConfig
  idle_timeout :: duration

definition server_config_new ::
  "sctp_endpoint_config \<Rightarrow> sctp_server_config \<Rightarrow> dtls_handshake_config \<Rightarrow> RTCCertificate list \<Rightarrow> ServerConfig" where
  "server_config_new sctp_endpoint_default sctp_server_default dtls_default certs =
     \<lparr>certificates = certs, cfg_dtls_handshake_config = dtls_default,
      cfg_sctp_endpoint_config = sctp_endpoint_default, cfg_sctp_server_config = sctp_server_default,
      media_config = default_media_config, idle_timeout = 30 * 10 ^ 9\<rparr>"

definition with_media_config :: "MediaConfig \<Rightarrow> ServerConfig \<Rightarrow> ServerConfig" where
  "with_media_config c self = self\<lparr>media_config := c\<rparr>"

definition with_sctp_server_config :: "sctp_server_config \<Rightarrow> ServerConfig \<Rightarrow> ServerConfig" where
  "with_sctp_server_config c self = self\<lparr>cfg_sctp_server_config := c\<rparr>"

definition with_sctp_endpoint_config :: "sctp_endpoint_config \<Rightarrow> ServerConfig \<Rightarrow> ServerConfig" where
  "with_sctp_endpoint_config c self = self\<lparr>cfg_sctp_endpoint_config := c\<rparr>"

definition with_dtls_handshake_config :: "dtls_handshake_config \<Rightarrow> ServerConfig \<Rightarrow> ServerConfig" where
  "with_dtls_handshake_config c self = self\<lparr>cfg_dtls_handshake_config := c\<rparr>"

definition with_idle_timeout :: "duration \<Rightarrow> ServerConfig \<Rightarrow> ServerConfig" where
  "with_idle_timeout d self = self\<lparr>idle_timeout := d\<rparr>"

record SessionConfig =
  server_config :: ServerConfig
  cfg_local_addr :: socket_addr

definition session_config_new :: "ServerConfig \<Rightarrow> socket_addr \<Rightarrow> SessionConfig" where
  "session_config_new sc addr = \<lparr>server_config = sc, cfg_local_addr = addr\<rparr>"

section \<open>The text form of an address\<close>

definition show_ipv4 :: "u32 \<Rightarrow> string" where
  "show_ipv4 a = join ''.'' (map (\<lambda>i. show_word (ucast (drop_bit (8 * i) a) :: u8)) [3, 2, 1, 0])"

definition ipv6_segments :: "128 word \<Rightarrow> u16 list" where
  "ipv6_segments a = map (\<lambda>i. ucast (drop_bit (16 * i) a)) [7, 6, 5, 4, 3, 2, 1, 0]"

fun strip_zeros :: "string \<Rightarrow> string" where
  "strip_zeros (a # b # s) = (if a = CHR ''0'' then strip_zeros (b # s) else a # b # s)"
| "strip_zeros s = s"

definition show_segment :: "u16 \<Rightarrow> string" where
  "show_segment n = strip_zeros (map (\<lambda>i. hex_digit (unat (ucast (drop_bit (4 * i) n) :: 4 word))) [3, 2, 1, 0])"

text \<open>The first of the longest runs of zero segments, as start and length.\<close>

fun zero_span :: "nat \<Rightarrow> nat \<times> nat \<Rightarrow> nat \<times> nat \<Rightarrow> u16 list \<Rightarrow> nat \<times> nat" where
  "zero_span i current longest [] = longest"
| "zero_span i current longest (s # ss) =
     (if s = 0 then
        (let current' = (if snd current = 0 then (i, 1) else (fst current, snd current + 1))
         in zero_span (i + 1) current' (if snd current' > snd longest then current' else longest) ss)
      else zero_span (i + 1) (0, 0) longest ss)"

definition show_ipv6 :: "128 word \<Rightarrow> string" where
  "show_ipv6 a =
     (let segments = ipv6_segments a
      in if take 5 segments = replicate 5 0 \<and> segments ! 5 = 65535
         then ''::ffff:'' @ show_ipv4 (ucast a)
         else (let (start, len) = zero_span 0 (0, 0) (0, 0) segments
               in if 1 < len then
                    join '':'' (map show_segment (take start segments)) @ ''::'' @
                    join '':'' (map show_segment (drop (start + len) segments))
                  else join '':'' (map show_segment segments)))"

fun show_ip :: "ip_addr \<Rightarrow> string" where
  "show_ip (IpV4 a) = show_ipv4 a"
| "show_ip (IpV6 a) = show_ipv6 a"

end
