(* ===== verification/Candidate.thy ===== *)
theory Candidate
  imports Certificate Sdp_Extract Messages
begin

text \<open>
  \<open>src/endpoint/candidate.rs\<close>: DTLS roles, ICE and DTLS parameters, the credentials of a
  connection and the candidate that an accepted offer leaves behind. The random bytes of
  \<open>SystemRandom\<close> are arguments, and \<open>b64\<close> stands for the standard encoding of the \<open>base64\<close> crate.
\<close>

section \<open>Roles\<close>

datatype DTLSRole = DtlsUnspecified | DtlsAuto | DtlsClient | DtlsServer

definition DEFAULT_DTLS_ROLE_ANSWER :: DTLSRole where "DEFAULT_DTLS_ROLE_ANSWER = DtlsClient"

definition DEFAULT_DTLS_ROLE_OFFER :: DTLSRole where "DEFAULT_DTLS_ROLE_OFFER = DtlsAuto"

fun dtls_role_to_string :: "DTLSRole \<Rightarrow> string" where
  "dtls_role_to_string DtlsAuto = ''auto''"
| "dtls_role_to_string DtlsClient = ''client''"
| "dtls_role_to_string DtlsServer = ''server''"
| "dtls_role_to_string DtlsUnspecified = UNSPECIFIED_STR"

fun role_of_attributes :: "Attribute list \<Rightarrow> DTLSRole option" where
  "role_of_attributes [] = None"
| "role_of_attributes (a # as) =
     (if attr_key a = ''setup'' then
        (case attr_value a of
           Some value \<Rightarrow>
             Some (if value = ''active'' then DtlsClient
                   else if value = ''passive'' then DtlsServer else DtlsAuto)
         | None \<Rightarrow> Some DtlsAuto)
      else role_of_attributes as)"

fun role_of_sections :: "MediaDescription list \<Rightarrow> DTLSRole" where
  "role_of_sections [] = DtlsAuto"
| "role_of_sections (m # ms) =
     (case role_of_attributes (attributes m) of Some r \<Rightarrow> r | None \<Rightarrow> role_of_sections ms)"

definition dtls_role_from :: "SessionDescription \<Rightarrow> DTLSRole" where
  "dtls_role_from d = role_of_sections (media_descriptions d)"

fun to_connection_role :: "DTLSRole \<Rightarrow> ConnectionRole" where
  "to_connection_role DtlsClient = RoleActive"
| "to_connection_role DtlsServer = RolePassive"
| "to_connection_role DtlsAuto = RoleActpass"
| "to_connection_role DtlsUnspecified = RoleUnspecified"

section \<open>Credentials\<close>

record RTCIceParameters =
  username_fragment :: string
  password :: string

record DTLSParameters =
  role :: DTLSRole
  fingerprints :: "RTCDtlsFingerprint list"

record ConnectionCredentials =
  ice_params :: RTCIceParameters
  dtls_params :: DTLSParameters

definition connection_credentials_new ::
  "(bytes \<Rightarrow> string) \<Rightarrow> bytes \<Rightarrow> bytes \<Rightarrow> RTCDtlsFingerprint list \<Rightarrow> DTLSRole \<Rightarrow> ConnectionCredentials" where
  "connection_credentials_new b64 user pwd fps remote_role =
     \<lparr>ice_params = \<lparr>username_fragment = b64 user, password = b64 pwd\<rparr>,
      dtls_params = \<lparr>role = (if remote_role = DtlsServer then DtlsClient else DtlsServer),
                     fingerprints = fps\<rparr>\<rparr>"

text \<open>\<open>find_map(|m| m.attribute(key))\<close> with the two \<open>ok_or\<close> that follow it.\<close>

fun find_map :: "('a \<Rightarrow> 'b option) \<Rightarrow> 'a list \<Rightarrow> 'b option" where
  "find_map f [] = None"
| "find_map f (x # xs) = (case f x of Some y \<Rightarrow> Some y | None \<Rightarrow> find_map f xs)"

definition section_attribute :: "sdp_lib \<Rightarrow> string \<Rightarrow> SessionDescription \<Rightarrow> string result" where
  "section_attribute L k d =
     and_then (ok_or (find_map (media_attribute L k) (media_descriptions d)) ErrAttributeNotFound)
       (\<lambda>v. ok_or v ErrAttributeNotFound)"

definition connection_credentials_from_sdp :: "sdp_lib \<Rightarrow> SessionDescription \<Rightarrow> ConnectionCredentials result" where
  "connection_credentials_from_sdp L d =
     and_then (section_attribute L ''ice-ufrag'' d) (\<lambda>ufrag.
     and_then (section_attribute L ''ice-pwd'' d) (\<lambda>pwd.
     and_then (case session_attribute L ''fingerprint'' d of
                 Some f \<Rightarrow> fingerprint_try_from f
               | None \<Rightarrow> and_then (section_attribute L ''fingerprint'' d) fingerprint_try_from) (\<lambda>fp.
     Ok \<lparr>ice_params = \<lparr>username_fragment = ufrag, password = pwd\<rparr>,
         dtls_params = \<lparr>role = dtls_role_from d, fingerprints = [fp]\<rparr>\<rparr>)))"

definition credentials_valid :: "ConnectionCredentials \<Rightarrow> bool" where
  "credentials_valid self \<longleftrightarrow>
     length (username_fragment (ice_params self)) \<ge> 4 \<and> length (username_fragment (ice_params self)) \<le> 256 \<and>
     length (password (ice_params self)) \<ge> 22 \<and> length (password (ice_params self)) \<le> 256"

section \<open>Candidates\<close>

record Candidate =
  cand_session_id :: SessionId
  cand_endpoint_id :: EndpointId
  remote_conn_cred :: ConnectionCredentials
  local_conn_cred :: ConnectionCredentials
  cand_remote_description :: RTCSessionDescription
  cand_local_description :: RTCSessionDescription
  expired_time :: instant

definition candidate_new ::
  "SessionId \<Rightarrow> EndpointId \<Rightarrow> ConnectionCredentials \<Rightarrow> ConnectionCredentials \<Rightarrow>
   RTCSessionDescription \<Rightarrow> RTCSessionDescription \<Rightarrow> instant \<Rightarrow> Candidate" where
  "candidate_new sid eid remote_cred local_cred remote_desc local_desc expired =
     \<lparr>cand_session_id = sid, cand_endpoint_id = eid, remote_conn_cred = remote_cred,
      local_conn_cred = local_cred, cand_remote_description = remote_desc,
      cand_local_description = local_desc, expired_time = expired\<rparr>"

definition get_remote_parameters :: "Candidate \<Rightarrow> RTCIceParameters" where
  "get_remote_parameters self = ice_params (remote_conn_cred self)"

definition get_local_parameters :: "Candidate \<Rightarrow> RTCIceParameters" where
  "get_local_parameters self = ice_params (local_conn_cred self)"

definition username :: "Candidate \<Rightarrow> UserName" where
  "username self =
     username_fragment (get_local_parameters self) @ '':'' @ username_fragment (get_remote_parameters self)"

section \<open>Properties\<close>

text \<open>What the \<open>base64\<close> crate documents of the length of a padded encoding.\<close>

definition b64_padded :: "(bytes \<Rightarrow> string) \<Rightarrow> bool" where
  "b64_padded b64 \<longleftrightarrow> (\<forall>bs. length (b64 bs) = 4 * ((length bs + 2) div 3))"

text \<open>
  Fresh credentials, made of 9 and 18 random bytes, satisfy the length bounds of ICE, and their DTLS
  role complements the remote one: client for a remote server, else server.
\<close>

theorem new_credentials_valid:
  assumes "b64_padded b64" "length user = 9" "length pwd = 18"
  shows "credentials_valid (connection_credentials_new b64 user pwd fps remote_role) \<and>
    to_connection_role (role (dtls_params (connection_credentials_new b64 user pwd fps remote_role))) =
      (if to_connection_role remote_role = RolePassive then RoleActive else RolePassive)"
  using assms
  by (cases remote_role) (simp_all add: b64_padded_def credentials_valid_def connection_credentials_new_def)

definition sample_b64 :: "bytes \<Rightarrow> string" where
  "sample_b64 bs = replicate (4 * ((length bs + 2) div 3)) CHR ''A''"

theorem new_credentials_valid_witness:
  "credentials_valid (connection_credentials_new sample_b64 (replicate 9 0) (replicate 18 0) [] DtlsAuto)"
  using new_credentials_valid[of sample_b64 "replicate 9 0" "replicate 18 0" "[]" DtlsAuto]
  by (simp add: b64_padded_def sample_b64_def)

lemma find_map_Some: "find_map f xs = Some y \<Longrightarrow> \<exists>x\<in>set xs. f x = Some y"
  by (induction xs) (auto split: option.splits)

lemma find_map_hd: "f x = Some y \<Longrightarrow> find_map f (x # xs) = Some y"
  by simp

lemma username_no_colon_inject:
  assumes "CHR '':'' \<notin> set (username_fragment (get_local_parameters a))"
    "CHR '':'' \<notin> set (username_fragment (get_local_parameters b))" "username a = username b"
  shows "username_fragment (get_local_parameters a) = username_fragment (get_local_parameters b) \<and>
    username_fragment (get_remote_parameters a) = username_fragment (get_remote_parameters b)"
proof -
  have hd: "hd (split_on CHR '':'' (username c)) = username_fragment (get_local_parameters c)"
    if "CHR '':'' \<notin> set (username_fragment (get_local_parameters c))" for c
    using split_on_append[OF that] by (simp add: username_def)
  have l: "username_fragment (get_local_parameters a) = username_fragment (get_local_parameters b)"
    using hd[OF assms(1)] hd[OF assms(2)] assms(3) by simp
  then show ?thesis using assms(3) by (simp add: username_def)
qed

end
