(* ===== verification/Sdp_Populate.thy ===== *)
theory Sdp_Populate
  imports Config Candidate
begin

text \<open>
  The functions of \<open>src/description/mod.rs\<close> that write a session description: candidates,
  the data channel section, the section of a transceiver and \<open>populate_sdp\<close>, which
  puts them together.
\<close>

section \<open>Candidates\<close>

datatype RTCIceGatheringState = GatheringUnspecified | GatheringNew | Gathering | GatheringComplete

definition candidate_value :: "socket_addr \<Rightarrow> u16 \<Rightarrow> string" where
  "candidate_value c component =
     ''1 '' @ show_word component @ '' UDP 1 '' @ show_ip (addr_ip c) @ '' '' @ show_word (addr_port c) @ '' typ host''"

definition append_candidate_if_new ::
  "sdp_lib \<Rightarrow> socket_addr \<Rightarrow> u16 \<Rightarrow> MediaDescription \<Rightarrow> MediaDescription" where
  "append_candidate_if_new L c component m =
     (let marshaled = candidate_value c component
      in if list_ex (\<lambda>a. attr_value a = Some marshaled) (attributes m) then m
         else media_with_value_attribute L ''candidate'' marshaled m)"

definition add_candidate_to_media_descriptions ::
  "sdp_lib \<Rightarrow> socket_addr \<Rightarrow> MediaDescription \<Rightarrow> RTCIceGatheringState \<Rightarrow> MediaDescription result" where
  "add_candidate_to_media_descriptions L c m0 st =
     (let m = append_candidate_if_new L c 1 m0
      in if st \<noteq> GatheringComplete then Ok m
         else if list_ex (\<lambda>a. attr_key a = ''end-of-candidates'') (attributes m) then Ok m
         else Ok (media_with_property_attribute L ''end-of-candidates'' m))"

definition add_fingerprints :: "sdp_lib \<Rightarrow> RTCDtlsFingerprint list \<Rightarrow> MediaDescription \<Rightarrow> MediaDescription" where
  "add_fingerprints L fps m =
     fold (\<lambda>f. media_with_fingerprint L (algorithm f) (to_uppercase (fp_value f))) fps m"

section \<open>The data channel section\<close>

record AddDataMediaSectionParams =
  dparams_should_add_candidates :: bool
  dparams_mid_value :: string
  dparams_ice_params :: RTCIceParameters
  dparams_dtls_role :: ConnectionRole
  dparams_ice_gathering_state :: RTCIceGatheringState

definition data_media :: MediaDescription where
  "data_media = \<lparr>
     media_name = \<lparr>media = MEDIA_SECTION_APPLICATION, port = \<lparr>port_value = 9, port_range = None\<rparr>,
                   protos = [''UDP'', ''DTLS'', ''SCTP''], formats = [''webrtc-datachannel'']\<rparr>,
     media_title = None,
     connection_information = Some \<lparr>network_type = ''IN'', address_type = ''IP4'',
       address = Some \<lparr>address_string = ''0.0.0.0'', address_ttl = None, address_range = None\<rparr>\<rparr>,
     bandwidth = [], encryption_key = None, attributes = []\<rparr>"

definition add_data_media_section ::
  "sdp_lib \<Rightarrow> SessionDescription \<Rightarrow> RTCDtlsFingerprint list \<Rightarrow> SessionConfig \<Rightarrow> AddDataMediaSectionParams
   \<Rightarrow> SessionDescription result" where
  "add_data_media_section L d dtls_fingerprints cfg params =
     (let sctp = cfg_sctp_server_config (server_config cfg);
          m1 = media_with_value_attribute L (ATTR_KEY_CONNECTION_SETUP L)
                 (connection_role_to_string L (dparams_dtls_role params)) data_media;
          m2 = media_with_value_attribute L (ATTR_KEY_MID L) (dparams_mid_value params) m1;
          m3 = media_with_property_attribute L (direction_to_string Sendrecv) m2;
          m4 = media_with_value_attribute L ''sctp-port'' (show_word (sctp_port sctp)) m3;
          m5 = media_with_value_attribute L ''max-message-size'' (show_word (sctp_max_message_size sctp)) m4;
          m6 = media_with_ice_credentials L (username_fragment (dparams_ice_params params))
                 (password (dparams_ice_params params)) m5;
          m7 = add_fingerprints L dtls_fingerprints m6
      in and_then (if dparams_should_add_candidates params
                   then add_candidate_to_media_descriptions L (cfg_local_addr cfg) m7
                          (dparams_ice_gathering_state params)
                   else Ok m7) (\<lambda>m. Ok (with_media L m d)))"

section \<open>The section of a transceiver\<close>

record MediaSection =
  sect_mid :: Mid
  sect_data :: bool
  rid_map :: "(string, string) hashmap"
  offered_direction :: "RTCRtpTransceiverDirection option"

record AddTransceiverSdpParams =
  tparams_should_add_candidates :: bool
  tparams_mid_value :: string
  tparams_dtls_role :: ConnectionRole
  tparams_ice_gathering_state :: RTCIceGatheringState
  tparams_offered_direction :: "RTCRtpTransceiverDirection option"

definition add_codec_attributes :: "sdp_lib \<Rightarrow> RTCRtpCodecParameters \<Rightarrow> MediaDescription \<Rightarrow> MediaDescription" where
  "add_codec_attributes L codec m =
     (let cap = capability codec;
          name = trim_start_matches ''video/'' (trim_start_matches ''audio/'' (mime_type cap))
      in fold (\<lambda>fb. media_with_value_attribute L ''rtcp-fb''
                 (show_word (payload_type codec) @ '' '' @ fb_typ fb @ '' '' @ fb_parameter fb))
           (rtcp_feedbacks cap)
           (media_with_codec L (payload_type codec) name (clock_rate cap) (channels cap) (sdp_fmtp_line cap) m))"

definition add_extension ::
  "sdp_lib \<Rightarrow> RTCRtpHeaderExtensionParameters \<Rightarrow> MediaDescription \<Rightarrow> MediaDescription result" where
  "add_extension L e m =
     (case url_parse L (ext_uri e) of
        None \<Rightarrow> Err (ErrForeign ''url::ParseError'')
      | Some u \<Rightarrow> Ok (media_with_extmap L (ext_id e) (Some u) m))"

definition add_rids :: "sdp_lib \<Rightarrow> (string, string) hashmap \<Rightarrow> MediaDescription \<Rightarrow> MediaDescription" where
  "add_rids L rids m =
     (if rids = [] then m
      else media_with_value_attribute L ''simulcast'' (''recv '' @ join '';'' (hm_keys rids))
             (fold (\<lambda>rid. media_with_value_attribute L SDP_ATTRIBUTE_RID (rid @ '' recv'')) (hm_keys rids) m))"

fun section_direction ::
  "RTCRtpTransceiverDirection option \<Rightarrow> RTCRtpTransceiverDirection \<Rightarrow> RTCRtpTransceiverDirection" where
  "section_direction (Some Sendonly) t = intersect_direction (reverse_direction Sendonly) t"
| "section_direction (Some Recvonly) t = intersect_direction (reverse_direction Recvonly) t"
| "section_direction (Some Sendrecv) t = t"
| "section_direction (Some Unspecified) t = t"
| "section_direction (Some Inactive) t = Inactive"
| "section_direction None t = t"

definition add_sender :: "sdp_lib \<Rightarrow> RTCRtpSender \<Rightarrow> MediaDescription \<Rightarrow> MediaDescription" where
  "add_sender L sd m =
     (let m1 = media_with_property_attribute L
                 (''msid:'' @ stream_id (msid sd) @ '' '' @ track_id (msid sd)) m;
          m2 = fold (\<lambda>g. media_with_property_attribute L
                 (''ssrc-group:'' @ group_name g @ '' '' @ join '' '' (map show_word (group_ssrcs g))))
                 (ssrc_groups sd) m1
      in fold (\<lambda>s. media_with_media_source L s (cname sd) (stream_id (msid sd)) (track_id (msid sd))) (ssrcs sd) m2)"

definition add_transceiver_sdp ::
  "sdp_lib \<Rightarrow> SessionDescription \<Rightarrow> RTCDtlsFingerprint list \<Rightarrow> RTCIceParameters \<Rightarrow> SessionConfig
   \<Rightarrow> MediaSection \<Rightarrow> RTCRtpTransceiver \<Rightarrow> AddTransceiverSdpParams \<Rightarrow> (SessionDescription \<times> bool) result" where
  "add_transceiver_sdp L d dtls_fingerprints ice cfg sect t params =
     (let mc = media_config (server_config cfg);
          m1 = media_with_value_attribute L (ATTR_KEY_CONNECTION_SETUP L)
                 (connection_role_to_string L (tparams_dtls_role params))
                 (new_jsep_media_description L (codec_type_to_string (kind t)) []);
          m2 = media_with_value_attribute L (ATTR_KEY_MID L) (tparams_mid_value params) m1;
          m3 = media_with_ice_credentials L (username_fragment ice) (password ice) m2;
          m4 = media_with_property_attribute L (ATTR_KEY_RTCPMUX L) m3;
          m5 = media_with_property_attribute L (ATTR_KEY_RTCPRSIZE L) m4;
          m6 = add_fingerprints L dtls_fingerprints m5
      in and_then (if tparams_should_add_candidates params
                   then add_candidate_to_media_descriptions L (cfg_local_addr cfg) m6
                          (tparams_ice_gathering_state params)
                   else Ok m6) (\<lambda>m7.
         let m8 = fold (add_codec_attributes L) (get_codecs_by_kind (kind t) mc) m7;
             parameters = get_rtp_parameters_by_kind (kind t) (direction t) mc
         in and_then (try_fold (add_extension L) (params_header_extensions parameters) m8) (\<lambda>m9.
            let m10 = add_rids L (rid_map sect) m9;
                dir = section_direction (tparams_offered_direction params) (direction t);
                m11 = media_with_property_attribute L (direction_to_string dir) m10
            in if dir = Sendonly then
                 (case sender t of
                    Some sd \<Rightarrow> Ok (with_media L (add_sender L sd m11) d, True)
                  | None \<Rightarrow> Err (Other ''Sendonly transceiver doesn't have sender set''))
               else Ok (with_media L m11 d, True))))"

section \<open>The whole description\<close>

definition populate_section ::
  "sdp_lib \<Rightarrow> RTCDtlsFingerprint list \<Rightarrow> SessionConfig \<Rightarrow> RTCIceParameters \<Rightarrow> ConnectionRole
   \<Rightarrow> (Mid, RTCRtpTransceiver) hashmap \<Rightarrow> nat \<times> MediaSection \<Rightarrow> SessionDescription \<times> string
   \<Rightarrow> (SessionDescription \<times> string) result" where
  "populate_section L fps cfg ice crole transceivers im st =
     (case im of (i, m) \<Rightarrow> case st of (d, bundle_value) \<Rightarrow>
        if sect_data m \<and> hm_get transceivers (sect_mid m) \<noteq> None
        then Err (Other ''ErrSDPMediaSectionMediaDataChanInvalid'')
        else
          and_then
            (if sect_data m then
               and_then (add_data_media_section L d fps cfg
                  \<lparr>dparams_should_add_candidates = (i = 0), dparams_mid_value = sect_mid m,
                   dparams_ice_params = ice, dparams_dtls_role = crole,
                   dparams_ice_gathering_state = GatheringComplete\<rparr>) (\<lambda>d1. Ok (d1, True))
             else
               and_then (ok_or (hm_get transceivers (sect_mid m)) (Other ''ErrSDPZeroTransceivers'')) (\<lambda>t.
                 add_transceiver_sdp L d fps ice cfg m t
                   \<lparr>tparams_should_add_candidates = (i = 0), tparams_mid_value = sect_mid m,
                    tparams_dtls_role = crole, tparams_ice_gathering_state = GatheringComplete,
                    tparams_offered_direction = offered_direction m\<rparr>))
            (\<lambda>(d1, should_add_id).
               Ok (d1, if should_add_id then bundle_value @ '' '' @ sect_mid m else bundle_value)))"

definition populate_sdp ::
  "sdp_lib \<Rightarrow> SessionDescription \<Rightarrow> RTCDtlsFingerprint list \<Rightarrow> SessionConfig \<Rightarrow> RTCIceParameters
   \<Rightarrow> ConnectionRole \<Rightarrow> MediaSection list \<Rightarrow> (Mid, RTCRtpTransceiver) hashmap \<Rightarrow> bool
   \<Rightarrow> SessionDescription result" where
  "populate_sdp L d dtls_fingerprints cfg ice crole media_sections transceivers media_description_fingerprint =
     (let media_fps = (if media_description_fingerprint then dtls_fingerprints else [])
      in and_then (try_fold (populate_section L media_fps cfg ice crole transceivers)
                     (enumerate 0 media_sections) (d, ''BUNDLE'')) (\<lambda>(d1, bundle_value).
         let d2 = (if \<not> media_description_fingerprint
                   then fold (\<lambda>f. session_with_fingerprint L (algorithm f) (to_uppercase (fp_value f)))
                          dtls_fingerprints d1
                   else d1);
             d3 = session_with_property_attribute L (ATTR_KEY_ICELITE L) d2
         in Ok (session_with_value_attribute L (ATTR_KEY_GROUP L) bundle_value d3)))"

section \<open>What the steps add to a section\<close>

text \<open>Attributes that name neither a mid nor a direction.\<close>

definition neutral_key :: "string \<Rightarrow> bool" where
  "neutral_key k \<longleftrightarrow> k \<noteq> ''mid'' \<and> direction_from_str k = Unspecified"

definition extends :: "MediaDescription \<Rightarrow> MediaDescription \<Rightarrow> bool" where
  "extends m m' \<longleftrightarrow> media (media_name m') = media (media_name m) \<and>
     (\<exists>as. attributes m' = attributes m @ as \<and> (\<forall>a\<in>set as. neutral_key (attr_key a)))"

lemma extends_refl [simp]: "extends m m"
  by (simp add: extends_def)

lemma extends_trans [trans]: "extends a b \<Longrightarrow> extends b c \<Longrightarrow> extends a c"
  unfolding extends_def by (metis append_assoc Un_iff set_append)

lemma extends_add_attrs [simp]: "list_all (\<lambda>a. neutral_key (attr_key a)) as \<Longrightarrow> extends m (add_attrs as m)"
  by (auto simp: extends_def add_attrs_def list_all_iff)

lemma extends_fold: "(\<And>x m. x \<in> set xs \<Longrightarrow> extends m (f x m)) \<Longrightarrow> extends m (fold f xs m)"
  by (induction xs arbitrary: m) (auto intro: extends_trans)

lemma neutral_keys [simp]:
  "neutral_key ''setup''" "neutral_key ''ice-ufrag''" "neutral_key ''ice-pwd''" "neutral_key ''rtcp-mux''"
  "neutral_key ''rtcp-rsize''" "neutral_key ''fingerprint''" "neutral_key ''candidate''"
  "neutral_key ''end-of-candidates''" "neutral_key ''rtpmap''" "neutral_key ''fmtp''" "neutral_key ''rtcp-fb''"
  "neutral_key ''rid''" "neutral_key ''simulcast''" "neutral_key ''ssrc''" "neutral_key ''sctp-port''"
  "neutral_key ''max-message-size''" "neutral_key (CHR ''m'' # CHR ''s'' # s)" "neutral_key (CHR ''s'' # CHR ''s'' # s)"
  by (simp_all add: neutral_key_def direction_from_str_def)

lemma neutral_key_extmap:
  assumes "take 6 k = ''extmap''"
  shows "neutral_key k"
proof -
  have "hd k = hd (take 6 k)" by simp
  also have "\<dots> = CHR ''e''" by (simp add: assms)
  finally have hd: "hd k = CHR ''e''" .
  have "k \<noteq> ''mid''" "k \<noteq> ''sendrecv''" "k \<noteq> ''sendonly''" "k \<noteq> ''recvonly''" "k \<noteq> ''inactive''"
    using hd by auto
  then show ?thesis by (simp add: neutral_key_def direction_from_str_def)
qed

lemma lib_keys:
  assumes "sdp_builders L"
  shows "ATTR_KEY_CONNECTION_SETUP L = ''setup''" "ATTR_KEY_GROUP L = ''group''" "ATTR_KEY_ICELITE L = ''ice-lite''"
    "ATTR_KEY_MID L = ''mid''" "ATTR_KEY_RTCPMUX L = ''rtcp-mux''" "ATTR_KEY_RTCPRSIZE L = ''rtcp-rsize''"
    "ATTR_KEY_EXT_MAP L = ''extmap''"
  using assms by (simp_all only: sdp_builders_def sdp_keys_def)

lemma lib_media:
  assumes "sdp_builders L"
  shows "media_with_value_attribute L k v m = add_attrs [value_attr k v] m"
    "media_with_property_attribute L k m = add_attrs [property_attr k] m"
    "media_with_ice_credentials L u p m = add_attrs [value_attr ''ice-ufrag'' u, value_attr ''ice-pwd'' p] m"
    "media_with_fingerprint L a v m = add_attrs [value_attr ''fingerprint'' (a @ '' '' @ v)] m"
    "media_attribute L k m = first_attr k (attributes m)"
    "attributes (new_jsep_media_description L k fs) = []"
    "media (media_name (new_jsep_media_description L k fs)) = k"
  using assms by (simp_all only: sdp_builders_def sdp_media_builders_def)

lemma lib_source:
  assumes "sdp_builders L"
  shows "media_with_media_source L s c l t m =
    add_attrs [value_attr ''ssrc'' (show_word s @ '' cname:'' @ c),
               value_attr ''ssrc'' (show_word s @ '' msid:'' @ l @ '' '' @ t),
               value_attr ''ssrc'' (show_word s @ '' mslabel:'' @ l),
               value_attr ''ssrc'' (show_word s @ '' label:'' @ t)] m"
  using assms by (simp only: sdp_builders_def sdp_media_builders_def)

lemma lib_session:
  assumes "sdp_builders L"
  shows "with_media L m d = d\<lparr>media_descriptions := media_descriptions d @ [m]\<rparr>"
    "session_with_value_attribute L k v d = d\<lparr>session_attributes := session_attributes d @ [value_attr k v]\<rparr>"
    "session_with_property_attribute L k d = d\<lparr>session_attributes := session_attributes d @ [property_attr k]\<rparr>"
    "session_with_fingerprint L a v d =
       d\<lparr>session_attributes := session_attributes d @ [value_attr ''fingerprint'' (a @ '' '' @ v)]\<rparr>"
  using assms by (simp_all only: sdp_builders_def sdp_session_builders_def)

lemma extends_codec:
  assumes "sdp_builders L"
  shows "extends m (media_with_codec L pt n r c f m)"
proof -
  obtain as where "attributes (media_with_codec L pt n r c f m) = attributes m @ as"
    "attr_key ` set as \<subseteq> {''rtpmap'', ''fmtp''}"
    "media (media_name (media_with_codec L pt n r c f m)) = media (media_name m)"
    using assms unfolding sdp_builders_def sdp_media_builders_def by metis
  moreover from this(2) have "\<forall>a\<in>set as. neutral_key (attr_key a)" by fastforce
  ultimately show ?thesis unfolding extends_def by blast
qed

lemma extends_extmap:
  assumes "sdp_builders L"
  shows "extends m (media_with_extmap L i u m)"
proof -
  obtain a where "media_with_extmap L i u m = add_attrs [a] m" "take 6 (attr_key a) = ''extmap''"
    using assms unfolding sdp_builders_def sdp_media_builders_def by metis
  then show ?thesis by (simp add: neutral_key_extmap)
qed

lemma extends_fingerprints: "sdp_builders L \<Longrightarrow> extends m (add_fingerprints L fps m)"
  unfolding add_fingerprints_def by (rule extends_fold) (simp add: lib_media)

lemma extends_candidate:
  assumes "sdp_builders L" "add_candidate_to_media_descriptions L c m st = Inr m'"
  shows "extends m m'"
proof -
  have "extends m (append_candidate_if_new L c 1 m)"
    using assms(1) by (simp add: append_candidate_if_new_def Let_def lib_media)
  moreover have "extends (append_candidate_if_new L c 1 m) m'"
    using assms by (auto simp: add_candidate_to_media_descriptions_def Let_def lib_media
        split: if_splits)
  ultimately show ?thesis by (rule extends_trans)
qed

lemma extends_codec_attributes:
  assumes "sdp_builders L"
  shows "extends m (add_codec_attributes L codec m)"
  unfolding add_codec_attributes_def Let_def
  by (rule extends_trans[OF extends_codec[OF assms] extends_fold])
    (simp add: lib_media[OF assms])

lemma extends_extensions:
  assumes "sdp_builders L" "try_fold (add_extension L) es m = Inr m'"
  shows "extends m m'"
  by (rule try_fold_invariant[where I = "extends m", OF _ _ assms(2)])
    (auto simp: add_extension_def split: option.splits intro: extends_trans extends_extmap[OF assms(1)])

lemma extends_rids: "sdp_builders L \<Longrightarrow> extends m (add_rids L rids m)"
  by (auto simp: add_rids_def lib_media SDP_ATTRIBUTE_RID_def
      intro!: extends_trans[OF extends_fold extends_add_attrs])

lemma extends_sender: "sdp_builders L \<Longrightarrow> extends m (add_sender L sd m)"
  unfolding add_sender_def Let_def
  by (rule extends_trans[OF extends_trans[OF _ extends_fold] extends_fold])
    (simp_all add: lib_media lib_source)

section \<open>What a section says\<close>

lemma peer_direction_append:
  "peer_direction_of (as @ bs) =
     (if peer_direction_of as \<noteq> Unspecified then peer_direction_of as else peer_direction_of bs)"
  by (induction as) (auto simp: Let_def)

lemma peer_direction_neutral: "\<forall>a\<in>set as. neutral_key (attr_key a) \<Longrightarrow> peer_direction_of as = Unspecified"
  by (induction as) (auto simp: neutral_key_def)

lemma direction_extends: "extends m m' \<Longrightarrow> get_peer_direction m' = get_peer_direction m"
  by (auto simp: extends_def get_peer_direction_def peer_direction_append peer_direction_neutral)

lemma find_mid_neutral: "\<forall>a\<in>set as. neutral_key (attr_key a) \<Longrightarrow> find (\<lambda>a. attr_key a = ''mid'') as = None"
  by (auto simp: find_None_iff neutral_key_def)

lemma find_append: "find P (as @ bs) = (case find P as of Some x \<Rightarrow> Some x | None \<Rightarrow> find P bs)"
  by (induction as) auto

lemma mid_extends: "extends m m' \<Longrightarrow> get_mid_value m' = get_mid_value m"
  by (auto simp: extends_def get_mid_value_def find_append find_mid_neutral split: option.splits)

lemma media_extends: "extends m m' \<Longrightarrow> media (media_name m') = media (media_name m)"
  by (simp add: extends_def)

lemma mid_add_direction [simp]:
  "get_mid_value (add_attrs [property_attr (direction_to_string dir)] m) = get_mid_value m"
  by (cases dir) (simp_all add: get_mid_value_def find_append UNSPECIFIED_STR_def split: option.split)

lemma direction_add_direction:
  "get_peer_direction m = Unspecified \<Longrightarrow>
   get_peer_direction (add_attrs [property_attr (direction_to_string dir)] m) = dir"
  by (simp add: get_peer_direction_def peer_direction_append Let_def)

lemma media_add_attrs [simp]: "media_name (add_attrs as m) = media_name m"
  by (simp add: add_attrs_def)

text \<open>A section says its setup role first, then its mid; it has a media name and a direction.\<close>

definition says :: "string \<Rightarrow> string \<Rightarrow> string \<Rightarrow> RTCRtpTransceiverDirection \<Rightarrow> MediaDescription \<Rightarrow> bool" where
  "says su md name dir m \<longleftrightarrow> take 1 (attributes m) = [value_attr ''setup'' su] \<and>
     get_mid_value m = Some md \<and> media (media_name m) = name \<and> get_peer_direction m = dir"

lemma says_extends: "extends m m' \<Longrightarrow> says su md name dir m' = says su md name dir m"
proof -
  assume e: "extends m m'"
  then obtain as where as: "attributes m' = attributes m @ as" by (auto simp: extends_def)
  show ?thesis
  proof (cases "attributes m")
    case Nil
    then have "get_mid_value m = None" by (simp add: get_mid_value_def)
    then show ?thesis by (simp add: says_def mid_extends[OF e])
  next
    case (Cons a bs)
    then show ?thesis by (simp add: says_def mid_extends[OF e] media_extends[OF e] direction_extends[OF e] as)
  qed
qed

lemma says_direction:
  "says su md name Unspecified m \<Longrightarrow> says su md name dir (add_attrs [property_attr (direction_to_string dir)] m)"
  by (cases "attributes m") (simp_all add: says_def direction_add_direction)

lemma says_start:
  "attributes m = [] \<Longrightarrow> says su md (media (media_name m)) Unspecified
     (add_attrs [value_attr ''mid'' md] (add_attrs [value_attr ''setup'' su] m))"
  by (simp add: says_def get_mid_value_def get_peer_direction_def direction_from_str_def)

lemma data_section_says:
  assumes L: "sdp_builders L" and r: "add_data_media_section L d fps cfg p = Inr d'"
  shows "\<exists>m. d' = d\<lparr>media_descriptions := media_descriptions d @ [m]\<rparr> \<and>
    says (connection_role_to_string L (dparams_dtls_role p)) (dparams_mid_value p) MEDIA_SECTION_APPLICATION Sendrecv m"
proof -
  let ?m2 = "add_attrs [value_attr ''mid'' (dparams_mid_value p)]
    (add_attrs [value_attr ''setup'' (connection_role_to_string L (dparams_dtls_role p))] data_media)"
  let ?m3 = "add_attrs [property_attr (direction_to_string Sendrecv)] ?m2"
  let ?sctp = "cfg_sctp_server_config (server_config cfg)"
  let ?m6 = "add_attrs [value_attr ''ice-ufrag'' (username_fragment (dparams_ice_params p)),
      value_attr ''ice-pwd'' (password (dparams_ice_params p))]
    (add_attrs [value_attr ''max-message-size'' (show_word (sctp_max_message_size ?sctp))]
    (add_attrs [value_attr ''sctp-port'' (show_word (sctp_port ?sctp))] ?m3))"
  let ?m7 = "add_fingerprints L fps ?m6"
  have "says (connection_role_to_string L (dparams_dtls_role p)) (dparams_mid_value p) MEDIA_SECTION_APPLICATION Unspecified ?m2"
    using says_start[of data_media] by (simp add: data_media_def)
  then have m3: "says (connection_role_to_string L (dparams_dtls_role p)) (dparams_mid_value p) MEDIA_SECTION_APPLICATION Sendrecv ?m3" by (rule says_direction)
  have "extends m (add_attrs [value_attr ''ice-ufrag'' u, value_attr ''ice-pwd'' w]
      (add_attrs [value_attr ''max-message-size'' x] (add_attrs [value_attr ''sctp-port'' y] m)))" for m u w x y
    by simp
  then have "extends ?m3 ?m6" .
  then have "extends ?m3 ?m7" using extends_fingerprints[OF L] by (rule extends_trans)
  moreover obtain m where c: "if dparams_should_add_candidates p
        then add_candidate_to_media_descriptions L (cfg_local_addr cfg) ?m7 (dparams_ice_gathering_state p) = Inr m
        else m = ?m7" and d': "d' = d\<lparr>media_descriptions := media_descriptions d @ [m]\<rparr>"
    using r unfolding add_data_media_section_def Let_def lib_keys[OF L] lib_media[OF L] lib_session[OF L]
    by (auto simp: result_simps split: if_splits)
  moreover have "extends ?m7 m" using c extends_candidate[OF L] by (auto split: if_splits)
  ultimately have "extends ?m3 m" by (meson extends_trans)
  from says_extends[OF this] m3 have "says (connection_role_to_string L (dparams_dtls_role p)) (dparams_mid_value p) MEDIA_SECTION_APPLICATION Sendrecv m" by simp
  with d' show ?thesis by blast
qed

lemma transceiver_section_says:
  assumes L: "sdp_builders L" and r: "add_transceiver_sdp L d fps ice cfg sect t p = Inr (d', b)"
  defines "dir \<equiv> section_direction (tparams_offered_direction p) (direction t)"
  shows "b \<and> (dir = Sendonly \<longrightarrow> sender t \<noteq> None) \<and>
    (\<exists>m. d' = d\<lparr>media_descriptions := media_descriptions d @ [m]\<rparr> \<and>
      says (connection_role_to_string L (tparams_dtls_role p)) (tparams_mid_value p) (codec_type_to_string (kind t)) dir m)"
proof -
  let ?m0 = "new_jsep_media_description L (codec_type_to_string (kind t)) []"
  let ?m2 = "add_attrs [value_attr ''mid'' (tparams_mid_value p)]
    (add_attrs [value_attr ''setup'' (connection_role_to_string L (tparams_dtls_role p))] ?m0)"
  let ?m5 = "add_attrs [property_attr ''rtcp-rsize''] (add_attrs [property_attr ''rtcp-mux'']
    (add_attrs [value_attr ''ice-ufrag'' (username_fragment ice), value_attr ''ice-pwd'' (password ice)] ?m2))"
  let ?m6 = "add_fingerprints L fps ?m5"
  let ?mc = "media_config (server_config cfg)"
  obtain m7 m9 where c: "if tparams_should_add_candidates p
        then add_candidate_to_media_descriptions L (cfg_local_addr cfg) ?m6 (tparams_ice_gathering_state p) = Inr m7
        else m7 = ?m6"
    and e: "try_fold (add_extension L)
        (params_header_extensions (get_rtp_parameters_by_kind (kind t) (direction t) ?mc))
        (fold (add_codec_attributes L) (get_codecs_by_kind (kind t) ?mc) m7) = Inr m9"
    and f: "(if dir = Sendonly then
         (case sender t of
            Some sd \<Rightarrow> Ok (with_media L (add_sender L sd
              (add_attrs [property_attr (direction_to_string dir)] (add_rids L (rid_map sect) m9))) d, True)
          | None \<Rightarrow> Err (Other ''Sendonly transceiver doesn't have sender set''))
       else Ok (with_media L (add_attrs [property_attr (direction_to_string dir)] (add_rids L (rid_map sect) m9)) d, True))
      = Inr (d', b)"
    using r unfolding add_transceiver_sdp_def Let_def lib_keys[OF L] lib_media[OF L] dir_def
    by (auto simp: result_simps split: if_splits)
  have "says (connection_role_to_string L (tparams_dtls_role p)) (tparams_mid_value p) (codec_type_to_string (kind t)) Unspecified ?m2"
    using says_start[of ?m0] by (simp add: lib_media[OF L])
  moreover have "extends ?m2 (add_rids L (rid_map sect) m9)"
  proof -
    have "extends m (add_attrs [property_attr ''rtcp-rsize''] (add_attrs [property_attr ''rtcp-mux'']
      (add_attrs [value_attr ''ice-ufrag'' u, value_attr ''ice-pwd'' w] m)))" for m u w by simp
    then have "extends ?m2 ?m5" .
    also have "extends ?m5 ?m6" by (rule extends_fingerprints[OF L])
    also have "extends ?m6 m7" using c extends_candidate[OF L] by (auto split: if_splits)
    also have "extends m7 (fold (add_codec_attributes L) (get_codecs_by_kind (kind t) ?mc) m7)"
      by (rule extends_fold) (rule extends_codec_attributes[OF L])
    also have "extends \<dots> m9" by (rule extends_extensions[OF L e])
    also have "extends m9 (add_rids L (rid_map sect) m9)" by (rule extends_rids[OF L])
    finally show ?thesis .
  qed
  ultimately have "says (connection_role_to_string L (tparams_dtls_role p)) (tparams_mid_value p) (codec_type_to_string (kind t)) dir
      (add_attrs [property_attr (direction_to_string dir)] (add_rids L (rid_map sect) m9))" (is "says _ _ _ _ ?m11")
    by (intro says_direction) (simp only: says_extends)
  moreover from this have "says (connection_role_to_string L (tparams_dtls_role p)) (tparams_mid_value p) (codec_type_to_string (kind t)) dir (add_sender L sd ?m11)" for sd
    by (simp only: says_extends[OF extends_sender[OF L]])
  moreover have "b \<and> (dir = Sendonly \<longrightarrow> sender t \<noteq> None) \<and>
      (d' = d\<lparr>media_descriptions := media_descriptions d @ [?m11]\<rparr> \<or>
       (\<exists>sd. d' = d\<lparr>media_descriptions := media_descriptions d @ [add_sender L sd ?m11]\<rparr>))"
    using f unfolding lib_session[OF L] by (auto split: if_splits option.splits)
  ultimately show ?thesis by blast
qed

section \<open>What a populated description says\<close>

definition section_says :: "string \<Rightarrow> (Mid, RTCRtpTransceiver) hashmap \<Rightarrow> MediaSection \<Rightarrow> MediaDescription \<Rightarrow> bool" where
  "section_says su ts sec m \<longleftrightarrow>
     (if sect_data sec then
        hm_get ts (sect_mid sec) = None \<and> says su (sect_mid sec) MEDIA_SECTION_APPLICATION Sendrecv m
      else
        (\<exists>t. hm_get ts (sect_mid sec) = Some t \<and>
           (let dir = section_direction (offered_direction sec) (direction t)
            in says su (sect_mid sec) (codec_type_to_string (kind t)) dir m \<and> (dir = Sendonly \<longrightarrow> sender t \<noteq> None))))"

definition bundle_mids :: "MediaSection list \<Rightarrow> string" where
  "bundle_mids secs = concat (map (\<lambda>s. '' '' @ sect_mid s) secs)"

lemma populate_section_says:
  assumes L: "sdp_builders L" and r: "populate_section L fps cfg ice crole ts (i, sec) (d, b) = Inr (d', b')"
  shows "\<exists>m. d' = d\<lparr>media_descriptions := media_descriptions d @ [m]\<rparr> \<and> section_says (connection_role_to_string L crole) ts sec m \<and>
    b' = b @ '' '' @ sect_mid sec"
proof (cases "sect_data sec")
  case True
  then show ?thesis using r data_section_says[OF L]
    by (fastforce simp: populate_section_def section_says_def result_simps split: if_splits)
next
  case False
  then obtain t where t: "hm_get ts (sect_mid sec) = Some t"
    using r by (auto simp: populate_section_def result_simps)
  let ?p = "\<lparr>tparams_should_add_candidates = (i = 0), tparams_mid_value = sect_mid sec,
    tparams_dtls_role = crole, tparams_ice_gathering_state = GatheringComplete,
    tparams_offered_direction = offered_direction sec\<rparr>"
  obtain f where f: "add_transceiver_sdp L d fps ice cfg sec t ?p = Inr (d', f)"
    "b' = (if f then b @ '' '' @ sect_mid sec else b)"
    using r False t by (auto simp: populate_section_def result_simps)
  from transceiver_section_says[OF L f(1)] show ?thesis
    using f(2) False t by (simp add: section_says_def Let_def)
qed

lemma populate_loop:
  assumes L: "sdp_builders L"
  shows "try_fold (populate_section L fps cfg ice crole ts) (enumerate n secs) (d, b) = Inr (d', b') \<Longrightarrow>
    \<exists>ms. d' = d\<lparr>media_descriptions := media_descriptions d @ ms\<rparr> \<and> list_all2 (section_says (connection_role_to_string L crole) ts) secs ms \<and>
      b' = b @ bundle_mids secs"
proof (induction secs arbitrary: n d b)
  case Nil
  then show ?case by (intro exI[of _ "[]"]) (simp add: bundle_mids_def)
next
  case (Cons sec secs)
  then obtain d1 b1 where 1: "populate_section L fps cfg ice crole ts (n, sec) (d, b) = Inr (d1, b1)"
    and 2: "try_fold (populate_section L fps cfg ice crole ts) (enumerate (Suc n) secs) (d1, b1) = Inr (d', b')"
    by (auto simp: result_simps)
  obtain m where m: "d1 = d\<lparr>media_descriptions := media_descriptions d @ [m]\<rparr>" "section_says (connection_role_to_string L crole) ts sec m"
    "b1 = b @ '' '' @ sect_mid sec" using populate_section_says[OF L 1] by blast
  obtain ms where "d' = d1\<lparr>media_descriptions := media_descriptions d1 @ ms\<rparr>" "list_all2 (section_says (connection_role_to_string L crole) ts) secs ms"
    "b' = b1 @ bundle_mids secs" using Cons.IH[OF 2] by blast
  with m show ?case by (intro exI[of _ "m # ms"]) (simp add: bundle_mids_def)
qed

lemma fold_session_fingerprints:
  "sdp_builders L \<Longrightarrow>
   fold (\<lambda>f. session_with_fingerprint L (algorithm f) (to_uppercase (fp_value f))) fps d =
     d\<lparr>session_attributes := session_attributes d @ map (\<lambda>f. value_attr ''fingerprint'' (fingerprint_attr f)) fps\<rparr>"
  by (induction fps arbitrary: d) (simp_all add: lib_session fingerprint_attr_def)

lemma populate_sdp_says:
  assumes L: "sdp_builders L" and r: "populate_sdp L d fps cfg ice crole secs ts mf = Inr d'"
  shows "\<exists>ms as. media_descriptions d' = media_descriptions d @ ms \<and> list_all2 (section_says (connection_role_to_string L crole) ts) secs ms \<and>
    session_attributes d' = session_attributes d @ as @ [property_attr ''ice-lite'', value_attr ''group'' (''BUNDLE'' @ bundle_mids secs)] \<and>
    origin d' = origin d"
proof -
  obtain d1 b where 1: "try_fold (populate_section L (if mf then fps else []) cfg ice crole ts) (enumerate 0 secs)
      (d, ''BUNDLE'') = Inr (d1, b)"
    and d': "d' = session_with_value_attribute L (ATTR_KEY_GROUP L) b (session_with_property_attribute L (ATTR_KEY_ICELITE L)
      (if \<not> mf then fold (\<lambda>f. session_with_fingerprint L (algorithm f) (to_uppercase (fp_value f))) fps d1 else d1))"
    using r by (auto simp: populate_sdp_def Let_def result_simps)
  with populate_loop[OF L 1] show ?thesis
    by (cases mf) (auto simp: lib_keys[OF L] lib_session[OF L] fold_session_fingerprints[OF L])
qed

text \<open>
  C32: A populated description has exactly one section per requested one, in the same order, each with the
  requested setup role and mid: a data channel section for a data request, else a section of the transceiver's
  kind with the transceiver's direction restricted by the offered one. The session announces ICE lite
  and a bundle group that lists the mids of all sections in order.
\<close>

theorem populate_sdp_sections:
  assumes "sdp_builders L" "populate_sdp L d fps cfg ice crole secs ts mf = Ok d'"
  shows "\<exists>ms as. media_descriptions d' = media_descriptions d @ ms \<and> list_all2 (section_says (connection_role_to_string L crole) ts) secs ms \<and>
    session_attributes d' = session_attributes d @ as @
      [property_attr ''ice-lite'', value_attr ''group'' (''BUNDLE'' @ bundle_mids secs)]"
  using populate_sdp_says[OF assms] by blast

text \<open>A configuration with one certificate and the default media configuration.\<close>

definition sample_server_config :: ServerConfig where
  "sample_server_config = server_config_new undefined
     \<lparr>sctp_port = 5000, sctp_max_message_size = 65536, sctp_server_rest_of = undefined\<rparr> undefined [sample_certificate]"

definition sample_session_config :: SessionConfig where
  "sample_session_config = session_config_new sample_server_config (SocketAddrV4 0x7F000001 3478)"

definition sample_ice :: RTCIceParameters where
  "sample_ice = \<lparr>username_fragment = ''abcd'', password = ''secret''\<rparr>"

definition data_section :: "Mid \<Rightarrow> MediaSection" where
  "data_section m = \<lparr>sect_mid = m, sect_data = True, rid_map = [], offered_direction = None\<rparr>"

definition sample_lib :: sdp_lib where
  "sample_lib = sample_sdp (\<lambda>_. Inl []) (\<lambda>_ _. Inl [])"

lemma sample_lib_builders: "sdp_builders sample_lib"
  by (simp add: sample_lib_def sample_sdp_builders)

lemma populate_sample:
  "\<exists>d'. populate_sdp sample_lib empty_session [] sample_session_config sample_ice RolePassive [data_section ''0''] [] True = Ok d'"
  by (simp add: populate_sdp_def populate_section_def data_section_def add_data_media_section_def Let_def
      add_candidate_to_media_descriptions_def)

theorem populate_sdp_sections_witness:
  "\<exists>d' m. populate_sdp sample_lib empty_session [] sample_session_config sample_ice RolePassive [data_section ''0''] [] True
     = Ok d' \<and> media_descriptions d' = [m] \<and> get_mid_value m = Some ''0''"
proof -
  obtain d' where d': "populate_sdp sample_lib empty_session [] sample_session_config sample_ice RolePassive
      [data_section ''0''] [] True = Ok d'" using populate_sample by blast
  from populate_sdp_sections[OF sample_lib_builders d'] obtain ms where
    "media_descriptions d' = ms" "list_all2 (section_says ''passive'' []) [data_section ''0''] ms"
    by (auto simp: empty_session_def sample_lib_def sample_sdp_def)
  then show ?thesis using d' by (auto simp: list_all2_Cons1 section_says_def data_section_def says_def)
qed

lemma section_direction_compliant:
  assumes "off \<noteq> Unspecified"
  shows "(has_send (section_direction (Some off) t) \<longrightarrow> has_recv off) \<and>
    (has_recv (section_direction (Some off) t) \<longrightarrow> has_send off)"
  using assms dir.answer_within_offer[of off t] by (cases off) (auto simp: has_send_def has_recv_def)

definition sample_transceiver :: "RTCRtpTransceiverDirection \<Rightarrow> RTCRtpSender option \<Rightarrow> RTCRtpTransceiver" where
  "sample_transceiver dir sd = \<lparr>mid = ''1'', sender = sd, direction = dir, current_direction = Unspecified,
     rtp_params = \<lparr>params_header_extensions = [], params_codecs = []\<rparr>, kind = Audio\<rparr>"

definition media_section :: "Mid \<Rightarrow> RTCRtpTransceiverDirection option \<Rightarrow> MediaSection" where
  "media_section m off = \<lparr>sect_mid = m, sect_data = False, rid_map = [], offered_direction = off\<rparr>"

lemma default_no_extensions: "header_extensions default_media_config = []" "\<not> negotiated_kind k default_media_config"
  by (simp_all add: default_media_config_def register_default_interceptors_def configure_rtcp_reports_def
      register_default_codecs_def for_each_register_audio for_each_register_video empty_media_config_def negotiated_kind_def)

section \<open>Reading back the sources of a sender\<close>

lemma is_token_show_word: "is_token (show_word w)"
proof -
  have "is_digit_char c \<Longrightarrow> \<not> is_ws c" for c by (auto simp: is_digit_char_def is_ws_def Let_def)
  then show ?thesis using show_nat_digits[of "unat w"] by (auto simp: is_token_def show_word_def)
qed

lemma colon_notin_show_word: "CHR '':'' \<notin> set (show_word w)"
  using show_nat_digits[of "unat w"] by (auto simp: show_word_def is_digit_char_def)

definition source_attrs :: "string \<Rightarrow> string \<Rightarrow> string \<Rightarrow> u32 \<Rightarrow> Attribute list" where
  "source_attrs c l t s =
     [value_attr ''ssrc'' (show_word s @ '' cname:'' @ c),
      value_attr ''ssrc'' (show_word s @ '' msid:'' @ l @ '' '' @ t),
      value_attr ''ssrc'' (show_word s @ '' mslabel:'' @ l),
      value_attr ''ssrc'' (show_word s @ '' label:'' @ t)]"

lemma fold_sources:
  "sdp_builders L \<Longrightarrow>
   attributes (fold (\<lambda>s. media_with_media_source L s c l t) ss m) = attributes m @ concat (map (source_attrs c l t) ss)"
  by (induction ss arbitrary: m) (simp_all add: lib_source source_attrs_def)

lemma add_ssrc_value:
  "add_ssrc (value_attr ''ssrc'' (show_word s @ CHR '' '' # rest)) acc = Ok (if s \<in> set acc then acc else acc @ [s])"
  by (simp add: add_ssrc_def split_whitespace_word[OF is_token_show_word is_ws_space] parse_u32_show_word)

lemma add_ssrc_sources: "try_fold add_ssrc (source_attrs c l t s) acc = Ok (if s \<in> set acc then acc else acc @ [s])"
  using add_ssrc_value[of s "''cname:'' @ c"] add_ssrc_value[of s "''msid:'' @ l @ '' '' @ t"]
    add_ssrc_value[of s "''mslabel:'' @ l"] add_ssrc_value[of s "''label:'' @ t"]
  by (simp add: source_attrs_def)

lemma add_ssrc_other: "\<forall>a\<in>set as. attr_key a \<noteq> ''ssrc'' \<Longrightarrow> try_fold add_ssrc as acc = Ok acc"
  by (induction as) (simp_all add: add_ssrc_def)

lemma add_ssrc_all:
  "distinct (acc @ ss) \<Longrightarrow> try_fold add_ssrc (concat (map (source_attrs c l t) ss)) acc = Ok (acc @ ss)"
  by (induction ss arbitrary: acc) (simp_all add: try_fold_append add_ssrc_sources)

lemma cname_other: "\<forall>a\<in>set as. attr_key a \<noteq> ''ssrc'' \<Longrightarrow> cname_of (as @ bs) = cname_of bs"
  by (induction as) simp_all

lemma cname_sources:
  assumes "CHR '':'' \<notin> set c"
  shows "cname_of (source_attrs c l t s @ bs) = Some c"
proof -
  have "split_on CHR '':'' (show_word s @ '' cname:'' @ c) = [show_word s @ '' cname'', c]"
    using split_on_append[of "CHR '':''" "show_word s @ '' cname''" c] colon_notin_show_word[of s] assms
    by (simp add: split_on_no_sep)
  moreover have "contains_str (show_word s @ '' cname:'' @ c) ''cname''"
    unfolding contains_str_def sublist_def by (rule exI[of _ "show_word s @ '' ''"], rule exI[of _ "CHR '':'' # c"]) simp
  ultimately show ?thesis by (simp add: source_attrs_def)
qed

lemma msid_other:
  "\<forall>a\<in>set as. attr_key a \<noteq> ''ssrc'' \<and> attr_key a \<noteq> ''msid'' \<Longrightarrow> msid_of (as @ bs) = msid_of bs"
  by (induction as) (simp_all add: Let_def)

lemma msid_sources:
  assumes "is_token c" "CHR '':'' \<notin> set c" "is_token l" "CHR '':'' \<notin> set l" "is_token t" "CHR '':'' \<notin> set t"
  shows "msid_of (source_attrs c l t s @ bs) = Some \<lparr>stream_id = l, track_id = t\<rparr>"
proof -
  have "split_on CHR '':'' (show_word s @ '' cname:'' @ c) = [show_word s @ '' cname'', c]"
    using split_on_append[of "CHR '':''" "show_word s @ '' cname''" c] colon_notin_show_word[of s] assms(2)
    by (simp add: split_on_no_sep)
  then have 1: "two_fields (split_whitespace (List.last (split_on CHR '':'' (show_word s @ '' cname:'' @ c)))) = None"
    using split_whitespace_token[OF assms(1)] by simp
  have "split_on CHR '':'' (show_word s @ '' msid:'' @ l @ '' '' @ t) = [show_word s @ '' msid'', l @ '' '' @ t]"
    using split_on_append[of "CHR '':''" "show_word s @ '' msid''" "l @ '' '' @ t"] colon_notin_show_word[of s] assms(4,6)
    by (simp add: split_on_no_sep)
  moreover have "split_whitespace (l @ '' '' @ t) = [l, t]"
    using split_whitespace_word[OF assms(3) is_ws_space] split_whitespace_token[OF assms(5)] by simp
  ultimately have 2: "two_fields (split_whitespace (List.last (split_on CHR '':'' (show_word s @ '' msid:'' @ l @ '' '' @ t)))) =
      Some \<lparr>stream_id = l, track_id = t\<rparr>" by simp
  have "contains_str (show_word s @ '' msid:'' @ l @ '' '' @ t) ''msid''"
    unfolding contains_str_def sublist_def
    by (rule exI[of _ "show_word s @ '' ''"], rule exI[of _ "CHR '':'' # l @ '' '' @ t"]) simp
  with 1 2 show ?thesis by (simp add: source_attrs_def Let_def)
qed



section \<open>Which descriptions can be populated\<close>

definition populatable :: "sdp_lib \<Rightarrow> MediaConfig \<Rightarrow> (Mid, RTCRtpTransceiver) hashmap \<Rightarrow> MediaSection \<Rightarrow> bool" where
  "populatable L mc ts sec =
     (case hm_get ts (sect_mid sec) of
        None \<Rightarrow> sect_data sec
      | Some t \<Rightarrow> \<not> sect_data sec \<and>
          list_all (\<lambda>e. url_parse L (ext_uri e) \<noteq> None)
            (params_header_extensions (get_rtp_parameters_by_kind (kind t) (direction t) mc)) \<and>
          (section_direction (offered_direction sec) (direction t) = Sendonly \<longrightarrow> sender t \<noteq> None))"

lemma add_extensions_ok:
  "is_ok (try_fold (add_extension L) es m) \<longleftrightarrow> list_all (\<lambda>e. url_parse L (ext_uri e) \<noteq> None) es"
  using try_fold_is_ok[of "add_extension L" "\<lambda>e. url_parse L (ext_uri e) \<noteq> None" es m]
  by (auto simp: add_extension_def list_all_iff split: option.splits)

lemma candidate_always_ok: "\<exists>m'. add_candidate_to_media_descriptions L a m g = Ok m'"
  by (simp add: add_candidate_to_media_descriptions_def Let_def)

lemma add_transceiver_ok:
  "is_ok (add_transceiver_sdp L d fps ice cfg sec t params) \<longleftrightarrow>
     list_all (\<lambda>e. url_parse L (ext_uri e) \<noteq> None)
       (params_header_extensions (get_rtp_parameters_by_kind (kind t) (direction t) (media_config (server_config cfg)))) \<and>
     (section_direction (tparams_offered_direction params) (direction t) = Sendonly \<longrightarrow> sender t \<noteq> None)"
proof -
  have last: "is_ok (if dir = Sendonly then case s of Some sd \<Rightarrow> Ok (f sd) | None \<Rightarrow> Err e else Ok g)
      \<longleftrightarrow> (dir = Sendonly \<longrightarrow> s \<noteq> None)" for dir s f e g
    by (cases s) simp_all
  have ext: "(\<exists>m'. try_fold (add_extension L) es m = Ok m') \<longleftrightarrow>
      list_all (\<lambda>e. \<exists>u. url_parse L (ext_uri e) = Some u) es" for es m
    using add_extensions_ok[of L es m] by (simp add: is_ok_iff)
  obtain c where "\<And>a m g. add_candidate_to_media_descriptions L a m g = Ok (c a m g)"
    using candidate_always_ok by metis
  then show ?thesis by (simp add: add_transceiver_sdp_def Let_def is_ok_and_then last ext)
qed

lemma populate_section_ok:
  "is_ok (populate_section L fps cfg ice crole ts (i, sec) st) \<longleftrightarrow>
     populatable L (media_config (server_config cfg)) ts sec"
proof -
  have "is_ok (add_data_media_section L d fps cfg params)" for d params
    using candidate_always_ok by (auto simp: add_data_media_section_def Let_def result_simps)
  moreover obtain d b where "st = (d, b)" by (cases st)
  ultimately show ?thesis
    by (auto simp: populate_section_def populatable_def add_transceiver_ok split: option.splits)
qed

lemma populate_ok_iff:
  "is_ok (populate_sdp L d fps cfg ice crole secs ts mf) \<longleftrightarrow>
     list_all (populatable L (media_config (server_config cfg)) ts) secs"
proof -
  let ?fps = "if mf then fps else []"
  have "is_ok (populate_sdp L d fps cfg ice crole secs ts mf) \<longleftrightarrow>
      is_ok (try_fold (populate_section L ?fps cfg ice crole ts) (enumerate 0 secs) (d, ''BUNDLE''))"
    by (simp add: populate_sdp_def Let_def)
  also have "\<dots> \<longleftrightarrow> (\<forall>x\<in>set (enumerate 0 secs). populatable L (media_config (server_config cfg)) ts (snd x))"
    by (rule try_fold_is_ok) (metis populate_section_ok prod.collapse)
  also have "\<dots> \<longleftrightarrow> list_all (populatable L (media_config (server_config cfg)) ts) secs"
    using list.set_map[of snd "enumerate 0 secs"] by (simp add: list_all_iff)
  finally show ?thesis .
qed

text \<open>
  C40: A description can be populated exactly if each of its sections can: a data section names no transceiver, a
  media section names one whose header extensions have proper URIs and which has a sender if the section
  sends only. So one transceiver that should send but has no sender makes the whole description fail.
\<close>

theorem populate_sdp_ok_iff:
  "is_ok (populate_sdp L d fps cfg ice crole secs ts mf) \<longleftrightarrow>
     list_all (populatable L (media_config (server_config cfg)) ts) secs"
  by (rule populate_ok_iff)

end
