(* ===== verification/Endpoint.thy ===== *)
theory Endpoint
  imports Sdp_Populate
begin

text \<open>
  \<open>src/endpoint/transport.rs\<close> and \<open>src/endpoint/mod.rs\<close>: a transport is one four tuple of an
  endpoint with its protocol states, an endpoint is one peer with its transports and
  transceivers. The protocol states belong to the \<open>dtls\<close>, \<open>sctp\<close> and \<open>srtp\<close> crates
  and are opaque; \<open>transport_lib\<close> holds the constructors that the program calls.
\<close>

section \<open>Transports\<close>

typedecl dtls_endpoint
typedecl sctp_endpoint
typedecl sctp_association
typedecl srtp_context

record transport_lib =
  dtls_endpoint_new :: "dtls_handshake_config \<Rightarrow> dtls_endpoint"
  sctp_endpoint_new :: "sctp_endpoint_config \<Rightarrow> sctp_server_config \<Rightarrow> sctp_endpoint"

record Transport =
  tr_four_tuple :: FourTuple
  last_activity :: instant
  tr_candidate :: Candidate
  tr_dtls_endpoint :: dtls_endpoint
  tr_sctp_endpoint :: sctp_endpoint
  sctp_associations :: "(usize, sctp_association) hashmap"
  association_handle :: "usize option"
  tr_stream_id :: "u16 option"
  local_srtp_context :: "srtp_context option"
  remote_srtp_context :: "srtp_context option"

text \<open>\<open>Instant::now()\<close> is the argument \<open>now\<close>.\<close>

definition transport_new ::
  "transport_lib \<Rightarrow> instant \<Rightarrow> FourTuple \<Rightarrow> Candidate \<Rightarrow> dtls_handshake_config \<Rightarrow> sctp_endpoint_config
   \<Rightarrow> sctp_server_config \<Rightarrow> Transport" where
  "transport_new T now ft cand dtls_cfg sctp_cfg sctp_srv =
     \<lparr>tr_four_tuple = ft, last_activity = now, tr_candidate = cand,
      tr_dtls_endpoint = dtls_endpoint_new T dtls_cfg,
      tr_sctp_endpoint = sctp_endpoint_new T sctp_cfg sctp_srv, sctp_associations = [],
      association_handle = None, tr_stream_id = None, local_srtp_context = None, remote_srtp_context = None\<rparr>"

definition set_local_srtp_context :: "srtp_context \<Rightarrow> Transport \<Rightarrow> Transport" where
  "set_local_srtp_context c self = self\<lparr>local_srtp_context := Some c\<rparr>"

definition set_remote_srtp_context :: "srtp_context \<Rightarrow> Transport \<Rightarrow> Transport" where
  "set_remote_srtp_context c self = self\<lparr>remote_srtp_context := Some c\<rparr>"

definition set_association_handle_and_stream_id :: "usize \<Rightarrow> u16 \<Rightarrow> Transport \<Rightarrow> Transport" where
  "set_association_handle_and_stream_id h s self = self\<lparr>association_handle := Some h, tr_stream_id := Some s\<rparr>"

definition association_handle_and_stream_id :: "Transport \<Rightarrow> usize option \<times> u16 option" where
  "association_handle_and_stream_id self = (association_handle self, tr_stream_id self)"

definition is_local_srtp_context_ready :: "Transport \<Rightarrow> bool" where
  "is_local_srtp_context_ready self \<longleftrightarrow> local_srtp_context self \<noteq> None"

definition keep_alive :: "instant \<Rightarrow> Transport \<Rightarrow> Transport" where
  "keep_alive now self = self\<lparr>last_activity := now\<rparr>"

section \<open>Endpoints\<close>

record Endpoint =
  ep_endpoint_id :: EndpointId
  ep_interceptor :: interceptor
  is_renegotiation_needed :: bool
  ep_remote_description :: "RTCSessionDescription option"
  ep_local_description :: "RTCSessionDescription option"
  transports :: "(FourTuple, Transport) hashmap"
  mids :: "Mid list"
  transceivers :: "(Mid, RTCRtpTransceiver) hashmap"

definition endpoint_new :: "EndpointId \<Rightarrow> interceptor \<Rightarrow> Endpoint" where
  "endpoint_new eid ic =
     \<lparr>ep_endpoint_id = eid, ep_interceptor = ic, is_renegotiation_needed = False,
      ep_remote_description = None, ep_local_description = None,
      transports = [], mids = [], transceivers = []\<rparr>"

definition add_transport :: "Transport \<Rightarrow> Endpoint \<Rightarrow> Endpoint" where
  "add_transport t self = self\<lparr>transports := hm_insert (tr_four_tuple t) t (transports self)\<rparr>"

definition endpoint_remove_transport :: "FourTuple \<Rightarrow> Endpoint \<Rightarrow> Transport option \<times> Endpoint" where
  "endpoint_remove_transport ft self =
     (hm_get (transports self) ft, self\<lparr>transports := hm_remove ft (transports self)\<rparr>)"

definition has_transport :: "FourTuple \<Rightarrow> Endpoint \<Rightarrow> bool" where
  "has_transport ft self \<longleftrightarrow> hm_contains_key (transports self) ft"

definition ep_set_remote_description :: "RTCSessionDescription \<Rightarrow> Endpoint \<Rightarrow> Endpoint" where
  "ep_set_remote_description d self = self\<lparr>ep_remote_description := Some d\<rparr>"

definition ep_set_local_description :: "RTCSessionDescription \<Rightarrow> Endpoint \<Rightarrow> Endpoint" where
  "ep_set_local_description d self = self\<lparr>ep_local_description := Some d\<rparr>"

definition set_renegotiation_needed :: "bool \<Rightarrow> Endpoint \<Rightarrow> Endpoint" where
  "set_renegotiation_needed b self = self\<lparr>is_renegotiation_needed := b\<rparr>"

section \<open>Well-formed endpoints\<close>

text \<open>
  Every transport is stored under its own four tuple, every transceiver under
  its own mid, and the list of mids holds exactly the mids of the transceivers.
\<close>

definition endpoint_wf :: "Endpoint \<Rightarrow> bool" where
  "endpoint_wf ep \<longleftrightarrow>
     hm_wf (transports ep) \<and> hm_wf (transceivers ep) \<and>
     (\<forall>ft t. hm_get (transports ep) ft = Some t \<longrightarrow> tr_four_tuple t = ft) \<and>
     (\<forall>m t. hm_get (transceivers ep) m = Some t \<longrightarrow> mid t = m) \<and>
     set (mids ep) = fst ` set (transceivers ep)"

definition mids_distinct :: "Endpoint \<Rightarrow> bool" where
  "mids_distinct ep \<longleftrightarrow> distinct (mids ep)"

lemma endpoint_wf_new [simp]: "endpoint_wf (endpoint_new eid ic)" "mids_distinct (endpoint_new eid ic)"
  by (simp_all add: endpoint_wf_def endpoint_new_def mids_distinct_def)

lemma endpoint_wf_add_transport [simp]: "endpoint_wf ep \<Longrightarrow> endpoint_wf (add_transport t ep)"
  by (auto simp: endpoint_wf_def add_transport_def)

lemma endpoint_wf_remove_transport [simp]: "endpoint_wf ep \<Longrightarrow> endpoint_wf (snd (endpoint_remove_transport ft ep))"
  by (auto simp: endpoint_wf_def endpoint_remove_transport_def split: if_splits)

lemma endpoint_wf_set [simp]:
  "endpoint_wf (ep_set_remote_description d ep) = endpoint_wf ep"
  "endpoint_wf (ep_set_local_description d ep) = endpoint_wf ep"
  "endpoint_wf (set_renegotiation_needed b ep) = endpoint_wf ep"
  by (simp_all add: endpoint_wf_def ep_set_remote_description_def ep_set_local_description_def
      set_renegotiation_needed_def)

lemma mids_distinct_set [simp]:
  "mids_distinct (ep_set_remote_description d ep) = mids_distinct ep"
  "mids_distinct (ep_set_local_description d ep) = mids_distinct ep"
  "mids_distinct (set_renegotiation_needed b ep) = mids_distinct ep"
  "mids_distinct (add_transport t ep) = mids_distinct ep"
  by (simp_all add: mids_distinct_def ep_set_remote_description_def ep_set_local_description_def
      set_renegotiation_needed_def add_transport_def)

end
