(* ===== verification/Session.thy ===== *)
theory Session
  imports Endpoint
begin

text \<open>
  \<open>src/session/mod.rs\<close>: a session is the set of endpoints that exchange media. Its
  operations add endpoints, apply remote and local descriptions to transceivers (and
  mirror the media an endpoint sends to the others), and create offers and answers.

  Arguments that stand for the environment: \<open>L\<close> the \<open>sdp\<close> crate, \<open>T\<close> the protocol
  constructors, \<open>sha256\<close> the digest, \<open>jsep\<close> the fresh description of
  \<open>new_jsep_session_description\<close>, \<open>now\<close> and \<open>clock\<close> the readings of the clock.
\<close>

record Session =
  session_config :: SessionConfig
  sess_session_id :: SessionId
  endpoints :: "(EndpointId, Endpoint) hashmap"

definition session_new :: "SessionConfig \<Rightarrow> SessionId \<Rightarrow> Session" where
  "session_new cfg sid = \<lparr>session_config = cfg, sess_session_id = sid, endpoints = []\<rparr>"

definition get_endpoint :: "EndpointId \<Rightarrow> Session \<Rightarrow> Endpoint option" where
  "get_endpoint eid self = hm_get (endpoints self) eid"

definition modify_endpoint :: "EndpointId \<Rightarrow> (Endpoint \<Rightarrow> Endpoint) \<Rightarrow> Session \<Rightarrow> Session" where
  "modify_endpoint eid f self = self\<lparr>endpoints := hm_modify eid f (endpoints self)\<rparr>"

definition session_remove_endpoint :: "EndpointId \<Rightarrow> Session \<Rightarrow> Session" where
  "session_remove_endpoint eid self = self\<lparr>endpoints := hm_remove eid (endpoints self)\<rparr>"

definition has_endpoint :: "EndpointId \<Rightarrow> Session \<Rightarrow> bool" where
  "has_endpoint eid self \<longleftrightarrow> hm_contains_key (endpoints self) eid"

section \<open>Adding endpoints\<close>

definition session_transport :: "transport_lib \<Rightarrow> instant \<Rightarrow> Candidate \<Rightarrow> FourTuple \<Rightarrow> Session \<Rightarrow> Transport" where
  "session_transport T now cand ft self =
     (let sc = server_config (session_config self)
      in transport_new T now ft cand (cfg_dtls_handshake_config sc) (cfg_sctp_endpoint_config sc)
           (cfg_sctp_server_config sc))"

definition session_add_endpoint ::
  "transport_lib \<Rightarrow> instant \<Rightarrow> (nat \<Rightarrow> instant) \<Rightarrow> Candidate \<Rightarrow> TransportContext \<Rightarrow> Session
   \<Rightarrow> (bool, Session) outcome" where
  "session_add_endpoint T now clock cand tc self =
     (let eid = cand_endpoint_id cand;
          ft = four_tuple_from tc;
          tr = session_transport T now cand ft self
      in case get_endpoint eid self of
           Some ep \<Rightarrow>
             (if has_transport ft ep then (Ok True, self)
              else (Ok True, modify_endpoint eid (add_transport tr) self))
         | None \<Rightarrow>
             (let ic = registry_build clock (registry (media_config (server_config (session_config self))));
                  ep = ep_set_remote_description (cand_remote_description cand)
                         (ep_set_local_description (cand_local_description cand)
                           (add_transport tr (endpoint_new eid ic)))
              in (Ok False, self\<lparr>endpoints := hm_insert eid ep (endpoints self)\<rparr>)))"

section \<open>Remote descriptions\<close>

definition other_mid :: "EndpointId \<Rightarrow> Mid \<Rightarrow> Mid" where
  "other_mid eid m = show_word eid @ ''-'' @ m"

text \<open>The transceivers of the other endpoints follow the media that this endpoint sends.\<close>

definition mirror_to_other ::
  "EndpointId \<Rightarrow> Mid \<Rightarrow> RTCRtpTransceiverDirection \<Rightarrow> RTCRtpSender option \<Rightarrow> RTCRtpParameters \<Rightarrow> RTPCodecType
   \<Rightarrow> EndpointId \<Rightarrow> Endpoint \<Rightarrow> Endpoint" where
  "mirror_to_other eid m dir sd params k other_id other =
     (if other_id = eid then other
      else
        (let om = other_mid eid m
         in case hm_get (transceivers other) om of
              Some t \<Rightarrow>
                (if direction t \<noteq> dir then
                   set_renegotiation_needed True
                     (other\<lparr>transceivers := hm_modify om (\<lambda>t. t\<lparr>direction := dir\<rparr>) (transceivers other)\<rparr>)
                 else other)
            | None \<Rightarrow>
                (if dir = Sendonly then
                   set_renegotiation_needed True
                     (other\<lparr>mids := mids other @ [om],
                            transceivers := hm_insert om
                              \<lparr>mid = om, sender = sd, direction = dir, current_direction = Unspecified,
                               rtp_params = params, kind = k\<rparr> (transceivers other)\<rparr>)
                 else other)))"

definition local_direction_for :: "RTCRtpTransceiverDirection \<Rightarrow> RTCRtpTransceiverDirection" where
  "local_direction_for dir = (if dir = Recvonly then Sendonly else Recvonly)"

definition sender_of :: "MediaDescription \<Rightarrow> SSRC list \<Rightarrow> SsrcGroup list \<Rightarrow> RTCRtpSender option" where
  "sender_of m ss groups =
     (case (get_cname m, get_msid m) of
        (Some c, Some ms) \<Rightarrow> Some \<lparr>cname = c, msid = ms, ssrcs = ss, ssrc_groups = groups\<rparr>
      | _ \<Rightarrow> None)"

text \<open>What \<open>set_remote_description\<close> reads of a section before it changes any state.\<close>

definition read_offered_media ::
  "sdp_lib \<Rightarrow> MediaDescription \<Rightarrow> (RTCRtpSender option \<times> RTCRtpParameters) result" where
  "read_offered_media L m =
     and_then (get_ssrc_groups m) (\<lambda>groups.
     and_then (get_ssrcs m) (\<lambda>ss.
     and_then (codecs_from_media_description L m) (\<lambda>codecs.
     and_then (rtp_extensions_from_media_description L m) (\<lambda>exts.
     Ok (sender_of m ss groups, \<lparr>params_header_extensions = exts, params_codecs = codecs\<rparr>)))))"

definition add_own_transceiver :: "RTCRtpTransceiver \<Rightarrow> Endpoint \<Rightarrow> Endpoint" where
  "add_own_transceiver t ep =
     ep\<lparr>mids := mids ep @ [mid t], transceivers := hm_insert (mid t) t (transceivers ep)\<rparr>"

definition offered_media_step ::
  "sdp_lib \<Rightarrow> EndpointId \<Rightarrow> Mid \<Rightarrow> RTPCodecType \<Rightarrow> RTCRtpTransceiverDirection \<Rightarrow> MediaDescription
   \<Rightarrow> Session \<Rightarrow> (unit, Session) outcome" where
  "offered_media_step L eid md k dir m self =
     (case get_endpoint eid self of
        None \<Rightarrow> (Err (Panic ''unwrap''), self)
      | Some ep \<Rightarrow>
          (if hm_contains_key (transceivers ep) md then (Ok (), self)
           else case read_offered_media L m of
                  Inl err \<Rightarrow> (Err err, self)
                | Inr (sd, params) \<Rightarrow>
                    (let t = \<lparr>mid = md, sender = sd, direction = local_direction_for dir,
                              current_direction = Unspecified, rtp_params = params, kind = k\<rparr>;
                         self1 = modify_endpoint eid (add_own_transceiver t) self
                     in (Ok (), self1\<lparr>endpoints := hm_map (mirror_to_other eid md dir sd params k) (endpoints self1)\<rparr>))))"

definition answered_media_step ::
  "EndpointId \<Rightarrow> Mid \<Rightarrow> RTCRtpTransceiverDirection \<Rightarrow> Session \<Rightarrow> (unit, Session) outcome" where
  "answered_media_step eid md dir self =
     (case get_endpoint eid self of
        None \<Rightarrow> (Err (Panic ''unwrap''), self)
      | Some _ \<Rightarrow>
          (Ok (), modify_endpoint eid (\<lambda>ep. ep\<lparr>transceivers :=
             hm_modify md (set_current_direction (reverse_direction dir)) (transceivers ep)\<rparr>) self))"

text \<open>The guards at the head of the loop body: skip a section, fail on it, or go on with its mid.\<close>

datatype media_guard = SkipMedia | BadMedia error | UseMedia Mid RTPCodecType RTCRtpTransceiverDirection

definition guard_media :: "MediaDescription \<Rightarrow> media_guard" where
  "guard_media m =
     (if media (media_name m) = MEDIA_SECTION_APPLICATION then SkipMedia
      else
        (let k = codec_type_from_str (media (media_name m));
             dir = get_peer_direction m
         in if k = CodecUnspecified \<or> dir = Unspecified then SkipMedia
            else case get_mid_value m of
                   Some md \<Rightarrow>
                     (if md = [] then BadMedia (Other ''ErrPeerConnRemoteDescriptionWithoutMidValue'')
                      else UseMedia md k dir)
                 | None \<Rightarrow> SkipMedia))"

definition remote_media_step ::
  "sdp_lib \<Rightarrow> EndpointId \<Rightarrow> bool \<Rightarrow> MediaDescription \<Rightarrow> Session \<Rightarrow> (unit, Session) outcome" where
  "remote_media_step L eid we_offer m self =
     (case guard_media m of
        SkipMedia \<Rightarrow> (Ok (), self)
      | BadMedia err \<Rightarrow> (Err err, self)
      | UseMedia md k dir \<Rightarrow>
          (if \<not> we_offer then offered_media_step L eid md k dir m self
           else answered_media_step eid md dir self))"

definition unknown_endpoint :: "EndpointId \<Rightarrow> error" where
  "unknown_endpoint eid = Other (''can't find endpoint id '' @ show_word eid)"

definition session_set_remote_description ::
  "sdp_lib \<Rightarrow> EndpointId \<Rightarrow> RTCSessionDescription \<Rightarrow> Session \<Rightarrow> (unit, Session) outcome" where
  "session_set_remote_description L eid desc self =
     (if \<not> has_endpoint eid self then (Err (unknown_endpoint eid), self)
      else case parsed desc of
             None \<Rightarrow> (Err (Other ''Unparsed remote description''), self)
           | Some p \<Rightarrow>
               for_each (remote_media_step L eid (sdp_type desc = Answer)) (media_descriptions p) self)"

section \<open>Local descriptions\<close>

definition local_media_step :: "EndpointId \<Rightarrow> MediaDescription \<Rightarrow> Session \<Rightarrow> (unit, Session) outcome" where
  "local_media_step eid m self =
     (case guard_media m of
        SkipMedia \<Rightarrow> (Ok (), self)
      | BadMedia err \<Rightarrow> (Err err, self)
      | UseMedia md k dir \<Rightarrow>
          (Ok (), modify_endpoint eid (\<lambda>ep. ep\<lparr>transceivers :=
             hm_modify md (set_current_direction dir) (transceivers ep)\<rparr>) self))"

definition session_set_local_description ::
  "EndpointId \<Rightarrow> RTCSessionDescription \<Rightarrow> Session \<Rightarrow> (unit, Session) outcome" where
  "session_set_local_description eid desc self =
     (case parsed desc of
        None \<Rightarrow> (Err (Other ''Unparsed local description''), self)
      | Some p \<Rightarrow>
          (if \<not> has_endpoint eid self then (Err (unknown_endpoint eid), self)
           else if sdp_type desc = Answer then for_each (local_media_step eid) (media_descriptions p) self
           else (Ok (), self)))"

section \<open>Offers and answers\<close>

record section_acc =
  acc_sections :: "MediaSection list"
  acc_application :: bool
  acc_matched :: "Mid list"

definition default_section :: MediaSection where
  "default_section = \<lparr>sect_mid = [], sect_data = False, rid_map = [], offered_direction = None\<rparr>"

definition match_remote_section ::
  "(Mid, RTCRtpTransceiver) hashmap \<Rightarrow> bool \<Rightarrow> MediaDescription \<Rightarrow> section_acc \<Rightarrow> section_acc result" where
  "match_remote_section trs include_unmatched m acc =
     (case get_mid_value m of
        None \<Rightarrow> Ok acc
      | Some md \<Rightarrow>
          (if md = [] then Err (Other ''ErrPeerConnRemoteDescriptionWithoutMidValue'')
           else if media (media_name m) = MEDIA_SECTION_APPLICATION then
             Ok (acc\<lparr>acc_sections := acc_sections acc @ [default_section\<lparr>sect_mid := md, sect_data := True\<rparr>],
                     acc_application := True\<rparr>)
           else
             (let k = codec_type_from_str (media (media_name m));
                  dir = get_peer_direction m
              in if k = CodecUnspecified \<or> dir = Unspecified then Ok acc
                 else if hm_contains_key trs md then
                   Ok (acc\<lparr>acc_sections := acc_sections acc @
                             [default_section\<lparr>sect_mid := md, rid_map := get_rids m,
                                offered_direction := (if include_unmatched then None else Some dir)\<rparr>],
                           acc_matched := md # acc_matched acc\<rparr>)
                 else Err (Other ''ErrPeerConnTransceiverMidNil''))))"

definition unmatched_sections :: "Mid list \<Rightarrow> section_acc \<Rightarrow> MediaSection list" where
  "unmatched_sections ms acc =
     (let secs = acc_sections acc @
        map (\<lambda>m. default_section\<lparr>sect_mid := m\<rparr>) (filter (\<lambda>m. m \<notin> set (acc_matched acc)) ms)
      in if acc_application acc then secs
         else secs @ [default_section\<lparr>sect_mid := show_nat (length secs), sect_data := True\<rparr>])"

definition matched_sections ::
  "Mid list \<Rightarrow> (Mid, RTCRtpTransceiver) hashmap \<Rightarrow> RTCSessionDescription \<Rightarrow> bool \<Rightarrow> MediaSection list result" where
  "matched_sections ms trs remote include_unmatched =
     and_then (case parsed remote of
                 Some p \<Rightarrow> try_fold (match_remote_section trs include_unmatched) (media_descriptions p)
                            \<lparr>acc_sections = [], acc_application = False, acc_matched = []\<rparr>
               | None \<Rightarrow> Ok \<lparr>acc_sections = [], acc_application = False, acc_matched = []\<rparr>) (\<lambda>acc.
       Ok (if include_unmatched then unmatched_sections ms acc else acc_sections acc))"

definition generate_matched_sdp ::
  "sdp_lib \<Rightarrow> (bytes \<Rightarrow> bytes) \<Rightarrow> SessionDescription \<Rightarrow> EndpointId \<Rightarrow> RTCSessionDescription \<Rightarrow> RTCIceParameters
   \<Rightarrow> bool \<Rightarrow> ConnectionRole \<Rightarrow> Session \<Rightarrow> SessionDescription result" where
  "generate_matched_sdp L sha256 jsep eid remote ice include_unmatched crole self =
     (let (ms, trs) = (case get_endpoint eid self of
                         Some ep \<Rightarrow> (mids ep, transceivers ep) | None \<Rightarrow> ([], []))
      in and_then (matched_sections ms trs remote include_unmatched) (\<lambda>secs.
           case certificates (server_config (session_config self)) of
             cert # _ \<Rightarrow>
               populate_sdp L jsep (get_fingerprints sha256 cert) (session_config self) ice crole secs trs True
           | [] \<Rightarrow> Err (Other ''ErrNonCertificate'')))"

definition create_offer ::
  "sdp_lib \<Rightarrow> (bytes \<Rightarrow> bytes) \<Rightarrow> SessionDescription \<Rightarrow> EndpointId \<Rightarrow> RTCSessionDescription \<Rightarrow> RTCIceParameters
   \<Rightarrow> Session \<Rightarrow> RTCSessionDescription result" where
  "create_offer L sha256 jsep eid remote ice self =
     and_then (generate_matched_sdp L sha256 jsep eid remote ice True
                 (to_connection_role DEFAULT_DTLS_ROLE_OFFER) self) (\<lambda>d.
       let (_, d') = update_sdp_origin (default_origin L) d
       in Ok \<lparr>sdp_type = Offer, sdp = session_marshal L d', parsed = Some d'\<rparr>)"

definition create_answer ::
  "sdp_lib \<Rightarrow> (bytes \<Rightarrow> bytes) \<Rightarrow> SessionDescription \<Rightarrow> EndpointId \<Rightarrow> RTCSessionDescription \<Rightarrow> RTCIceParameters
   \<Rightarrow> Session \<Rightarrow> RTCSessionDescription result" where
  "create_answer L sha256 jsep eid remote ice self =
     and_then (generate_matched_sdp L sha256 jsep eid remote ice False
                 (to_connection_role DtlsServer) self) (\<lambda>d.
       let (_, d') = update_sdp_origin (default_origin L) d
       in Ok \<lparr>sdp_type = Answer, sdp = session_marshal L d', parsed = Some d'\<rparr>)"

section \<open>Well-formed sessions\<close>

text \<open>
  The strict form also asks that no mid occurs twice in the list of mids. All operations of a session
  keep both forms.
\<close>

definition ep_ok :: "bool \<Rightarrow> EndpointId \<Rightarrow> Endpoint \<Rightarrow> bool" where
  "ep_ok d eid ep \<longleftrightarrow> endpoint_wf ep \<and> (d \<longrightarrow> mids_distinct ep) \<and> ep_endpoint_id ep = eid"

definition session_wf :: "bool \<Rightarrow> Session \<Rightarrow> bool" where
  "session_wf d self \<longleftrightarrow> hm_wf (endpoints self) \<and>
     (\<forall>eid ep. hm_get (endpoints self) eid = Some ep \<longrightarrow> ep_ok d eid ep)"

lemma session_wf_new: "session_wf d (session_new cfg sid)"
  by (simp add: session_wf_def session_new_def)

lemma session_wf_modify:
  "session_wf d self \<Longrightarrow> (\<And>ep. ep_ok d eid ep \<Longrightarrow> ep_ok d eid (f ep)) \<Longrightarrow> session_wf d (modify_endpoint eid f self)"
  by (auto simp: session_wf_def modify_endpoint_def split: if_splits)

lemma session_wf_map:
  "session_wf d self \<Longrightarrow> (\<And>i ep. ep_ok d i ep \<Longrightarrow> ep_ok d i (f i ep)) \<Longrightarrow>
   session_wf d (self\<lparr>endpoints := hm_map f (endpoints self)\<rparr>)"
  by (auto simp: session_wf_def)

lemma session_wf_remove: "session_wf d self \<Longrightarrow> session_wf d (session_remove_endpoint eid self)"
  by (auto simp: session_wf_def session_remove_endpoint_def split: if_splits)

lemma ep_ok_transport: "ep_ok d eid ep \<Longrightarrow> ep_ok d eid (add_transport t ep)"
  unfolding ep_ok_def by (simp add: add_transport_def[of t ep]) (simp add: add_transport_def[symmetric])

lemma session_wf_add_endpoint:
  assumes "session_wf d self"
  shows "session_wf d (snd (session_add_endpoint T now clock cand tc self))"
proof -
  have "ep_ok d eid (ep_set_remote_description rd (ep_set_local_description ld (add_transport tr (endpoint_new eid ic))))"
    for eid rd ld tr ic
    by (simp add: ep_ok_def)
      (simp add: ep_set_remote_description_def ep_set_local_description_def add_transport_def endpoint_new_def)
  then show ?thesis using assms
    by (auto simp: session_add_endpoint_def Let_def session_wf_def modify_endpoint_def ep_ok_transport
        split: option.splits if_splits)
qed

lemma keys_in_mids: "endpoint_wf ep \<Longrightarrow> hm_get (transceivers ep) m = None \<Longrightarrow> m \<notin> set (mids ep)"
  by (simp add: endpoint_wf_def hm.entries_keys)

lemma ep_ok_add_transceiver:
  assumes "ep_ok d eid ep" "hm_get (transceivers ep) (mid t) = None"
  shows "ep_ok d eid (ep\<lparr>mids := mids ep @ [mid t], transceivers := hm_insert (mid t) t (transceivers ep)\<rparr>)"
  using assms keys_in_mids[of ep "mid t"] by (auto simp: ep_ok_def endpoint_wf_def mids_distinct_def)

lemma keys_modify [simp]: "fst ` set (hm_modify k f m) = fst ` set m"
  by (metis fst_hm_modify list.set_map)

lemma ep_ok_modify_transceiver:
  assumes "ep_ok d eid ep" "\<And>t. mid (f t) = mid t"
  shows "ep_ok d eid (ep\<lparr>transceivers := hm_modify m f (transceivers ep)\<rparr>)"
  using assms by (auto simp: ep_ok_def endpoint_wf_def mids_distinct_def split: if_splits)

lemma ep_ok_renegotiation [simp]: "ep_ok d eid (set_renegotiation_needed b ep) = ep_ok d eid ep"
  by (simp add: ep_ok_def) (simp add: set_renegotiation_needed_def)

lemma ep_ok_mirror:
  assumes "ep_ok d oid other"
  shows "ep_ok d oid (mirror_to_other eid m dir sd params k oid other)"
  using assms ep_ok_add_transceiver[OF assms, of "\<lparr>mid = other_mid eid m, sender = sd, direction = dir,
      current_direction = Unspecified, rtp_params = params, kind = k\<rparr>"]
  by (auto simp: mirror_to_other_def Let_def ep_ok_modify_transceiver split: option.splits)

lemma session_wf_offered_step:
  assumes "session_wf d self"
  shows "session_wf d (snd (offered_media_step L eid md k dir m self))"
proof -
  have own: "session_wf d (modify_endpoint eid (add_own_transceiver t) self)"
    if "get_endpoint eid self = Some ep" "\<not> hm_contains_key (transceivers ep) (mid t)" for t ep
    using assms that
    by (auto simp: session_wf_def modify_endpoint_def get_endpoint_def hm_contains_key_def add_own_transceiver_def
        ep_ok_add_transceiver split: if_splits)
  show ?thesis using assms own
    by (auto simp: offered_media_step_def Let_def split: option.splits sum.splits
        intro!: session_wf_map ep_ok_mirror)
qed

lemma session_wf_remote_step:
  assumes "session_wf d self"
  shows "session_wf d (snd (remote_media_step L eid off m self))"
  using assms session_wf_offered_step[OF assms]
  by (auto simp: remote_media_step_def answered_media_step_def set_current_direction_def split: media_guard.splits option.splits
      intro!: session_wf_modify ep_ok_modify_transceiver)

lemma session_wf_set_remote:
  "session_wf d self \<Longrightarrow> session_wf d (snd (session_set_remote_description L eid desc self))"
  by (auto simp: session_set_remote_description_def split: option.splits
      intro!: for_each_invariant[where I = "session_wf d"] session_wf_remote_step)

lemma session_wf_set_local:
  "session_wf d self \<Longrightarrow> session_wf d (snd (session_set_local_description eid desc self))"
  by (auto simp: session_set_local_description_def local_media_step_def set_current_direction_def
      split: option.splits media_guard.splits
      intro!: for_each_invariant[where I = "session_wf d"] session_wf_modify ep_ok_modify_transceiver)

text \<open>
  Every operation of a session keeps it well formed, also when it ends in an error: endpoints and
  transports are stored under their own ids, transceivers under their own mids, and the list of mids of
  an endpoint names all its transceivers; if it named each of them once, it still does.
\<close>

theorem session_operations_keep_wf:
  "session_wf d (session_new cfg sid) \<and>
   (session_wf d self \<longrightarrow>
      session_wf d (snd (session_add_endpoint T now clock cand tc self)) \<and>
      session_wf d (session_remove_endpoint eid self) \<and>
      session_wf d (snd (session_set_remote_description L eid desc self)) \<and>
      session_wf d (snd (session_set_local_description eid desc self)))"
  by (simp add: session_wf_new session_wf_add_endpoint session_wf_remove session_wf_set_remote session_wf_set_local)

text \<open>Sample values for the witnesses: a peer that offers one audio section.\<close>

definition sample_transport_lib :: transport_lib where
  "sample_transport_lib = \<lparr>dtls_endpoint_new = (\<lambda>_. undefined), sctp_endpoint_new = (\<lambda>_ _. undefined)\<rparr>"

definition sample_description :: "RTCSdpType \<Rightarrow> MediaDescription list \<Rightarrow> RTCSessionDescription" where
  "sample_description ty ms = \<lparr>sdp_type = ty, sdp = ''v=0'', parsed = Some (empty_session\<lparr>media_descriptions := ms\<rparr>)\<rparr>"

definition sample_credentials :: "string \<Rightarrow> ConnectionCredentials" where
  "sample_credentials u = \<lparr>ice_params = \<lparr>username_fragment = u, password = ''secret''\<rparr>,
     dtls_params = \<lparr>role = DtlsServer, fingerprints = []\<rparr>\<rparr>"

definition sample_candidate :: "SessionId \<Rightarrow> EndpointId \<Rightarrow> Candidate" where
  "sample_candidate sid eid = candidate_new sid eid (sample_credentials ''remote'') (sample_credentials ''local'')
     (sample_description Offer []) (sample_description Answer []) 0"

definition sample_context :: "u16 \<Rightarrow> TransportContext" where
  "sample_context p = \<lparr>ctx_local_addr = SocketAddrV4 0x7F000001 3478, ctx_peer_addr = SocketAddrV4 0x7F000001 p, ecn = None\<rparr>"

definition offered_audio :: "Mid \<Rightarrow> string \<Rightarrow> MediaDescription" where
  "offered_audio m dir = add_attrs [value_attr ''mid'' m, property_attr dir, value_attr ''msid'' ''s t'',
     value_attr ''ssrc'' ''5 cname:c''] (empty_media ''audio'' [])"

definition sample_session :: "EndpointId list \<Rightarrow> Session" where
  "sample_session eids = fold (\<lambda>eid. snd \<circ> session_add_endpoint sample_transport_lib 0 (\<lambda>_. 0)
     (sample_candidate 1 eid) (sample_context (ucast eid))) eids (session_new sample_session_config 1)"

lemma sample_session_wf: "session_wf d (sample_session eids)"
  unfolding sample_session_def
  by (rule fold_invariant[where P = "session_wf d" and Q = "\<lambda>_. True"])
    (auto simp: session_wf_new session_wf_add_endpoint)

theorem session_operations_keep_wf_witness:
  "session_wf True (session_new sample_session_config 1) \<and>
   session_wf True (snd (session_set_remote_description sample_lib 7
     (sample_description Offer [offered_audio ''0'' ''sendonly'']) (sample_session [7, 8])))"
  using session_operations_keep_wf[of True sample_session_config 1 "sample_session [7, 8]"] by (simp add: sample_session_wf)

section \<open>What an offer changes\<close>

text \<open>
  What a list of offered sections says of a mid: the first section with that mid that the guards
  let through, with the direction and the sources read from it.
\<close>

fun offered_of ::
  "sdp_lib \<Rightarrow> MediaDescription list \<Rightarrow> Mid
   \<Rightarrow> (RTCRtpTransceiverDirection \<times> RTCRtpSender option \<times> RTCRtpParameters \<times> RTPCodecType) option" where
  "offered_of L [] x = None"
| "offered_of L (m # ms) x =
     (case guard_media m of
        UseMedia md k dir \<Rightarrow>
          (if md = x then
             (case read_offered_media L m of Inr (sd, ps) \<Rightarrow> Some (dir, sd, ps, k) | Inl _ \<Rightarrow> None)
           else offered_of L ms x)
      | _ \<Rightarrow> offered_of L ms x)"

text \<open>The transceiver under a mid of the offering endpoint, and under its mirrored mid at another one.\<close>

fun own_after ::
  "Mid \<Rightarrow> (RTCRtpTransceiverDirection \<times> RTCRtpSender option \<times> RTCRtpParameters \<times> RTPCodecType) option
   \<Rightarrow> RTCRtpTransceiver option \<Rightarrow> RTCRtpTransceiver option" where
  "own_after x (Some (dir, sd, ps, k)) None =
     Some \<lparr>mid = x, sender = sd, direction = local_direction_for dir, current_direction = Unspecified,
           rtp_params = ps, kind = k\<rparr>"
| "own_after x _ t = t"

fun mirrored_after ::
  "Mid \<Rightarrow> (RTCRtpTransceiverDirection \<times> RTCRtpSender option \<times> RTCRtpParameters \<times> RTPCodecType) option
   \<Rightarrow> RTCRtpTransceiver option \<Rightarrow> RTCRtpTransceiver option \<Rightarrow> RTCRtpTransceiver option" where
  "mirrored_after om (Some (dir, sd, ps, k)) None (Some t) = Some (t\<lparr>direction := dir\<rparr>)"
| "mirrored_after om (Some (dir, sd, ps, k)) None None =
     (if dir = Sendonly then
        Some \<lparr>mid = om, sender = sd, direction = dir, current_direction = Unspecified, rtp_params = ps, kind = k\<rparr>
      else None)"
| "mirrored_after om _ _ t = t"

definition transceiver_at :: "EndpointId \<Rightarrow> Mid \<Rightarrow> Session \<Rightarrow> RTCRtpTransceiver option" where
  "transceiver_at eid x self = Option.bind (get_endpoint eid self) (\<lambda>ep. hm_get (transceivers ep) x)"

lemma other_mid_same [simp]: "other_mid eid m = other_mid eid m' \<longleftrightarrow> m = m'"
  by (simp add: other_mid_def)

lemma has_endpoint_get: "has_endpoint eid self \<longleftrightarrow> get_endpoint eid self \<noteq> None"
  by (simp add: has_endpoint_def get_endpoint_def hm_contains_key_def)

lemma get_mirror:
  "hm_get (transceivers (mirror_to_other eid md dir sd ps k oid other)) y =
     (if oid \<noteq> eid \<and> y = other_mid eid md
      then mirrored_after y (Some (dir, sd, ps, k)) None (hm_get (transceivers other) y)
      else hm_get (transceivers other) y)"
  by (auto simp: mirror_to_other_def Let_def set_renegotiation_needed_def split: option.splits)

text \<open>One offered section, on every transceiver of the session.\<close>

lemma offered_step_effect:
  assumes step: "offered_media_step L eid md k dir m self = (Ok (), self')" and has: "has_endpoint eid self"
  shows "transceiver_at eid md self = None \<Longrightarrow> \<exists>sd ps. read_offered_media L m = Ok (sd, ps) \<and>
      (\<forall>x. transceiver_at eid x self' =
         (if x = md then own_after md (Some (dir, sd, ps, k)) None else transceiver_at eid x self)) \<and>
      (\<forall>oid y. oid \<noteq> eid \<longrightarrow> has_endpoint oid self \<longrightarrow> transceiver_at oid y self' =
         (if y = other_mid eid md then mirrored_after y (Some (dir, sd, ps, k)) None (transceiver_at oid y self)
          else transceiver_at oid y self))"
    and "transceiver_at eid md self \<noteq> None \<Longrightarrow> self' = self"
    and "has_endpoint oid self' = has_endpoint oid self"
  using assms
  by (auto simp: offered_media_step_def has_endpoint_get get_endpoint_def transceiver_at_def hm_contains_key_def
      modify_endpoint_def add_own_transceiver_def get_mirror Let_def split: option.splits sum.splits prod.splits if_splits)

lemma remote_sections_effect:
  assumes "for_each (remote_media_step L eid False) ms self = (Ok (), self')" "has_endpoint eid self"
  shows "(\<forall>x. transceiver_at eid x self' = own_after x (offered_of L ms x) (transceiver_at eid x self)) \<and>
    (\<forall>oid x. oid \<noteq> eid \<longrightarrow> has_endpoint oid self \<longrightarrow>
       transceiver_at oid (other_mid eid x) self' =
         mirrored_after (other_mid eid x) (offered_of L ms x) (transceiver_at eid x self)
           (transceiver_at oid (other_mid eid x) self)) \<and>
    (\<forall>oid y. oid \<noteq> eid \<longrightarrow> has_endpoint oid self \<longrightarrow> y \<notin> range (other_mid eid) \<longrightarrow>
       transceiver_at oid y self' = transceiver_at oid y self)"
  using assms
proof (induction ms arbitrary: self)
  case (Cons m ms)
  obtain s1 where s1: "remote_media_step L eid False m self = (Ok (), s1)"
    "for_each (remote_media_step L eid False) ms s1 = (Ok (), self')"
    using Cons.prems(1) by (auto split: prod.splits sum.splits)
  show ?case
  proof (cases "guard_media m")
    case (UseMedia md k dir)
    then have step: "offered_media_step L eid md k dir m self = (Ok (), s1)" using s1(1) by (simp add: remote_media_step_def)
    note eff = offered_step_effect[OF step Cons.prems(2)]
    have has: "has_endpoint oid s1 = has_endpoint oid self" for oid by (rule eff(3))
    note IH = Cons.IH[OF s1(2), unfolded has, OF Cons.prems(2)]
    show ?thesis
    proof (cases "transceiver_at eid md self")
      case None
      from eff(1)[OF None] obtain sd ps where "read_offered_media L m = Ok (sd, ps)"
        "\<And>x. transceiver_at eid x s1 =
           (if x = md then own_after md (Some (dir, sd, ps, k)) None else transceiver_at eid x self)"
        "\<And>oid y. oid \<noteq> eid \<Longrightarrow> has_endpoint oid self \<Longrightarrow> transceiver_at oid y s1 =
           (if y = other_mid eid md then mirrored_after y (Some (dir, sd, ps, k)) None (transceiver_at oid y self)
            else transceiver_at oid y self)" by blast
      with IH UseMedia None show ?thesis by auto
    next
      case (Some t)
      then have "s1 = self" using eff(2) by simp
      with IH UseMedia Some show ?thesis by (auto split: sum.splits)
    qed
  qed (use Cons s1 in \<open>auto simp: remote_media_step_def\<close>)
qed simp

lemma set_remote_offer:
  assumes "session_set_remote_description L eid desc self = (Ok (), self')" "sdp_type desc \<noteq> Answer"
  obtains p where "parsed desc = Some p" "has_endpoint eid self"
    "for_each (remote_media_step L eid False) (media_descriptions p) self = (Ok (), self')"
  using assms by (auto simp: session_set_remote_description_def split: if_splits option.splits)


lemma guard_offered_audio: "guard_media (offered_audio ''0'' ''sendonly'') = UseMedia ''0'' Audio Sendonly"
  by (simp add: guard_media_def offered_audio_def add_attrs_def value_attr_def property_attr_def empty_media_def)
    code_simp

lemma read_offered_audio:
  "read_offered_media sample_lib (offered_audio ''0'' ''sendonly'') =
     Ok (Some \<lparr>cname = ''c'', msid = \<lparr>stream_id = ''s'', track_id = ''t''\<rparr>, ssrcs = [5], ssrc_groups = []\<rparr>,
         \<lparr>params_header_extensions = [], params_codecs = []\<rparr>)"
proof -
  have "get_ssrc_groups (offered_audio ''0'' ''sendonly'') = Ok []"
    "get_ssrcs (offered_audio ''0'' ''sendonly'') = Ok [5]"
    "get_msid (offered_audio ''0'' ''sendonly'') = Some \<lparr>stream_id = ''s'', track_id = ''t''\<rparr>"
    by (simp_all add: get_ssrc_groups_def get_msid_def get_ssrcs_def add_ssrc_def offered_audio_def empty_media_def
        is_ws_def parse_u32_def parse_uint_def is_digit_char_def digit_value_def)
  moreover have "get_cname (offered_audio ''0'' ''sendonly'') = Some ''c''"
    by (simp add: get_cname_def offered_audio_def empty_media_def) code_simp
  moreover have "codecs_from_media_description sample_lib (offered_audio ''0'' ''sendonly'') = Ok []"
    by (simp add: codecs_from_media_description_def offered_audio_def add_attrs_def empty_media_def map_filter_simps)
  moreover have "rtp_extensions_from_media_description sample_lib (offered_audio ''0'' ''sendonly'') = Ok []"
    by (simp add: rtp_extensions_from_media_description_def offered_audio_def empty_media_def
        extension_of_def sample_lib_def sample_sdp_def map_filter_simps)
  ultimately show ?thesis by (simp add: read_offered_media_def sender_of_def)
qed

lemma sample_session_endpoints: "has_endpoint 7 (sample_session [7, 8])" "has_endpoint 8 (sample_session [7, 8])"
  "transceiver_at 7 x (sample_session [7, 8]) = None" "transceiver_at 8 x (sample_session [7, 8]) = None"
  by (simp_all add: sample_session_def session_add_endpoint_def sample_candidate_def candidate_new_def Let_def
      has_endpoint_get get_endpoint_def session_new_def transceiver_at_def ep_set_remote_description_def
      ep_set_local_description_def add_transport_def endpoint_new_def)


end
