(* ===== verification/Session_Sdp.thy ===== *)
theory Session_Sdp
  imports Session
begin

text \<open>
  What the offers and answers of \<open>src/session/mod.rs\<close> say: which sections of a remote description they take over and
  in which order, which directions they announce, and when no answer exists.
\<close>

lemma other_mid_hd: "hd (split_on CHR ''-'' (other_mid eid m)) = show_word eid"
  using split_on_append[OF show_word_no_sep, of "CHR ''-''" eid m] by (simp add: other_mid_def)

lemma other_mid_eq: "other_mid eid m = other_mid eid' m' \<longleftrightarrow> eid = eid' \<and> m = m'"
proof
  assume eq: "other_mid eid m = other_mid eid' m'"
  then have "show_word eid = show_word eid'" using other_mid_hd by metis
  with eq show "eid = eid' \<and> m = m'" by (auto simp: other_mid_def)
qed simp

text \<open>
  Mirrored mids never clash: the mids under which two endpoints' media appear at a third one differ unless
  they are the same media of the same endpoint.
\<close>

theorem other_mid_inject: "other_mid eid m = other_mid eid' m' \<longleftrightarrow> eid = eid' \<and> m = m'"
  by (rule other_mid_eq)

section \<open>The sections of offers and answers\<close>

text \<open>The mid of a remote section that an offer or answer takes over, data channel or media.\<close>

definition section_mid :: "MediaDescription \<Rightarrow> (bool \<times> Mid) option" where
  "section_mid m =
     (case get_mid_value m of
        None \<Rightarrow> None
      | Some md \<Rightarrow>
          (if media (media_name m) = MEDIA_SECTION_APPLICATION then Some (True, md)
           else if codec_type_from_str (media (media_name m)) = CodecUnspecified \<or> get_peer_direction m = Unspecified
             then None else Some (False, md)))"

definition taken :: "MediaDescription list \<Rightarrow> MediaDescription list" where
  "taken ms = filter (\<lambda>m. section_mid m \<noteq> None) ms"

definition taken_mids :: "bool \<Rightarrow> MediaDescription list \<Rightarrow> Mid list" where
  "taken_mids b ms = List.map_filter (\<lambda>m. case section_mid m of Some (b', md) \<Rightarrow> if b' = b then Some md else None | None \<Rightarrow> None) ms"

definition section_for :: "bool \<Rightarrow> MediaDescription \<Rightarrow> MediaSection" where
  "section_for inc m =
     (case section_mid m of
        Some (False, md) \<Rightarrow> default_section\<lparr>sect_mid := md, rid_map := get_rids m,
           offered_direction := (if inc then None else Some (get_peer_direction m))\<rparr>
      | Some (True, md) \<Rightarrow> default_section\<lparr>sect_mid := md, sect_data := True\<rparr>
      | None \<Rightarrow> default_section)"

lemma taken_simps [simp]:
  "taken [] = []" "taken (m # ms) = (if section_mid m = None then taken ms else m # taken ms)"
  "taken_mids b [] = []"
  "taken_mids b (m # ms) =
     (case section_mid m of None \<Rightarrow> taken_mids b ms
      | Some (b', md) \<Rightarrow> if b' = b then md # taken_mids b ms else taken_mids b ms)"
  by (auto simp: taken_def taken_mids_def map_filter_simps split: option.splits)

lemma match_step:
  assumes "match_remote_section trs inc m acc = Ok acc'"
  shows "case section_mid m of
      None \<Rightarrow> acc' = acc
    | Some (b, md) \<Rightarrow>
        acc' = (if b then acc\<lparr>acc_sections := acc_sections acc @ [section_for inc m], acc_application := True\<rparr>
                else acc\<lparr>acc_sections := acc_sections acc @ [section_for inc m], acc_matched := md # acc_matched acc\<rparr>) \<and>
        (b \<or> hm_contains_key trs md)"
  using assms
  by (auto simp: match_remote_section_def section_mid_def section_for_def Let_def split: option.splits if_splits)

lemma match_fold:
  assumes "try_fold (match_remote_section trs inc) ms acc = Ok acc'"
  shows "acc_sections acc' = acc_sections acc @ map (section_for inc) (taken ms) \<and>
    acc_application acc' = (acc_application acc \<or> taken_mids True ms \<noteq> []) \<and>
    set (acc_matched acc') = set (acc_matched acc) \<union> set (taken_mids False ms) \<and>
    (\<forall>md\<in>set (taken_mids False ms). hm_contains_key trs md)"
  using assms
proof (induction ms arbitrary: acc)
  case Nil
  then show ?case by simp
next
  case (Cons m ms)
  then obtain a where a: "match_remote_section trs inc m acc = Ok a" "try_fold (match_remote_section trs inc) ms a = Ok acc'"
    by (auto simp: result_simps)
  note IH = Cons.IH[OF a(2)] and step = match_step[OF a(1)]
  show ?case
  proof (cases "section_mid m")
    case None
    then show ?thesis using IH step by simp
  next
    case (Some x)
    obtain b md where "x = (b, md)" by (cases x)
    then show ?thesis using IH step Some by (cases b) simp_all
  qed
qed

lemma sect_mid_section_for: "section_mid m \<noteq> None \<Longrightarrow> get_mid_value m = Some (sect_mid (section_for inc m))"
  by (auto simp: section_mid_def section_for_def split: option.splits if_splits)

lemma matched_sections_eq:
  assumes "matched_sections ms trs remote inc = Ok secs" "parsed remote = Some p"
  shows "(\<forall>md\<in>set (taken_mids False (media_descriptions p)). hm_contains_key trs md) \<and>
    (let secs0 = map (section_for inc) (taken (media_descriptions p));
         secs1 = secs0 @ map (\<lambda>m. default_section\<lparr>sect_mid := m\<rparr>)
           (filter (\<lambda>m. m \<notin> set (taken_mids False (media_descriptions p))) ms)
     in secs = (if \<not> inc then secs0
                else if taken_mids True (media_descriptions p) \<noteq> [] then secs1
                else secs1 @ [default_section\<lparr>sect_mid := show_nat (length secs1), sect_data := True\<rparr>]))"
proof -
  obtain acc where acc: "try_fold (match_remote_section trs inc) (media_descriptions p)
      \<lparr>acc_sections = [], acc_application = False, acc_matched = []\<rparr> = Ok acc"
    and secs: "secs = (if inc then unmatched_sections ms acc else acc_sections acc)"
    using assms by (auto simp: matched_sections_def result_simps)
  from match_fold[OF acc] secs show ?thesis by (auto simp: unmatched_sections_def Let_def)
qed

lemma generated_sections:
  assumes "sdp_builders L" "generate_matched_sdp L sha256 jsep eid remote ice inc crole self = Ok d"
    "get_endpoint eid self = Some ep" "media_descriptions jsep = []"
  obtains secs where "matched_sections (mids ep) (transceivers ep) remote inc = Ok secs"
    "list_all2 (section_says (connection_role_to_string L crole) (transceivers ep)) secs (media_descriptions d)"
    "origin d = origin jsep"
proof -
  obtain secs cert where "matched_sections (mids ep) (transceivers ep) remote inc = Ok secs"
    and "populate_sdp L jsep (get_fingerprints sha256 cert) (session_config self) ice crole secs (transceivers ep) True = Ok d"
    using assms(2,3)
    by (cases "certificates (server_config (session_config self))") (auto simp: generate_matched_sdp_def result_simps)
  with populate_sdp_says[OF assms(1)] assms(4) that show ?thesis by fastforce
qed

lemma fresh_origin: "sdp_builders L \<Longrightarrow> snd (update_sdp_origin (default_origin L) d) = d"
  by (simp add: update_sdp_origin_def sdp_builders_def sdp_session_builders_def)

lemma says_mids: "list_all2 (section_says su ts) secs ms \<Longrightarrow> map get_mid_value ms = map (\<lambda>s. Some (sect_mid s)) secs"
  by (induction rule: list_all2_induct) (auto simp: section_says_def says_def Let_def split: if_splits)

lemma list_all2_right: "list_all2 R xs ys \<Longrightarrow> y \<in> set ys \<Longrightarrow> \<exists>x\<in>set xs. R x y"
  by (induction rule: list_all2_induct) auto

lemma taken_section_mids: "map (\<lambda>m. Some (sect_mid (section_for inc m))) (taken ms) = map get_mid_value (taken ms)"
  by (simp add: taken_def sect_mid_section_for[symmetric] del: not_None_eq)

lemma section_for_offer: "sect_data (section_for True m) = (\<exists>md. section_mid m = Some (True, md))"
  "offered_direction (section_for True m) = None"
  by (auto simp: section_for_def default_section_def split: option.splits bool.splits)

lemma default_section_sel [simp]:
  "sect_mid default_section = []" "\<not> sect_data default_section" "offered_direction default_section = None"
  by (simp_all add: default_section_def)

text \<open>
  C31: An offer keeps the order of the sections the peer described before, adds the endpoint's other transceivers
  after them and a data channel section if the peer had none; each section shows the direction and kind of its
  transceiver. Its origin is that of a fresh description, also for a repeated offer.
\<close>

theorem offer_sections:
  assumes "sdp_builders L" "create_offer L sha256 jsep eid remote ice self = Ok off"
    "get_endpoint eid self = Some ep" "parsed remote = Some p" "media_descriptions jsep = []"
  shows "\<exists>d. parsed off = Some d \<and> sdp_type off = Offer \<and> origin d = origin jsep \<and>
    (let known = media_descriptions p;
         ms = map get_mid_value (taken known) @ map Some (filter (\<lambda>m. m \<notin> set (taken_mids False known)) (mids ep))
     in map get_mid_value (media_descriptions d) =
          ms @ (if taken_mids True known \<noteq> [] then [] else [Some (show_nat (length ms))])) \<and>
    (\<forall>m\<in>set (media_descriptions d). case hm_get (transceivers ep) (the (get_mid_value m)) of
        None \<Rightarrow> media (media_name m) = MEDIA_SECTION_APPLICATION
      | Some t \<Rightarrow> media (media_name m) = codec_type_to_string (kind t) \<and> get_peer_direction m = direction t)"
proof -
  let ?ro = "to_connection_role DEFAULT_DTLS_ROLE_OFFER"
  obtain d where d: "generate_matched_sdp L sha256 jsep eid remote ice True ?ro self = Ok d"
    and off: "parsed off = Some d" "sdp_type off = Offer"
    using assms(2) by (auto simp: create_offer_def result_simps case_prod_beta fresh_origin[OF assms(1)])
  obtain secs where secs: "matched_sections (mids ep) (transceivers ep) remote True = Ok secs"
    and says: "list_all2 (section_says (connection_role_to_string L ?ro) (transceivers ep)) secs (media_descriptions d)"
    and org: "origin d = origin jsep"
    using generated_sections[OF assms(1) d assms(3,5)] by blast
  note eq = matched_sections_eq[OF secs assms(4), THEN conjunct2, unfolded Let_def]
  have none: "offered_direction s = None" if "s \<in> set secs" for s
    using that eq by (auto simp: section_for_offer split: if_splits)
  have "case hm_get (transceivers ep) (the (get_mid_value m)) of
        None \<Rightarrow> media (media_name m) = MEDIA_SECTION_APPLICATION
      | Some t \<Rightarrow> media (media_name m) = codec_type_to_string (kind t) \<and> get_peer_direction m = direction t"
    if m: "m \<in> set (media_descriptions d)" for m
  proof -
    obtain s where "s \<in> set secs" "section_says (connection_role_to_string L ?ro) (transceivers ep) s m"
      using list_all2_right[OF says m] by blast
    with none show ?thesis by (auto simp: section_says_def says_def Let_def split: if_splits)
  qed
  moreover have "map (\<lambda>s. Some (sect_mid s)) secs =
      (let known = media_descriptions p;
           ms = map get_mid_value (taken known) @ map Some (filter (\<lambda>m. m \<notin> set (taken_mids False known)) (mids ep))
       in ms @ (if taken_mids True known \<noteq> [] then [] else [Some (show_nat (length ms))]))"
    using eq taken_section_mids[of True "media_descriptions p"] by (simp add: comp_def Let_def)
  ultimately show ?thesis using off org says_mids[OF says] by auto
qed

definition answers_section :: "string \<Rightarrow> MediaDescription \<Rightarrow> MediaDescription \<Rightarrow> bool" where
  "answers_section su offered answer \<longleftrightarrow>
     get_mid_value answer = get_mid_value offered \<and>
     take 1 (attributes answer) = [value_attr ''setup'' su] \<and>
     (media (media_name offered) = MEDIA_SECTION_APPLICATION \<longrightarrow> media (media_name answer) = MEDIA_SECTION_APPLICATION) \<and>
     (media (media_name offered) \<noteq> MEDIA_SECTION_APPLICATION \<longrightarrow>
        (has_send (get_peer_direction answer) \<longrightarrow> has_recv (get_peer_direction offered)) \<and>
        (has_recv (get_peer_direction answer) \<longrightarrow> has_send (get_peer_direction offered)))"

lemma section_for_answers:
  assumes taken: "section_mid m \<noteq> None" and says: "section_says su ts (section_for False m) a"
  shows "answers_section su m a"
proof -
  obtain b md where b: "section_mid m = Some (b, md)" using taken by auto
  have mid: "get_mid_value m = Some (sect_mid (section_for False m))" using taken by (rule sect_mid_section_for)
  show ?thesis
  proof (cases b)
    case True
    then have "media (media_name m) = MEDIA_SECTION_APPLICATION" using b by (auto simp: section_mid_def split: option.splits if_splits)
    then show ?thesis using b True says mid by (auto simp: answers_section_def section_says_def says_def section_for_def)
  next
    case False
    then have m: "media (media_name m) \<noteq> MEDIA_SECTION_APPLICATION" "get_peer_direction m \<noteq> Unspecified"
      using b by (auto simp: section_mid_def split: option.splits if_splits)
    obtain t :: RTCRtpTransceiver where "says su (sect_mid (section_for False m)) (codec_type_to_string (kind t))
        (section_direction (Some (get_peer_direction m)) (direction t)) a"
      using says b False by (auto simp: section_says_def section_for_def Let_def)
    then show ?thesis using m mid section_direction_compliant[OF m(2)] by (simp add: answers_section_def says_def)
  qed
qed

text \<open>
  C29: An answer has one section for each offered one that has a mid, a known kind and a direction, in the offered
  order and with the same mid; every one announces the passive DTLS role. Its directions obey RFC 3264: it sends
  only where the offer receives and receives only where the offer sends.
\<close>

theorem answer_sections:
  assumes "sdp_builders L" "create_answer L sha256 jsep eid remote ice self = Ok ans"
    "get_endpoint eid self = Some ep" "parsed remote = Some p" "media_descriptions jsep = []"
  shows "\<exists>d. parsed ans = Some d \<and> sdp_type ans = Answer \<and>
    list_all2 (answers_section (connection_role_to_string L RolePassive)) (taken (media_descriptions p)) (media_descriptions d)"
proof -
  obtain d where d: "generate_matched_sdp L sha256 jsep eid remote ice False RolePassive self = Ok d"
    and ans: "parsed ans = Some d" "sdp_type ans = Answer"
    using assms(2) by (auto simp: create_answer_def result_simps case_prod_beta fresh_origin[OF assms(1)])
  obtain secs where secs: "matched_sections (mids ep) (transceivers ep) remote False = Ok secs"
    and says: "list_all2 (section_says (connection_role_to_string L RolePassive) (transceivers ep)) secs (media_descriptions d)"
    using generated_sections[OF assms(1) d assms(3,5)] by blast
  from says matched_sections_eq[OF secs assms(4)]
  have "list_all2 (\<lambda>m. section_says (connection_role_to_string L RolePassive) (transceivers ep) (section_for False m))
      (taken (media_descriptions p)) (media_descriptions d)" by (simp add: list_all2_map1)
  then have "list_all2 (answers_section (connection_role_to_string L RolePassive)) (taken (media_descriptions p)) (media_descriptions d)"
    by (rule list.rel_mono_strong) (auto simp: taken_def intro: section_for_answers)
  then show ?thesis using ans by blast
qed

text \<open>
  An offered media section that belongs to no transceiver of the endpoint makes the answer fail. In
  particular a first offer, answered before its endpoint exists, is only answered if it has no media section.
\<close>

theorem unknown_media_unanswered:
  assumes "parsed remote = Some p" "m \<in> set (media_descriptions p)" "section_mid m = Some (False, md)"
    "case get_endpoint eid self of Some ep \<Rightarrow> hm_get (transceivers ep) md = None | None \<Rightarrow> True"
  shows "\<exists>e. create_answer L sha256 jsep eid remote ice self = Err e"
proof (cases "create_answer L sha256 jsep eid remote ice self")
  case (Inr ans)
  define st where "st = (case get_endpoint eid self of Some ep \<Rightarrow> (mids ep, transceivers ep) | None \<Rightarrow> ([], []))"
  obtain secs where "matched_sections (fst st) (snd st) remote False = Ok secs"
    using Inr by (auto simp: create_answer_def generate_matched_sdp_def result_simps case_prod_beta st_def)
  from matched_sections_eq[OF this assms(1)] have "\<forall>md\<in>set (taken_mids False (media_descriptions p)). hm_contains_key (snd st) md"
    by blast
  moreover have "md \<in> set (taken_mids False (media_descriptions p))"
    using assms(2,3) by (force simp: taken_mids_def map_filter_def)
  ultimately show ?thesis using assms(4) by (auto simp: st_def hm_contains_key_def split: option.splits)
qed simp

lemma offered_of_section:
  "offered_of L ms md = Some (dir, sd, ps, k) \<Longrightarrow>
   \<exists>m\<in>set ms. section_mid m = Some (False, md) \<and> get_peer_direction m = dir"
  by (induction ms) (auto simp: guard_media_def section_mid_def Let_def split: option.splits if_splits sum.splits media_guard.splits)

text \<open>
  An offer with a new section that only receives and names no source is never answered: the transceiver
  made for it should send but has no sender.
\<close>

theorem recvonly_section_unanswered:
  assumes "session_set_remote_description L eid remote self = (Ok (), self')" "sdp_type remote \<noteq> Answer"
    "parsed remote = Some p" "offered_of L (media_descriptions p) md = Some (Recvonly, None, ps, k)"
    "transceiver_at eid md self = None"
  shows "\<exists>e. create_answer L sha256 jsep eid remote ice self' = Err e"
proof (cases "create_answer L sha256 jsep eid remote ice self'")
  case (Inr ans)
  have loop: "for_each (remote_media_step L eid False) (media_descriptions p) self = (Ok (), self')" and has: "has_endpoint eid self"
    using set_remote_offer[OF assms(1,2)] assms(3) by auto
  have "transceiver_at eid md self' = own_after md (Some (Recvonly, None, ps, k)) None"
    using remote_sections_effect[OF loop has, THEN conjunct1, THEN spec, of md] assms(4,5) by simp
  then obtain ep t where ep: "get_endpoint eid self' = Some ep"
    and t: "hm_get (transceivers ep) md = Some t" "direction t = Sendonly" "sender t = None"
    by (auto simp: transceiver_at_def local_direction_for_def bind_eq_Some_conv)
  obtain m where m: "m \<in> set (media_descriptions p)" "section_mid m = Some (False, md)" "get_peer_direction m = Recvonly"
    using offered_of_section[OF assms(4)] by blast
  obtain secs fps where secs: "matched_sections (mids ep) (transceivers ep) remote False = Ok secs"
    and pop: "is_ok (populate_sdp L jsep fps (session_config self') ice RolePassive secs (transceivers ep) True)"
    using Inr ep by (cases "certificates (server_config (session_config self'))")
      (auto simp: create_answer_def generate_matched_sdp_def result_simps case_prod_beta)
  have "section_for False m \<in> set secs"
    using matched_sections_eq[OF secs assms(3)] m by (auto simp: taken_def)
  moreover have "\<not> populatable L mc (transceivers ep) (section_for False m)" for mc
    using m t by (simp add: populatable_def section_for_def intersect_direction_def has_send_def has_recv_def)
  ultimately show ?thesis using pop by (auto simp: populate_ok_iff list_all_iff)
qed simp

section \<open>Witnesses for offers and answers\<close>

definition with_transceiver :: "EndpointId \<Rightarrow> RTCRtpTransceiver \<Rightarrow> Session" where
  "with_transceiver eid t = modify_endpoint eid (add_own_transceiver t) (sample_session [eid])"

definition sample_sender :: RTCRtpSender where
  "sample_sender = \<lparr>cname = ''c'', msid = \<lparr>stream_id = ''s'', track_id = ''t''\<rparr>, ssrcs = [5], ssrc_groups = []\<rparr>"

lemma hm_single [simp]: "hm_insert k v [] = [(k, v)]" "hm_get [(k, v)] k' = (if k' = k then Some v else None)"
  by (simp_all add: hm_insert_def hm_get_def)

lemma with_transceiver_endpoint:
  "\<exists>ep. get_endpoint eid (with_transceiver eid t) = Some ep \<and> mids ep = [mid t] \<and> transceivers ep = [(mid t, t)]"
  "session_config (with_transceiver eid t) = sample_session_config"
  by (simp_all add: with_transceiver_def sample_session_def session_add_endpoint_def sample_candidate_def candidate_new_def
      Let_def get_endpoint_def session_new_def ep_set_remote_description_def ep_set_local_description_def
      add_transport_def endpoint_new_def modify_endpoint_def add_own_transceiver_def)

lemma sample_config_sel: "certificates (server_config sample_session_config) = [sample_certificate]"
  "media_config (server_config sample_session_config) = default_media_config"
  by (simp_all add: sample_session_config_def sample_server_config_def session_config_new_def server_config_new_def)

lemma populatable_default:
  "populatable L default_media_config ts sec =
     (case hm_get ts (sect_mid sec) of None \<Rightarrow> sect_data sec
      | Some t \<Rightarrow> \<not> sect_data sec \<and>
          (section_direction (offered_direction sec) (direction t) = Sendonly \<longrightarrow> sender t \<noteq> None))"
  by (simp add: populatable_def get_rtp_parameters_by_kind_def default_no_extensions split: option.splits)

lemma generate_ok:
  assumes "matched_sections [mid t] [(mid t, t)] remote inc = Ok secs"
    "list_all (populatable L default_media_config [(mid t, t)]) secs"
  shows "\<exists>d. generate_matched_sdp L sha256 jsep eid remote ice inc crole (with_transceiver eid t) = Ok d"
proof -
  obtain ep where "get_endpoint eid (with_transceiver eid t) = Some ep" "mids ep = [mid t]" "transceivers ep = [(mid t, t)]"
    using with_transceiver_endpoint(1) by blast
  with assms show ?thesis
    by (simp add: generate_matched_sdp_def with_transceiver_endpoint(2) sample_config_sel populate_ok_iff flip: is_ok_iff)
qed

lemma section_mid_audio:
  "section_mid (offered_audio ''0'' ''sendonly'') = Some (False, ''0'')"
  "get_peer_direction (offered_audio ''0'' ''sendonly'') = Sendonly"
  "get_mid_value (offered_audio ''0'' ''sendonly'') = Some ''0''"
  by (simp_all add: section_mid_def offered_audio_def add_attrs_def value_attr_def property_attr_def empty_media_def)
    code_simp+

theorem offer_sections_witness:
  "\<exists>off d. create_offer sample_lib (\<lambda>x. x) empty_session 8 (sample_description Answer []) sample_ice
      (with_transceiver 8 ((sample_transceiver Sendonly (Some sample_sender))\<lparr>mid := ''7-0''\<rparr>)) = Ok off \<and>
     parsed off = Some d \<and> map get_mid_value (media_descriptions d) = [Some ''7-0'', Some ''1'']"
proof -
  let ?t = "(sample_transceiver Sendonly (Some sample_sender))\<lparr>mid := ''7-0''\<rparr>"
  let ?s = "with_transceiver 8 ?t" and ?r = "sample_description Answer []"
  have one: "show_nat 1 = ''1''" by code_simp
  have "matched_sections [mid ?t] [(mid ?t, ?t)] ?r True =
      Ok [default_section\<lparr>sect_mid := ''7-0''\<rparr>, default_section\<lparr>sect_mid := ''1'', sect_data := True\<rparr>]"
    using one by (simp add: matched_sections_def sample_description_def unmatched_sections_def empty_session_def)
  from generate_ok[OF this, of sample_lib "\<lambda>x. x" empty_session 8 sample_ice "to_connection_role DEFAULT_DTLS_ROLE_OFFER"]
  obtain off where off: "create_offer sample_lib (\<lambda>x. x) empty_session 8 ?r sample_ice ?s = Ok off"
    by (auto simp: create_offer_def populatable_default sample_transceiver_def case_prod_beta)
  obtain ep where "get_endpoint 8 ?s = Some ep" "mids ep = [''7-0'']"
    using with_transceiver_endpoint(1)[of 8 ?t] by auto
  from offer_sections[OF sample_lib_builders off this(1)] this(2) off one show ?thesis
    by (auto simp: sample_description_def empty_session_def)
qed

theorem answer_sections_witness:
  "\<exists>ans d a. create_answer sample_lib (\<lambda>x. x) empty_session 8 (sample_description Offer [offered_audio ''0'' ''sendonly''])
      sample_ice (with_transceiver 8 ((sample_transceiver Recvonly None)\<lparr>mid := ''0''\<rparr>)) = Ok ans \<and>
     parsed ans = Some d \<and> media_descriptions d = [a] \<and> \<not> has_send (get_peer_direction a)"
proof -
  let ?t = "(sample_transceiver Recvonly None)\<lparr>mid := ''0''\<rparr>"
  let ?s = "with_transceiver 8 ?t" and ?m = "offered_audio ''0'' ''sendonly''"
  let ?r = "sample_description Offer [?m]"
  have app: "media (media_name ?m) \<noteq> MEDIA_SECTION_APPLICATION" "codec_type_from_str (media (media_name ?m)) \<noteq> CodecUnspecified"
    by (simp_all add: offered_audio_def empty_media_def add_attrs_def MEDIA_SECTION_APPLICATION_def) code_simp
  have "matched_sections [mid ?t] [(mid ?t, ?t)] ?r False = Ok [section_for False ?m]"
    using app by (simp add: matched_sections_def sample_description_def match_remote_section_def section_mid_audio
        hm_contains_key_def Let_def section_for_def empty_session_def)
  from generate_ok[OF this, of sample_lib "\<lambda>x. x" empty_session 8 sample_ice RolePassive]
  obtain ans where ans: "create_answer sample_lib (\<lambda>x. x) empty_session 8 ?r sample_ice ?s = Ok ans"
    by (auto simp: create_answer_def populatable_default sample_transceiver_def case_prod_beta section_for_def
        section_mid_audio intersect_direction_def has_send_def has_recv_def)
  obtain ep where "get_endpoint 8 ?s = Some ep" using with_transceiver_endpoint(1)[of 8 ?t] by auto
  from answer_sections[OF sample_lib_builders ans this] ans app(1) show ?thesis
    by (auto simp: sample_description_def empty_session_def section_mid_audio answers_section_def list_all2_Cons1 has_recv_def)
qed

theorem unknown_media_unanswered_witness:
  "\<exists>e. create_answer sample_lib (\<lambda>x. x) empty_session 9 (sample_description Offer [offered_audio ''0'' ''sendonly''])
     sample_ice (sample_session [7]) = Err e"
  by (rule unknown_media_unanswered[of _ "empty_session\<lparr>media_descriptions := [offered_audio ''0'' ''sendonly'']\<rparr>"
        "offered_audio ''0'' ''sendonly''"])
    (simp_all add: sample_description_def section_mid_audio sample_session_def session_add_endpoint_def
      sample_candidate_def candidate_new_def get_endpoint_def session_new_def)

definition recvonly_audio :: MediaDescription where
  "recvonly_audio = add_attrs [value_attr ''mid'' ''0'', property_attr ''recvonly''] (empty_media ''audio'' [])"

theorem recvonly_section_unanswered_witness:
  "\<exists>self' e. session_set_remote_description sample_lib 7 (sample_description Offer [recvonly_audio]) (sample_session [7])
       = (Ok (), self') \<and>
     create_answer sample_lib (\<lambda>x. x) empty_session 7 (sample_description Offer [recvonly_audio]) sample_ice self' = Err e"
proof -
  let ?desc = "sample_description Offer [recvonly_audio]"
  have guard: "guard_media recvonly_audio = UseMedia ''0'' Audio Recvonly"
    by (simp add: guard_media_def recvonly_audio_def add_attrs_def value_attr_def property_attr_def empty_media_def)
      code_simp
  have read: "read_offered_media sample_lib recvonly_audio =
      Ok (None, \<lparr>params_header_extensions = [], params_codecs = []\<rparr>)"
    by (simp add: read_offered_media_def recvonly_audio_def empty_media_def get_ssrc_groups_def get_ssrcs_def add_ssrc_def
        codecs_from_media_description_def rtp_extensions_from_media_description_def extension_of_def sample_lib_def
        sample_sdp_def map_filter_simps sender_of_def get_cname_def)
  have s: "has_endpoint 7 (sample_session [7])" "transceiver_at 7 x (sample_session [7]) = None" for x
    by (simp_all add: sample_session_def session_add_endpoint_def sample_candidate_def candidate_new_def Let_def
      has_endpoint_get get_endpoint_def session_new_def transceiver_at_def ep_set_remote_description_def
      ep_set_local_description_def add_transport_def endpoint_new_def)
  then obtain self' where self': "session_set_remote_description sample_lib 7 ?desc (sample_session [7]) = (Ok (), self')"
    by (fastforce simp: session_set_remote_description_def sample_description_def remote_media_step_def
        guard offered_media_step_def read has_endpoint_get transceiver_at_def hm_contains_key_def Let_def)
  with recvonly_section_unanswered[OF self', of _ "''0''" _ Audio "\<lambda>x. x" empty_session sample_ice] s(2)
  show ?thesis by (simp add: sample_description_def guard read)
qed

end
