(* ===== verification/Metrics.thy ===== *)
theory Metrics
  imports Prelude
begin

text \<open>
  \<open>src/metrics/mod.rs\<close>: the instruments of the program. What an instrument does with a
  measurement is up to the \<open>opentelemetry\<close> crate; the model keeps the sequence of measurements that
  the program hands over.
\<close>

typedecl key_value

datatype instrument =
    RtpPacketInCount
  | RtpPacketOutCount
  | RtcpPacketInCount
  | RtcpPacketOutCount
  | RemoteSrtpContextNotSetCount
  | LocalSrtpContextNotSetCount
  | RtpPacketProcessingTime
  | RtcpPacketProcessingTime

record Metrics =
  measurements :: "(instrument \<times> u64 \<times> key_value list) list"

definition metrics_new :: Metrics where
  "metrics_new = \<lparr>measurements = []\<rparr>"

definition measure_on :: "instrument \<Rightarrow> u64 \<Rightarrow> key_value list \<Rightarrow> Metrics \<Rightarrow> Metrics" where
  "measure_on i v as self = self\<lparr>measurements := measurements self @ [(i, v, as)]\<rparr>"

definition record_rtp_packet_in_count :: "u64 \<Rightarrow> key_value list \<Rightarrow> Metrics \<Rightarrow> Metrics" where
  "record_rtp_packet_in_count = measure_on RtpPacketInCount"

definition record_rtp_packet_out_count :: "u64 \<Rightarrow> key_value list \<Rightarrow> Metrics \<Rightarrow> Metrics" where
  "record_rtp_packet_out_count = measure_on RtpPacketOutCount"

definition record_rtcp_packet_in_count :: "u64 \<Rightarrow> key_value list \<Rightarrow> Metrics \<Rightarrow> Metrics" where
  "record_rtcp_packet_in_count = measure_on RtcpPacketInCount"

definition record_rtcp_packet_out_count :: "u64 \<Rightarrow> key_value list \<Rightarrow> Metrics \<Rightarrow> Metrics" where
  "record_rtcp_packet_out_count = measure_on RtcpPacketOutCount"

definition record_remote_srtp_context_not_set_count :: "u64 \<Rightarrow> key_value list \<Rightarrow> Metrics \<Rightarrow> Metrics" where
  "record_remote_srtp_context_not_set_count = measure_on RemoteSrtpContextNotSetCount"

definition record_local_srtp_context_not_set_count :: "u64 \<Rightarrow> key_value list \<Rightarrow> Metrics \<Rightarrow> Metrics" where
  "record_local_srtp_context_not_set_count = measure_on LocalSrtpContextNotSetCount"

definition record_rtp_packet_processing_time :: "u64 \<Rightarrow> key_value list \<Rightarrow> Metrics \<Rightarrow> Metrics" where
  "record_rtp_packet_processing_time = measure_on RtpPacketProcessingTime"

definition record_rtcp_packet_processing_time :: "u64 \<Rightarrow> key_value list \<Rightarrow> Metrics \<Rightarrow> Metrics" where
  "record_rtcp_packet_processing_time = measure_on RtcpPacketProcessingTime"

text \<open>The total that was added to a counter.\<close>

definition counted :: "instrument \<Rightarrow> Metrics \<Rightarrow> u64" where
  "counted i self = sum_list (map (\<lambda>(j, v, _). if j = i then v else 0) (measurements self))"

lemma counted_measure [simp]: "counted i (measure_on j v as self) = counted i self + (if j = i then v else 0)"
  by (simp add: counted_def measure_on_def)

lemmas record_defs =
  record_rtp_packet_in_count_def record_rtp_packet_out_count_def record_rtcp_packet_in_count_def
  record_rtcp_packet_out_count_def record_remote_srtp_context_not_set_count_def
  record_local_srtp_context_not_set_count_def record_rtp_packet_processing_time_def
  record_rtcp_packet_processing_time_def

end
