(* ===== verification/Server_States.thy ===== *)
theory Server_States
  imports Session_Sdp Metrics
begin

text \<open>
  \<open>src/server/states.rs\<close>: the sessions of the server, the index from four tuples to endpoints, and the
  candidates that wait for a connectivity check. \<open>ServerStates\<close> is shared by all handlers.

  Besides the arguments of \<open>Session\<close>, \<open>b64\<close> is the encoder of the \<open>base64\<close> crate and \<open>user\<close>, \<open>pwd\<close> the
  bytes of its random source.
\<close>

section \<open>State\<close>

record ServerStates =
  st_server_config :: ServerConfig
  st_local_addr :: socket_addr
  metrics :: Metrics
  sessions :: "(SessionId, Session) hashmap"
  st_endpoints :: "(FourTuple, SessionId \<times> EndpointId) hashmap"
  candidates :: "(UserName, Candidate) hashmap"

definition states_new :: "(bytes \<Rightarrow> bytes) \<Rightarrow> ServerConfig \<Rightarrow> socket_addr \<Rightarrow> ServerStates result" where
  "states_new sha256 sc addr =
     (case certificates sc of
        [] \<Rightarrow> Err ErrInvalidCertificate
      | cert # _ \<Rightarrow>
          (case get_fingerprints sha256 cert of
             [] \<Rightarrow> Err ErrInvalidCertificate
           | _ # _ \<Rightarrow> Ok \<lparr>st_server_config = sc, st_local_addr = addr, metrics = metrics_new,
                          sessions = [], st_endpoints = [], candidates = []\<rparr>))"

definition get_session :: "SessionId \<Rightarrow> ServerStates \<Rightarrow> Session option" where
  "get_session sid self = hm_get (sessions self) sid"

text \<open>A write through the reference that \<open>get_mut_session\<close> or \<open>create_or_get_mut_session\<close> returns.\<close>

definition put_session :: "SessionId \<Rightarrow> Session \<Rightarrow> ServerStates \<Rightarrow> ServerStates" where
  "put_session sid s self = self\<lparr>sessions := hm_insert sid s (sessions self)\<rparr>"

definition create_or_get_mut_session :: "SessionId \<Rightarrow> ServerStates \<Rightarrow> Session \<times> ServerStates" where
  "create_or_get_mut_session sid self =
     (case get_session sid self of
        Some s \<Rightarrow> (s, self)
      | None \<Rightarrow>
          (let s = session_new (session_config_new (st_server_config self) (st_local_addr self)) sid
           in (s, put_session sid s self)))"

definition remove_session :: "SessionId \<Rightarrow> ServerStates \<Rightarrow> Session option \<times> ServerStates" where
  "remove_session sid self = (get_session sid self, self\<lparr>sessions := hm_remove sid (sessions self)\<rparr>)"

definition add_candidate :: "Candidate \<Rightarrow> ServerStates \<Rightarrow> Candidate option \<times> ServerStates" where
  "add_candidate cand self =
     (hm_get (candidates self) (username cand),
      self\<lparr>candidates := hm_insert (username cand) cand (candidates self)\<rparr>)"

definition remove_candidate :: "UserName \<Rightarrow> ServerStates \<Rightarrow> Candidate option \<times> ServerStates" where
  "remove_candidate u self = (hm_get (candidates self) u, self\<lparr>candidates := hm_remove u (candidates self)\<rparr>)"

definition find_candidate :: "UserName \<Rightarrow> ServerStates \<Rightarrow> Candidate option" where
  "find_candidate u self = hm_get (candidates self) u"

section \<open>The index of endpoints\<close>

definition states_add_endpoint :: "FourTuple \<Rightarrow> SessionId \<Rightarrow> EndpointId \<Rightarrow> ServerStates \<Rightarrow> ServerStates" where
  "states_add_endpoint ft sid eid self = self\<lparr>st_endpoints := hm_insert ft (sid, eid) (st_endpoints self)\<rparr>"

definition states_remove_endpoint :: "FourTuple \<Rightarrow> ServerStates \<Rightarrow> ServerStates" where
  "states_remove_endpoint ft self = self\<lparr>st_endpoints := hm_remove ft (st_endpoints self)\<rparr>"

definition find_endpoint :: "FourTuple \<Rightarrow> ServerStates \<Rightarrow> (SessionId \<times> EndpointId) option" where
  "find_endpoint ft self = hm_get (st_endpoints self) ft"

text \<open>The debug form of addresses in error messages.\<close>

fun show_socket_addr :: "socket_addr \<Rightarrow> string" where
  "show_socket_addr (SocketAddrV4 a p) = show_ipv4 a @ '':'' @ show_word p"
| "show_socket_addr (SocketAddrV6 a p f s) =
     ''['' @ show_ipv6 a @ (if s = 0 then [] else ''%'' @ show_word s) @ '']:'' @ show_word p"

definition show_four_tuple :: "FourTuple \<Rightarrow> string" where
  "show_four_tuple ft =
     ''FourTuple { local_addr: '' @ show_socket_addr (local_addr ft) @ '', peer_addr: '' @
     show_socket_addr (peer_addr ft) @ '' }''"

definition no_transport :: "EndpointId \<Rightarrow> FourTuple \<Rightarrow> error" where
  "no_transport eid ft =
     Other (''can't find transport for endpoint id '' @ show_word eid @ '' with '' @ show_four_tuple ft)"

definition states_get_endpoint :: "FourTuple \<Rightarrow> ServerStates \<Rightarrow> (SessionId \<times> EndpointId \<times> Endpoint) result" where
  "states_get_endpoint ft self =
     (case find_endpoint ft self of
        None \<Rightarrow> Err (Other (''can't find endpoint with four_tuple '' @ show_four_tuple ft))
      | Some (sid, eid) \<Rightarrow>
          (case get_session sid self of
             None \<Rightarrow> Err (Other (''can't find session id '' @ show_word sid))
           | Some session \<Rightarrow>
               (case get_endpoint eid session of
                  None \<Rightarrow> Err (unknown_endpoint eid)
                | Some ep \<Rightarrow> Ok (sid, eid, ep))))"

definition states_get_transport :: "FourTuple \<Rightarrow> ServerStates \<Rightarrow> (SessionId \<times> EndpointId \<times> Transport) result" where
  "states_get_transport ft self =
     and_then (states_get_endpoint ft self) (\<lambda>(sid, eid, ep).
       case hm_get (transports ep) ft of
         None \<Rightarrow> Err (Other (''can't find transport with four_tuple '' @ show_four_tuple ft @
                              '' for endpoint id '' @ show_word eid))
       | Some t \<Rightarrow> Ok (sid, eid, t))"

text \<open>Writes through the references that \<open>get_mut_endpoint\<close> and \<open>get_mut_transport\<close> return.\<close>

definition states_modify_endpoint ::
  "SessionId \<Rightarrow> EndpointId \<Rightarrow> (Endpoint \<Rightarrow> Endpoint) \<Rightarrow> ServerStates \<Rightarrow> ServerStates" where
  "states_modify_endpoint sid eid f self = self\<lparr>sessions := hm_modify sid (modify_endpoint eid f) (sessions self)\<rparr>"

definition modify_transport :: "FourTuple \<Rightarrow> (Transport \<Rightarrow> Transport) \<Rightarrow> Endpoint \<Rightarrow> Endpoint" where
  "modify_transport ft f ep = ep\<lparr>transports := hm_modify ft f (transports ep)\<rparr>"

definition get_mut_transport ::
  "FourTuple \<Rightarrow> (Transport \<Rightarrow> Transport) \<Rightarrow> ServerStates \<Rightarrow> (unit, ServerStates) outcome" where
  "get_mut_transport ft f self =
     (case states_get_transport ft self of
        Inl err \<Rightarrow> (Err err, self)
      | Inr (sid, eid, _) \<Rightarrow> (Ok (), states_modify_endpoint sid eid (modify_transport ft f) self))"

definition states_remove_transport :: "FourTuple \<Rightarrow> ServerStates \<Rightarrow> ServerStates" where
  "states_remove_transport ft self =
     (case find_endpoint ft self of
        None \<Rightarrow> self
      | Some (sid, eid) \<Rightarrow>
          (case get_session sid self of
             None \<Rightarrow> self
           | Some session \<Rightarrow>
               (case get_endpoint eid session of
                  None \<Rightarrow> self
                | Some ep \<Rightarrow>
                    (let (transport, ep1) = endpoint_remove_transport ft ep;
                         session1 = modify_endpoint eid (\<lambda>_. ep1) session;
                         self1 =
                           (if transports ep1 = [] then
                              (let session2 = session_remove_endpoint eid session1;
                                   s = put_session sid session2 self;
                                   s' = (if endpoints session2 = [] then snd (remove_session sid s) else s)
                               in states_remove_endpoint ft s')
                            else put_session sid session1 self)
                     in case transport of
                          Some t \<Rightarrow> snd (remove_candidate (username (tr_candidate t)) self1)
                        | None \<Rightarrow> self1))))"

section \<open>Signalling\<close>

definition transport_credentials :: "EndpointId \<Rightarrow> FourTuple option \<Rightarrow> Session \<Rightarrow> ConnectionCredentials result" where
  "transport_credentials eid four_tuple session =
     and_then (ok_or (get_endpoint eid session) (unknown_endpoint eid)) (\<lambda>ep.
     and_then (ok_or four_tuple (Other ''missing FourTuple'')) (\<lambda>ft.
     and_then (ok_or (hm_get (transports ep) ft) (no_transport eid ft)) (\<lambda>t.
     Ok (local_conn_cred (tr_candidate t)))))"

text \<open>The branch of \<open>accept_offer\<close> for an endpoint that is already connected.\<close>

definition accept_known_offer ::
  "sdp_lib \<Rightarrow> (bytes \<Rightarrow> bytes) \<Rightarrow> SessionDescription \<Rightarrow> EndpointId \<Rightarrow> FourTuple option \<Rightarrow> RTCSessionDescription
   \<Rightarrow> Session \<Rightarrow> (RTCSessionDescription, Session) outcome" where
  "accept_known_offer L sha256 jsep eid four_tuple offer session =
     (case session_set_remote_description L eid offer session of
        (Inl err, s1) \<Rightarrow> (Err err, s1)
      | (Inr _, s1) \<Rightarrow>
          (case and_then (transport_credentials eid four_tuple s1)
                  (\<lambda>cred. create_answer L sha256 jsep eid offer (ice_params cred) s1) of
             Inl err \<Rightarrow> (Err err, s1)
           | Inr answer \<Rightarrow>
               (case session_set_local_description eid answer s1 of
                  (Inl err, s2) \<Rightarrow> (Err err, s2)
                | (Inr _, s2) \<Rightarrow> (Ok answer, s2))))"

definition accept_offer ::
  "sdp_lib \<Rightarrow> (bytes \<Rightarrow> bytes) \<Rightarrow> SessionDescription \<Rightarrow> (bytes \<Rightarrow> string) \<Rightarrow> bytes \<Rightarrow> bytes \<Rightarrow> instant
   \<Rightarrow> SessionId \<Rightarrow> EndpointId \<Rightarrow> FourTuple option \<Rightarrow> RTCSessionDescription \<Rightarrow> ServerStates
   \<Rightarrow> (RTCSessionDescription, ServerStates) outcome" where
  "accept_offer L sha256 jsep b64 user pwd now sid eid four_tuple offer self =
     (case and_then (rsd_unmarshal L offer)
             (\<lambda>p. and_then (connection_credentials_from_sdp L p) (\<lambda>cred. Ok (p, cred))) of
        Inl err \<Rightarrow> (Err err, self)
      | Inr (p, remote_cred) \<Rightarrow>
          (let offer1 = offer\<lparr>parsed := Some p\<rparr>
           in case certificates (st_server_config self) of
                [] \<Rightarrow> (Err (Panic ''unwrap''), self)
              | cert # _ \<Rightarrow>
                  (let fps = get_fingerprints sha256 cert;
                       (session, self1) = create_or_get_mut_session sid self
                   in if has_endpoint eid session then
                        (let (r, session1) = accept_known_offer L sha256 jsep eid four_tuple offer1 session
                         in (r, put_session sid session1 self1))
                      else
                        (let local_cred =
                               connection_credentials_new b64 user pwd fps (role (dtls_params remote_cred))
                         in case create_answer L sha256 jsep eid offer1 (ice_params local_cred) session of
                              Inl err \<Rightarrow> (Err err, self1)
                            | Inr answer \<Rightarrow>
                                (Ok answer,
                                 snd (add_candidate (candidate_new sid eid remote_cred local_cred
                                   offer1 answer (now + int (idle_timeout (st_server_config self)))) self1))))))"

definition accept_answer ::
  "sdp_lib \<Rightarrow> SessionId \<Rightarrow> EndpointId \<Rightarrow> FourTuple \<Rightarrow> RTCSessionDescription \<Rightarrow> ServerStates
   \<Rightarrow> (unit, ServerStates) outcome" where
  "accept_answer L sid eid _ answer self =
     (case rsd_unmarshal L answer of
        Inl err \<Rightarrow> (Err err, self)
      | Inr p \<Rightarrow>
          (let answer1 = answer\<lparr>parsed := Some p\<rparr>;
               (session, self1) = create_or_get_mut_session sid self
           in if has_endpoint eid session then
                (let (r, session1) = session_set_remote_description L eid answer1 session
                 in (r, put_session sid session1 self1))
              else (Ok (), self1)))"

section \<open>Well-formed states\<close>

definition session_ok :: "bool \<Rightarrow> ServerStates \<Rightarrow> SessionId \<Rightarrow> Session \<Rightarrow> bool" where
  "session_ok d self sid s \<longleftrightarrow> session_wf d s \<and> sess_session_id s = sid \<and>
     session_config s = session_config_new (st_server_config self) (st_local_addr self)"

definition states_wf :: "bool \<Rightarrow> ServerStates \<Rightarrow> bool" where
  "states_wf d self \<longleftrightarrow> certificates (st_server_config self) \<noteq> [] \<and>
     hm_wf (sessions self) \<and> hm_wf (st_endpoints self) \<and> hm_wf (candidates self) \<and>
     (\<forall>sid s. get_session sid self = Some s \<longrightarrow> session_ok d self sid s) \<and>
     (\<forall>u c. find_candidate u self = Some c \<longrightarrow> username c = u)"

text \<open>No operation of a session touches its identity.\<close>

definition same_identity :: "Session \<Rightarrow> Session \<Rightarrow> bool" where
  "same_identity s s' \<longleftrightarrow> sess_session_id s' = sess_session_id s \<and> session_config s' = session_config s"

lemma same_identity_modify [simp]: "same_identity s (modify_endpoint eid f s') = same_identity s s'"
  by (simp add: same_identity_def modify_endpoint_def)

lemma same_identity_endpoints [simp]: "same_identity s (s'\<lparr>endpoints := x\<rparr>) = same_identity s s'"
  by (simp add: same_identity_def)

lemma same_identity_refl [simp]: "same_identity s s"
  by (simp add: same_identity_def)

lemma same_identity_remote: "same_identity s (snd (session_set_remote_description L eid desc s))"
proof -
  have "same_identity s (snd (remote_media_step L eid off m s'))" if "same_identity s s'" for off m s'
    using that by (auto simp: remote_media_step_def offered_media_step_def answered_media_step_def Let_def
        split: media_guard.splits option.splits sum.splits)
  then show ?thesis
    by (auto simp: session_set_remote_description_def split: option.splits
        intro!: for_each_invariant[where I = "same_identity s"])
qed

lemma same_identity_local: "same_identity s (snd (session_set_local_description eid desc s))"
proof -
  have "same_identity s (snd (local_media_step eid m s'))" if "same_identity s s'" for m s'
    using that by (auto simp: local_media_step_def split: media_guard.splits)
  then show ?thesis
    by (auto simp: session_set_local_description_def split: option.splits
        intro!: for_each_invariant[where I = "same_identity s"])
qed

lemma same_identity_add: "same_identity s (snd (session_add_endpoint T now clock cand tc s))"
  by (auto simp: session_add_endpoint_def Let_def split: option.splits)

lemma same_identity_remove: "same_identity s (session_remove_endpoint eid s)"
  by (simp add: session_remove_endpoint_def)

lemma session_ok_step: "session_ok d self sid s \<Longrightarrow> session_wf d s' \<Longrightarrow> same_identity s s' \<Longrightarrow> session_ok d self sid s'"
  by (simp add: session_ok_def same_identity_def)

lemma session_ok_put [simp]: "session_ok d (put_session i x self) sid s = session_ok d self sid s"
  by (simp add: session_ok_def put_session_def)

lemma session_ok_new: "session_ok d self sid (session_new (session_config_new (st_server_config self) (st_local_addr self)) sid)"
  by (simp add: session_ok_def session_wf_new) (simp add: session_new_def)

lemma get_put_session [simp]: "get_session i (put_session sid s self) = (if i = sid then Some s else get_session i self)"
  by (simp add: get_session_def put_session_def)

lemma put_session_sel [simp]:
  "st_server_config (put_session sid s self) = st_server_config self"
  "st_local_addr (put_session sid s self) = st_local_addr self"
  "st_endpoints (put_session sid s self) = st_endpoints self"
  "candidates (put_session sid s self) = candidates self"
  "metrics (put_session sid s self) = metrics self"
  by (simp_all add: put_session_def)

lemma find_put_session [simp]:
  "find_endpoint ft (put_session sid s self) = find_endpoint ft self"
  "find_candidate u (put_session sid s self) = find_candidate u self"
  by (simp_all add: find_endpoint_def find_candidate_def)

lemma states_wf_put: "states_wf d self \<Longrightarrow> session_ok d self sid s \<Longrightarrow> states_wf d (put_session sid s self)"
  unfolding states_wf_def by (simp add: put_session_def[of sid s self]) (simp add: put_session_def[symmetric])

lemma states_wf_create:
  assumes "states_wf d self" "create_or_get_mut_session sid self = (s, self1)"
  shows "states_wf d self1 \<and> session_ok d self1 sid s"
  using assms session_ok_new[of d self sid] states_wf_put[of d self sid]
  by (auto simp: create_or_get_mut_session_def Let_def split: option.splits) (simp add: states_wf_def)

lemma states_wf_candidate:
  "states_wf d self \<Longrightarrow> states_wf d (snd (add_candidate c self))"
  "states_wf d self \<Longrightarrow> states_wf d (snd (remove_candidate u self))"
  by (auto simp: states_wf_def session_ok_def get_session_def add_candidate_def remove_candidate_def find_candidate_def split: if_splits)

lemma states_wf_index:
  "states_wf d self \<Longrightarrow> states_wf d (states_add_endpoint ft sid eid self)"
  "states_wf d self \<Longrightarrow> states_wf d (states_remove_endpoint ft self)"
  "states_wf d self \<Longrightarrow> states_wf d (snd (remove_session sid self))"
  by (auto simp: states_wf_def session_ok_def get_session_def states_add_endpoint_def states_remove_endpoint_def
      remove_session_def find_candidate_def split: if_splits)

lemma states_wf_modify_endpoint:
  assumes "states_wf d self" "\<And>ep. ep_ok d eid ep \<Longrightarrow> ep_ok d eid (f ep)"
  shows "states_wf d (states_modify_endpoint sid eid f self)"
proof -
  have "session_ok d self sid (modify_endpoint eid f s)" if "session_ok d self sid s" for s
    using that assms(2) by (intro session_ok_step[OF that]) (simp_all add: session_wf_modify session_ok_def)
  then show ?thesis using assms(1)
    by (auto simp: states_wf_def states_modify_endpoint_def get_session_def find_candidate_def session_ok_def split: if_splits)
qed

lemma ep_ok_modify_transport:
  assumes "ep_ok d eid ep" "\<And>t. tr_four_tuple (f t) = tr_four_tuple t"
  shows "ep_ok d eid (modify_transport ft f ep)"
  using assms by (auto simp: ep_ok_def endpoint_wf_def mids_distinct_def modify_transport_def split: if_splits)

lemma states_wf_transport:
  assumes "states_wf d self" "\<And>t. tr_four_tuple (f t) = tr_four_tuple t"
  shows "states_wf d (snd (get_mut_transport ft f self))"
  using assms by (auto simp: get_mut_transport_def split: sum.splits prod.splits
      intro!: states_wf_modify_endpoint ep_ok_modify_transport)

lemma ep_ok_remove_transport: "ep_ok d eid ep \<Longrightarrow> ep_ok d eid (snd (endpoint_remove_transport ft ep))"
  by (simp add: ep_ok_def) (simp add: endpoint_remove_transport_def mids_distinct_def)

lemma states_wf_remove_transport:
  assumes wf: "states_wf d self"
  shows "states_wf d (states_remove_transport ft self)"
proof (cases "find_endpoint ft self")
  case None
  then show ?thesis using wf by (simp add: states_remove_transport_def)
next
  case (Some x)
  obtain sid eid where x: "x = (sid, eid)" by (cases x)
  show ?thesis
  proof (cases "get_session sid self")
    case None
    then show ?thesis using wf Some x by (simp add: states_remove_transport_def)
  next
    case s: (Some s)
    show ?thesis
    proof (cases "get_endpoint eid s")
      case None
      then show ?thesis using wf Some x s by (simp add: states_remove_transport_def)
    next
      case ep: (Some ep)
      let ?ep = "snd (endpoint_remove_transport ft ep)"
      have ok: "session_ok d self sid s" using wf s by (simp add: states_wf_def)
      then have "ep_ok d eid ?ep" using ep by (auto simp: session_ok_def session_wf_def get_endpoint_def intro!: ep_ok_remove_transport)
      then have 1: "session_wf d (modify_endpoint eid (\<lambda>_. ?ep) s)" using ok by (simp add: session_ok_def session_wf_modify)
      then have "session_ok d self sid (modify_endpoint eid (\<lambda>_. ?ep) s)"
        "session_ok d self sid (session_remove_endpoint eid (modify_endpoint eid (\<lambda>_. ?ep) s))"
        using session_ok_step[OF ok] session_wf_remove[of d _ eid] by (simp_all add: same_identity_remove[unfolded same_identity_def] same_identity_def modify_endpoint_def)
      then show ?thesis using wf Some x s ep
        by (auto simp: states_remove_transport_def case_prod_beta Let_def split: option.splits
            intro!: states_wf_candidate states_wf_index states_wf_put)
    qed
  qed
qed

lemma session_wf_known_offer:
  assumes "session_wf d s"
  shows "session_wf d (snd (accept_known_offer L sha256 jsep eid ft offer s)) \<and>
    same_identity s (snd (accept_known_offer L sha256 jsep eid ft offer s))"
proof -
  obtain r s1 where 1: "session_set_remote_description L eid offer s = (r, s1)" by fastforce
  have s1: "session_wf d s1" "same_identity s s1"
    using session_wf_set_remote[OF assms, of L eid offer] same_identity_remote[of s L eid offer] 1 by auto
  have "session_wf d (snd (session_set_local_description eid ans s1))"
    "same_identity s (snd (session_set_local_description eid ans s1))" for ans
    using s1 session_wf_set_local[OF s1(1)] same_identity_local[of s1 eid ans] by (auto simp: same_identity_def)
  then show ?thesis using 1 s1
    by (auto simp: accept_known_offer_def split: sum.splits prod.splits) (metis snd_conv)+
qed

lemma states_wf_accept_offer:
  assumes wf: "states_wf d self"
  shows "states_wf d (snd (accept_offer L sha256 jsep b64 user pwd now sid eid ft offer self))"
proof -
  obtain s self1 where c: "create_or_get_mut_session sid self = (s, self1)" by fastforce
  have 1: "states_wf d self1" "session_ok d self1 sid s" using states_wf_create[OF wf c] by auto
  have "states_wf d (put_session sid (snd (accept_known_offer L sha256 jsep eid ft o' s)) self1)" for o'
    using 1 session_wf_known_offer[of d s L sha256 jsep eid ft o']
    by (intro states_wf_put session_ok_step[OF 1(2)]) (simp_all add: session_ok_def)
  then show ?thesis using wf 1 c
    by (auto simp: accept_offer_def Let_def case_prod_beta states_wf_candidate split: sum.splits list.splits prod.splits)
qed

lemma states_wf_accept_answer:
  assumes wf: "states_wf d self"
  shows "states_wf d (snd (accept_answer L sid eid ft answer self))"
proof -
  obtain s self1 where c: "create_or_get_mut_session sid self = (s, self1)" by fastforce
  have 1: "states_wf d self1" "session_ok d self1 sid s" using states_wf_create[OF wf c] by auto
  have "states_wf d (put_session sid (snd (session_set_remote_description L eid a s)) self1)" for a
    using 1 session_wf_set_remote[of d s] same_identity_remote[of s]
    by (intro states_wf_put session_ok_step[OF 1(2)]) (auto simp: session_ok_def)
  then show ?thesis using wf 1 c by (auto simp: accept_answer_def Let_def case_prod_beta split: sum.splits)
qed

text \<open>
  New server states are well formed and every operation keeps them so, on every path: sessions and candidates
  are filed under their own id and user name, sessions are well formed and share the server's configuration, and
  there is a certificate, so that answering an offer never panics for want of one.
\<close>

theorem states_operations_keep_wf:
  "(states_new sha256 sc addr = Ok new \<longrightarrow> states_wf d new) \<and>
   (states_wf d self \<longrightarrow>
      states_wf d (snd (accept_offer L sha256 jsep b64 user pwd now sid eid four_tuple offer self)) \<and>
      states_wf d (snd (accept_answer L sid eid ft answer self)) \<and>
      states_wf d (states_add_endpoint ft sid eid self) \<and>
      states_wf d (states_remove_transport ft self) \<and>
      states_wf d (snd (get_mut_transport ft (keep_alive now) self)))"
proof -
  have "states_wf d new" if "states_new sha256 sc addr = Ok new"
    using that by (auto simp: states_new_def states_wf_def get_session_def find_candidate_def split: list.splits)
  moreover have "tr_four_tuple (keep_alive now t) = tr_four_tuple t" for t by (simp add: keep_alive_def)
  ultimately show ?thesis
    by (simp add: states_wf_accept_offer states_wf_accept_answer states_wf_index states_wf_remove_transport states_wf_transport)
qed

section \<open>Removing a transport\<close>

definition endpoint_at :: "SessionId \<Rightarrow> EndpointId \<Rightarrow> ServerStates \<Rightarrow> Endpoint option" where
  "endpoint_at sid eid self = Option.bind (get_session sid self) (get_endpoint eid)"

definition transport_at :: "SessionId \<Rightarrow> EndpointId \<Rightarrow> FourTuple \<Rightarrow> ServerStates \<Rightarrow> Transport option" where
  "transport_at sid eid ft self = Option.bind (endpoint_at sid eid self) (\<lambda>ep. hm_get (transports ep) ft)"

text \<open>Whether an endpoint has no transport but the given one.\<close>

definition last_transport :: "SessionId \<Rightarrow> EndpointId \<Rightarrow> FourTuple \<Rightarrow> ServerStates \<Rightarrow> bool" where
  "last_transport sid eid ft self =
     (case endpoint_at sid eid self of None \<Rightarrow> False | Some ep \<Rightarrow> hm_remove ft (transports ep) = [])"

lemma get_endpoint_simps [simp]:
  "get_endpoint e (modify_endpoint eid f s) = (if e = eid then map_option f (get_endpoint eid s) else get_endpoint e s)"
  "get_endpoint e (session_remove_endpoint eid s) = (if e = eid then None else get_endpoint e s)"
  by (simp_all add: get_endpoint_def modify_endpoint_def session_remove_endpoint_def)

lemma endpoint_at_put:
  "endpoint_at i e (put_session sid s self) = (if i = sid then get_endpoint e s else endpoint_at i e self)"
  by (simp add: endpoint_at_def)

lemma endpoint_at_frame [simp]:
  "endpoint_at i e (states_remove_endpoint ft self) = endpoint_at i e self"
  "endpoint_at i e (snd (remove_candidate u self)) = endpoint_at i e self"
  "find_endpoint f (states_remove_endpoint ft self) = (if f = ft then None else find_endpoint f self)"
  "find_endpoint f (snd (remove_candidate u self)) = find_endpoint f self"
  "find_endpoint f (snd (remove_session sid self)) = find_endpoint f self"
  "find_candidate v (states_remove_endpoint ft self) = find_candidate v self"
  "find_candidate v (snd (remove_session sid self)) = find_candidate v self"
  "find_candidate v (snd (remove_candidate u self)) = (if v = u then None else find_candidate v self)"
  by (simp_all add: endpoint_at_def get_session_def states_remove_endpoint_def remove_candidate_def remove_session_def
      find_endpoint_def find_candidate_def)

lemma endpoint_at_remove_empty:
  "get_session sid self = Some s \<Longrightarrow> endpoints s = [] \<Longrightarrow>
   endpoint_at i e (snd (remove_session sid self)) = endpoint_at i e self"
  by (auto simp: endpoint_at_def get_session_def remove_session_def get_endpoint_def)

lemma remove_transport_view:
  assumes "find_endpoint ft self = Some (sid, eid)" "endpoint_at sid eid self = Some ep"
  shows "endpoint_at i e (states_remove_transport ft self) =
      (if (i, e) = (sid, eid) then
         (if hm_remove ft (transports ep) = [] then None else Some (ep\<lparr>transports := hm_remove ft (transports ep)\<rparr>))
       else endpoint_at i e self)"
    and "find_endpoint f (states_remove_transport ft self) =
      (if f = ft \<and> hm_remove ft (transports ep) = [] then None else find_endpoint f self)"
    and "find_candidate u (states_remove_transport ft self) =
      (if map_option (\<lambda>t. username (tr_candidate t)) (hm_get (transports ep) ft) = Some u then None
       else find_candidate u self)"
proof -
  obtain s where s: "get_session sid self = Some s" "get_endpoint eid s = Some ep"
    using assms(2) by (auto simp: endpoint_at_def bind_eq_Some_conv)
  let ?e = "\<lambda>_. ep\<lparr>transports := hm_remove ft (transports ep)\<rparr>"
  let ?s2 = "session_remove_endpoint eid (modify_endpoint eid ?e s)"
  have gone: "endpoint_at i e (snd (remove_session sid (put_session sid ?s2 self))) = endpoint_at i e (put_session sid ?s2 self)"
    if "endpoints ?s2 = []" for i e
    using that by (intro endpoint_at_remove_empty[of sid _ ?s2]) simp_all
  have at: "endpoint_at sid e self = get_endpoint e s" for e using s(1) by (simp add: endpoint_at_def)
  show "endpoint_at i e (states_remove_transport ft self) =
      (if (i, e) = (sid, eid) then
         (if hm_remove ft (transports ep) = [] then None else Some (ep\<lparr>transports := hm_remove ft (transports ep)\<rparr>))
       else endpoint_at i e self)"
    using assms(1) s gone
    by (auto simp: states_remove_transport_def endpoint_remove_transport_def Let_def endpoint_at_put at split: option.splits)
  show "find_endpoint f (states_remove_transport ft self) =
      (if f = ft \<and> hm_remove ft (transports ep) = [] then None else find_endpoint f self)"
    using assms(1) s
    by (auto simp: states_remove_transport_def endpoint_remove_transport_def Let_def split: option.splits)
  show "find_candidate u (states_remove_transport ft self) =
      (if map_option (\<lambda>t. username (tr_candidate t)) (hm_get (transports ep) ft) = Some u then None
       else find_candidate u self)"
    using assms(1) s
    by (auto simp: states_remove_transport_def endpoint_remove_transport_def Let_def split: option.splits)
qed

lemma remove_transport_nothing:
  assumes "find_endpoint ft self = None \<or> (\<exists>sid eid. find_endpoint ft self = Some (sid, eid) \<and> endpoint_at sid eid self = None)"
  shows "states_remove_transport ft self = self"
  using assms by (auto simp: states_remove_transport_def endpoint_at_def bind_eq_None_conv split: option.splits)

text \<open>
  C19: Removing the transport of a four tuple removes exactly that transport. Its endpoint goes with its last
  transport, every other endpoint and transport stays, and the candidate of the transport can no longer be found. The
  index entry of the four tuple goes only with the endpoint: after the first of two transports is removed, the index still
  leads from its four tuple to the endpoint.
\<close>

theorem remove_transport_exact:
  assumes "find_endpoint ft self = Some (sid, eid)"
  shows "transport_at i e f (states_remove_transport ft self) =
      (if (i, e, f) = (sid, eid, ft) then None else transport_at i e f self) \<and>
    (endpoint_at i e (states_remove_transport ft self) = None \<longleftrightarrow>
      endpoint_at i e self = None \<or> (i, e) = (sid, eid) \<and> last_transport sid eid ft self) \<and>
    find_endpoint f (states_remove_transport ft self) =
      (if f = ft \<and> last_transport sid eid ft self then None else find_endpoint f self) \<and>
    (\<forall>t. transport_at sid eid ft self = Some t \<longrightarrow>
      find_candidate (username (tr_candidate t)) (states_remove_transport ft self) = None)"
proof (cases "endpoint_at sid eid self")
  case None
  then have "states_remove_transport ft self = self" using assms by (intro remove_transport_nothing) simp
  then show ?thesis using None by (auto simp: transport_at_def last_transport_def)
next
  case (Some ep)
  note view = remove_transport_view[OF assms Some]
  have "hm_get (transports ep) f = None" if "hm_remove ft (transports ep) = []" "f \<noteq> ft" for f
    using that hm.get_rem[of ft "transports ep" f] by simp
  then show ?thesis using Some
    by (auto simp: transport_at_def last_transport_def view)
qed

definition sample_states :: ServerStates where
  "sample_states = \<lparr>st_server_config = sample_server_config, st_local_addr = SocketAddrV4 0x7F000001 3478,
     metrics = metrics_new, sessions = [(1, sample_session [7, 8])],
     st_endpoints = [(four_tuple_from (sample_context 7), (1, 7)), (four_tuple_from (sample_context 8), (1, 8))],
     candidates = [(username (sample_candidate 1 7), sample_candidate 1 7)]\<rparr>"

lemma sample_session_identity: "same_identity (session_new sample_session_config 1) (sample_session eids)"
  unfolding sample_session_def
  by (rule fold_invariant[where P = "same_identity (session_new sample_session_config 1)" and Q = "\<lambda>_. True"])
    (use same_identity_add in \<open>auto simp: same_identity_def\<close>)

lemma sample_states_wf: "states_wf d sample_states"
  using sample_session_identity[of "[7, 8]"] sample_session_wf[of d "[7, 8]"]
  by (auto simp: states_wf_def sample_states_def session_ok_def same_identity_def get_session_def find_candidate_def
      hm_get_def hm_wf_def session_new_def sample_session_config_def sample_server_config_def server_config_new_def
      four_tuple_from_def sample_context_def split: if_splits)

theorem states_operations_keep_wf_witness:
  "states_wf True sample_states \<and>
   states_wf True (states_remove_transport (four_tuple_from (sample_context 7)) sample_states)"
  using states_operations_keep_wf[of id sample_server_config "SocketAddrV4 0 0" sample_states True sample_states] sample_states_wf
  by blast

theorem remove_transport_exact_witness:
  "transport_at 1 7 (four_tuple_from (sample_context 7)) (states_remove_transport (four_tuple_from (sample_context 7)) sample_states) = None"
  using remove_transport_exact[of "four_tuple_from (sample_context 7)" sample_states 1 7 1 7 "four_tuple_from (sample_context 7)"]
  by (simp add: sample_states_def find_endpoint_def hm_get_def)

section \<open>The first offer of an endpoint\<close>

lemma create_session_view:
  assumes "create_or_get_mut_session sid self = (s, self1)"
  shows "st_endpoints self1 = st_endpoints self" "candidates self1 = candidates self"
    "st_server_config self1 = st_server_config self"
    "get_session i self1 = (if i = sid then Some s else get_session i self)"
    "endpoint_at i e self1 = endpoint_at i e self"
  using assms
  by (auto simp: create_or_get_mut_session_def Let_def endpoint_at_def get_endpoint_def session_new_def split: option.splits if_splits)


definition sample_offer :: SessionDescription where
  "sample_offer = empty_session\<lparr>media_descriptions := [add_attrs [value_attr ''mid'' ''0'',
     value_attr ''ice-ufrag'' ''remote'', value_attr ''ice-pwd'' ''secret'', value_attr ''fingerprint'' ''sha-256 00'']
     (empty_media ''application'' [])]\<rparr>"

definition offer_lib :: sdp_lib where
  "offer_lib = sample_sdp (\<lambda>_. Inr sample_offer) (\<lambda>_ _. Inl [])"

lemma sample_offer_credentials:
  "\<exists>cred. connection_credentials_from_sdp offer_lib sample_offer = Ok cred"
  by (simp add: connection_credentials_from_sdp_def section_attribute_def offer_lib_def sample_sdp_def sample_offer_def
      empty_media_def empty_session_def fingerprint_try_from_def is_ws_def Let_def)

lemma sample_offer_answer:
  assumes "get_endpoint 9 s = None" "session_config s = sample_session_config"
  shows "\<exists>ans. create_answer offer_lib sha256 empty_session 9 \<lparr>sdp_type = Offer, sdp = ''v=0'', parsed = Some sample_offer\<rparr> ice s = Ok ans"
proof -
  have "matched_sections [] [] \<lparr>sdp_type = Offer, sdp = ''v=0'', parsed = Some sample_offer\<rparr> False =
      Ok [default_section\<lparr>sect_mid := ''0'', sect_data := True\<rparr>]"
    by (simp add: matched_sections_def sample_offer_def empty_session_def match_remote_section_def get_mid_value_def
        empty_media_def MEDIA_SECTION_APPLICATION_def)
  then have "is_ok (generate_matched_sdp offer_lib sha256 empty_session 9
      \<lparr>sdp_type = Offer, sdp = ''v=0'', parsed = Some sample_offer\<rparr> ice False RolePassive s)"
    using assms by (simp add: generate_matched_sdp_def sample_config_sel populate_ok_iff populatable_def)
  then show ?thesis by (auto simp: create_answer_def is_ok_iff case_prod_beta)
qed

lemma sample_first_offer:
  obtains ans self' where "accept_offer offer_lib id empty_session sample_b64 (replicate 9 0) (replicate 18 0) 0 1 9 None
      (sample_description Offer []) sample_states = (Ok ans, self')" "endpoint_at 1 9 sample_states = None"
proof -
  have s: "get_session 1 sample_states = Some (sample_session [7, 8])" "certificates (st_server_config sample_states) = [sample_certificate]"
    by (simp_all add: sample_states_def get_session_def sample_server_config_def server_config_new_def)
  have no: "endpoint_at 1 9 sample_states = None" "\<not> has_endpoint 9 (sample_session [7, 8])"
    by (simp_all add: endpoint_at_def s sample_session_def session_add_endpoint_def sample_candidate_def candidate_new_def
        Let_def get_endpoint_def session_new_def has_endpoint_get)
  obtain cred where cred: "connection_credentials_from_sdp offer_lib sample_offer = Ok cred"
    using sample_offer_credentials by blast
  have un: "rsd_unmarshal offer_lib (sample_description Offer []) = Ok sample_offer"
    "(sample_description Offer [])\<lparr>parsed := Some sample_offer\<rparr> = \<lparr>sdp_type = Offer, sdp = ''v=0'', parsed = Some sample_offer\<rparr>"
    by (simp_all add: rsd_unmarshal_def offer_lib_def sample_sdp_def sample_description_def)
  have new: "get_endpoint 9 (sample_session [7, 8]) = None" "session_config (sample_session [7, 8]) = sample_session_config"
    using no(2) sample_session_identity[of "[7, 8]"] by (simp_all add: has_endpoint_get same_identity_def session_new_def)
  obtain ans self' where "accept_offer offer_lib id empty_session sample_b64 (replicate 9 0) (replicate 18 0) 0 1 9 None
      (sample_description Offer []) sample_states = (Ok ans, self')"
    using sample_offer_answer[OF new, of id "ice_params (connection_credentials_new sample_b64 (replicate 9 0) (replicate 18 0)
        (get_fingerprints id sample_certificate) (role (dtls_params cred)))"] s no(2)
    by (auto simp: accept_offer_def un cred create_or_get_mut_session_def Let_def)
  from that[OF this no(1)] show thesis .
qed


end
