(* ===== verification/Transport_Access.thy ===== *)
theory Transport_Access
  imports Server_States
begin

text \<open>
  How the handlers reach a transport: what a lookup by four tuple finds, what a write through the reference it
  returns changes, and that such a write keeps the states well formed. The sample states of the witnesses.
\<close>

section \<open>Views of the state\<close>

lemma endpoint_at_modify:
  "endpoint_at i e (states_modify_endpoint sid eid f self) =
     (if (i, e) = (sid, eid) then map_option f (endpoint_at i e self) else endpoint_at i e self)"
  by (cases "get_session sid self") (auto simp: endpoint_at_def get_session_def states_modify_endpoint_def)

lemma transport_at_modify:
  "transport_at i e f (states_modify_endpoint sid eid (modify_transport ft g) self) =
     (if (i, e, f) = (sid, eid, ft) then map_option g (transport_at i e f self) else transport_at i e f self)"
  by (cases "endpoint_at i e self") (auto simp: transport_at_def endpoint_at_modify modify_transport_def)

lemma get_transport_at:
  assumes "find_endpoint ft self = Some (sid, eid)"
  shows "states_get_transport ft self = Ok (sid, eid, t) \<longleftrightarrow> transport_at sid eid ft self = Some t"
  using assms
  by (auto simp: states_get_transport_def states_get_endpoint_def transport_at_def endpoint_at_def result_simps bind_eq_Some_conv
      split: option.splits)

lemma find_endpoint_modify [simp]: "find_endpoint ft (states_modify_endpoint sid eid f self) = find_endpoint ft self"
  by (simp add: find_endpoint_def states_modify_endpoint_def)

lemma states_wf_session: "states_wf d self \<Longrightarrow> get_session sid self = Some s \<Longrightarrow> session_wf d s"
  by (auto simp: states_wf_def session_ok_def)

section \<open>Writes\<close>

text \<open>A write through \<open>get_mut_transport\<close>.\<close>

definition put_transport :: "SessionId \<Rightarrow> EndpointId \<Rightarrow> FourTuple \<Rightarrow> Transport \<Rightarrow> ServerStates \<Rightarrow> ServerStates" where
  "put_transport sid eid ft t self = states_modify_endpoint sid eid (modify_transport ft (\<lambda>_. t)) self"

lemma states_wf_transport_at:
  "states_wf d self \<Longrightarrow> states_get_transport ft self = Ok (sid, eid, t) \<Longrightarrow> tr_four_tuple t = ft"
  by (auto simp: states_get_transport_def states_get_endpoint_def states_wf_def session_ok_def session_wf_def
      get_endpoint_def ep_ok_def endpoint_wf_def result_simps split: option.splits)

lemma states_wf_put_transport:
  assumes "states_wf d self" "states_get_transport ft self = Ok (sid, eid, t)" "tr_four_tuple t' = tr_four_tuple t"
  shows "states_wf d (put_transport sid eid ft t' self)"
proof -
  have "tr_four_tuple t' = ft" using states_wf_transport_at[OF assms(1,2)] assms(3) by simp
  then have "ep_ok d eid (modify_transport ft (\<lambda>_. t') ep)" if "ep_ok d eid ep" for ep
    using that by (auto simp: ep_ok_def endpoint_wf_def mids_distinct_def modify_transport_def split: if_splits)
  then show ?thesis unfolding put_transport_def by (rule states_wf_modify_endpoint[OF assms(1)])
qed

lemma transport_at_put_transport:
  assumes "states_get_transport ft self = Ok (sid, eid, t)"
  shows "transport_at i e f (put_transport sid eid ft t' self) =
    (if (i, e, f) = (sid, eid, ft) then Some t' else transport_at i e f self)"
proof -
  have "find_endpoint ft self = Some (sid, eid)"
    using assms by (auto simp: states_get_transport_def states_get_endpoint_def result_simps split: option.splits)
  with assms have "transport_at sid eid ft self = Some t" by (simp add: get_transport_at)
  then show ?thesis by (auto simp: put_transport_def transport_at_modify)
qed

lemma remove_transport_at:
  "transport_at i e f (states_remove_transport ft self) =
     (if f = ft \<and> find_endpoint ft self = Some (i, e) then None else transport_at i e f self)"
proof (cases "find_endpoint ft self")
  case None
  then show ?thesis by (simp add: remove_transport_nothing)
next
  case (Some x)
  obtain sid eid where x: "x = (sid, eid)" by (cases x)
  show ?thesis
  proof (cases "endpoint_at sid eid self")
    case None
    then have "states_remove_transport ft self = self" using Some x by (intro remove_transport_nothing) simp
    then show ?thesis using Some x None by (auto simp: transport_at_def)
  next
    case ep: (Some ep)
    have "hm_get (transports ep) f = None" if "hm_remove ft (transports ep) = []" "f \<noteq> ft"
      using that hm.get_rem[of ft "transports ep" f] by simp
    then show ?thesis using Some x ep remove_transport_view(1)[of ft self sid eid ep i e]
      by (auto simp: transport_at_def)
  qed
qed

lemma get_transport_find:
  "states_get_transport ft self = Ok (sid, eid, t) \<Longrightarrow> find_endpoint ft self = Some (sid, eid) \<and> transport_at sid eid ft self = Some t"
  using get_transport_at
  by (auto simp: states_get_transport_def states_get_endpoint_def transport_at_def endpoint_at_def result_simps split: option.splits)

lemma find_put_transport [simp]: "find_endpoint f (put_transport sid eid ft t self) = find_endpoint f self"
  by (simp add: put_transport_def)

section \<open>A sample transport\<close>

lemma sample_endpoint_at:
  "\<exists>ep. endpoint_at 1 7 sample_states = Some ep \<and>
     transports ep = [(four_tuple_from (sample_context 7), session_transport sample_transport_lib 0 (sample_candidate 1 7)
        (four_tuple_from (sample_context 7)) (session_new sample_session_config 1))]"
  "\<exists>ep. endpoint_at 1 8 sample_states = Some ep \<and>
     (\<exists>t. transports ep = [(four_tuple_from (sample_context 8), t)])"
  "e \<notin> {7, 8} \<Longrightarrow> endpoint_at 1 e sample_states = None"
  by (simp_all add: endpoint_at_def get_session_def sample_states_def sample_session_def session_add_endpoint_def
      sample_candidate_def candidate_new_def Let_def get_endpoint_def session_new_def ep_set_remote_description_def
      ep_set_local_description_def add_transport_def endpoint_new_def session_transport_def transport_new_def)

lemma sample_get_transport:
  "\<exists>t. states_get_transport (four_tuple_from (sample_context 7)) sample_states = Ok (1, 7, t) \<and>
     sctp_associations t = [] \<and> local_srtp_context t = None \<and> remote_srtp_context t = None"
proof -
  have "find_endpoint (four_tuple_from (sample_context 7)) sample_states = Some (1, 7)"
    by (simp add: find_endpoint_def sample_states_def hm_get_def)
  then show ?thesis using sample_endpoint_at(1)
    by (auto simp: get_transport_at transport_at_def session_transport_def transport_new_def Let_def)
qed

end
