(* ===== verification/Srtp_Handler.thy ===== *)
theory Srtp_Handler
  imports Transport_Access
begin

text \<open>
  \<open>src/handlers/srtp.rs\<close>: packets are decrypted on the way in and encrypted on the way out with the contexts of
  their transport, and counted.

  \<open>srtp_lib\<close> holds what the handler calls of the \<open>srtp\<close>, \<open>rtp\<close>, \<open>rtcp\<close> and \<open>shared\<close> crates. A context changes with
  every packet (roll-over counters, replay windows), also with one it refuses. The instant at which a
  packet leaves is the argument \<open>now\<close>.
\<close>

record srtp_lib =
  is_rtcp :: "bytes \<Rightarrow> bool"
  decrypt_rtp :: "bytes \<Rightarrow> srtp_context \<Rightarrow> (bytes, srtp_context) outcome"
  decrypt_rtcp :: "bytes \<Rightarrow> srtp_context \<Rightarrow> (bytes, srtp_context) outcome"
  encrypt_rtp :: "bytes \<Rightarrow> srtp_context \<Rightarrow> (bytes, srtp_context) outcome"
  encrypt_rtcp :: "bytes \<Rightarrow> srtp_context \<Rightarrow> (bytes, srtp_context) outcome"
  rtp_unmarshal :: "bytes \<Rightarrow> rtp_packet result"
  rtcp_unmarshal :: "bytes \<Rightarrow> rtcp_packet list result"
  rtp_marshal :: "rtp_packet \<Rightarrow> bytes result"
  rtcp_marshal :: "rtcp_packet list \<Rightarrow> bytes result"

definition with_metrics :: "(Metrics \<Rightarrow> Metrics) \<Rightarrow> ServerStates \<Rightarrow> ServerStates" where
  "with_metrics f self = self\<lparr>metrics := f (metrics self)\<rparr>"

definition remote_context_not_set :: "FourTuple \<Rightarrow> error" where
  "remote_context_not_set ft = Other (''remote_srtp_context is not set yet for four_tuple '' @ show_four_tuple ft)"

definition local_context_not_set :: "FourTuple \<Rightarrow> error" where
  "local_context_not_set ft = Other (''local_srtp_context is not set yet for four_tuple '' @ show_four_tuple ft)"

text \<open>Writes through \<open>remote_srtp_context()\<close> and \<open>local_srtp_context()\<close> of the transport found before.\<close>

definition put_remote_context :: "SessionId \<Rightarrow> EndpointId \<Rightarrow> FourTuple \<Rightarrow> srtp_context \<Rightarrow> ServerStates \<Rightarrow> ServerStates" where
  "put_remote_context sid eid ft c self =
     states_modify_endpoint sid eid (modify_transport ft (set_remote_srtp_context c)) self"

definition put_local_context :: "SessionId \<Rightarrow> EndpointId \<Rightarrow> FourTuple \<Rightarrow> srtp_context \<Rightarrow> ServerStates \<Rightarrow> ServerStates" where
  "put_local_context sid eid ft c self =
     states_modify_endpoint sid eid (modify_transport ft (set_local_srtp_context c)) self"

section \<open>Reading\<close>

definition read_rtcp :: "srtp_lib \<Rightarrow> bytes \<Rightarrow> MessageEvent result" where
  "read_rtcp L decrypted =
     and_then (rtcp_unmarshal L decrypted) (\<lambda>rtcp_packets.
       if rtcp_packets = [] then Err (Other ''empty rtcp_packets'')
       else Ok (Rtp (RtcpPackets rtcp_packets)))"

definition read_rtp :: "srtp_lib \<Rightarrow> bytes \<Rightarrow> MessageEvent result" where
  "read_rtp L decrypted = and_then (rtp_unmarshal L decrypted) (\<lambda>rtp_packet. Ok (Rtp (RtpPacket rtp_packet)))"

definition srtp_try_read ::
  "srtp_lib \<Rightarrow> FourTuple \<Rightarrow> bytes \<Rightarrow> ServerStates \<Rightarrow> (MessageEvent, ServerStates) outcome" where
  "srtp_try_read L ft message self =
     (case states_get_transport ft self of
        Inl err \<Rightarrow> (Err err, self)
      | Inr (sid, eid, transport) \<Rightarrow>
          (case remote_srtp_context transport of
             None \<Rightarrow> (Err (remote_context_not_set ft),
                      with_metrics (record_remote_srtp_context_not_set_count 1 []) self)
           | Some c \<Rightarrow>
               if is_rtcp L message then
                 (let (decrypted, c1) = decrypt_rtcp L message c;
                      self1 = put_remote_context sid eid ft c1 self
                  in case and_then decrypted (read_rtcp L) of
                       Inl err \<Rightarrow> (Err err, self1)
                     | Inr event \<Rightarrow> (Ok event, with_metrics (record_rtcp_packet_in_count 1 []) self1))
               else
                 (let (decrypted, c1) = decrypt_rtp L message c;
                      self1 = put_remote_context sid eid ft c1 self
                  in case and_then decrypted (read_rtp L) of
                       Inl err \<Rightarrow> (Err err, self1)
                     | Inr event \<Rightarrow> (Ok event, with_metrics (record_rtp_packet_in_count 1 []) self1))))"

definition srtp_handle_read ::
  "srtp_lib \<Rightarrow> TaggedMessageEvent \<Rightarrow> ServerStates \<Rightarrow> TaggedMessageEvent ctx_call list \<times> ServerStates" where
  "srtp_handle_read L msg self =
     (case msg_message msg of
        Rtp (RtpRaw message) \<Rightarrow>
          (case srtp_try_read L (four_tuple_from (msg_transport msg)) message self of
             (Inr event, self1) \<Rightarrow> ([FireRead (msg\<lparr>msg_message := event\<rparr>)], self1)
           | (Inl err, self1) \<Rightarrow> ([FireException err], self1))
      | _ \<Rightarrow> ([FireRead msg], self))"

section \<open>Writing\<close>

text \<open>\<open>Instant::now().duration_since(sent).as_micros() as u64\<close>; the duration is zero for an instant in the future.\<close>

definition micros_since :: "instant \<Rightarrow> instant \<Rightarrow> u64" where
  "micros_since now sent = word_of_nat (nat (now - sent) div 1000)"

text \<open>The part of \<open>try_write\<close> that both kinds of packets share, with the encryption and the instruments of the kind.\<close>

definition encrypt_with ::
  "(bytes \<Rightarrow> srtp_context \<Rightarrow> (bytes, srtp_context) outcome) \<Rightarrow> bytes result \<Rightarrow> (Metrics \<Rightarrow> Metrics)
   \<Rightarrow> SessionId \<Rightarrow> EndpointId \<Rightarrow> FourTuple \<Rightarrow> Transport \<Rightarrow> ServerStates \<Rightarrow> (bytes, ServerStates) outcome" where
  "encrypt_with encrypt marshalled gauge sid eid ft transport self =
     (case local_srtp_context transport of
        None \<Rightarrow> (Err (local_context_not_set ft), with_metrics (record_local_srtp_context_not_set_count 1 []) self)
      | Some c \<Rightarrow>
          (case marshalled of
             Inl err \<Rightarrow> (Err err, self)
           | Inr packet \<Rightarrow>
               (let (encrypted, c1) = encrypt packet c
                in (encrypted, with_metrics gauge (put_local_context sid eid ft c1 self)))))"

definition srtp_try_write ::
  "srtp_lib \<Rightarrow> instant \<Rightarrow> instant \<Rightarrow> FourTuple \<Rightarrow> RTPMessageEvent \<Rightarrow> ServerStates \<Rightarrow> (bytes, ServerStates) outcome" where
  "srtp_try_write L now sent ft message self =
     (case states_get_transport ft self of
        Inl err \<Rightarrow> (Err err, self)
      | Inr (sid, eid, transport) \<Rightarrow>
          (case message of
             RtcpPackets rtcp_packets \<Rightarrow>
               if rtcp_packets = [] then (Err (Other ''empty rtcp_packets''), self)
               else encrypt_with (encrypt_rtcp L) (rtcp_marshal L rtcp_packets)
                      (record_rtcp_packet_processing_time (micros_since now sent) [] \<circ> record_rtcp_packet_out_count 1 [])
                      sid eid ft transport self
           | RtpPacket rtp_packet \<Rightarrow>
               encrypt_with (encrypt_rtp L) (rtp_marshal L rtp_packet)
                 (record_rtp_packet_processing_time (micros_since now sent) [] \<circ> record_rtp_packet_out_count 1 [])
                 sid eid ft transport self
           | RtpRaw raw_packet \<Rightarrow> (Ok raw_packet, self)))"

definition srtp_poll_write ::
  "srtp_lib \<Rightarrow> instant \<Rightarrow> TaggedMessageEvent option \<Rightarrow> ServerStates
   \<Rightarrow> TaggedMessageEvent ctx_call list \<times> TaggedMessageEvent option \<times> ServerStates" where
  "srtp_poll_write L now polled self =
     (case polled of
        None \<Rightarrow> ([], None, self)
      | Some msg \<Rightarrow>
          (case msg_message msg of
             Rtp message \<Rightarrow>
               (case srtp_try_write L now (msg_now msg) (four_tuple_from (msg_transport msg)) message self of
                  (Inr encrypted, self1) \<Rightarrow> ([], Some (msg\<lparr>msg_message := Rtp (RtpRaw encrypted)\<rparr>), self1)
                | (Inl err, self1) \<Rightarrow> ([FireException err], None, self1))
           | _ \<Rightarrow> ([], Some msg, self)))"

section \<open>Frames\<close>

lemma with_metrics_frame [simp]:
  "transport_at i e f (with_metrics g self) = transport_at i e f self"
  "find_endpoint ft (with_metrics g self) = find_endpoint ft self"
  "endpoint_at i e (with_metrics g self) = endpoint_at i e self"
  "metrics (with_metrics g self) = g (metrics self)"
  by (simp_all add: with_metrics_def transport_at_def endpoint_at_def get_session_def find_endpoint_def)

lemma metrics_modify_endpoint [simp]: "metrics (states_modify_endpoint sid eid f self) = metrics self"
  by (simp add: states_modify_endpoint_def)

lemma context_frames:
  "transport_at i e f (put_remote_context sid eid ft c self) =
     (if (i, e, f) = (sid, eid, ft) then map_option (set_remote_srtp_context c) (transport_at i e f self) else transport_at i e f self)"
  "transport_at i e f (put_local_context sid eid ft c self) =
     (if (i, e, f) = (sid, eid, ft) then map_option (set_local_srtp_context c) (transport_at i e f self) else transport_at i e f self)"
  "find_endpoint f (put_remote_context sid eid ft c self) = find_endpoint f self"
  "find_endpoint f (put_local_context sid eid ft c self) = find_endpoint f self"
  "metrics (put_remote_context sid eid ft c self) = metrics self"
  "metrics (put_local_context sid eid ft c self) = metrics self"
  by (simp_all add: put_remote_context_def put_local_context_def transport_at_modify)

lemma states_wf_with_metrics [simp]: "states_wf d (with_metrics g self) = states_wf d self"
  by (simp add: states_wf_def with_metrics_def get_session_def find_candidate_def session_ok_def)

lemma states_wf_contexts:
  "states_wf d self \<Longrightarrow> states_wf d (put_remote_context sid eid ft c self)"
  "states_wf d self \<Longrightarrow> states_wf d (put_local_context sid eid ft c self)"
  unfolding put_remote_context_def put_local_context_def
  by (auto intro!: states_wf_modify_endpoint ep_ok_modify_transport simp: set_remote_srtp_context_def set_local_srtp_context_def)

lemma states_wf_srtp_try_read: "states_wf d self \<Longrightarrow> states_wf d (snd (srtp_try_read L ft m self))"
  by (auto simp: srtp_try_read_def case_prod_beta Let_def states_wf_contexts split: sum.splits option.splits)

lemma states_wf_srtp_read: "states_wf d self \<Longrightarrow> srtp_handle_read L msg self = (calls, self') \<Longrightarrow> states_wf d self'"
  using states_wf_srtp_try_read[of d self L "four_tuple_from (msg_transport msg)"]
  by (auto simp: srtp_handle_read_def split: MessageEvent.splits RTPMessageEvent.splits prod.splits sum.splits) (metis snd_conv)+

lemma states_wf_srtp_try_write: "states_wf d self \<Longrightarrow> states_wf d (snd (srtp_try_write L now sent ft m self))"
  by (auto simp: srtp_try_write_def encrypt_with_def case_prod_beta Let_def states_wf_contexts
      split: sum.splits option.splits RTPMessageEvent.splits)

lemma states_wf_srtp_write: "states_wf d self \<Longrightarrow> srtp_poll_write L now polled self = (calls, m, self') \<Longrightarrow> states_wf d self'"
  using states_wf_srtp_try_write[of d self L now]
  by (auto simp: srtp_poll_write_def split: option.splits MessageEvent.splits prod.splits sum.splits) (metis snd_conv)+

section \<open>Properties\<close>

text \<open>
  C10: A packet of a transport with keys is decrypted with the context of that very transport, and exactly one thing
  happens: the decoded packet is passed on under the same transport and time and counted once, or an error is reported
  and nothing is counted. In both cases the context moves on and no other transport changes.
\<close>

theorem srtp_read_outcome:
  assumes "msg_message msg = Rtp (RtpRaw m)" "ft = four_tuple_from (msg_transport msg)"
    and "states_get_transport ft self = Ok (sid, eid, t)" "remote_srtp_context t = Some c"
    and "(if is_rtcp L m then decrypt_rtcp L m c else decrypt_rtp L m c) = (plain, c1)"
    and "and_then plain (if is_rtcp L m then read_rtcp L else read_rtp L) = decoded"
    and "srtp_handle_read L msg self = (calls, self')"
  shows "calls = [case decoded of Inr event \<Rightarrow> FireRead (msg\<lparr>msg_message := event\<rparr>) | Inl err \<Rightarrow> FireException err] \<and>
    (\<forall>i e f. transport_at i e f self' =
       (if (i, e, f) = (sid, eid, ft) then Some (t\<lparr>remote_srtp_context := Some c1\<rparr>) else transport_at i e f self)) \<and>
    (\<forall>k. counted k (metrics self') = counted k (metrics self) +
       (if is_ok decoded \<and> k = (if is_rtcp L m then RtcpPacketInCount else RtpPacketInCount) then 1 else 0))"
proof -
  have "transport_at sid eid ft self = Some t" using get_transport_find[OF assms(3)] by simp
  moreover have "srtp_try_read L ft m self =
      (decoded, (if is_ok decoded then with_metrics (measure_on (if is_rtcp L m then RtcpPacketInCount else RtpPacketInCount) 1 []) else id)
         (put_remote_context sid eid ft c1 self))"
    using assms(3-6) by (cases decoded; cases "is_rtcp L m") (simp_all add: srtp_try_read_def record_defs)
  ultimately show ?thesis
    using assms(1,2,7)
    by (cases decoded) (auto simp: srtp_handle_read_def context_frames set_remote_srtp_context_def)
qed

text \<open>A crate that neither encrypts nor parses.\<close>

definition sample_srtp :: srtp_lib where
  "sample_srtp = \<lparr>is_rtcp = \<lambda>b. False, decrypt_rtp = \<lambda>b c. (Ok b, c), decrypt_rtcp = \<lambda>b c. (Ok b, c),
     encrypt_rtp = \<lambda>b c. (Ok b, c), encrypt_rtcp = \<lambda>b c. (Ok b, c), rtp_unmarshal = \<lambda>_. Ok undefined,
     rtcp_unmarshal = \<lambda>_. Ok [undefined], rtp_marshal = \<lambda>_. Ok [128], rtcp_marshal = \<lambda>_. Ok [128, 200]\<rparr>"

definition sample_keyed_states :: ServerStates where
  "sample_keyed_states = put_remote_context 1 7 (four_tuple_from (sample_context 7)) undefined sample_states"

lemma sample_keyed_transport:
  "\<exists>t. states_get_transport (four_tuple_from (sample_context 7)) sample_keyed_states = Ok (1, 7, t) \<and>
     remote_srtp_context t = Some undefined"
proof -
  obtain t where t: "states_get_transport (four_tuple_from (sample_context 7)) sample_states = Ok (1, 7, t)"
    using sample_get_transport by blast
  have "find_endpoint (four_tuple_from (sample_context 7)) sample_keyed_states = Some (1, 7)"
    using get_transport_find[OF t] by (simp add: sample_keyed_states_def context_frames)
  then show ?thesis using get_transport_find[OF t]
    by (simp add: get_transport_at sample_keyed_states_def context_frames set_remote_srtp_context_def)
qed

theorem srtp_read_outcome_witness:
  "\<exists>self'. srtp_handle_read sample_srtp \<lparr>msg_now = 0, msg_transport = sample_context 7, msg_message = Rtp (RtpRaw [128])\<rparr> sample_keyed_states =
     ([FireRead \<lparr>msg_now = 0, msg_transport = sample_context 7, msg_message = Rtp (RtpPacket undefined)\<rparr>], self') \<and>
     counted RtpPacketInCount (metrics self') = 1"
proof -
  let ?m = "\<lparr>msg_now = 0, msg_transport = sample_context 7, msg_message = Rtp (RtpRaw [128])\<rparr>"
  obtain t where t: "states_get_transport (four_tuple_from (sample_context 7)) sample_keyed_states = Ok (1, 7, t)"
    "remote_srtp_context t = Some undefined" using sample_keyed_transport by blast
  obtain calls self' where r: "srtp_handle_read sample_srtp ?m sample_keyed_states = (calls, self')" by fastforce
  have m0: "metrics sample_keyed_states = metrics_new" by (simp add: sample_keyed_states_def context_frames sample_states_def)
  show ?thesis
    using srtp_read_outcome[of ?m "[128]" "four_tuple_from (sample_context 7)" sample_keyed_states 1 7 t undefined sample_srtp
        "Ok [128]" undefined "Ok (Rtp (RtpPacket undefined))" calls self'] t r m0
    by (simp add: sample_srtp_def read_rtp_def counted_def metrics_new_def)
qed

text \<open>Packets are counted as sent also when their encryption fails.\<close>

lemma srtp_counts_failed_sends:
  assumes "states_get_transport ft self = Ok (sid, eid, t)" "local_srtp_context t = Some c"
    "rtp_marshal L p = Ok plain" "encrypt_rtp L plain c = (Err err, c1)"
  shows "fst (srtp_try_write L now sent ft (RtpPacket p) self) = Err err \<and>
    counted RtpPacketOutCount (metrics (snd (srtp_try_write L now sent ft (RtpPacket p) self))) =
      counted RtpPacketOutCount (metrics self) + 1"
  using assms by (simp add: srtp_try_write_def encrypt_with_def context_frames record_defs)

end
