(* ===== verification/Interceptor_Handler.thy ===== *)
theory Interceptor_Handler
  imports Transport_Access Transmit_Queue
begin

text \<open>
  \<open>src/handlers/interceptor.rs\<close>: every RTP or RTCP message passes the interceptors of its endpoint. RTCP ends here,
  apart from what an interceptor hands on. The state of the handler is its queue of outgoing messages.
\<close>

section \<open>Events of interceptors\<close>

text \<open>The loop of \<open>handle_read\<close> over the events.\<close>

fun process_read_events ::
  "InterceptorEvent list \<Rightarrow> TaggedMessageEvent vecdeque \<Rightarrow> TaggedMessageEvent ctx_call list \<times> TaggedMessageEvent vecdeque" where
  "process_read_events [] q = ([], q)"
| "process_read_events (Inbound inbound # events) q =
     (let (calls, q') = process_read_events events q in (FireRead inbound # calls, q'))"
| "process_read_events (Outbound outbound # events) q = process_read_events events (push_back outbound q)"
| "process_read_events (ErrorEvent err # events) q =
     (let (calls, q') = process_read_events events q in (FireException err # calls, q'))"

text \<open>The loops of \<open>handle_timeout\<close> and \<open>poll_write\<close>, which drop inbound messages.\<close>

fun process_events ::
  "InterceptorEvent list \<Rightarrow> TaggedMessageEvent vecdeque \<Rightarrow> TaggedMessageEvent ctx_call list \<times> TaggedMessageEvent vecdeque" where
  "process_events [] q = ([], q)"
| "process_events (Inbound inbound # events) q = process_events events q"
| "process_events (Outbound outbound # events) q = process_events events (push_back outbound q)"
| "process_events (ErrorEvent err # events) q =
     (let (calls, q') = process_events events q in (FireException err # calls, q'))"

text \<open>A call of an interceptor through the endpoint of a four tuple.\<close>

definition endpoint_intercept ::
  "(interceptor \<Rightarrow> InterceptorEvent list \<times> interceptor) \<Rightarrow> FourTuple \<Rightarrow> ServerStates
   \<Rightarrow> (InterceptorEvent list, ServerStates) outcome" where
  "endpoint_intercept f ft self =
     (case states_get_endpoint ft self of
        Inl err \<Rightarrow> (Err err, self)
      | Inr (sid, eid, ep) \<Rightarrow>
          (let (events, i) = f (ep_interceptor ep)
           in (Ok events, states_modify_endpoint sid eid (\<lambda>ep. ep\<lparr>ep_interceptor := i\<rparr>) self)))"

section \<open>Reading\<close>

definition is_media :: "MessageEvent \<Rightarrow> bool" where
  "is_media m = (case m of Rtp (RtpPacket _) \<Rightarrow> True | Rtp (RtcpPackets _) \<Rightarrow> True | _ \<Rightarrow> False)"

definition interceptor_handler_read ::
  "packet_types \<Rightarrow> TaggedMessageEvent \<Rightarrow> TaggedMessageEvent vecdeque \<Rightarrow> ServerStates
   \<Rightarrow> TaggedMessageEvent ctx_call list \<times> TaggedMessageEvent vecdeque \<times> ServerStates" where
  "interceptor_handler_read pt msg q self =
     (if is_media (msg_message msg) then
        (let (r, self1) = endpoint_intercept (interceptor_read pt msg) (four_tuple_from (msg_transport msg)) self;
             (calls, q1) = (case r of Inr events \<Rightarrow> process_read_events events q | Inl err \<Rightarrow> ([FireException err], q))
         in case msg_message msg of
              Rtp (RtcpPackets _) \<Rightarrow> (calls, q1, self1)
            | _ \<Rightarrow> (calls @ [FireRead msg], q1, self1))
      else ([FireRead msg], q, self))"

section \<open>Time\<close>

definition timeout_endpoint :: "instant \<Rightarrow> Endpoint \<Rightarrow> InterceptorEvent list \<times> Endpoint" where
  "timeout_endpoint now ep =
     (let (events, i) = interceptor_handle_timeout now (hm_keys (transports ep)) (ep_interceptor ep)
      in (events, ep\<lparr>ep_interceptor := i\<rparr>))"

definition interceptors_timeout :: "instant \<Rightarrow> ServerStates \<Rightarrow> InterceptorEvent list \<times> ServerStates" where
  "interceptors_timeout now self =
     (concat (map (\<lambda>session. concat (map (\<lambda>ep. fst (timeout_endpoint now ep)) (hm_values (endpoints session))))
        (hm_values (sessions self))),
      self\<lparr>sessions := hm_map (\<lambda>_ session.
        session\<lparr>endpoints := hm_map (\<lambda>_ ep. snd (timeout_endpoint now ep)) (endpoints session)\<rparr>) (sessions self)\<rparr>)"

definition interceptor_handler_timeout ::
  "instant \<Rightarrow> TaggedMessageEvent vecdeque \<Rightarrow> ServerStates
   \<Rightarrow> TaggedMessageEvent ctx_call list \<times> TaggedMessageEvent vecdeque \<times> ServerStates" where
  "interceptor_handler_timeout now q self =
     (let (events, self1) = interceptors_timeout now self;
          (calls, q1) = process_events events q
      in (calls @ [FireTimeout now], q1, self1))"

definition interceptor_handler_poll_timeout :: "instant \<Rightarrow> ServerStates \<Rightarrow> instant" where
  "interceptor_handler_poll_timeout deadline self =
     fold (\<lambda>session. fold (\<lambda>ep. interceptor_poll_timeout (ep_interceptor ep)) (hm_values (endpoints session)))
       (hm_values (sessions self)) deadline"

section \<open>Writing\<close>

definition interceptor_handler_poll_write ::
  "TaggedMessageEvent option \<Rightarrow> TaggedMessageEvent vecdeque \<Rightarrow> ServerStates
   \<Rightarrow> TaggedMessageEvent ctx_call list \<times> TaggedMessageEvent option \<times> TaggedMessageEvent vecdeque \<times> ServerStates" where
  "interceptor_handler_poll_write polled q self =
     (case polled of
        None \<Rightarrow> (let (m, q1) = pop_front q in ([], m, q1, self))
      | Some msg \<Rightarrow>
          (let (calls, q1, self1) =
                 (if is_media (msg_message msg) then
                    (case endpoint_intercept (interceptor_write msg) (four_tuple_from (msg_transport msg)) self of
                       (Inr events, self1) \<Rightarrow> (let (calls, q1) = process_events events q in (calls, q1, self1))
                     | (Inl err, self1) \<Rightarrow> ([FireException err], q, self1))
                  else ([], q, self));
               (m, q2) = pop_front (push_back msg q1)
           in (calls, m, q2, self1)))"

section \<open>Lemmas\<close>

lemma states_modify_endpoint_id:
  assumes "states_get_endpoint ft self = Ok (sid, eid, ep)" "f ep = ep" "hm_wf (sessions self)"
    "\<And>s. get_session sid self = Some s \<Longrightarrow> hm_wf (endpoints s)"
  shows "states_modify_endpoint sid eid f self = self"
proof -
  obtain s where s: "get_session sid self = Some s" "get_endpoint eid s = Some ep"
    using assms(1) by (auto simp: states_get_endpoint_def split: option.splits)
  have "hm_modify eid f (endpoints s) = endpoints s"
    using s(2) assms(2) assms(4)[OF s(1)]
    by (auto simp: hm_modify_def get_endpoint_def hm.entries_get[symmetric] intro!: map_idI)
      (metis hm.entries_get option.inject)
  then have "modify_endpoint eid f s = s" by (simp add: modify_endpoint_def)
  then have "hm_modify sid (modify_endpoint eid f) (sessions self) = sessions self"
    using s(1) assms(3)
    by (auto simp: hm_modify_def get_session_def intro!: map_idI) (metis hm.entries_get option.inject)
  then show ?thesis by (simp add: states_modify_endpoint_def)
qed

lemma process_read_events_inbound:
  "\<forall>e\<in>set events. \<exists>m. e = Inbound m \<Longrightarrow>
   process_read_events events q = (map (\<lambda>e. case e of Inbound m \<Rightarrow> FireRead m) events, q)"
  by (induction events) auto

lemma process_events_outbound:
  "\<forall>e\<in>set events. \<exists>m. e = Outbound m \<Longrightarrow>
   process_events events q = ([], q @ map (\<lambda>e. case e of Outbound m \<Rightarrow> m) events)"
  by (induction events arbitrary: q) (auto simp: push_back_def)

section \<open>The handler keeps the states well formed\<close>

lemma ep_ok_interceptor [simp]: "ep_ok d eid (ep\<lparr>ep_interceptor := i\<rparr>) = ep_ok d eid ep"
  by (simp add: ep_ok_def endpoint_wf_def mids_distinct_def)

lemma states_wf_intercept:
  "states_wf d self \<Longrightarrow> states_wf d (snd (endpoint_intercept f ft self))"
  by (auto simp: endpoint_intercept_def case_prod_beta Let_def split: sum.splits intro!: states_wf_modify_endpoint)

lemma states_wf_interceptor_read:
  "states_wf d self \<Longrightarrow> interceptor_handler_read pt msg q self = (calls, q', self') \<Longrightarrow> states_wf d self'"
  using states_wf_intercept[of d self "interceptor_read pt msg" "four_tuple_from (msg_transport msg)"]
  by (auto simp: interceptor_handler_read_def case_prod_beta Let_def split: if_splits MessageEvent.splits RTPMessageEvent.splits)

lemma ep_ok_timeout_endpoint: "ep_ok d eid ep \<Longrightarrow> ep_ok d eid (snd (timeout_endpoint now ep))"
  by (simp add: timeout_endpoint_def case_prod_beta Let_def)

lemma states_wf_interceptor_timeout:
  assumes "states_wf d self" "interceptor_handler_timeout now q self = (calls, q', self')"
  shows "states_wf d self'"
proof -
  have "session_ok d self sid (s\<lparr>endpoints := hm_map (\<lambda>_ ep. snd (timeout_endpoint now ep)) (endpoints s)\<rparr>)"
    if "session_ok d self sid s" for sid s
    using that by (intro session_ok_step[OF that] session_wf_map) (auto simp: session_ok_def ep_ok_timeout_endpoint)
  then show ?thesis using assms
    by (auto simp: interceptor_handler_timeout_def interceptors_timeout_def case_prod_beta Let_def states_wf_def get_session_def
        find_candidate_def session_ok_def)
qed

lemma states_wf_interceptor_write:
  "states_wf d self \<Longrightarrow> interceptor_handler_poll_write polled q self = (calls, m, q', self') \<Longrightarrow> states_wf d self'"
  using states_wf_intercept[of d self "interceptor_write (the polled)" "four_tuple_from (msg_transport (the polled))"]
  by (auto simp: interceptor_handler_poll_write_def case_prod_beta Let_def split: option.splits if_splits prod.splits sum.splits)

section \<open>Properties\<close>

lemma transport_at_interceptor:
  "transport_at i e f (states_modify_endpoint sid eid (\<lambda>ep. ep\<lparr>ep_interceptor := x\<rparr>) self) = transport_at i e f self"
  by (cases "endpoint_at i e self") (auto simp: transport_at_def endpoint_at_modify)

lemma interceptor_read_view:
  assumes "states_get_endpoint (four_tuple_from (msg_transport msg)) self = Ok (sid, eid, ep)" "is_media (msg_message msg)"
  shows "\<exists>self'. interceptor_handler_read pt msg q self =
      ((case msg_message msg of
          Rtp (RtcpPackets ps) \<Rightarrow>
            (let ps' = filter (\<lambda>p. \<not> hop_by_hop pt p) ps
             in if ps' = [] then [] else replicate (sender_stages (ep_interceptor ep)) (FireRead (msg\<lparr>msg_message := Rtp (RtcpPackets ps')\<rparr>)))
        | _ \<Rightarrow> [FireRead msg]), q, self') \<and>
    (\<forall>i e f. transport_at i e f self' = transport_at i e f self)"
proof -
  let ?ev = "fst (interceptor_read pt msg (ep_interceptor ep))"
  let ?self = "states_modify_endpoint sid eid (\<lambda>ep'. ep'\<lparr>ep_interceptor := snd (interceptor_read pt msg (ep_interceptor ep))\<rparr>) self"
  have i: "endpoint_intercept (interceptor_read pt msg) (four_tuple_from (msg_transport msg)) self = (Ok ?ev, ?self)"
    using assms(1) by (simp add: endpoint_intercept_def case_prod_beta)
  have ev: "?ev = concat (replicate (sender_stages (ep_interceptor ep)) (sender_report_read pt msg))" by (rule read_events)
  consider (rtp) p where "msg_message msg = Rtp (RtpPacket p)" | (rtcp) ps where "msg_message msg = Rtp (RtcpPackets ps)"
    using assms(2) by (auto simp: is_media_def split: MessageEvent.splits RTPMessageEvent.splits)
  then show ?thesis
  proof cases
    case rtp
    then have "?ev = []" by (simp add: ev sender_report_read_def)
    then show ?thesis using i rtp assms(2)
      by (auto simp: interceptor_handler_read_def transport_at_interceptor)
  next
    case rtcp
    let ?ps = "filter (\<lambda>p. \<not> hop_by_hop pt p) ps"
    have "?ev = (if ?ps = [] then [] else replicate (sender_stages (ep_interceptor ep)) (Inbound (msg\<lparr>msg_message := Rtp (RtcpPackets ?ps)\<rparr>)))"
    proof -
      have "concat (replicate n [x]) = replicate n x" for n and x :: InterceptorEvent by (induction n) simp_all
      then show ?thesis using rtcp by (auto simp: ev sender_report_read_def Let_def)
    qed
    then show ?thesis using i rtcp assms(2)
      by (auto simp: interceptor_handler_read_def transport_at_interceptor process_read_events_inbound Let_def)
  qed
qed

text \<open>
  C28: RTP passes the handler once and unchanged. RTCP ends here, apart from what the sender report stages of the
  endpoint hand on: each stage passes on, once, the packets that are not feedback for this hop. Nothing is queued and no transport changes.
\<close>

theorem interceptor_handler_forwards:
  assumes "states_get_endpoint (four_tuple_from (msg_transport msg)) self = Ok (sid, eid, ep)" "is_media (msg_message msg)"
  shows "\<exists>self'. interceptor_handler_read pt msg q self =
      ((case msg_message msg of
          Rtp (RtcpPackets ps) \<Rightarrow>
            (let ps' = filter (\<lambda>p. \<not> hop_by_hop pt p) ps
             in if ps' = [] then [] else replicate (sender_stages (ep_interceptor ep)) (FireRead (msg\<lparr>msg_message := Rtp (RtcpPackets ps')\<rparr>)))
        | _ \<Rightarrow> [FireRead msg]), q, self') \<and>
    (\<forall>i e f. transport_at i e f self' = transport_at i e f self)"
  using assms by (rule interceptor_read_view)

lemma sample_get_endpoint: "\<exists>ep. states_get_endpoint (four_tuple_from (sample_context 7)) sample_states = Ok (1, 7, ep)"
  using sample_get_transport by (auto simp: states_get_transport_def result_simps split: option.splits)

theorem interceptor_handler_forwards_witness:
  "\<exists>self'. interceptor_handler_read (\<lambda>_. PtOther 200) \<lparr>msg_now = 0, msg_transport = sample_context 7, msg_message = Rtp (RtpPacket undefined)\<rparr>
      [] sample_states =
     ([FireRead \<lparr>msg_now = 0, msg_transport = sample_context 7, msg_message = Rtp (RtpPacket undefined)\<rparr>], [], self')"
proof -
  let ?m = "\<lparr>msg_now = 0, msg_transport = sample_context 7, msg_message = Rtp (RtpPacket undefined)\<rparr>"
  obtain ep where "states_get_endpoint (four_tuple_from (msg_transport ?m)) sample_states = Ok (1, 7, ep)"
    using sample_get_endpoint by auto
  moreover have "is_media (msg_message ?m)" by (simp add: is_media_def)
  ultimately show ?thesis using interceptor_handler_forwards[of ?m sample_states 1 7 ep "\<lambda>_. PtOther 200" "[]"] by auto
qed

end
