(* ===== verification/Polling.thy ===== *)
theory Polling
  imports Transmit_Queue Hash_Map
begin

text \<open>
  Loops of the form \<open>while let Some(x) = source.poll() { .. }\<close>. The number of iterations is up to the source, so
  the loop is a partial function: \<open>None\<close> is a loop that does not end. A source whose pending items shrink with
  every successful poll is drained.
\<close>

section \<open>Draining a source\<close>

partial_function (option) drain :: "('s \<Rightarrow> 'a option \<times> 's) \<Rightarrow> 's \<Rightarrow> ('a list \<times> 's) option" where
  "drain poll s =
     (case poll s of
        (x, s1) \<Rightarrow>
          (case x of
             None \<Rightarrow> Some ([], s1)
           | Some a \<Rightarrow> Option.bind (drain poll s1) (\<lambda>(as, s2). Some (a # as, s2))))"

declare drain.simps [code]

lemma drain_stop: "poll s = (None, s') \<Longrightarrow> drain poll s = Some ([], s')"
  by (subst drain.simps) simp

lemma drain_step: "poll s = (Some a, s') \<Longrightarrow> drain poll s = Option.bind (drain poll s') (\<lambda>(as, s2). Some (a # as, s2))"
  by (subst drain.simps) simp

locale pollable =
  fixes poll :: "'s \<Rightarrow> 'a option \<times> 's"
    and pending :: "'s \<Rightarrow> nat"
  assumes poll_less: "fst (poll s) \<noteq> None \<Longrightarrow> pending (snd (poll s)) < pending s"
begin

lemma drain_returns: "\<exists>as s'. drain poll s = Some (as, s')"
proof (induction "pending s" arbitrary: s rule: less_induct)
  case less
  obtain x s1 where p: "poll s = (x, s1)" by fastforce
  show ?case
  proof (cases x)
    case None
    then show ?thesis using p drain_stop[of poll s] by blast
  next
    case (Some a)
    have "pending s1 < pending s" using poll_less[of s] p Some by simp
    from less.hyps[OF this] p Some show ?thesis by (auto simp: drain_step)
  qed
qed

end

interpretation vq: pollable pop_front length
  by unfold_locales (simp add: pop_front_def split: list.splits)

lemma drain_queue: "drain pop_front q = Some (q, [])"
  by (induction q) (simp_all add: drain_stop drain_step pop_front_def)

end
