(* ===== verification/Transport_Walk.thy ===== *)
theory Transport_Walk
  imports Transport_Access Polling
begin

text \<open>
  The timer handlers of DTLS and SCTP visit every transport of every endpoint of every session through
  \<open>values_mut()\<close>. The body of the loop may change the transport, yields a list of items, and may not return.
\<close>

section \<open>Visiting every value of a map\<close>

fun traverse :: "('v \<Rightarrow> ('e list \<times> 'v) option) \<Rightarrow> ('k, 'v) hashmap \<Rightarrow> ('e list \<times> ('k, 'v) hashmap) option" where
  "traverse f [] = Some ([], [])"
| "traverse f ((k, v) # m) =
     Option.bind (f v) (\<lambda>(es, v').
       Option.bind (traverse f m) (\<lambda>(es', m'). Some (es @ es', (k, v') # m')))"

definition walk_endpoint ::
  "(Transport \<Rightarrow> ('e list \<times> Transport) option) \<Rightarrow> Endpoint \<Rightarrow> ('e list \<times> Endpoint) option" where
  "walk_endpoint f ep = map_option (\<lambda>(es, ts). (es, ep\<lparr>transports := ts\<rparr>)) (traverse f (transports ep))"

definition walk_session ::
  "(Transport \<Rightarrow> ('e list \<times> Transport) option) \<Rightarrow> Session \<Rightarrow> ('e list \<times> Session) option" where
  "walk_session f session =
     map_option (\<lambda>(es, eps). (es, session\<lparr>endpoints := eps\<rparr>)) (traverse (walk_endpoint f) (endpoints session))"

definition walk_transports ::
  "(Transport \<Rightarrow> ('e list \<times> Transport) option) \<Rightarrow> ServerStates \<Rightarrow> ('e list \<times> ServerStates) option" where
  "walk_transports f self =
     map_option (\<lambda>(es, ss). (es, self\<lparr>sessions := ss\<rparr>)) (traverse (walk_session f) (sessions self))"

section \<open>The loops return and keep the states well formed\<close>

lemma traverse_returns: "(\<And>v. f v \<noteq> None) \<Longrightarrow> traverse f m \<noteq> None"
proof (induction m)
  case (Cons e m)
  obtain k v where e: "e = (k, v)" by fastforce
  obtain es v' where "f v = Some (es, v')" using Cons.prems[of v] by auto
  with Cons e show ?case by (auto simp: bind_eq_None_conv)
qed simp

lemma walk_returns: "(\<And>t. f t \<noteq> None) \<Longrightarrow> walk_transports f self \<noteq> None"
  by (simp add: walk_transports_def traverse_returns walk_session_def walk_endpoint_def)

lemma traverse_keys: "traverse f m = Some (es, m') \<Longrightarrow> map fst m' = map fst m"
  by (induction f m arbitrary: es m' rule: traverse.induct) (auto simp: bind_eq_Some_conv)

lemma traverse_wf: "traverse f m = Some (es, m') \<Longrightarrow> hm_wf m' = hm_wf m"
  by (simp add: hm_wf_def traverse_keys)

text \<open>Every entry of the result is a visited entry of the map, and the items are those of the visits, in order.\<close>

lemma traverse_entries:
  "traverse f m = Some (es, m') \<Longrightarrow>
   list_all2 (\<lambda>(k, v) (k', v'). k' = k \<and> (\<exists>e. f v = Some (e, v'))) m m' \<and>
   es = concat (map (\<lambda>(k, v). fst (the (f v))) m)"
  by (induction f m arbitrary: es m' rule: traverse.induct) (auto simp: bind_eq_Some_conv)

lemma traverse_get:
  "traverse f m = Some (es, m') \<Longrightarrow>
   (case hm_get m k of None \<Rightarrow> hm_get m' k = None | Some v \<Rightarrow> \<exists>e v'. f v = Some (e, v') \<and> hm_get m' k = Some v')"
  by (induction f m arbitrary: es m' rule: traverse.induct)
    (auto simp: bind_eq_Some_conv hm_get_def split: option.splits)

lemma traverse_visited:
  assumes "traverse f m = Some (es, m')" "hm_get m' k = Some v'"
  obtains v e where "hm_get m k = Some v" "f v = Some (e, v')"
  using traverse_get[OF assms(1), of k] assms(2) by (cases "hm_get m k") auto

lemma ep_ok_walk:
  assumes "ep_ok d eid ep" "walk_endpoint f ep = Some (es, ep')"
    "\<And>t e t'. f t = Some (e, t') \<Longrightarrow> tr_four_tuple t' = tr_four_tuple t"
  shows "ep_ok d eid ep'"
proof -
  obtain ts where ts: "traverse f (transports ep) = Some (es, ts)" "ep' = ep\<lparr>transports := ts\<rparr>"
    using assms(2) by (auto simp: walk_endpoint_def)
  have "tr_four_tuple t = ft" if "hm_get ts ft = Some t" for ft t
  proof -
    obtain t0 e where "hm_get (transports ep) ft = Some t0" "f t0 = Some (e, t)"
      using traverse_visited[OF ts(1) \<open>hm_get ts ft = Some t\<close>] .
    then show ?thesis using assms(1) assms(3)[of t0 e t] by (simp add: ep_ok_def endpoint_wf_def)
  qed
  then show ?thesis using assms(1) ts by (auto simp: ep_ok_def endpoint_wf_def mids_distinct_def traverse_wf[OF ts(1)])
qed

lemma session_ok_walk:
  assumes "session_ok d self sid s" "walk_session f s = Some (es, s')"
    "\<And>t e t'. f t = Some (e, t') \<Longrightarrow> tr_four_tuple t' = tr_four_tuple t"
  shows "session_ok d self sid s'"
proof -
  obtain eps where eps: "traverse (walk_endpoint f) (endpoints s) = Some (es, eps)" "s' = s\<lparr>endpoints := eps\<rparr>"
    using assms(2) by (auto simp: walk_session_def)
  have "ep_ok d eid ep'" if "hm_get eps eid = Some ep'" for eid ep'
  proof -
    obtain ep e where ep: "hm_get (endpoints s) eid = Some ep" "walk_endpoint f ep = Some (e, ep')"
      using traverse_visited[OF eps(1) \<open>hm_get eps eid = Some ep'\<close>] .
    have "ep_ok d eid ep" using ep(1) assms(1) by (simp add: session_ok_def session_wf_def)
    then show ?thesis using ep(2) assms(3) by (rule ep_ok_walk)
  qed
  then show ?thesis using assms(1) eps traverse_wf[OF eps(1)] by (auto simp: session_ok_def session_wf_def)
qed

lemma states_wf_walk:
  assumes "states_wf d self" "walk_transports f self = Some (es, self')"
    "\<And>t e t'. f t = Some (e, t') \<Longrightarrow> tr_four_tuple t' = tr_four_tuple t"
  shows "states_wf d self'"
proof -
  obtain ss where ss: "traverse (walk_session f) (sessions self) = Some (es, ss)" "self' = self\<lparr>sessions := ss\<rparr>"
    using assms(2) by (auto simp: walk_transports_def)
  have "session_ok d self sid s'" if "hm_get ss sid = Some s'" for sid s'
  proof -
    obtain s e where s: "hm_get (sessions self) sid = Some s" "walk_session f s = Some (e, s')"
      using traverse_visited[OF ss(1) \<open>hm_get ss sid = Some s'\<close>] .
    have "session_ok d self sid s" using s(1) assms(1) by (simp add: states_wf_def get_session_def)
    then show ?thesis using s(2) assms(3) by (rule session_ok_walk)
  qed
  then show ?thesis using assms(1) ss traverse_wf[OF ss(1)]
    by (auto simp: states_wf_def get_session_def find_candidate_def session_ok_def)
qed

end
