(* ===== verification/Dtls_Handler.thy ===== *)
theory Dtls_Handler
  imports Transport_Walk
begin

text \<open>
  \<open>src/handlers/dtls.rs\<close>: records are given to the DTLS endpoint of their transport; a completed handshake sets
  the SRTP contexts of the transport, application data goes on to SCTP, and a fatal alert or a close removes the
  transport.

  \<open>dtls_lib\<close> holds what the handler calls of the \<open>dtls\<close> and \<open>srtp\<close> crates. A result that the handler ignores has no
  place in the signature.
\<close>

section \<open>The protocol crates\<close>

typedecl dtls_state
typedecl srtp_options
typedecl srtp_keys

datatype SrtpProtectionProfile =
    Srtp_Aes128_Cm_Hmac_Sha1_80
  | Srtp_Aead_Aes_128_Gcm
  | Srtp_Unsupported nat

datatype ProtectionProfile = Aes128CmHmacSha1_80 | AeadAes128Gcm

record srtp_config =
  cfg_keys :: srtp_keys
  cfg_profile :: ProtectionProfile
  cfg_local_rtp_options :: "srtp_options option"
  cfg_remote_rtp_options :: "srtp_options option"
  cfg_local_rtcp_options :: "srtp_options option"
  cfg_remote_rtcp_options :: "srtp_options option"

record dtls_transmit =
  dtx_now :: instant
  dtx_remote :: socket_addr
  dtx_ecn :: "ecn_codepoint option"
  dtx_payload :: bytes

datatype dtls_event = HandshakeComplete | ApplicationData bytes

record dtls_lib =
  dtls_read :: "instant \<Rightarrow> socket_addr \<Rightarrow> ip_addr option \<Rightarrow> ecn_codepoint option \<Rightarrow> bytes \<Rightarrow> dtls_endpoint
    \<Rightarrow> (dtls_event list, dtls_endpoint) outcome"
  dtls_write :: "socket_addr \<Rightarrow> bytes \<Rightarrow> dtls_endpoint \<Rightarrow> (unit, dtls_endpoint) outcome"
  dtls_poll_transmit :: "dtls_endpoint \<Rightarrow> dtls_transmit option \<times> dtls_endpoint"
  get_connections_keys :: "dtls_endpoint \<Rightarrow> socket_addr list"
  get_connection_state :: "dtls_endpoint \<Rightarrow> socket_addr \<Rightarrow> dtls_state option"
  dtls_handle_timeout :: "socket_addr \<Rightarrow> instant \<Rightarrow> dtls_endpoint \<Rightarrow> dtls_endpoint"
  dtls_poll_timeout :: "dtls_endpoint \<Rightarrow> socket_addr \<Rightarrow> instant \<Rightarrow> instant"
  srtp_protection_profile :: "dtls_state \<Rightarrow> SrtpProtectionProfile"
  srtp_config_default :: "srtp_config"
  extract_session_keys_from_dtls :: "dtls_state \<Rightarrow> bool \<Rightarrow> srtp_config \<Rightarrow> srtp_config result"
  local_master_key :: "srtp_keys \<Rightarrow> bytes"
  local_master_salt :: "srtp_keys \<Rightarrow> bytes"
  remote_master_key :: "srtp_keys \<Rightarrow> bytes"
  remote_master_salt :: "srtp_keys \<Rightarrow> bytes"
  srtp_context_new :: "bytes \<Rightarrow> bytes \<Rightarrow> ProtectionProfile \<Rightarrow> srtp_options option \<Rightarrow> srtp_options option \<Rightarrow> srtp_context result"
  srtp_replay_protection :: "usize \<Rightarrow> srtp_options"
  srtcp_replay_protection :: "usize \<Rightarrow> srtp_options"

section \<open>Keys of a completed handshake\<close>

definition DEFAULT_SESSION_SRTP_REPLAY_PROTECTION_WINDOW :: usize where
  "DEFAULT_SESSION_SRTP_REPLAY_PROTECTION_WINDOW = 64"

definition DEFAULT_SESSION_SRTCP_REPLAY_PROTECTION_WINDOW :: usize where
  "DEFAULT_SESSION_SRTCP_REPLAY_PROTECTION_WINDOW = 64"

definition srtp_profile :: "SrtpProtectionProfile \<Rightarrow> ProtectionProfile result" where
  "srtp_profile p =
     (case p of
        Srtp_Aes128_Cm_Hmac_Sha1_80 \<Rightarrow> Ok Aes128CmHmacSha1_80
      | Srtp_Aead_Aes_128_Gcm \<Rightarrow> Ok AeadAes128Gcm
      | _ \<Rightarrow> Err ErrNoSuchSrtpProfile)"

definition update_srtp_contexts :: "dtls_lib \<Rightarrow> dtls_state \<Rightarrow> (srtp_context \<times> srtp_context) result" where
  "update_srtp_contexts D state =
     and_then (srtp_profile (srtp_protection_profile D state)) (\<lambda>profile.
     and_then (extract_session_keys_from_dtls D state False ((srtp_config_default D)\<lparr>cfg_profile := profile\<rparr>)) (\<lambda>config.
     and_then (srtp_context_new D (local_master_key D (cfg_keys config)) (local_master_salt D (cfg_keys config))
                 (cfg_profile config) (cfg_local_rtp_options config) (cfg_local_rtcp_options config)) (\<lambda>local_context.
     and_then (srtp_context_new D (remote_master_key D (cfg_keys config)) (remote_master_salt D (cfg_keys config))
                 (cfg_profile config)
                 (if cfg_remote_rtp_options config = None
                  then Some (srtp_replay_protection D DEFAULT_SESSION_SRTP_REPLAY_PROTECTION_WINDOW)
                  else cfg_remote_rtp_options config)
                 (if cfg_remote_rtcp_options config = None
                  then Some (srtcp_replay_protection D DEFAULT_SESSION_SRTCP_REPLAY_PROTECTION_WINDOW)
                  else cfg_remote_rtcp_options config)) (\<lambda>remote_context.
     Ok (local_context, remote_context)))))"

section \<open>The handler\<close>

record DtlsHandler =
  dtls_local_addr :: socket_addr
  dtls_transmits :: "TaggedMessageEvent vecdeque"

definition dtls_new :: "socket_addr \<Rightarrow> DtlsHandler" where
  "dtls_new addr = \<lparr>dtls_local_addr = addr, dtls_transmits = []\<rparr>"

definition dtls_outgoing :: "socket_addr \<Rightarrow> dtls_transmit \<Rightarrow> TaggedMessageEvent" where
  "dtls_outgoing addr transmit =
     \<lparr>msg_now = dtx_now transmit,
      msg_transport = \<lparr>ctx_local_addr = addr, ctx_peer_addr = dtx_remote transmit, ecn = dtx_ecn transmit\<rparr>,
      msg_message = Dtls (DtlsRaw (dtx_payload transmit))\<rparr>"

definition dtls_enqueue :: "dtls_transmit list \<Rightarrow> DtlsHandler \<Rightarrow> DtlsHandler" where
  "dtls_enqueue xs h =
     h\<lparr>dtls_transmits := fold (\<lambda>x. push_back (dtls_outgoing (dtls_local_addr h) x)) xs (dtls_transmits h)\<rparr>"

text \<open>The loop over the events of a read: application data and the contexts of completed handshakes.\<close>

fun dtls_events ::
  "dtls_lib \<Rightarrow> dtls_endpoint \<Rightarrow> socket_addr \<Rightarrow> dtls_event list \<Rightarrow> (bytes list \<times> (srtp_context \<times> srtp_context) list) result" where
  "dtls_events D ep peer [] = Ok ([], [])"
| "dtls_events D ep peer (HandshakeComplete # events) =
     (case get_connection_state D ep peer of
        Some state \<Rightarrow>
          and_then (update_srtp_contexts D state) (\<lambda>c.
          and_then (dtls_events D ep peer events) (\<lambda>(messages, contexts). Ok (messages, c # contexts)))
      | None \<Rightarrow> dtls_events D ep peer events)"
| "dtls_events D ep peer (ApplicationData message # events) =
     and_then (dtls_events D ep peer events) (\<lambda>(messages, contexts). Ok (message # messages, contexts))"

definition set_srtp_contexts :: "(srtp_context \<times> srtp_context) list \<Rightarrow> Transport \<Rightarrow> Transport" where
  "set_srtp_contexts contexts t =
     fold (\<lambda>(local_context, remote_context) t. set_remote_srtp_context remote_context (set_local_srtp_context local_context t))
       contexts t"

definition dtls_try_read ::
  "dtls_lib \<Rightarrow> TaggedMessageEvent \<Rightarrow> bytes \<Rightarrow> DtlsHandler \<Rightarrow> ServerStates
   \<Rightarrow> (bytes list result \<times> DtlsHandler \<times> ServerStates) option" where
  "dtls_try_read D msg dtls_message h self =
     (let ft = four_tuple_from (msg_transport msg); peer = ctx_peer_addr (msg_transport msg)
      in case states_get_transport ft self of
           Inl err \<Rightarrow> Some (Err err, h, self)
         | Inr (sid, eid, transport) \<Rightarrow>
             (let (r, ep1) = dtls_read D (msg_now msg) peer (Some (addr_ip (ctx_local_addr (msg_transport msg))))
                               (ecn (msg_transport msg)) dtls_message (tr_dtls_endpoint transport)
              in case and_then r (dtls_events D ep1 peer) of
                   Inl err \<Rightarrow> Some (Err err, h, put_transport sid eid ft (transport\<lparr>tr_dtls_endpoint := ep1\<rparr>) self)
                 | Inr (messages, contexts) \<Rightarrow>
                     map_option (\<lambda>(xs, ep2).
                       (Ok messages, dtls_enqueue xs h,
                        put_transport sid eid ft (set_srtp_contexts contexts (transport\<lparr>tr_dtls_endpoint := ep2\<rparr>)) self))
                       (drain (dtls_poll_transmit D) ep1)))"

definition dtls_handle_read ::
  "dtls_lib \<Rightarrow> TaggedMessageEvent \<Rightarrow> DtlsHandler \<Rightarrow> ServerStates
   \<Rightarrow> (TaggedMessageEvent ctx_call list \<times> DtlsHandler \<times> ServerStates) option" where
  "dtls_handle_read D msg h self =
     (case msg_message msg of
        Dtls (DtlsRaw dtls_message) \<Rightarrow>
          map_option (\<lambda>(r, h1, self1).
            case r of
              Inr messages \<Rightarrow>
                (map (\<lambda>message. FireRead \<lparr>msg_now = msg_now msg, msg_transport = msg_transport msg,
                                          msg_message = Dtls (DtlsRaw message)\<rparr>) messages, h1, self1)
            | Inl err \<Rightarrow>
                if err = ErrAlertFatalOrClose
                then ([], h1, states_remove_transport (four_tuple_from (msg_transport msg)) self1)
                else ([FireException err], h1, self1))
            (dtls_try_read D msg dtls_message h self)
      | _ \<Rightarrow> Some ([FireRead msg], h, self))"

definition dtls_timeout_transport :: "dtls_lib \<Rightarrow> instant \<Rightarrow> Transport \<Rightarrow> (dtls_transmit list \<times> Transport) option" where
  "dtls_timeout_transport D now t =
     (let ep = fold (\<lambda>remote. dtls_handle_timeout D remote now) (get_connections_keys D (tr_dtls_endpoint t)) (tr_dtls_endpoint t)
      in map_option (\<lambda>(xs, ep1). (xs, t\<lparr>tr_dtls_endpoint := ep1\<rparr>)) (drain (dtls_poll_transmit D) ep))"

definition dtls_handler_timeout ::
  "dtls_lib \<Rightarrow> instant \<Rightarrow> DtlsHandler \<Rightarrow> ServerStates
   \<Rightarrow> (TaggedMessageEvent ctx_call list \<times> DtlsHandler \<times> ServerStates) option" where
  "dtls_handler_timeout D now h self =
     map_option (\<lambda>(xs, self1). ([FireTimeout now], dtls_enqueue xs h, self1)) (walk_transports (dtls_timeout_transport D now) self)"

definition dtls_handler_poll_timeout :: "dtls_lib \<Rightarrow> instant \<Rightarrow> ServerStates \<Rightarrow> instant" where
  "dtls_handler_poll_timeout D deadline self =
     fold (\<lambda>session. fold (\<lambda>ep. fold (\<lambda>t.
         fold (dtls_poll_timeout D (tr_dtls_endpoint t)) (get_connections_keys D (tr_dtls_endpoint t)))
         (hm_values (transports ep))) (hm_values (endpoints session))) (hm_values (sessions self)) deadline"

definition dtls_try_write ::
  "dtls_lib \<Rightarrow> TransportContext \<Rightarrow> bytes \<Rightarrow> DtlsHandler \<Rightarrow> ServerStates \<Rightarrow> (unit result \<times> DtlsHandler \<times> ServerStates) option" where
  "dtls_try_write D tc dtls_message h self =
     (let ft = four_tuple_from tc
      in case states_get_transport ft self of
           Inl err \<Rightarrow> Some (Err err, h, self)
         | Inr (sid, eid, transport) \<Rightarrow>
             (case dtls_write D (ctx_peer_addr tc) dtls_message (tr_dtls_endpoint transport) of
                (Inl err, ep1) \<Rightarrow> Some (Err err, h, put_transport sid eid ft (transport\<lparr>tr_dtls_endpoint := ep1\<rparr>) self)
              | (Inr _, ep1) \<Rightarrow>
                  map_option (\<lambda>(xs, ep2).
                    (Ok (), dtls_enqueue xs h, put_transport sid eid ft (transport\<lparr>tr_dtls_endpoint := ep2\<rparr>) self))
                    (drain (dtls_poll_transmit D) ep1)))"

definition dtls_poll_write ::
  "dtls_lib \<Rightarrow> TaggedMessageEvent option \<Rightarrow> DtlsHandler \<Rightarrow> ServerStates
   \<Rightarrow> (TaggedMessageEvent ctx_call list \<times> TaggedMessageEvent option \<times> DtlsHandler \<times> ServerStates) option" where
  "dtls_poll_write D polled h self =
     map_option (\<lambda>(calls, h1, self1).
         let (m, q) = pop_front (dtls_transmits h1) in (calls, m, h1\<lparr>dtls_transmits := q\<rparr>, self1))
       (case polled of
          None \<Rightarrow> Some ([], h, self)
        | Some msg \<Rightarrow>
            (case msg_message msg of
               Dtls (DtlsRaw dtls_message) \<Rightarrow>
                 map_option (\<lambda>(r, h1, self1). (case r of Inr _ \<Rightarrow> [] | Inl err \<Rightarrow> [FireException err], h1, self1))
                   (dtls_try_write D (msg_transport msg) dtls_message h self)
             | _ \<Rightarrow> Some ([], h\<lparr>dtls_transmits := push_back msg (dtls_transmits h)\<rparr>, self)))"

section \<open>The handler keeps the states well formed and returns\<close>

lemma set_srtp_contexts_four_tuple [simp]: "tr_four_tuple (set_srtp_contexts cs t) = tr_four_tuple t"
  by (induction cs arbitrary: t)
    (auto simp: set_srtp_contexts_def set_remote_srtp_context_def set_local_srtp_context_def)

lemma states_wf_dtls_try_read:
  assumes "states_wf d self" "dtls_try_read D msg m h self = Some (r, h', self')"
  shows "states_wf d self'"
  using assms states_wf_put_transport[OF assms(1)]
  by (auto simp: dtls_try_read_def Let_def split: sum.splits prod.splits option.splits)

lemma states_wf_dtls_read:
  assumes "states_wf d self" "dtls_handle_read D msg h self = Some (calls, h', self')"
  shows "states_wf d self'"
proof (cases "\<exists>m. msg_message msg = Dtls (DtlsRaw m)")
  case True
  then obtain m r h1 self1 where m: "msg_message msg = Dtls (DtlsRaw m)"
    and r: "dtls_try_read D msg m h self = Some (r, h1, self1)"
    using assms(2) by (auto simp: dtls_handle_read_def)
  have "states_wf d self1" using assms(1) r by (rule states_wf_dtls_try_read)
  then show ?thesis using assms(2) m r states_wf_remove_transport
    by (auto simp: dtls_handle_read_def split: sum.splits if_splits)
next
  case False
  then show ?thesis using assms
    by (auto simp: dtls_handle_read_def split: MessageEvent.splits DTLSMessageEvent.splits)
qed

lemma dtls_timeout_four_tuple: "dtls_timeout_transport D now t = Some (e, t') \<Longrightarrow> tr_four_tuple t' = tr_four_tuple t"
  by (auto simp: dtls_timeout_transport_def Let_def)

lemma states_wf_dtls_timeout:
  assumes "states_wf d self" "dtls_handler_timeout D now h self = Some (calls, h', self')"
  shows "states_wf d self'"
  using assms(2) states_wf_walk[OF assms(1), of "dtls_timeout_transport D now"] dtls_timeout_four_tuple[of D now]
  by (auto simp: dtls_handler_timeout_def)

lemma states_wf_dtls_try_write:
  assumes "states_wf d self" "dtls_try_write D tc m h self = Some (r, h', self')"
  shows "states_wf d self'"
  using assms states_wf_put_transport[OF assms(1)]
  by (auto simp: dtls_try_write_def Let_def split: sum.splits prod.splits option.splits)

text \<open>The states after \<open>poll_write\<close> are those before it or those after a write to the DTLS endpoint.\<close>

lemma dtls_poll_write_states:
  assumes "dtls_poll_write D polled h self = Some (calls, m, h', self')"
  shows "self' = self \<or> (\<exists>tc b r h1. dtls_try_write D tc b h self = Some (r, h1, self'))"
proof (cases "\<exists>msg b. polled = Some msg \<and> msg_message msg = Dtls (DtlsRaw b)")
  case True
  then show ?thesis using assms by (auto simp: dtls_poll_write_def case_prod_beta Let_def)
next
  case False
  then show ?thesis using assms
    by (auto simp: dtls_poll_write_def case_prod_beta Let_def split: option.splits MessageEvent.splits DTLSMessageEvent.splits)
qed

lemma states_wf_dtls_write:
  assumes "states_wf d self" "dtls_poll_write D polled h self = Some (calls, m, h', self')"
  shows "states_wf d self'"
  using dtls_poll_write_states[OF assms(2)] states_wf_dtls_try_write[OF assms(1)] assms(1) by blast

text \<open>A DTLS endpoint with finitely many pending transmits never blocks the handler.\<close>

lemma dtls_read_returns:
  assumes "pollable (dtls_poll_transmit D) pending"
  shows "dtls_handle_read D msg h self \<noteq> None"
proof -
  have "drain (dtls_poll_transmit D) ep \<noteq> None" for ep using pollable.drain_returns[OF assms, of ep] by auto
  then have "dtls_try_read D msg m h self \<noteq> None" for m
    by (auto simp: dtls_try_read_def Let_def split: sum.splits prod.splits)
  then show ?thesis by (simp add: dtls_handle_read_def del: not_None_eq split: MessageEvent.splits DTLSMessageEvent.splits)
qed

lemma dtls_timeout_returns:
  assumes "pollable (dtls_poll_transmit D) pending"
  shows "dtls_handler_timeout D now h self \<noteq> None"
proof -
  have "drain (dtls_poll_transmit D) ep \<noteq> None" for ep using pollable.drain_returns[OF assms, of ep] by auto
  then have "dtls_timeout_transport D now t \<noteq> None" for t by (auto simp: dtls_timeout_transport_def Let_def)
  from walk_returns[OF this] show ?thesis by (auto simp: dtls_handler_timeout_def)
qed

lemma dtls_write_returns:
  assumes "pollable (dtls_poll_transmit D) pending"
  shows "dtls_poll_write D polled h self \<noteq> None"
proof -
  have "drain (dtls_poll_transmit D) ep \<noteq> None" for ep using pollable.drain_returns[OF assms, of ep] by auto
  then have "dtls_try_write D tc m h self \<noteq> None" for tc m
    by (auto simp: dtls_try_write_def Let_def split: sum.splits prod.splits)
  then show ?thesis
    by (simp add: dtls_poll_write_def del: not_None_eq split: option.split MessageEvent.splits DTLSMessageEvent.splits)
qed

section \<open>Properties\<close>

text \<open>
  C16: A fatal alert or a close of the DTLS connection ends the transport: it is removed, all others stay, and
  nothing is passed on.
\<close>

theorem dtls_close_removes_transport:
  assumes "msg_message msg = Dtls (DtlsRaw m)" "ft = four_tuple_from (msg_transport msg)"
    and "states_get_transport ft self = Ok (sid, eid, t)"
    and "fst (dtls_read D (msg_now msg) (ctx_peer_addr (msg_transport msg)) (Some (addr_ip (ctx_local_addr (msg_transport msg))))
      (ecn (msg_transport msg)) m (tr_dtls_endpoint t)) = Err ErrAlertFatalOrClose"
  shows "\<exists>self'. dtls_handle_read D msg h self = Some ([], h, self') \<and>
    (\<forall>i e f. transport_at i e f self' = (if (i, e, f) = (sid, eid, ft) then None else transport_at i e f self))"
proof -
  obtain ep1 where "dtls_read D (msg_now msg) (ctx_peer_addr (msg_transport msg)) (Some (addr_ip (ctx_local_addr (msg_transport msg))))
      (ecn (msg_transport msg)) m (tr_dtls_endpoint t) = (Err ErrAlertFatalOrClose, ep1)"
    using assms(4) by (metis prod.collapse)
  then have "dtls_handle_read D msg h self =
      Some ([], h, states_remove_transport ft (put_transport sid eid ft (t\<lparr>tr_dtls_endpoint := ep1\<rparr>) self))"
    using assms(1-3) by (simp add: dtls_handle_read_def dtls_try_read_def)
  moreover have "find_endpoint ft self = Some (sid, eid)" using get_transport_find[OF assms(3)] by simp
  ultimately show ?thesis using transport_at_put_transport[OF assms(3)]
    by (auto simp: remove_transport_at)
qed

lemma dtls_events_contexts:
  "dtls_events D ep peer evs = Ok (ms, cs) \<Longrightarrow>
   \<forall>c\<in>set cs. HandshakeComplete \<in> set evs \<and> (\<exists>state. get_connection_state D ep peer = Some state \<and> update_srtp_contexts D state = Ok c)"
  by (induction D ep peer evs arbitrary: ms cs rule: dtls_events.induct)
    (fastforce simp: result_simps split: option.splits)+

lemma set_srtp_contexts_last:
  "cs = [] \<and> set_srtp_contexts cs t = t \<or>
   (\<exists>c\<in>set cs. local_srtp_context (set_srtp_contexts cs t) = Some (fst c) \<and> remote_srtp_context (set_srtp_contexts cs t) = Some (snd c))"
proof (induction cs rule: rev_induct)
  case (snoc c cs)
  then show ?case
    by (cases c) (auto simp: set_srtp_contexts_def set_remote_srtp_context_def set_local_srtp_context_def)
qed (simp add: set_srtp_contexts_def)

text \<open>
  C9: Reading DTLS records gives a transport SRTP contexts only when a handshake on it has completed: then both
  contexts are those of the keys that this handshake exported. Otherwise no transport changes its contexts.
\<close>

theorem srtp_contexts_from_handshake:
  assumes "dtls_handle_read D msg h self = Some (calls, h', self')" "transport_at i e f self' = Some t'"
  shows "\<exists>t. transport_at i e f self = Some t \<and>
    ((local_srtp_context t', remote_srtp_context t') = (local_srtp_context t, remote_srtp_context t) \<or>
     f = four_tuple_from (msg_transport msg) \<and> find_endpoint f self = Some (i, e) \<and>
     (\<exists>m evs ep state lc rc. msg_message msg = Dtls (DtlsRaw m) \<and>
        dtls_read D (msg_now msg) (ctx_peer_addr (msg_transport msg)) (Some (addr_ip (ctx_local_addr (msg_transport msg))))
          (ecn (msg_transport msg)) m (tr_dtls_endpoint t) = (Ok evs, ep) \<and> HandshakeComplete \<in> set evs \<and>
        get_connection_state D ep (ctx_peer_addr (msg_transport msg)) = Some state \<and>
        update_srtp_contexts D state = Ok (lc, rc) \<and>
        local_srtp_context t' = Some lc \<and> remote_srtp_context t' = Some rc))"
proof (cases "\<exists>m. msg_message msg = Dtls (DtlsRaw m)")
  case False
  then have "self' = self" using assms(1)
    by (auto simp: dtls_handle_read_def split: MessageEvent.splits DTLSMessageEvent.splits)
  then show ?thesis using assms(2) by auto
next
  case True
  then obtain m where m: "msg_message msg = Dtls (DtlsRaw m)" by blast
  let ?ft = "four_tuple_from (msg_transport msg)" and ?peer = "ctx_peer_addr (msg_transport msg)"
  obtain r h1 self1 where r: "dtls_try_read D msg m h self = Some (r, h1, self1)"
    using assms(1) m by (auto simp: dtls_handle_read_def)
  have at: "transport_at i e f self1 = Some t'"
    using assms m r by (auto simp: dtls_handle_read_def remove_transport_at split: sum.splits if_splits)
  show ?thesis
  proof (cases "states_get_transport ?ft self")
    case (Inl err)
    then show ?thesis using r at by (auto simp: dtls_try_read_def)
  next
    case (Inr x)
    obtain sid eid t where x: "x = (sid, eid, t)" by (cases x)
    note got = Inr[unfolded x]
    obtain k ep1 where k: "dtls_read D (msg_now msg) ?peer (Some (addr_ip (ctx_local_addr (msg_transport msg))))
        (ecn (msg_transport msg)) m (tr_dtls_endpoint t) = (k, ep1)" by fastforce
    show ?thesis
    proof (cases "and_then k (dtls_events D ep1 ?peer)")
      case (Inl err)
      then have "self1 = put_transport sid eid ?ft (t\<lparr>tr_dtls_endpoint := ep1\<rparr>) self"
        using r got k by (simp add: dtls_try_read_def)
      then show ?thesis using at transport_at_put_transport[OF got] get_transport_find[OF got] by (auto split: if_splits)
    next
      case (Inr y)
      obtain ms cs evs where y: "y = (ms, cs)" "k = Ok evs" "dtls_events D ep1 ?peer evs = Ok (ms, cs)"
        using Inr by (cases y) (auto simp: result_simps)
      obtain ep2 where s1: "self1 = put_transport sid eid ?ft (set_srtp_contexts cs (t\<lparr>tr_dtls_endpoint := ep2\<rparr>)) self"
        using r got k y by (auto simp: dtls_try_read_def)
      show ?thesis
      proof (cases "(i, e, f) = (sid, eid, ?ft)")
        case True
        then have t': "t' = set_srtp_contexts cs (t\<lparr>tr_dtls_endpoint := ep2\<rparr>)"
          using at s1 transport_at_put_transport[OF got] by simp
        show ?thesis
          using set_srtp_contexts_last[of cs "t\<lparr>tr_dtls_endpoint := ep2\<rparr>"] dtls_events_contexts[OF y(3)] True t' k y(2) m
            get_transport_find[OF got] by auto
      next
        case False
        then show ?thesis using at s1 transport_at_put_transport[OF got] by auto
      qed
    qed
  qed
qed

text \<open>A DTLS crate with a fixed outcome of every read.\<close>

definition sample_dtls :: "dtls_event list result \<Rightarrow> dtls_lib" where
  "sample_dtls r = \<lparr>dtls_read = \<lambda>_ _ _ _ _ ep. (r, ep), dtls_write = \<lambda>_ _ ep. (Ok (), ep),
     dtls_poll_transmit = \<lambda>ep. (None, ep), get_connections_keys = \<lambda>_. [], get_connection_state = \<lambda>_ _. Some undefined,
     dtls_handle_timeout = \<lambda>_ _ ep. ep, dtls_poll_timeout = \<lambda>_ _ t. t,
     srtp_protection_profile = \<lambda>_. Srtp_Aead_Aes_128_Gcm, srtp_config_default = undefined,
     extract_session_keys_from_dtls = \<lambda>_ _ c. Ok c, local_master_key = \<lambda>_. [1], local_master_salt = \<lambda>_. [2],
     remote_master_key = \<lambda>_. [3], remote_master_salt = \<lambda>_. [4],
     srtp_context_new = \<lambda>_ _ _ _ _. Ok undefined, srtp_replay_protection = \<lambda>_. undefined,
     srtcp_replay_protection = \<lambda>_. undefined\<rparr>"

lemma sample_dtls_pollable: "pollable (dtls_poll_transmit (sample_dtls r)) (\<lambda>_. 0)"
  by (simp add: pollable_def sample_dtls_def)

definition sample_dtls_record :: TaggedMessageEvent where
  "sample_dtls_record = \<lparr>msg_now = 0, msg_transport = sample_context 7, msg_message = Dtls (DtlsRaw [22])\<rparr>"

theorem dtls_close_removes_transport_witness:
  "\<exists>self'. dtls_handle_read (sample_dtls (Err ErrAlertFatalOrClose)) sample_dtls_record (dtls_new (SocketAddrV4 0 0)) sample_states =
      Some ([], dtls_new (SocketAddrV4 0 0), self') \<and>
    transport_at 1 7 (four_tuple_from (sample_context 7)) self' = None"
proof -
  obtain t where "states_get_transport (four_tuple_from (sample_context 7)) sample_states = Ok (1, 7, t)"
    using sample_get_transport by blast
  with dtls_close_removes_transport[of sample_dtls_record "[22]" "four_tuple_from (sample_context 7)" sample_states 1 7 t
      "sample_dtls (Err ErrAlertFatalOrClose)" "dtls_new (SocketAddrV4 0 0)"]
  show ?thesis by (auto simp: sample_dtls_record_def sample_dtls_def)
qed

theorem srtp_contexts_from_handshake_witness:
  "\<exists>calls h' self' t'.
     dtls_handle_read (sample_dtls (Ok [HandshakeComplete])) sample_dtls_record (dtls_new (SocketAddrV4 0 0)) sample_states =
       Some (calls, h', self') \<and>
     transport_at 1 7 (four_tuple_from (sample_context 7)) self' = Some t' \<and>
     (\<exists>t. transport_at 1 7 (four_tuple_from (sample_context 7)) sample_states = Some t)"
proof -
  let ?D = "sample_dtls (Ok [HandshakeComplete])" and ?ft = "four_tuple_from (sample_context 7)"
  obtain t where t: "states_get_transport ?ft sample_states = Ok (1, 7, t)" using sample_get_transport by blast
  have D: "update_srtp_contexts ?D st = Ok (undefined, undefined)" "get_connection_state ?D ep a = Some undefined"
    "dtls_read ?D now p l ec m ep = (Ok [HandshakeComplete], ep)" for st ep a now p l ec m
    by (simp_all add: update_srtp_contexts_def sample_dtls_def srtp_profile_def)
  have dr: "drain (dtls_poll_transmit ?D) ep = Some ([], ep)" for ep by (rule drain_stop) (simp add: sample_dtls_def)
  have "\<exists>h' t'. dtls_try_read ?D sample_dtls_record [22] (dtls_new (SocketAddrV4 0 0)) sample_states =
      Some (Ok [], h', put_transport 1 7 ?ft t' sample_states)"
    using t by (simp add: dtls_try_read_def sample_dtls_record_def D dr Let_def) blast
  then have "\<exists>calls h' t'. dtls_handle_read ?D sample_dtls_record (dtls_new (SocketAddrV4 0 0)) sample_states =
      Some (calls, h', put_transport 1 7 ?ft t' sample_states)"
    by (fastforce simp: dtls_handle_read_def sample_dtls_record_def)
  then obtain calls h' t' where r: "dtls_handle_read ?D sample_dtls_record (dtls_new (SocketAddrV4 0 0)) sample_states =
      Some (calls, h', put_transport 1 7 ?ft t' sample_states)" by blast
  have "transport_at 1 7 ?ft (put_transport 1 7 ?ft t' sample_states) = Some t'"
    using transport_at_put_transport[OF t] by simp
  with srtp_contexts_from_handshake[OF r this] r show ?thesis by blast
qed

end
