(* ===== verification/Sctp_Handler.thy ===== *)
theory Sctp_Handler
  imports Dtls_Handler
begin

text \<open>
  \<open>src/handlers/sctp.rs\<close>: decrypted DTLS payloads are given to the SCTP endpoint of their transport; messages of
  its streams go on to the data channel handler, packets of its associations go back to DTLS.

  \<open>sctp_lib\<close> holds what the handler calls of the \<open>sctp\<close> crate. A \<open>Stream\<close> is a view of one stream of its association.
\<close>

section \<open>The SCTP crate\<close>

typedecl sctp_chunks
typedecl association_event
typedecl endpoint_event
typedecl partial_decode
typedecl sctp_event_rest

datatype datagram_event = NewAssociation sctp_association | AssociationEvent association_event

datatype sctp_event = StreamReadable u16 | OtherEvent sctp_event_rest

datatype PayloadProtocolIdentifier =
    PpidDcep
  | PpidString
  | PpidBinary
  | PpidStringEmpty
  | PpidBinaryEmpty
  | PpidUnknown

datatype sctp_payload = RawEncode "bytes list" | PartialDecode partial_decode

record Transmit =
  stx_now :: instant
  stx_remote :: socket_addr
  stx_payload :: sctp_payload
  stx_ecn :: "ecn_codepoint option"
  stx_local_ip :: "ip_addr option"

record sctp_lib =
  sctp_handle :: "instant \<Rightarrow> socket_addr \<Rightarrow> ip_addr option \<Rightarrow> ecn_codepoint option \<Rightarrow> bytes \<Rightarrow> sctp_endpoint
    \<Rightarrow> (usize \<times> datagram_event) option \<times> sctp_endpoint"
  sctp_endpoint_handle_event :: "usize \<Rightarrow> endpoint_event \<Rightarrow> sctp_endpoint \<Rightarrow> sctp_endpoint"
  assoc_handle_event :: "association_event \<Rightarrow> sctp_association \<Rightarrow> sctp_association"
  assoc_poll :: "sctp_association \<Rightarrow> sctp_event option \<times> sctp_association"
  assoc_poll_endpoint_event :: "sctp_association \<Rightarrow> endpoint_event option \<times> sctp_association"
  assoc_poll_transmit :: "instant \<Rightarrow> sctp_association \<Rightarrow> Transmit option \<times> sctp_association"
  assoc_handle_timeout :: "instant \<Rightarrow> sctp_association \<Rightarrow> sctp_association"
  assoc_poll_timeout :: "sctp_association \<Rightarrow> instant option"
  assoc_stream :: "u16 \<Rightarrow> sctp_association \<Rightarrow> unit result"
  read_sctp :: "u16 \<Rightarrow> sctp_association \<Rightarrow> (sctp_chunks option, sctp_association) outcome"
  chunks_read :: "sctp_chunks \<Rightarrow> bytes \<Rightarrow> (usize, bytes) outcome"
  chunks_ppi :: "sctp_chunks \<Rightarrow> PayloadProtocolIdentifier"
  set_reliability_params :: "u16 \<Rightarrow> bool \<Rightarrow> ReliabilityType \<Rightarrow> u32 \<Rightarrow> sctp_association \<Rightarrow> (unit, sctp_association) outcome"
  write_with_ppi :: "u16 \<Rightarrow> bytes \<Rightarrow> PayloadProtocolIdentifier \<Rightarrow> sctp_association \<Rightarrow> (usize, sctp_association) outcome"

section \<open>Conversions\<close>

definition split_transmit :: "Transmit \<Rightarrow> Transmit list" where
  "split_transmit transmit =
     (case stx_payload transmit of
        RawEncode contents \<Rightarrow> map (\<lambda>content. transmit\<lparr>stx_payload := RawEncode [content]\<rparr>) contents
      | _ \<Rightarrow> [])"

definition to_data_message_type :: "PayloadProtocolIdentifier \<Rightarrow> DataChannelMessageType" where
  "to_data_message_type ppid =
     (case ppid of
        PpidDcep \<Rightarrow> DcControl
      | PpidString \<Rightarrow> DcText
      | PpidStringEmpty \<Rightarrow> DcText
      | PpidBinary \<Rightarrow> DcBinary
      | PpidBinaryEmpty \<Rightarrow> DcBinary
      | _ \<Rightarrow> DcNone)"

definition to_ppid :: "DataChannelMessageType \<Rightarrow> nat \<Rightarrow> PayloadProtocolIdentifier" where
  "to_ppid message_type len =
     (case message_type of
        DcText \<Rightarrow> if len > 0 then PpidString else PpidStringEmpty
      | DcBinary \<Rightarrow> if len > 0 then PpidBinary else PpidBinaryEmpty
      | _ \<Rightarrow> PpidDcep)"

section \<open>Reading an association\<close>

datatype SctpMessage = SctpInbound DataChannelMessage | SctpOutbound Transmit

text \<open>
  \<open>while let Some(chunks) = stream.read_sctp()?\<close>: the messages of one stream, the buffer and the association. The
  messages are read through the buffer of the handler.
\<close>

partial_function (option) read_stream ::
  "sctp_lib \<Rightarrow> usize \<Rightarrow> u16 \<Rightarrow> bytes \<Rightarrow> sctp_association
   \<Rightarrow> (DataChannelMessage list result \<times> bytes \<times> sctp_association) option" where
  "read_stream S ch sid buf conn =
     (case read_sctp S sid conn of
        (r, conn1) \<Rightarrow>
          (case r of
             Inl err \<Rightarrow> Some (Err err, buf, conn1)
           | Inr c \<Rightarrow>
               (case c of
                  None \<Rightarrow> Some (Ok [], buf, conn1)
                | Some chunks \<Rightarrow>
                    (case chunks_read S chunks buf of
                       (r1, buf1) \<Rightarrow>
                         (case r1 of
                            Inl err \<Rightarrow> Some (Err err, buf1, conn1)
                          | Inr n \<Rightarrow>
                              if length buf1 < unat n then Some (Err (Panic ''range end index out of range''), buf1, conn1)
                              else
                                Option.bind (read_stream S ch sid buf1 conn1) (\<lambda>(rest, buf2, conn2).
                                  Some (and_then rest (\<lambda>ms.
                                    Ok (\<lparr>dcm_association_handle = ch, dcm_stream_id = sid,
                                         dcm_data_message_type = to_data_message_type (chunks_ppi S chunks),
                                         dcm_params = None, dcm_payload = take (unat n) buf1\<rparr> # ms)), buf2, conn2)))))))"

text \<open>The body of \<open>while let Some(event) = conn.poll()\<close>, then the loop.\<close>

definition read_event ::
  "sctp_lib \<Rightarrow> usize \<Rightarrow> sctp_event \<Rightarrow> bytes \<Rightarrow> sctp_association
   \<Rightarrow> (DataChannelMessage list result \<times> bytes \<times> sctp_association) option" where
  "read_event S ch event buf conn =
     (case event of
        StreamReadable sid \<Rightarrow>
          (case assoc_stream S sid conn of
             Inl err \<Rightarrow> Some (Err err, buf, conn)
           | Inr _ \<Rightarrow> read_stream S ch sid buf conn)
      | OtherEvent _ \<Rightarrow> Some (Ok [], buf, conn))"

partial_function (option) read_events ::
  "sctp_lib \<Rightarrow> usize \<Rightarrow> bytes \<Rightarrow> sctp_association
   \<Rightarrow> (DataChannelMessage list result \<times> bytes \<times> sctp_association) option" where
  "read_events S ch buf conn =
     (case assoc_poll S conn of
        (e, conn1) \<Rightarrow>
          (case e of
             None \<Rightarrow> Some (Ok [], buf, conn1)
           | Some event \<Rightarrow>
               Option.bind (read_event S ch event buf conn1) (\<lambda>(r, buf1, conn2).
                 case r of
                   Inl err \<Rightarrow> Some (Err err, buf1, conn2)
                 | Inr ms \<Rightarrow>
                     Option.bind (read_events S ch buf1 conn2) (\<lambda>(rest, buf2, conn3).
                       Some (and_then rest (\<lambda>ms'. Ok (ms @ ms')), buf2, conn3)))))"

text \<open>One pass of the loop over the associations, with the events that are addressed to the association.\<close>

definition read_association ::
  "sctp_lib \<Rightarrow> instant \<Rightarrow> (usize, association_event list) hashmap \<Rightarrow> usize \<Rightarrow> bytes \<Rightarrow> sctp_association
   \<Rightarrow> ((SctpMessage list \<times> endpoint_event list) result \<times> bytes \<times> sctp_association) option" where
  "read_association S now sctp_events ch buf conn =
     (let conn1 = fold (assoc_handle_event S) (case hm_get sctp_events ch of Some es \<Rightarrow> es | None \<Rightarrow> []) conn
      in Option.bind (read_events S ch buf conn1) (\<lambda>(r, buf1, conn2).
           case r of
             Inl err \<Rightarrow> Some (Err err, buf1, conn2)
           | Inr inbound \<Rightarrow>
               Option.bind (drain (assoc_poll_endpoint_event S) conn2) (\<lambda>(events, conn3).
               Option.bind (drain (assoc_poll_transmit S now) conn3) (\<lambda>(xs, conn4).
                 Some (Ok (map SctpInbound inbound @ map SctpOutbound (concat (map split_transmit xs)), events), buf1, conn4)))))"

fun read_associations ::
  "sctp_lib \<Rightarrow> instant \<Rightarrow> (usize, association_event list) hashmap \<Rightarrow> bytes \<Rightarrow> (usize, sctp_association) hashmap
   \<Rightarrow> ((SctpMessage list \<times> (usize \<times> endpoint_event) list) result \<times> bytes \<times> (usize, sctp_association) hashmap) option" where
  "read_associations S now sctp_events buf [] = Some (Ok ([], []), buf, [])"
| "read_associations S now sctp_events buf ((ch, conn) # assocs) =
     Option.bind (read_association S now sctp_events ch buf conn) (\<lambda>(r, buf1, conn1).
       case r of
         Inl err \<Rightarrow> Some (Err err, buf1, (ch, conn1) # assocs)
       | Inr (ms, events) \<Rightarrow>
           Option.bind (read_associations S now sctp_events buf1 assocs) (\<lambda>(rest, buf2, assocs1).
             Some (and_then rest (\<lambda>(ms', events'). Ok (ms @ ms', map (Pair ch) events @ events')),
                   buf2, (ch, conn1) # assocs1)))"

text \<open>The loop over the endpoint events: each one is handled and ends its association.\<close>

definition end_associations :: "sctp_lib \<Rightarrow> (usize \<times> endpoint_event) list \<Rightarrow> Transport \<Rightarrow> Transport" where
  "end_associations S events t =
     fold (\<lambda>(ch, event) t. t\<lparr>tr_sctp_endpoint := sctp_endpoint_handle_event S ch event (tr_sctp_endpoint t),
                               sctp_associations := hm_remove ch (sctp_associations t)\<rparr>) events t"

section \<open>The handler\<close>

record SctpHandler =
  sctp_local_addr :: socket_addr
  internal_buffer :: bytes
  sctp_transmits :: "TaggedMessageEvent vecdeque"

definition max_message_size :: "ServerStates \<Rightarrow> nat" where
  "max_message_size self = unat (sctp_max_message_size (cfg_sctp_server_config (st_server_config self)))"

definition sctp_new :: "socket_addr \<Rightarrow> ServerStates \<Rightarrow> SctpHandler" where
  "sctp_new addr self =
     \<lparr>sctp_local_addr = addr, internal_buffer = replicate (max_message_size self) 0, sctp_transmits = []\<rparr>"

definition sctp_outgoing :: "socket_addr \<Rightarrow> Transmit \<Rightarrow> TaggedMessageEvent list" where
  "sctp_outgoing addr transmit =
     (case stx_payload transmit of
        RawEncode raw_data \<Rightarrow>
          map (\<lambda>raw. \<lparr>msg_now = stx_now transmit,
                      msg_transport = \<lparr>ctx_local_addr = addr, ctx_peer_addr = stx_remote transmit, ecn = stx_ecn transmit\<rparr>,
                      msg_message = Dtls (DtlsRaw raw)\<rparr>) raw_data
      | _ \<Rightarrow> [])"

definition sctp_enqueue :: "Transmit list \<Rightarrow> SctpHandler \<Rightarrow> SctpHandler" where
  "sctp_enqueue xs h =
     h\<lparr>sctp_transmits := fold (\<lambda>x q. fold push_back (sctp_outgoing (sctp_local_addr h) x) q) xs (sctp_transmits h)\<rparr>"

definition sctp_try_read ::
  "sctp_lib \<Rightarrow> TaggedMessageEvent \<Rightarrow> bytes \<Rightarrow> SctpHandler \<Rightarrow> ServerStates
   \<Rightarrow> (SctpMessage list result \<times> SctpHandler \<times> ServerStates) option" where
  "sctp_try_read S msg dtls_message h self =
     (let ft = four_tuple_from (msg_transport msg)
      in case states_get_transport ft self of
           Inl err \<Rightarrow> Some (Err err, h, self)
         | Inr (sid, eid, transport) \<Rightarrow>
             (let (e, ep1) = sctp_handle S (msg_now msg) (ctx_peer_addr (msg_transport msg))
                               (Some (addr_ip (ctx_local_addr (msg_transport msg)))) (ecn (msg_transport msg))
                               dtls_message (tr_sctp_endpoint transport);
                  (assocs, sctp_events) =
                    (case e of
                       None \<Rightarrow> (sctp_associations transport, [])
                     | Some (ch, NewAssociation conn) \<Rightarrow> (hm_insert ch conn (sctp_associations transport), [])
                     | Some (ch, AssociationEvent event) \<Rightarrow> (sctp_associations transport, [(ch, [event])]))
              in map_option (\<lambda>(r, buf, assocs1).
                   let transport1 = transport\<lparr>tr_sctp_endpoint := ep1, sctp_associations := assocs1\<rparr>
                   in case r of
                        Inl err \<Rightarrow> (Err err, h\<lparr>internal_buffer := buf\<rparr>, put_transport sid eid ft transport1 self)
                      | Inr (messages, endpoint_events) \<Rightarrow>
                          (Ok messages, h\<lparr>internal_buffer := buf\<rparr>,
                           put_transport sid eid ft (end_associations S endpoint_events transport1) self))
                   (read_associations S (msg_now msg) sctp_events (internal_buffer h) assocs)))"

definition sctp_inbound :: "TaggedMessageEvent \<Rightarrow> SctpMessage list \<Rightarrow> TaggedMessageEvent ctx_call list" where
  "sctp_inbound msg messages =
     concat (map (\<lambda>m. case m of
         SctpInbound message \<Rightarrow> [FireRead \<lparr>msg_now = msg_now msg, msg_transport = msg_transport msg,
                                          msg_message = Dtls (DtlsSctp message)\<rparr>]
       | SctpOutbound _ \<Rightarrow> []) messages)"

definition sctp_outbound :: "SctpMessage list \<Rightarrow> Transmit list" where
  "sctp_outbound messages = concat (map (\<lambda>m. case m of SctpInbound _ \<Rightarrow> [] | SctpOutbound x \<Rightarrow> [x]) messages)"

definition sctp_handle_read ::
  "sctp_lib \<Rightarrow> TaggedMessageEvent \<Rightarrow> SctpHandler \<Rightarrow> ServerStates
   \<Rightarrow> (TaggedMessageEvent ctx_call list \<times> SctpHandler \<times> ServerStates) option" where
  "sctp_handle_read S msg h self =
     (case msg_message msg of
        Dtls (DtlsRaw dtls_message) \<Rightarrow>
          map_option (\<lambda>(r, h1, self1).
            case r of
              Inr messages \<Rightarrow> (sctp_inbound msg messages, sctp_enqueue (sctp_outbound messages) h1, self1)
            | Inl err \<Rightarrow> ([FireException err], h1, self1))
            (sctp_try_read S msg dtls_message h self)
      | _ \<Rightarrow> Some ([FireRead msg], h, self))"

section \<open>Time\<close>

definition sctp_timeout_association ::
  "sctp_lib \<Rightarrow> instant \<Rightarrow> sctp_association \<Rightarrow> (endpoint_event list \<times> Transmit list \<times> sctp_association) option" where
  "sctp_timeout_association S now conn =
     Option.bind (drain (assoc_poll_endpoint_event S) (assoc_handle_timeout S now conn)) (\<lambda>(events, conn1).
     Option.bind (drain (assoc_poll_transmit S now) conn1) (\<lambda>(xs, conn2).
       Some (events, concat (map split_transmit xs), conn2)))"

fun sctp_timeout_associations ::
  "sctp_lib \<Rightarrow> instant \<Rightarrow> (usize, sctp_association) hashmap
   \<Rightarrow> ((usize \<times> endpoint_event) list \<times> Transmit list \<times> (usize, sctp_association) hashmap) option" where
  "sctp_timeout_associations S now [] = Some ([], [], [])"
| "sctp_timeout_associations S now ((ch, conn) # assocs) =
     Option.bind (sctp_timeout_association S now conn) (\<lambda>(events, xs, conn1).
     Option.bind (sctp_timeout_associations S now assocs) (\<lambda>(events', xs', assocs1).
       Some (map (Pair ch) events @ events', xs @ xs', (ch, conn1) # assocs1)))"

definition sctp_timeout_transport :: "sctp_lib \<Rightarrow> instant \<Rightarrow> Transport \<Rightarrow> (Transmit list \<times> Transport) option" where
  "sctp_timeout_transport S now t =
     map_option (\<lambda>(events, xs, assocs). (xs, end_associations S events (t\<lparr>sctp_associations := assocs\<rparr>)))
       (sctp_timeout_associations S now (sctp_associations t))"

definition sctp_handler_timeout ::
  "sctp_lib \<Rightarrow> instant \<Rightarrow> SctpHandler \<Rightarrow> ServerStates
   \<Rightarrow> (TaggedMessageEvent ctx_call list \<times> SctpHandler \<times> ServerStates) option" where
  "sctp_handler_timeout S now h self =
     map_option (\<lambda>(xs, self1). ([FireTimeout now], sctp_enqueue xs h, self1)) (walk_transports (sctp_timeout_transport S now) self)"

definition sctp_handler_poll_timeout :: "sctp_lib \<Rightarrow> instant \<Rightarrow> ServerStates \<Rightarrow> instant" where
  "sctp_handler_poll_timeout S deadline self =
     fold (\<lambda>session. fold (\<lambda>ep. fold (\<lambda>t. fold (\<lambda>conn deadline.
         case assoc_poll_timeout S conn of
           Some timeout \<Rightarrow> if timeout < deadline then timeout else deadline
         | None \<Rightarrow> deadline) (hm_values (sctp_associations t)))
         (hm_values (transports ep))) (hm_values (endpoints session))) (hm_values (sessions self)) deadline"

section \<open>Writing\<close>

text \<open>The writes to one stream of an association: its parameters, then the payload.\<close>

definition write_stream :: "sctp_lib \<Rightarrow> DataChannelMessage \<Rightarrow> sctp_association \<Rightarrow> (unit, sctp_association) outcome" where
  "write_stream S message conn =
     (case assoc_stream S (dcm_stream_id message) conn of
        Inl err \<Rightarrow> (Err err, conn)
      | Inr _ \<Rightarrow>
          (case (case dcm_params message of
                   Some p \<Rightarrow> set_reliability_params S (dcm_stream_id message) (unordered p) (reliability_type p)
                              (reliability_parameter p) conn
                 | None \<Rightarrow> (Ok (), conn)) of
             (Inl err, conn1) \<Rightarrow> (Err err, conn1)
           | (Inr _, conn1) \<Rightarrow>
               (case write_with_ppi S (dcm_stream_id message) (dcm_payload message)
                       (to_ppid (dcm_data_message_type message) (length (dcm_payload message))) conn1 of
                  (Inl err, conn2) \<Rightarrow> (Err err, conn2)
                | (Inr _, conn2) \<Rightarrow> (Ok (), conn2))))"

definition sctp_try_write ::
  "sctp_lib \<Rightarrow> TaggedMessageEvent \<Rightarrow> DataChannelMessage \<Rightarrow> ServerStates \<Rightarrow> (Transmit list result \<times> ServerStates) option" where
  "sctp_try_write S msg message self =
     (if length (dcm_payload message) > max_message_size self then Some (Err ErrOutboundPacketTooLarge, self)
      else
        (let ft = four_tuple_from (msg_transport msg)
         in case states_get_transport ft self of
              Inl err \<Rightarrow> Some (Err err, self)
            | Inr (sid, eid, transport) \<Rightarrow>
                (case hm_get (sctp_associations transport) (dcm_association_handle message) of
                   None \<Rightarrow> Some (Err ErrAssociationNotExisted, self)
                 | Some conn \<Rightarrow>
                     (let put = (\<lambda>c. put_transport sid eid ft
                                   (transport\<lparr>sctp_associations := hm_insert (dcm_association_handle message) c
                                      (sctp_associations transport)\<rparr>) self)
                      in case write_stream S message conn of
                           (Inl err, conn1) \<Rightarrow> Some (Err err, put conn1)
                         | (Inr _, conn1) \<Rightarrow>
                             map_option (\<lambda>(xs, conn2). (Ok (concat (map split_transmit xs)), put conn2))
                               (drain (assoc_poll_transmit S (msg_now msg)) conn1)))))"

definition sctp_poll_write ::
  "sctp_lib \<Rightarrow> TaggedMessageEvent option \<Rightarrow> SctpHandler \<Rightarrow> ServerStates
   \<Rightarrow> (TaggedMessageEvent ctx_call list \<times> TaggedMessageEvent option \<times> SctpHandler \<times> ServerStates) option" where
  "sctp_poll_write S polled h self =
     map_option (\<lambda>(calls, h1, self1).
         let (m, q) = pop_front (sctp_transmits h1) in (calls, m, h1\<lparr>sctp_transmits := q\<rparr>, self1))
       (case polled of
          None \<Rightarrow> Some ([], h, self)
        | Some msg \<Rightarrow>
            (case msg_message msg of
               Dtls (DtlsSctp message) \<Rightarrow>
                 map_option (\<lambda>(r, self1).
                   case r of
                     Inr xs \<Rightarrow> ([], sctp_enqueue xs h, self1)
                   | Inl err \<Rightarrow> ([FireException err], h, self1)) (sctp_try_write S msg message self)
             | _ \<Rightarrow> Some ([], h\<lparr>sctp_transmits := push_back msg (sctp_transmits h)\<rparr>, self)))"

section \<open>The handler keeps the states well formed\<close>

lemma end_associations_frame [simp]:
  "tr_four_tuple (end_associations S events t) = tr_four_tuple t"
  "tr_candidate (end_associations S events t) = tr_candidate t"
  "local_srtp_context (end_associations S events t) = local_srtp_context t"
  by (induction events arbitrary: t) (auto simp: end_associations_def)

text \<open>How a read ends: the transport is unknown, or its associations were read.\<close>

lemma sctp_try_read_cases:
  assumes "sctp_try_read S msg m h self = Some (r, h', self')"
  obtains (missing) err where "states_get_transport (four_tuple_from (msg_transport msg)) self = Err err"
      "r = Err err" "h' = h" "self' = self"
    | (read) sid eid t t' evs assocs r1 buf assocs1 where
        "states_get_transport (four_tuple_from (msg_transport msg)) self = Ok (sid, eid, t)"
        "read_associations S (msg_now msg) evs (internal_buffer h) assocs = Some (r1, buf, assocs1)"
        "h' = h\<lparr>internal_buffer := buf\<rparr>" "r = and_then r1 (\<lambda>(ms, _). Ok ms)"
        "self' = put_transport sid eid (four_tuple_from (msg_transport msg)) t' self" "tr_four_tuple t' = tr_four_tuple t"
        "tr_candidate t' = tr_candidate t" "local_srtp_context t' = local_srtp_context t"
proof (cases "states_get_transport (four_tuple_from (msg_transport msg)) self")
  case (Inl err)
  then have "r = Err err" "h' = h" "self' = self" using assms by (simp_all add: sctp_try_read_def)
  with Inl show thesis by (rule missing)
next
  case (Inr x)
  obtain sid eid t where x: "x = (sid, eid, t)" by (cases x)
  obtain e ep1 where e: "sctp_handle S (msg_now msg) (ctx_peer_addr (msg_transport msg))
      (Some (addr_ip (ctx_local_addr (msg_transport msg)))) (ecn (msg_transport msg)) m (tr_sctp_endpoint t) = (e, ep1)"
    by fastforce
  obtain assocs evs where a: "(case e of
      None \<Rightarrow> (sctp_associations t, [])
    | Some (ch, NewAssociation conn) \<Rightarrow> (hm_insert ch conn (sctp_associations t), [])
    | Some (ch, AssociationEvent event) \<Rightarrow> (sctp_associations t, [(ch, [event])])) = (assocs, evs)" by fastforce
  obtain r1 buf assocs1 where r1: "read_associations S (msg_now msg) evs (internal_buffer h) assocs = Some (r1, buf, assocs1)"
    using assms Inr x e a by (auto simp: sctp_try_read_def Let_def)
  have "\<exists>t'. self' = put_transport sid eid (four_tuple_from (msg_transport msg)) t' self \<and> tr_four_tuple t' = tr_four_tuple t \<and>
      tr_candidate t' = tr_candidate t \<and> local_srtp_context t' = local_srtp_context t"
    "h' = h\<lparr>internal_buffer := buf\<rparr>" "r = and_then r1 (\<lambda>(ms, _). Ok ms)"
    using assms Inr x e a r1 by (cases r1; auto simp: sctp_try_read_def Let_def case_prod_beta)+
  then show thesis using read[OF Inr[unfolded x] r1] by blast
qed

lemma states_wf_sctp_try_read:
  assumes "states_wf d self" "sctp_try_read S msg m h self = Some (r, h', self')"
  shows "states_wf d self'"
  using assms(2) by (cases rule: sctp_try_read_cases) (use assms(1) states_wf_put_transport[OF assms(1)] in auto)

lemma states_wf_sctp_read:
  assumes "states_wf d self" "sctp_handle_read S msg h self = Some (calls, h', self')"
  shows "states_wf d self'"
proof (cases "\<exists>m. msg_message msg = Dtls (DtlsRaw m)")
  case True
  then obtain m r h1 self1 where "msg_message msg = Dtls (DtlsRaw m)" and r: "sctp_try_read S msg m h self = Some (r, h1, self1)"
    using assms(2) by (auto simp: sctp_handle_read_def)
  then have "self1 = self'" using assms(2) by (auto simp: sctp_handle_read_def split: sum.splits)
  with r have "sctp_try_read S msg m h self = Some (r, h1, self')" by simp
  with assms(1) show ?thesis by (rule states_wf_sctp_try_read)
next
  case False
  then show ?thesis using assms
    by (auto simp: sctp_handle_read_def split: MessageEvent.splits DTLSMessageEvent.splits)
qed

lemma sctp_timeout_four_tuple: "sctp_timeout_transport S now t = Some (e, t') \<Longrightarrow> tr_four_tuple t' = tr_four_tuple t"
  by (auto simp: sctp_timeout_transport_def)

lemma states_wf_sctp_timeout:
  assumes "states_wf d self" "sctp_handler_timeout S now h self = Some (calls, h', self')"
  shows "states_wf d self'"
  using assms(2) states_wf_walk[OF assms(1), of "sctp_timeout_transport S now"] sctp_timeout_four_tuple[of S now]
  by (auto simp: sctp_handler_timeout_def)

lemma states_wf_sctp_try_write:
  assumes "states_wf d self" "sctp_try_write S msg m self = Some (r, self')"
  shows "states_wf d self'"
  using assms states_wf_put_transport[OF assms(1)]
  by (auto simp: sctp_try_write_def Let_def split: if_splits sum.splits prod.splits option.splits)

lemma sctp_poll_write_states:
  assumes "sctp_poll_write S polled h self = Some (calls, m, h', self')"
  shows "self' = self \<or> (\<exists>msg b r. sctp_try_write S msg b self = Some (r, self'))"
proof (cases "\<exists>msg b. polled = Some msg \<and> msg_message msg = Dtls (DtlsSctp b)")
  case True
  then obtain msg b r self1 where "polled = Some msg" "msg_message msg = Dtls (DtlsSctp b)"
    and r: "sctp_try_write S msg b self = Some (r, self1)"
    using assms by (auto simp: sctp_poll_write_def)
  then have "self1 = self'" using assms by (auto simp: sctp_poll_write_def case_prod_beta Let_def split: sum.splits)
  with r show ?thesis by blast
next
  case False
  then show ?thesis using assms
    by (auto simp: sctp_poll_write_def case_prod_beta Let_def split: option.splits MessageEvent.splits DTLSMessageEvent.splits)
qed

lemma states_wf_sctp_write:
  assumes "states_wf d self" "sctp_poll_write S polled h self = Some (calls, m, h', self')"
  shows "states_wf d self'"
  using sctp_poll_write_states[OF assms(2)] states_wf_sctp_try_write[OF assms(1)] assms(1) by blast

section \<open>The handler returns\<close>

text \<open>
  What keeps the loops of the handler finite: every chunk read from a stream and every event polled from an
  association uses up something readable, and the queues of endpoint events and of packets shrink with every poll.
\<close>

definition sctp_finite ::
  "sctp_lib \<Rightarrow> (sctp_association \<Rightarrow> nat) \<Rightarrow> (sctp_association \<Rightarrow> nat) \<Rightarrow> (sctp_association \<Rightarrow> nat) \<Rightarrow> bool" where
  "sctp_finite S readable closing sending \<longleftrightarrow>
     (\<forall>sid c r c'. read_sctp S sid c = (r, c') \<longrightarrow> readable c' \<le> readable c \<and> (\<forall>x. r = Ok (Some x) \<longrightarrow> readable c' < readable c)) \<and>
     (\<forall>c e c'. assoc_poll S c = (e, c') \<longrightarrow> readable c' \<le> readable c \<and> (e \<noteq> None \<longrightarrow> readable c' < readable c)) \<and>
     pollable (assoc_poll_endpoint_event S) closing \<and> (\<forall>now. pollable (assoc_poll_transmit S now) sending)"

lemma read_stream_returns:
  assumes "sctp_finite S readable closing sending"
  shows "\<exists>r buf' conn'. read_stream S ch sid buf conn = Some (r, buf', conn') \<and> readable conn' \<le> readable conn"
proof (induction "readable conn" arbitrary: conn buf rule: less_induct)
  case less
  obtain r conn1 where r: "read_sctp S sid conn = (r, conn1)" by fastforce
  then have le: "readable conn1 \<le> readable conn" "\<And>x. r = Ok (Some x) \<Longrightarrow> readable conn1 < readable conn"
    using assms by (auto simp: sctp_finite_def)
  show ?case
  proof (cases "\<exists>x. r = Ok (Some x)")
    case True
    then obtain x where x: "r = Ok (Some x)" by blast
    obtain r1 buf1 where r1: "chunks_read S x buf = (r1, buf1)" by fastforce
    show ?thesis using less.hyps[OF le(2)[OF x], of buf1] le(1) r x r1
      by (subst (1) read_stream.simps) (cases r1; force)
  next
    case False
    then show ?thesis using r le(1) by (subst read_stream.simps) (auto split: sum.splits option.splits)
  qed
qed

lemma read_events_returns:
  assumes "sctp_finite S readable closing sending"
  shows "\<exists>r buf' conn'. read_events S ch buf conn = Some (r, buf', conn')"
proof (induction "readable conn" arbitrary: conn buf rule: less_induct)
  case less
  obtain e conn1 where e: "assoc_poll S conn = (e, conn1)" by fastforce
  show ?case
  proof (cases e)
    case None
    then show ?thesis using e by (subst read_events.simps) simp
  next
    case (Some ev)
    have l: "readable conn1 < readable conn" using assms e Some by (auto simp: sctp_finite_def)
    obtain r buf1 conn2 where r: "read_event S ch ev buf conn1 = Some (r, buf1, conn2)" "readable conn2 \<le> readable conn1"
    proof (cases ev)
      case (StreamReadable sid)
      obtain r buf1 conn2 where "read_stream S ch sid buf conn1 = Some (r, buf1, conn2)" "readable conn2 \<le> readable conn1"
        using read_stream_returns[OF assms] by blast
      with StreamReadable that show ?thesis by (cases "assoc_stream S sid conn1") (auto simp: read_event_def)
    qed (use that in \<open>auto simp: read_event_def\<close>)
    have "readable conn2 < readable conn" using l r(2) by simp
    from less.hyps[OF this, of buf1] e Some r(1) show ?thesis
      by (subst read_events.simps) (auto split: sum.splits)
  qed
qed

lemma drain_endpoint_events: "sctp_finite S readable closing sending \<Longrightarrow> \<exists>x c'. drain (assoc_poll_endpoint_event S) c = Some (x, c')"
  by (rule pollable.drain_returns[of _ closing]) (simp add: sctp_finite_def)

lemma drain_transmits: "sctp_finite S readable closing sending \<Longrightarrow> \<exists>x c'. drain (assoc_poll_transmit S now) c = Some (x, c')"
  by (rule pollable.drain_returns[of _ sending]) (simp add: sctp_finite_def)

lemma read_association_returns:
  assumes "sctp_finite S readable closing sending"
  shows "\<exists>r buf' conn'. read_association S now evs ch buf conn = Some (r, buf', conn')"
proof -
  let ?conn = "fold (assoc_handle_event S) (case hm_get evs ch of Some es \<Rightarrow> es | None \<Rightarrow> []) conn"
  obtain r buf1 conn2 where r: "read_events S ch buf ?conn = Some (r, buf1, conn2)"
    using read_events_returns[OF assms] by blast
  show ?thesis
  proof (cases r)
    case (Inr ms)
    obtain es conn3 where "drain (assoc_poll_endpoint_event S) conn2 = Some (es, conn3)"
      using drain_endpoint_events[OF assms] by blast
    moreover obtain xs conn4 where "drain (assoc_poll_transmit S now) conn3 = Some (xs, conn4)"
      using drain_transmits[OF assms] by blast
    ultimately show ?thesis using r Inr by (simp add: read_association_def Let_def)
  qed (use r in \<open>simp add: read_association_def Let_def\<close>)
qed

lemma read_associations_returns:
  assumes "sctp_finite S readable closing sending"
  shows "\<exists>r buf' assocs'. read_associations S now evs buf assocs = Some (r, buf', assocs')"
proof (induction assocs arbitrary: buf)
  case (Cons a assocs)
  obtain ch conn where a: "a = (ch, conn)" by fastforce
  obtain r buf1 conn1 where r: "read_association S now evs ch buf conn = Some (r, buf1, conn1)"
    using read_association_returns[OF assms] by blast
  show ?case using Cons.IH[of buf1] r a by (cases r) auto
qed simp

lemma sctp_read_returns:
  assumes "sctp_finite S readable closing sending"
  shows "sctp_handle_read S msg h self \<noteq> None"
proof -
  have "read_associations S now evs buf assocs \<noteq> None" for now evs buf assocs
    using read_associations_returns[OF assms, of now evs buf assocs] by auto
  then have "sctp_try_read S msg m h self \<noteq> None" for m
    by (simp add: sctp_try_read_def Let_def case_prod_beta del: not_None_eq split: sum.splits)
  then show ?thesis by (simp add: sctp_handle_read_def del: not_None_eq split: MessageEvent.splits DTLSMessageEvent.splits)
qed

lemma sctp_timeout_returns:
  assumes "sctp_finite S readable closing sending"
  shows "sctp_handler_timeout S now h self \<noteq> None"
proof -
  have a: "\<exists>es xs c. sctp_timeout_association S now conn = Some (es, xs, c)" for conn
  proof -
    obtain es c1 where "drain (assoc_poll_endpoint_event S) (assoc_handle_timeout S now conn) = Some (es, c1)"
      using drain_endpoint_events[OF assms] by blast
    moreover obtain xs c2 where "drain (assoc_poll_transmit S now) c1 = Some (xs, c2)"
      using drain_transmits[OF assms] by blast
    ultimately show ?thesis by (simp add: sctp_timeout_association_def)
  qed
  have "\<exists>es xs as. sctp_timeout_associations S now assocs = Some (es, xs, as)" for assocs
  proof (induction assocs)
    case (Cons e assocs)
    obtain ch conn where "e = (ch, conn)" by fastforce
    with Cons a[of conn] show ?case by auto
  qed simp
  then have "sctp_timeout_transport S now t \<noteq> None" for t by (auto simp: sctp_timeout_transport_def)
  from walk_returns[OF this] show ?thesis by (auto simp: sctp_handler_timeout_def)
qed

lemma sctp_write_returns:
  assumes "sctp_finite S readable closing sending"
  shows "sctp_poll_write S polled h self \<noteq> None"
proof -
  have "drain (assoc_poll_transmit S now) c \<noteq> None" for now c using drain_transmits[OF assms, of now c] by auto
  then have "sctp_try_write S msg m self \<noteq> None" for msg m
    by (simp add: sctp_try_write_def Let_def del: not_None_eq split: sum.splits prod.splits option.split)
  then show ?thesis
    by (simp add: sctp_poll_write_def del: not_None_eq split: option.split MessageEvent.splits DTLSMessageEvent.splits)
qed

section \<open>Bounds on what is read\<close>

text \<open>Reading chunks into a slice does not change its length.\<close>

definition keeps_length :: "sctp_lib \<Rightarrow> bool" where
  "keeps_length S \<longleftrightarrow> (\<forall>c b r b'. chunks_read S c b = (r, b') \<longrightarrow> length b' = length b)"

definition bounded_read :: "nat \<Rightarrow> DataChannelMessage list result \<times> bytes \<times> sctp_association \<Rightarrow> bool" where
  "bounded_read n y \<longleftrightarrow>
     (case y of (r, buf, _) \<Rightarrow> length buf = n \<and>
        (case r of Inl _ \<Rightarrow> True | Inr ms \<Rightarrow> \<forall>m\<in>set ms. length (dcm_payload m) \<le> n))"

lemma bounded_read_Cons:
  "bounded_read n (r, buf, conn) \<Longrightarrow> length (dcm_payload m) \<le> n \<Longrightarrow> bounded_read n (and_then r (\<lambda>ms. Ok (m # ms)), buf, conn)"
  by (cases r) (auto simp: bounded_read_def)

lemma bounded_read_append:
  "bounded_read n (r, buf, conn) \<Longrightarrow> \<forall>m\<in>set ms. length (dcm_payload m) \<le> n \<Longrightarrow>
   bounded_read n (and_then r (\<lambda>ms'. Ok (ms @ ms')), buf, conn)"
  by (cases r) (auto simp: bounded_read_def)

lemma read_stream_bounded:
  assumes "read_stream S ch sid buf conn = Some y" "keeps_length S"
  shows "bounded_read (length buf) y"
proof -
  have "keeps_length S \<longrightarrow> bounded_read (length buf) y"
    using assms(1)
  proof (rule read_stream.raw_induct[rotated], goal_cases)
    case (1 rec S ch sid buf conn y)
    note IH = 1(1) and body = 1(2)
    show ?case
    proof
      assume k: "keeps_length S"
      then have len: "chunks_read S c buf = (r1, buf1) \<Longrightarrow> length buf1 = length buf" for c r1 buf1
        by (simp add: keeps_length_def)
      obtain r conn1 where r: "read_sctp S sid conn = (r, conn1)" by fastforce
      show "bounded_read (length buf) y"
      proof (cases "\<exists>chunks n buf1. r = Ok (Some chunks) \<and> chunks_read S chunks buf = (Ok n, buf1) \<and> \<not> length buf1 < unat n")
        case True
        then obtain chunks n buf1 where c: "r = Ok (Some chunks)" "chunks_read S chunks buf = (Ok n, buf1)" "\<not> length buf1 < unat n"
          by blast
        obtain rest buf2 conn2 where rest: "rec S ch sid buf1 conn1 = Some (rest, buf2, conn2)"
          and y: "y = (and_then rest (\<lambda>ms. Ok (\<lparr>dcm_association_handle = ch, dcm_stream_id = sid,
                     dcm_data_message_type = to_data_message_type (chunks_ppi S chunks),
                     dcm_params = None, dcm_payload = take (unat n) buf1\<rparr> # ms)), buf2, conn2)"
          using body r c by (auto simp: bind_eq_Some_conv)
        have "bounded_read (length buf) (rest, buf2, conn2)" using IH[OF rest] k len[OF c(2)] by simp
        then show ?thesis unfolding y by (rule bounded_read_Cons) (simp add: len[OF c(2)])
      next
        case False
        then show ?thesis using body r len
          by (auto simp: bounded_read_def split: sum.splits option.splits prod.splits if_splits)
      qed
    qed
  qed
  with assms(2) show ?thesis by simp
qed

lemma read_event_bounded:
  "read_event S ch ev buf conn = Some y \<Longrightarrow> keeps_length S \<Longrightarrow> bounded_read (length buf) y"
  using read_stream_bounded[of S ch _ buf conn y]
  by (auto simp: read_event_def bounded_read_def split: sctp_event.splits sum.splits)

lemma read_events_bounded:
  assumes "read_events S ch buf conn = Some y" "keeps_length S"
  shows "bounded_read (length buf) y"
proof -
  have "keeps_length S \<longrightarrow> bounded_read (length buf) y"
    using assms(1)
  proof (rule read_events.raw_induct[rotated], goal_cases)
    case (1 rec S ch buf conn y)
    note IH = 1(1) and body = 1(2)
    show ?case
    proof
      assume k: "keeps_length S"
      obtain e conn1 where e: "assoc_poll S conn = (e, conn1)" by fastforce
      show "bounded_read (length buf) y"
      proof (cases e)
        case None
        then show ?thesis using body e by (auto simp: bounded_read_def)
      next
        case (Some event)
        obtain r buf1 conn2 where r: "read_event S ch event buf conn1 = Some (r, buf1, conn2)"
          using body e Some by (auto simp: bind_eq_Some_conv)
        have b: "bounded_read (length buf) (r, buf1, conn2)" using r k by (rule read_event_bounded)
        then have len: "length buf1 = length buf" by (simp add: bounded_read_def)
        show ?thesis
        proof (cases r)
          case (Inr ms)
          obtain rest buf2 conn3 where rest: "rec S ch buf1 conn2 = Some (rest, buf2, conn3)"
            and y: "y = (and_then rest (\<lambda>ms'. Ok (ms @ ms')), buf2, conn3)"
            using body e Some r Inr by (auto simp: bind_eq_Some_conv)
          have "bounded_read (length buf) (rest, buf2, conn3)" using IH[OF rest] k len by simp
          then show ?thesis unfolding y by (rule bounded_read_append) (use b Inr in \<open>simp add: bounded_read_def\<close>)
        qed (use body e Some r b in \<open>auto simp: bounded_read_def\<close>)
      qed
    qed
  qed
  with assms(2) show ?thesis by simp
qed

definition bounded_messages :: "nat \<Rightarrow> SctpMessage list \<Rightarrow> bool" where
  "bounded_messages n ms \<longleftrightarrow> (\<forall>m. SctpInbound m \<in> set ms \<longrightarrow> length (dcm_payload m) \<le> n)"

lemma read_association_bounded:
  assumes "read_association S now evs ch buf conn = Some (r, buf', conn')" "keeps_length S"
  shows "length buf' = length buf \<and> (\<forall>ms es. r = Ok (ms, es) \<longrightarrow> bounded_messages (length buf) ms)"
proof -
  let ?conn = "fold (assoc_handle_event S) (case hm_get evs ch of Some es \<Rightarrow> es | None \<Rightarrow> []) conn"
  obtain r1 buf1 conn2 where r1: "read_events S ch buf ?conn = Some (r1, buf1, conn2)"
    using assms(1) by (auto simp: read_association_def Let_def bind_eq_Some_conv)
  have "bounded_read (length buf) (r1, buf1, conn2)" using r1 assms(2) by (rule read_events_bounded)
  then show ?thesis using assms(1) r1
    by (cases r1) (auto simp: read_association_def Let_def bind_eq_Some_conv bounded_read_def bounded_messages_def)
qed

lemma read_associations_bounded:
  "read_associations S now evs buf assocs = Some (r, buf', assocs') \<Longrightarrow> keeps_length S \<Longrightarrow>
   length buf' = length buf \<and> (\<forall>ms es. r = Ok (ms, es) \<longrightarrow> bounded_messages (length buf) ms)"
proof (induction assocs arbitrary: buf r assocs')
  case (Cons a assocs)
  obtain ch conn where a: "a = (ch, conn)" by fastforce
  obtain r1 buf1 conn1 where r1: "read_association S now evs ch buf conn = Some (r1, buf1, conn1)"
    using Cons.prems(1) a by (auto simp: bind_eq_Some_conv)
  note b = read_association_bounded[OF r1 Cons.prems(2)]
  show ?case
  proof (cases r1)
    case (Inr x)
    obtain ms es where x: "x = (ms, es)" by fastforce
    obtain rest assocs1 where rest: "read_associations S now evs buf1 assocs = Some (rest, buf', assocs1)"
      and r: "r = and_then rest (\<lambda>(ms', events'). Ok (ms @ ms', map (Pair ch) es @ events'))"
      using Cons.prems(1) a r1 Inr x by (auto simp: bind_eq_Some_conv)
    show ?thesis using Cons.IH[OF rest Cons.prems(2)] b Inr x r by (cases rest) (auto simp: bounded_messages_def)
  qed (use Cons.prems(1) a r1 b in auto)
qed (simp add: bounded_messages_def)

section \<open>Properties\<close>


text \<open>An SCTP crate whose associations are silent.\<close>

definition sample_sctp :: sctp_lib where
  "sample_sctp = \<lparr>sctp_handle = \<lambda>_ _ _ _ _ ep. (None, ep), sctp_endpoint_handle_event = \<lambda>_ _ ep. ep,
     assoc_handle_event = \<lambda>_ c. c, assoc_poll = \<lambda>c. (None, c), assoc_poll_endpoint_event = \<lambda>c. (None, c),
     assoc_poll_transmit = \<lambda>_ c. (None, c), assoc_handle_timeout = \<lambda>_ c. c, assoc_poll_timeout = \<lambda>_. None,
     assoc_stream = \<lambda>_ _. Ok (), read_sctp = \<lambda>_ c. (Ok None, c), chunks_read = \<lambda>_ b. (Ok 0, b),
     chunks_ppi = \<lambda>_. PpidString, set_reliability_params = \<lambda>_ _ _ _ c. (Ok (), c),
     write_with_ppi = \<lambda>_ _ _ c. (Ok 0, c)\<rparr>"

lemma sample_sctp_finite: "sctp_finite sample_sctp (\<lambda>_. 0) (\<lambda>_. 0) (\<lambda>_. 0)"
  by (auto simp: sctp_finite_def sample_sctp_def pollable_def)

definition sample_record :: TaggedMessageEvent where
  "sample_record = \<lparr>msg_now = 0, msg_transport = sample_context 7, msg_message = Dtls (DtlsRaw [1])\<rparr>"



text \<open>
  C15: A message that is larger than the configured maximum, or whose association is gone, is dropped with its
  own error. Neither the states nor the queued packets are touched, and the oldest queued packet still leaves.
\<close>

theorem sctp_write_rejects:
  assumes "msg_message msg = Dtls (DtlsSctp m)"
    and "states_get_transport (four_tuple_from (msg_transport msg)) self = Ok (sid, eid, t)"
    and "length (dcm_payload m) > max_message_size self \<or> hm_get (sctp_associations t) (dcm_association_handle m) = None"
  shows "sctp_poll_write S (Some msg) h self =
    Some ([FireException (if length (dcm_payload m) > max_message_size self then ErrOutboundPacketTooLarge else ErrAssociationNotExisted)],
      fst (pop_front (sctp_transmits h)), h\<lparr>sctp_transmits := snd (pop_front (sctp_transmits h))\<rparr>, self)"
  using assms by (auto simp: sctp_poll_write_def sctp_try_write_def Let_def case_prod_beta)

definition sample_channel_message :: TaggedMessageEvent where
  "sample_channel_message = \<lparr>msg_now = 0, msg_transport = sample_context 7,
     msg_message = Dtls (DtlsSctp \<lparr>dcm_association_handle = 3, dcm_stream_id = 1, dcm_data_message_type = DcText,
       dcm_params = None, dcm_payload = []\<rparr>)\<rparr>"

theorem sctp_write_rejects_witness:
  "sctp_poll_write sample_sctp (Some sample_channel_message) (sctp_new (SocketAddrV4 0 0) sample_states) sample_states =
     Some ([FireException ErrAssociationNotExisted], None, sctp_new (SocketAddrV4 0 0) sample_states, sample_states)"
proof -
  obtain t where t: "states_get_transport (four_tuple_from (sample_context 7)) sample_states = Ok (1, 7, t)" "sctp_associations t = []"
    using sample_get_transport by blast
  show ?thesis
    using sctp_write_rejects[of sample_channel_message _ sample_states 1 7 t sample_sctp "sctp_new (SocketAddrV4 0 0) sample_states"] t
    by (simp add: sample_channel_message_def sctp_new_def pop_front_def)
qed

lemma message_type_roundtrip:
  "to_data_message_type (to_ppid t n) = (if t = DcNone then DcControl else t)"
  by (cases t) (simp_all add: to_ppid_def to_data_message_type_def)

end
