(* ===== verification/Gateway.thy ===== *)
theory Gateway
  imports Server_States Transmit_Queue Utf8
begin

text \<open>
  \<open>src/handlers/gateway.rs\<close>: the last handler of the pipeline. It answers connectivity checks, forwards media
  between the endpoints of a session, runs offers and answers over data channels, and evicts idle
  transports.

  \<open>stun_lib\<close> and \<open>json_lib\<close> hold the functions of the \<open>stun\<close> and \<open>serde_json\<close> crates that the handler calls;
  \<open>gateway_env\<close> collects all functions that are not part of the program, \<open>readings\<close> what one event reads from the
  clock and the random source (\<open>rd_jsep\<close>: the fresh descriptions, one for every call).
\<close>

section \<open>Environment\<close>

datatype stun_attribute = ATTR_ICE_CONTROLLED | ATTR_ICE_CONTROLLING | ATTR_NETWORK_COST | ATTR_PRIORITY | ATTR_USE_CANDIDATE

record stun_lib =
  get_username :: "stun_message \<Rightarrow> string option"
  contains_attr :: "stun_attribute \<Rightarrow> stun_message \<Rightarrow> bool"
  stun_transaction_id :: "stun_message \<Rightarrow> transaction_id"
  check_integrity :: "string \<Rightarrow> stun_message \<Rightarrow> (unit, stun_message) outcome"
  build_binding_success :: "transaction_id \<Rightarrow> ip_addr \<Rightarrow> u16 \<Rightarrow> stun_message result"
  add_integrity :: "string \<Rightarrow> stun_message \<Rightarrow> stun_message result"
  add_stun_fingerprint :: "stun_message \<Rightarrow> stun_message result"

record json_lib =
  from_json :: "string \<Rightarrow> string + RTCSessionDescription"
  to_json :: "RTCSessionDescription \<Rightarrow> string + string"

record gateway_env =
  env_sdp :: sdp_lib
  env_transport :: transport_lib
  env_stun :: stun_lib
  env_json :: json_lib
  env_sha256 :: "bytes \<Rightarrow> bytes"
  env_b64 :: "bytes \<Rightarrow> string"

record readings =
  rd_now :: instant
  rd_clock :: "nat \<Rightarrow> instant"
  rd_jsep :: "nat \<Rightarrow> SessionDescription"
  rd_user :: bytes
  rd_pwd :: bytes

section \<open>Connectivity checks\<close>

definition authenticate ::
  "stun_lib \<Rightarrow> string \<Rightarrow> stun_message \<Rightarrow> ServerStates \<Rightarrow> (Candidate option, stun_message) outcome" where
  "authenticate S name request self =
     (case find_candidate name self of
        Some cand \<Rightarrow>
          (case check_integrity S (password (get_local_parameters cand)) request of
             (Inl err, request1) \<Rightarrow> (Err err, request1)
           | (Inr _, request1) \<Rightarrow> (Ok (Some cand), request1))
      | None \<Rightarrow> (Err (Other ''username not found''), request))"

definition check_stun_message ::
  "stun_lib \<Rightarrow> ServerStates \<Rightarrow> stun_message \<Rightarrow> (Candidate option, stun_message) outcome" where
  "check_stun_message S self request =
     (let has = (\<lambda>a. contains_attr S a request)
      in case get_username S request of
           Some name \<Rightarrow>
             (if \<not> has ATTR_PRIORITY then (Err (Other ''invalid STUN message without ATTR_PRIORITY''), request)
              else if has ATTR_ICE_CONTROLLING then
                (if has ATTR_ICE_CONTROLLED then
                   (Err (Other ''invalid STUN message with both ATTR_ICE_CONTROLLING and ATTR_ICE_CONTROLLED''), request)
                 else authenticate S name request self)
              else if has ATTR_ICE_CONTROLLED then
                (if has ATTR_USE_CANDIDATE then
                   (Err (Other ''invalid STUN message with both ATTR_USE_CANDIDATE and ATTR_ICE_CONTROLLED''), request)
                 else authenticate S name request self)
              else (Err (Other ''invalid STUN message without ATTR_ICE_CONTROLLING or ATTR_ICE_CONTROLLED''), request))
         | None \<Rightarrow>
             (if has ATTR_ICE_CONTROLLED \<or> has ATTR_ICE_CONTROLLING \<or> has ATTR_NETWORK_COST \<or>
                 has ATTR_PRIORITY \<or> has ATTR_USE_CANDIDATE
              then (Err (Other ''unexpected attribute''), request)
              else (Ok None, request)))"

definition create_server_reflective_address_message_event ::
  "stun_lib \<Rightarrow> instant \<Rightarrow> TransportContext \<Rightarrow> transaction_id \<Rightarrow> TaggedMessageEvent list result" where
  "create_server_reflective_address_message_event S now tc tid =
     and_then (build_binding_success S tid (addr_ip (ctx_peer_addr tc)) (addr_port (ctx_peer_addr tc))) (\<lambda>response.
     Ok [\<lparr>msg_now = now, msg_transport = tc, msg_message = Stun (StunMsg response)\<rparr>])"

definition gateway_add_endpoint ::
  "gateway_env \<Rightarrow> readings \<Rightarrow> stun_message \<Rightarrow> Candidate \<Rightarrow> TransportContext \<Rightarrow> ServerStates
   \<Rightarrow> (bool, ServerStates) outcome" where
  "gateway_add_endpoint E R request cand tc self =
     (let sid = cand_session_id cand
      in case get_session sid self of
           None \<Rightarrow> (Err (Other (''session '' @ show_word sid @ '' not found'')), self)
         | Some session \<Rightarrow>
             (let eid = cand_endpoint_id cand;
                  ft = four_tuple_from tc;
                  endpoint = get_endpoint eid session;
                  is_new_endpoint = (endpoint = None);
                  has_tr = (case endpoint of Some ep \<Rightarrow> has_transport ft ep | None \<Rightarrow> False)
              in if \<not> contains_attr (env_stun E) ATTR_USE_CANDIDATE request \<or> has_tr then (Ok is_new_endpoint, self)
                 else
                   (case session_add_endpoint (env_transport E) (rd_now R) (rd_clock R) cand tc session of
                      (Inl err, session1) \<Rightarrow> (Err err, put_session sid session1 self)
                    | (Inr is_new, session1) \<Rightarrow>
                        (Ok is_new, states_add_endpoint ft sid eid (put_session sid session1 self)))))"

definition stun_response ::
  "stun_lib \<Rightarrow> Candidate \<Rightarrow> TransportContext \<Rightarrow> transaction_id \<Rightarrow> stun_message result" where
  "stun_response S cand tc tid =
     and_then (build_binding_success S tid (addr_ip (ctx_peer_addr tc)) (addr_port (ctx_peer_addr tc))) (\<lambda>response.
     and_then (add_integrity S (password (get_local_parameters cand)) response) (add_stun_fingerprint S))"

definition handle_stun_message ::
  "gateway_env \<Rightarrow> readings \<Rightarrow> instant \<Rightarrow> TransportContext \<Rightarrow> stun_message \<Rightarrow> ServerStates
   \<Rightarrow> (TaggedMessageEvent list, ServerStates) outcome" where
  "handle_stun_message E R now tc request self =
     (case check_stun_message (env_stun E) self request of
        (Inl err, _) \<Rightarrow> (Err err, self)
      | (Inr None, request1) \<Rightarrow>
          (create_server_reflective_address_message_event (env_stun E) now tc
             (stun_transaction_id (env_stun E) request1), self)
      | (Inr (Some cand), request1) \<Rightarrow>
          (case gateway_add_endpoint E R request1 cand tc self of
             (Inl err, self1) \<Rightarrow> (Err err, self1)
           | (Inr _, self1) \<Rightarrow>
               (and_then (stun_response (env_stun E) cand tc (stun_transaction_id (env_stun E) request1)) (\<lambda>response.
                  Ok [\<lparr>msg_now = now, msg_transport = tc, msg_message = Stun (StunMsg response)\<rparr>]), self1)))"

section \<open>The other endpoints of a session\<close>

definition context_of :: "TransportContext \<Rightarrow> FourTuple \<Rightarrow> TransportContext" where
  "context_of tc ft = \<lparr>ctx_local_addr = local_addr ft, ctx_peer_addr = peer_addr ft, ecn = ecn tc\<rparr>"

definition unknown_session :: "SessionId \<Rightarrow> error" where
  "unknown_session sid = Other (''can't find session id '' @ show_word sid)"

definition session_of :: "TransportContext \<Rightarrow> ServerStates \<Rightarrow> (SessionId \<times> EndpointId \<times> Session) result" where
  "session_of tc self =
     and_then (ok_or (find_endpoint (four_tuple_from tc) self) ErrClientTransportNotSet) (\<lambda>(sid, eid).
     and_then (ok_or (get_session sid self) (unknown_session sid)) (\<lambda>session.
     Ok (sid, eid, session)))"

definition get_other_datachannel_transport_contexts ::
  "TransportContext \<Rightarrow> ServerStates \<Rightarrow> (TransportContext \<times> usize \<times> u16 \<times> bool) list result" where
  "get_other_datachannel_transport_contexts tc self =
     and_then (session_of tc self) (\<lambda>(sid, eid, session).
       Ok (concat (map (\<lambda>(other_id, other).
             if other_id \<noteq> eid then
               List.map_filter (\<lambda>(ft, t).
                  case association_handle_and_stream_id t of
                    (Some h, Some s) \<Rightarrow> Some (context_of tc ft, h, s, is_renegotiation_needed other)
                  | _ \<Rightarrow> None) (transports other)
             else []) (endpoints session))))"

definition get_other_media_transport_contexts ::
  "TransportContext \<Rightarrow> ServerStates \<Rightarrow> TransportContext list result" where
  "get_other_media_transport_contexts tc self =
     and_then (session_of tc self) (\<lambda>(sid, eid, session).
       Ok (concat (map (\<lambda>(other_id, other).
             if other_id \<noteq> eid then
               map (\<lambda>(ft, _). context_of tc ft) (filter (\<lambda>(_, t). is_local_srtp_context_ready t) (transports other))
             else []) (endpoints session))))"

section \<open>Media\<close>

definition forward_media ::
  "readings \<Rightarrow> instant \<Rightarrow> TransportContext \<Rightarrow> RTPMessageEvent \<Rightarrow> ServerStates
   \<Rightarrow> (TaggedMessageEvent list, ServerStates) outcome" where
  "forward_media R now tc event self =
     (case get_mut_transport (four_tuple_from tc) (keep_alive (rd_now R)) self of
        (Inl err, self1) \<Rightarrow> (Err err, self1)
      | (Inr _, self1) \<Rightarrow>
          (and_then (get_other_media_transport_contexts tc self1) (\<lambda>peers.
             Ok (map (\<lambda>transport. \<lparr>msg_now = now, msg_transport = transport, msg_message = Rtp event\<rparr>) peers)), self1))"

definition handle_rtp_message ::
  "readings \<Rightarrow> instant \<Rightarrow> TransportContext \<Rightarrow> rtp_packet \<Rightarrow> ServerStates
   \<Rightarrow> (TaggedMessageEvent list, ServerStates) outcome" where
  "handle_rtp_message R now tc packet self = forward_media R now tc (RtpPacket packet) self"

definition handle_rtcp_message ::
  "readings \<Rightarrow> instant \<Rightarrow> TransportContext \<Rightarrow> rtcp_packet list \<Rightarrow> ServerStates
   \<Rightarrow> (TaggedMessageEvent list, ServerStates) outcome" where
  "handle_rtcp_message R now tc pkts self = forward_media R now tc (RtcpPackets pkts) self"

section \<open>Offers and answers over data channels\<close>

definition channel_message :: "instant \<Rightarrow> TransportContext \<Rightarrow> usize \<Rightarrow> u16 \<Rightarrow> string \<Rightarrow> TaggedMessageEvent" where
  "channel_message now tc h s text =
     \<lparr>msg_now = now, msg_transport = tc,
      msg_message = Dtls (DtlsDataChannel \<lparr>app_association_handle = h, app_stream_id = s,
        app_data_channel_event = DcMessage (str_bytes text)\<rparr>)\<rparr>"

definition json_string :: "json_lib \<Rightarrow> RTCSessionDescription \<Rightarrow> string result" where
  "json_string J desc = (case to_json J desc of Inl err \<Rightarrow> Err (Other err) | Inr t \<Rightarrow> Ok t)"

definition create_offer_message_event ::
  "gateway_env \<Rightarrow> SessionDescription \<Rightarrow> instant \<Rightarrow> TransportContext \<Rightarrow> usize \<Rightarrow> u16 \<Rightarrow> ServerStates
   \<Rightarrow> (TaggedMessageEvent, ServerStates) outcome" where
  "create_offer_message_event E jsep now tc h s self =
     (case session_of tc self of
        Inl err \<Rightarrow> (Err err, self)
      | Inr (sid, eid, session) \<Rightarrow>
          (case get_endpoint eid session of
             None \<Rightarrow> (Err (unknown_endpoint eid), self)
           | Some ep \<Rightarrow>
               (let session1 = modify_endpoint eid (set_renegotiation_needed False) session;
                    ft = four_tuple_from tc
                in case and_then (ok_or (ep_remote_description ep) (Other ''remote_description is not set'')) (\<lambda>remote.
                        and_then (ok_or (hm_get (transports ep) ft) (no_transport eid ft)) (\<lambda>t.
                        create_offer (env_sdp E) (env_sha256 E) jsep eid remote
                          (ice_params (local_conn_cred (tr_candidate t))) session1)) of
                     Inl err \<Rightarrow> (Err err, put_session sid session1 self)
                   | Inr offer \<Rightarrow>
                       (case session_set_local_description eid offer session1 of
                          (Inl err, session2) \<Rightarrow> (Err err, put_session sid session2 self)
                        | (Inr _, session2) \<Rightarrow>
                            (and_then (json_string (env_json E) offer) (\<lambda>text. Ok (channel_message now tc h s text)),
                             put_session sid session2 self)))))"

text \<open>The receiving transceivers of the other endpoints, as the sending ones they become here.\<close>

definition new_transceivers :: "EndpointId \<Rightarrow> Session \<Rightarrow> RTCRtpTransceiver list" where
  "new_transceivers eid session =
     concat (map (\<lambda>(other_id, other).
       if other_id \<noteq> eid then
         map (\<lambda>(m, t). t\<lparr>mid := other_mid other_id m, direction := Sendonly\<rparr>)
           (filter (\<lambda>(_, t). direction t = Recvonly) (transceivers other))
       else []) (endpoints session))"

definition open_channel :: "FourTuple \<Rightarrow> usize \<Rightarrow> u16 \<Rightarrow> RTCRtpTransceiver list \<Rightarrow> Endpoint \<Rightarrow> Endpoint" where
  "open_channel ft h s new ep =
     fold add_own_transceiver new
       (set_renegotiation_needed (new \<noteq> []) (modify_transport ft (set_association_handle_and_stream_id h s) ep))"

definition handle_datachannel_open ::
  "gateway_env \<Rightarrow> readings \<Rightarrow> instant \<Rightarrow> TransportContext \<Rightarrow> usize \<Rightarrow> u16 \<Rightarrow> ServerStates
   \<Rightarrow> (TaggedMessageEvent list, ServerStates) outcome" where
  "handle_datachannel_open E R now tc h s self =
     (case session_of tc self of
        Inl err \<Rightarrow> (Err err, self)
      | Inr (sid, eid, session) \<Rightarrow>
          (let new = new_transceivers eid session;
               ft = four_tuple_from tc
           in case get_endpoint eid session of
                None \<Rightarrow> (Err (unknown_endpoint eid), self)
              | Some ep \<Rightarrow>
                  (if \<not> has_transport ft ep then (Err (no_transport eid ft), self)
                   else
                     (let ep1 = open_channel ft h s new ep;
                          self1 = put_session sid (modify_endpoint eid (\<lambda>_. ep1) session) self
                      in if is_renegotiation_needed ep1 then
                           (case create_offer_message_event E (rd_jsep R 0) now tc h s self1 of
                              (Inl err, self2) \<Rightarrow> (Err err, self2)
                            | (Inr m, self2) \<Rightarrow> (Ok [m], self2))
                         else (Ok [], self1)))))"

definition handle_datachannel_close ::
  "instant \<Rightarrow> TransportContext \<Rightarrow> usize \<Rightarrow> u16 \<Rightarrow> ServerStates \<Rightarrow> (TaggedMessageEvent list, ServerStates) outcome" where
  "handle_datachannel_close now tc h s self = (Ok [], self)"

fun offer_to_peers ::
  "gateway_env \<Rightarrow> (nat \<Rightarrow> SessionDescription) \<Rightarrow> instant \<Rightarrow> nat \<Rightarrow> (TransportContext \<times> usize \<times> u16 \<times> bool) list
   \<Rightarrow> ServerStates \<Rightarrow> (TaggedMessageEvent list, ServerStates) outcome" where
  "offer_to_peers E jsep now i [] self = (Ok [], self)"
| "offer_to_peers E jsep now i ((tc, h, s, needed) # peers) self =
     (if needed then
        (case create_offer_message_event E (jsep i) now tc h s self of
           (Inl err, self1) \<Rightarrow> (Err err, self1)
         | (Inr m, self1) \<Rightarrow>
             (case offer_to_peers E jsep now (i + 1) peers self1 of
                (Inl err, self2) \<Rightarrow> (Err err, self2)
              | (Inr ms, self2) \<Rightarrow> (Ok (m # ms), self2)))
      else offer_to_peers E jsep now i peers self)"

definition read_request :: "json_lib \<Rightarrow> bytes \<Rightarrow> RTCSessionDescription result" where
  "read_request J payload =
     and_then (from_utf8 payload) (\<lambda>text.
       case from_json J text of Inl err \<Rightarrow> Err (Other err) | Inr d \<Rightarrow> Ok d)"

definition handle_offer_message ::
  "gateway_env \<Rightarrow> readings \<Rightarrow> instant \<Rightarrow> TransportContext \<Rightarrow> usize \<Rightarrow> u16 \<Rightarrow> SessionId \<Rightarrow> EndpointId
   \<Rightarrow> RTCSessionDescription \<Rightarrow> ServerStates \<Rightarrow> (TaggedMessageEvent list, ServerStates) outcome" where
  "handle_offer_message E R now tc h s sid eid request self =
     (case accept_offer (env_sdp E) (env_sha256 E) (rd_jsep R 0) (env_b64 E) (rd_user R) (rd_pwd R) (rd_now R)
             sid eid (Some (four_tuple_from tc)) request self of
        (Inl err, self1) \<Rightarrow> (Err err, self1)
      | (Inr answer, self1) \<Rightarrow>
          (case and_then (json_string (env_json E) answer) (\<lambda>text.
                  and_then (get_other_datachannel_transport_contexts tc self1) (\<lambda>peers. Ok (text, peers))) of
             Inl err \<Rightarrow> (Err err, self1)
           | Inr (text, peers) \<Rightarrow>
               (case offer_to_peers E (rd_jsep R) now 1 peers self1 of
                  (Inl err, self2) \<Rightarrow> (Err err, self2)
                | (Inr ms, self2) \<Rightarrow> (Ok (channel_message now tc h s text # ms), self2))))"

definition handle_datachannel_message ::
  "gateway_env \<Rightarrow> readings \<Rightarrow> instant \<Rightarrow> TransportContext \<Rightarrow> usize \<Rightarrow> u16 \<Rightarrow> bytes \<Rightarrow> ServerStates
   \<Rightarrow> (TaggedMessageEvent list, ServerStates) outcome" where
  "handle_datachannel_message E R now tc h s payload self =
     (case and_then (read_request (env_json E) payload) (\<lambda>request.
             and_then (ok_or (find_endpoint (four_tuple_from tc) self) ErrClientTransportNotSet) (\<lambda>ids.
             Ok (request, ids))) of
        Inl err \<Rightarrow> (Err err, self)
      | Inr (request, sid, eid) \<Rightarrow>
          (case sdp_type request of
             Offer \<Rightarrow> handle_offer_message E R now tc h s sid eid request self
           | Answer \<Rightarrow>
               (case accept_answer (env_sdp E) sid eid (four_tuple_from tc) request self of
                  (Inl err, self1) \<Rightarrow> (Err err, self1)
                | (Inr _, self1) \<Rightarrow> (Ok [], self1))
           | _ \<Rightarrow> (Err (Other (''Unsupported SDP type '' @ sdp_type_to_string (sdp_type request))), self)))"

definition handle_dtls_message ::
  "gateway_env \<Rightarrow> readings \<Rightarrow> instant \<Rightarrow> TransportContext \<Rightarrow> ApplicationMessage \<Rightarrow> ServerStates
   \<Rightarrow> (TaggedMessageEvent list, ServerStates) outcome" where
  "handle_dtls_message E R now tc m self =
     (case app_data_channel_event m of
        DcOpen \<Rightarrow> handle_datachannel_open E R now tc (app_association_handle m) (app_stream_id m) self
      | DcMessage payload \<Rightarrow>
          handle_datachannel_message E R now tc (app_association_handle m) (app_stream_id m) payload self
      | DcClose \<Rightarrow> handle_datachannel_close now tc (app_association_handle m) (app_stream_id m) self)"

section \<open>The handler\<close>

record GatewayHandler =
  gw_transmits :: "TaggedMessageEvent vecdeque"
  gw_next_timeout :: instant
  gw_idle_timeout :: duration

definition gateway_new :: "instant \<Rightarrow> ServerStates \<Rightarrow> GatewayHandler" where
  "gateway_new now self =
     (let idle = idle_timeout (st_server_config self)
      in \<lparr>gw_transmits = [], gw_next_timeout = now + int idle, gw_idle_timeout = idle\<rparr>)"

definition gateway_try_read ::
  "gateway_env \<Rightarrow> readings \<Rightarrow> TaggedMessageEvent \<Rightarrow> ServerStates \<Rightarrow> (TaggedMessageEvent list, ServerStates) outcome" where
  "gateway_try_read E R msg self =
     (case msg_message msg of
        Stun (StunMsg m) \<Rightarrow> handle_stun_message E R (msg_now msg) (msg_transport msg) m self
      | Dtls (DtlsDataChannel m) \<Rightarrow> handle_dtls_message E R (msg_now msg) (msg_transport msg) m self
      | Rtp (RtpPacket m) \<Rightarrow> handle_rtp_message R (msg_now msg) (msg_transport msg) m self
      | Rtp (RtcpPackets m) \<Rightarrow> handle_rtcp_message R (msg_now msg) (msg_transport msg) m self
      | _ \<Rightarrow> (Ok [], self))"

definition gateway_handle_read ::
  "gateway_env \<Rightarrow> readings \<Rightarrow> TaggedMessageEvent \<Rightarrow> GatewayHandler \<Rightarrow> ServerStates
   \<Rightarrow> TaggedMessageEvent ctx_call list \<times> GatewayHandler \<times> ServerStates" where
  "gateway_handle_read E R msg h self =
     (case gateway_try_read E R msg self of
        (Inl err, self1) \<Rightarrow> ([FireException err], h, self1)
      | (Inr ms, self1) \<Rightarrow> ([], h\<lparr>gw_transmits := fold push_back ms (gw_transmits h)\<rparr>, self1))"

text \<open>The four tuples of idle transports, in the order of the nested loops.\<close>

definition idle_four_tuples :: "instant \<Rightarrow> duration \<Rightarrow> ServerStates \<Rightarrow> FourTuple list" where
  "idle_four_tuples now idle self =
     concat (map (\<lambda>(_, session).
       concat (map (\<lambda>(_, ep).
         map (\<lambda>(_, t). tr_four_tuple t) (filter (\<lambda>(_, t). last_activity t \<le> now - int idle) (transports ep)))
         (endpoints session))) (sessions self))"

definition gateway_handle_timeout :: "instant \<Rightarrow> GatewayHandler \<Rightarrow> ServerStates \<Rightarrow> GatewayHandler \<times> ServerStates" where
  "gateway_handle_timeout now h self =
     (if gw_next_timeout h \<le> now then
        (h\<lparr>gw_next_timeout := gw_next_timeout h + int (gw_idle_timeout h)\<rparr>,
         fold states_remove_transport (idle_four_tuples now (gw_idle_timeout h) self) self)
      else (h, self))"

definition gateway_poll_timeout :: "instant \<Rightarrow> GatewayHandler \<Rightarrow> instant" where
  "gateway_poll_timeout deadline h = (if gw_next_timeout h < deadline then gw_next_timeout h else deadline)"

definition gateway_poll_write ::
  "TaggedMessageEvent option \<Rightarrow> GatewayHandler \<Rightarrow> TaggedMessageEvent option \<times> GatewayHandler" where
  "gateway_poll_write inner h =
     (let (m, q) = poll_queue inner (gw_transmits h) in (m, h\<lparr>gw_transmits := q\<rparr>))"

text \<open>The counts that \<open>transport_inactive\<close> reports.\<close>

definition gateway_transport_inactive :: "ServerStates \<Rightarrow> nat \<times> nat \<times> nat \<times> nat" where
  "gateway_transport_inactive self =
     (length (sessions self), sum_list (map (\<lambda>s. length (endpoints s)) (hm_values (sessions self))),
      length (st_endpoints self), length (candidates self))"

end
