(* ===== verification/Forwarding.thy ===== *)
theory Forwarding
  imports Gateway Transport_Access
begin

text \<open>
  Who receives the media that the gateway forwards: exactly the other endpoints of the sender's session whose
  transports have an SRTP context.
\<close>

section \<open>Receivers\<close>

lemma session_of_known:
  "find_endpoint (four_tuple_from tc) self = Some (sid, eid) \<Longrightarrow> get_session sid self = Some s \<Longrightarrow>
   session_of tc self = Ok (sid, eid, s)"
  by (simp add: session_of_def)

lemma distinct_concat_pairs:
  assumes "distinct (map fst es)" "\<And>k v. (k, v) \<in> set es \<Longrightarrow> distinct (g k v)"
  shows "distinct (concat (map (\<lambda>(k, v). map (Pair k) (g k v)) es))"
  using assms
proof (induction es)
  case (Cons e es)
  obtain k v where e: "e = (k, v)" by (cases e)
  have "distinct (map (Pair k) (g k v))" using Cons.prems(2)[of k v] e by (simp add: distinct_map inj_on_def)
  moreover have "set (map (Pair k) (g k v)) \<inter> set (concat (map (\<lambda>(k, v). map (Pair k) (g k v)) es)) = {}"
    using Cons.prems(1) e by force
  ultimately show ?case using Cons e by simp
qed simp

definition receivers :: "EndpointId \<Rightarrow> Session \<Rightarrow> (EndpointId \<times> FourTuple) list" where
  "receivers eid session =
     concat (map (\<lambda>(oid, other). map (Pair oid)
       (if oid \<noteq> eid then map fst (filter (\<lambda>(_, t). is_local_srtp_context_ready t) (transports other)) else []))
       (endpoints session))"

lemma receivers_distinct:
  assumes "session_wf d s"
  shows "distinct (receivers eid s)"
  unfolding receivers_def
proof (rule distinct_concat_pairs)
  show "distinct (map fst (endpoints s))" using assms by (simp add: session_wf_def hm_wf_def)
  fix k v assume "(k, v) \<in> set (endpoints s)"
  then have "hm_wf (transports v)"
    using assms by (auto simp: session_wf_def ep_ok_def endpoint_wf_def hm.entries_get)
  then show "distinct (if k \<noteq> eid then map fst (filter (\<lambda>(_, t). is_local_srtp_context_ready t) (transports v)) else [])"
    by (simp add: hm_wf_def distinct_map_filter)
qed

lemma receivers_set:
  assumes wf: "states_wf d self" and s: "get_session sid self = Some s"
  shows "set (receivers eid s) =
    {(e, ft). e \<noteq> eid \<and> (\<exists>t. transport_at sid e ft self = Some t \<and> is_local_srtp_context_ready t)}"
proof -
  have swf: "session_wf d s" using wf s by (rule states_wf_session)
  have eps: "(e, ep) \<in> set (endpoints s) \<longleftrightarrow> endpoint_at sid e self = Some ep" for e ep
    using swf s by (simp add: session_wf_def hm.entries_get endpoint_at_def get_endpoint_def)
  have trs: "(ft, t) \<in> set (transports ep) \<longleftrightarrow> hm_get (transports ep) ft = Some t"
    if "endpoint_at sid e self = Some ep" for e ep ft t
    using swf that s by (auto simp: session_wf_def ep_ok_def endpoint_wf_def hm.entries_get endpoint_at_def get_endpoint_def)
  show ?thesis
    by (force simp: receivers_def eps trs transport_at_def bind_eq_Some_conv split: if_splits)
qed

lemma media_contexts:
  assumes "find_endpoint (four_tuple_from tc) self = Some (sid, eid)" "get_session sid self = Some s"
  shows "get_other_media_transport_contexts tc self = Ok (map (\<lambda>(_, ft). context_of tc ft) (receivers eid s))"
proof -
  have "map (\<lambda>(_, ft). context_of tc ft) (receivers eid s) =
      concat (map (\<lambda>(oid, other). if oid \<noteq> eid then
        map (\<lambda>(ft, _). context_of tc ft) (filter (\<lambda>(_, t). is_local_srtp_context_ready t) (transports other)) else []) (endpoints s))"
    by (auto simp: receivers_def map_concat comp_def case_prod_beta intro!: arg_cong[where f = concat])
  then show ?thesis by (simp add: get_other_media_transport_contexts_def session_of_known[OF assms])
qed

lemma forward_media_exact:
  assumes wf: "states_wf d self" and ft: "ft = four_tuple_from tc"
    and idx: "find_endpoint ft self = Some (sid, eid)" and t: "transport_at sid eid ft self = Some t"
  shows "\<exists>rs self'. forward_media R now tc ev self =
      (Ok (map (\<lambda>(_, ft). \<lparr>msg_now = now, msg_transport = context_of tc ft, msg_message = Rtp ev\<rparr>) rs), self') \<and>
    distinct rs \<and>
    set rs = {(e, ft). e \<noteq> eid \<and> (\<exists>t. transport_at sid e ft self = Some t \<and> is_local_srtp_context_ready t)} \<and>
    self' = states_modify_endpoint sid eid (modify_transport ft (keep_alive (rd_now R))) self"
proof -
  let ?self = "states_modify_endpoint sid eid (modify_transport ft (keep_alive (rd_now R))) self"
  obtain s where s: "get_session sid self = Some s" using t by (auto simp: transport_at_def endpoint_at_def bind_eq_Some_conv)
  then obtain s1 where s1: "get_session sid ?self = Some s1" by (simp add: get_session_def states_modify_endpoint_def)
  have wf1: "states_wf d ?self" using wf
    by (rule states_wf_modify_endpoint) (auto intro!: ep_ok_modify_transport simp: keep_alive_def)
  have "states_get_transport ft self = Ok (sid, eid, t)" using get_transport_at[OF idx] t by simp
  then have "forward_media R now tc ev self =
      (Ok (map (\<lambda>(_, ft). \<lparr>msg_now = now, msg_transport = context_of tc ft, msg_message = Rtp ev\<rparr>) (receivers eid s1)), ?self)"
    using media_contexts[of tc ?self sid eid s1] idx s1
    by (simp add: forward_media_def get_mut_transport_def ft[symmetric] comp_def case_prod_beta)
  moreover have "set (receivers eid s1) =
      {(e, ft). e \<noteq> eid \<and> (\<exists>t. transport_at sid e ft self = Some t \<and> is_local_srtp_context_ready t)}"
    using receivers_set[OF wf1 s1, of eid] by (simp add: transport_at_modify) (metis (lifting))
  ultimately show ?thesis using receivers_distinct[OF states_wf_session[OF wf1 s1]] by blast
qed


text \<open>A state of two endpoints in one session, one of them with an SRTP context.\<close>

definition sample_media_states :: ServerStates where
  "sample_media_states = states_modify_endpoint 1 8
     (modify_transport (four_tuple_from (sample_context 8)) (set_local_srtp_context undefined)) sample_states"

definition sample_rtp :: TaggedMessageEvent where
  "sample_rtp = \<lparr>msg_now = 0, msg_transport = sample_context 7, msg_message = Rtp (RtpPacket undefined)\<rparr>"

lemma sample_media_sender: "\<exists>t. transport_at 1 7 (four_tuple_from (sample_context 7)) sample_media_states = Some t"
proof -
  have "\<exists>t. transport_at 1 7 (four_tuple_from (sample_context 7)) sample_states = Some t"
    using sample_endpoint_at(1) by (auto simp: transport_at_def)
  then show ?thesis by (auto simp: sample_media_states_def transport_at_modify)
qed

lemma sample_media_receivers:
  "{(e, ft). e \<noteq> 7 \<and> (\<exists>t. transport_at 1 e ft sample_media_states = Some t \<and> is_local_srtp_context_ready t)} =
     {(8, four_tuple_from (sample_context 8))}"
proof -
  let ?ft8 = "four_tuple_from (sample_context 8)"
  have "\<exists>t8. \<forall>ft. transport_at 1 8 ft sample_states = (if ft = ?ft8 then Some t8 else None)"
    using sample_endpoint_at(2) by (auto simp: transport_at_def)
  then obtain t8 where "\<forall>ft. transport_at 1 8 ft sample_states = (if ft = ?ft8 then Some t8 else None)" by blast
  then have "transport_at 1 8 ft sample_media_states = (if ft = ?ft8 then Some (set_local_srtp_context undefined t8) else None)" for ft
    by (simp add: sample_media_states_def transport_at_modify)
  moreover have "transport_at 1 e ft sample_media_states = None" if "e \<noteq> 7" "e \<noteq> 8" for e ft
  proof -
    have "transport_at 1 e ft sample_states = None" using sample_endpoint_at(3)[of e] that by (simp add: transport_at_def)
    then show ?thesis using that by (simp add: sample_media_states_def transport_at_modify)
  qed
  ultimately show ?thesis
    by (auto simp: set_local_srtp_context_def is_local_srtp_context_ready_def split: if_splits) (metis option.distinct(1))+
qed

lemma sample_media_wf: "states_wf True sample_media_states"
  unfolding sample_media_states_def
  by (rule states_wf_modify_endpoint[OF sample_states_wf]) (auto intro!: ep_ok_modify_transport simp: set_local_srtp_context_def)

lemma one_receiver: "distinct rs \<Longrightarrow> set rs = {a} \<Longrightarrow> rs = [a]"
  by (cases rs; cases "tl rs") auto


end
