(* ===== verification/Gateway_Steps.thy ===== *)
theory Gateway_Steps
  imports Forwarding
begin

text \<open>
  The gateway as a state machine: every event keeps the server states well formed, connectivity checks only admit
  authenticated peers, and the timer evicts exactly the idle transports.
\<close>

section \<open>Every event keeps the states well formed\<close>

lemma ep_ok_weaken: "ep_ok d eid ep \<Longrightarrow> ep_ok False eid ep"
  by (simp add: ep_ok_def)

lemma ep_ok_add_any: "ep_ok False eid ep \<Longrightarrow> ep_ok False eid (add_own_transceiver t ep)"
  by (auto simp: ep_ok_def endpoint_wf_def add_own_transceiver_def)

lemma ep_ok_open: "ep_ok False eid ep \<Longrightarrow> ep_ok False eid (open_channel ft h s new ep)"
  unfolding open_channel_def
  by (rule fold_invariant[where P = "ep_ok False eid" and Q = "\<lambda>_. True"])
    (auto simp: ep_ok_add_any set_association_handle_and_stream_id_def intro!: ep_ok_modify_transport)

lemma session_of_wf:
  "states_wf d self \<Longrightarrow> session_of tc self = Ok (sid, eid, s) \<Longrightarrow> session_ok d self sid s"
  by (auto simp: session_of_def states_wf_def result_simps)

lemma states_wf_add_endpoint:
  assumes wf: "states_wf d self"
  shows "states_wf d (snd (gateway_add_endpoint E R request cand tc self))"
proof -
  have "states_wf d (put_session (cand_session_id cand) s1 self)"
    if "get_session (cand_session_id cand) self = Some s" "session_add_endpoint T now clock cand tc s = (r, s1)" for s s1 T now clock r
  proof -
    have ok: "session_ok d self (cand_session_id cand) s" using wf that(1) by (simp add: states_wf_def)
    have "session_wf d s1" "same_identity s s1"
      using session_wf_add_endpoint[of d s T now clock cand tc] same_identity_add[of s T now clock cand tc] that(2) ok
      by (simp_all add: session_ok_def)
    then show ?thesis using wf ok by (blast intro: states_wf_put session_ok_step)
  qed
  then show ?thesis using wf
    by (auto simp: gateway_add_endpoint_def Let_def states_wf_index split: option.splits prod.splits sum.splits)
qed

lemma states_wf_stun:
  "states_wf d self \<Longrightarrow> states_wf d (snd (handle_stun_message E R now tc request self))"
  using states_wf_add_endpoint[of d self E R]
  by (auto simp: handle_stun_message_def split: prod.splits sum.splits option.splits) (metis snd_conv)+

lemma states_wf_offer_event:
  assumes wf: "states_wf d self"
  shows "states_wf d (snd (create_offer_message_event E jsep now tc h s self))"
proof -
  have "states_wf d (put_session sid s1 self) \<and> states_wf d (put_session sid (snd (session_set_local_description eid offer s1)) self)"
    if "session_of tc self = Ok (sid, eid, session)" "s1 = modify_endpoint eid (set_renegotiation_needed False) session"
    for sid eid session s1 offer
  proof -
    have ok: "session_ok d self sid session" using session_of_wf[OF wf that(1)] .
    have 1: "session_wf d s1" "same_identity session s1"
      using ok that(2) by (simp_all add: session_ok_def session_wf_modify)
    then have "session_wf d (snd (session_set_local_description eid offer s1))"
      "same_identity session (snd (session_set_local_description eid offer s1))"
      using session_wf_set_local same_identity_local[of s1 eid offer] by (auto simp: same_identity_def)
    with 1 show ?thesis using wf ok by (blast intro: states_wf_put session_ok_step)
  qed
  then show ?thesis using wf
    by (auto simp: create_offer_message_event_def Let_def split: prod.splits sum.splits option.splits) (metis snd_conv)+
qed

lemma states_wf_open:
  assumes wf: "states_wf False self"
  shows "states_wf False (snd (handle_datachannel_open E R now tc h s self))"
proof -
  have "states_wf False (put_session sid (modify_endpoint eid (\<lambda>_. open_channel ft h s new ep) session) self)"
    if "session_of tc self = Ok (sid, eid, session)" "get_endpoint eid session = Some ep" for sid eid session ep ft new
  proof -
    have ok: "session_ok False self sid session" using session_of_wf[OF wf that(1)] .
    then have "ep_ok False eid (open_channel ft h s new ep)"
      using that(2) by (auto simp: session_ok_def session_wf_def get_endpoint_def intro!: ep_ok_open)
    then show ?thesis using wf ok
      by (intro states_wf_put session_ok_step[OF ok]) (simp_all add: session_ok_def session_wf_modify)
  qed
  then show ?thesis using wf states_wf_offer_event[of False]
    by (auto simp: handle_datachannel_open_def Let_def split: prod.splits sum.splits option.splits) (metis snd_conv)+
qed

lemma states_wf_offer_to_peers:
  "states_wf d self \<Longrightarrow> states_wf d (snd (offer_to_peers E jsep now i peers self))"
proof (induction E jsep now i peers self rule: offer_to_peers.induct)
  case (2 E jsep now i tc h s needed peers self)
  obtain r self1 where 1: "create_offer_message_event E (jsep i) now tc h s self = (r, self1)" by fastforce
  then have "states_wf d self1" using states_wf_offer_event[OF 2(3)] by (metis snd_conv)
  with 1 2 show ?case by (auto split: sum.splits prod.splits)
qed simp

lemma states_wf_message:
  assumes wf: "states_wf d self"
  shows "states_wf d (snd (handle_datachannel_message E R now tc h s payload self))"
proof -
  have "states_wf d self1" if "accept_offer L sha256 jsep b64 user pwd now sid eid ft offer self = (r, self1)"
    for L sha256 jsep b64 user pwd now sid eid ft offer r self1
    using states_wf_accept_offer[OF wf] that by (metis snd_conv)
  moreover have "states_wf d self2" if "states_wf d self1" "offer_to_peers E js now 1 peers self1 = (r, self2)" for self1 js peers r self2
    using states_wf_offer_to_peers[OF that(1)] that(2) by (metis snd_conv)
  moreover have "states_wf d self1" if "accept_answer L sid eid ft answer self = (r, self1)" for L sid eid ft answer r self1
    using states_wf_accept_answer[OF wf] that by (metis snd_conv)
  ultimately show ?thesis using wf
    by (simp add: handle_datachannel_message_def handle_offer_message_def split: prod.splits sum.splits RTCSdpType.splits) blast
qed

lemma states_wf_try_read: "states_wf False self \<Longrightarrow> states_wf False (snd (gateway_try_read E R msg self))"
proof -
  assume wf: "states_wf False self"
  have "states_wf False (snd (forward_media R now tc ev self))" for now tc ev
    using states_wf_transport[OF wf, of "keep_alive (rd_now R)"]
    by (auto simp: forward_media_def keep_alive_def split: prod.splits sum.splits) (metis snd_conv)+
  then show ?thesis using wf states_wf_stun states_wf_open states_wf_message
    by (auto simp: gateway_try_read_def handle_rtp_message_def handle_rtcp_message_def handle_dtls_message_def
        handle_datachannel_close_def
        split: MessageEvent.splits STUNMessageEvent.splits DTLSMessageEvent.splits RTPMessageEvent.splits DataChannelEvent.splits)
qed

lemma states_wf_timeout: "states_wf d self \<Longrightarrow> states_wf d (snd (gateway_handle_timeout now h self))"
  by (auto simp: gateway_handle_timeout_def intro!: fold_invariant[where P = "states_wf d" and Q = "\<lambda>_. True"] states_wf_remove_transport)

section \<open>Reachable states\<close>

text \<open>
  One run of the server: events reach the gateway in any order, with any content and any readings of the clock and the random
  source; offers may also come in from outside, through the signalling of the application.
\<close>

inductive gateway_reach :: "gateway_env \<Rightarrow> GatewayHandler \<Rightarrow> ServerStates \<Rightarrow> bool" for E where
  init: "states_new (env_sha256 E) sc addr = Ok self \<Longrightarrow> gateway_reach E (gateway_new now self) self"
| read: "gateway_reach E h self \<Longrightarrow> gateway_handle_read E R msg h self = (calls, h', self') \<Longrightarrow> gateway_reach E h' self'"
| timeout: "gateway_reach E h self \<Longrightarrow> gateway_handle_timeout now h self = (h', self') \<Longrightarrow> gateway_reach E h' self'"
| poll: "gateway_reach E h self \<Longrightarrow> gateway_poll_write inner h = (m, h') \<Longrightarrow> gateway_reach E h' self"
| signal: "gateway_reach E h self \<Longrightarrow>
     accept_offer (env_sdp E) (env_sha256 E) jsep (env_b64 E) user pwd now sid eid None offer self = (r, self') \<Longrightarrow>
     gateway_reach E h self'"

inductive_cases gateway_reach_cases: "gateway_reach E h self"

lemma idle_timeout_kept:
  "gateway_handle_read E R msg h self = (calls, h', self') \<Longrightarrow> gw_idle_timeout h' = gw_idle_timeout h \<and> gw_next_timeout h' = gw_next_timeout h"
  "gateway_handle_timeout now h self = (h', self') \<Longrightarrow> gw_idle_timeout h' = gw_idle_timeout h"
  "gateway_poll_write inner h = (m, h') \<Longrightarrow> gw_idle_timeout h' = gw_idle_timeout h"
  by (auto simp: gateway_handle_read_def gateway_handle_timeout_def gateway_poll_write_def Let_def case_prod_beta split: sum.splits if_splits)

text \<open>
  In every state the server can reach, through any sequence of connectivity checks, media, data channel
  messages, offers and timeouts, also failing ones, the states are well formed.
\<close>

theorem reachable_states_wf:
  assumes "gateway_reach E h self"
  shows "states_wf False self"
  using assms
proof induction
  case (init sc addr self now)
  then show ?case
    by (auto simp: states_new_def states_wf_def get_session_def find_candidate_def split: list.splits)
next
  case (read h self R msg calls h' self')
  then show ?case using states_wf_try_read[OF read.IH, of E R msg]
    by (auto simp: gateway_handle_read_def split: prod.splits sum.splits)
next
  case (timeout h self now h' self')
  then show ?case using states_wf_timeout[OF timeout.IH, of now h] by simp
next
  case (signal h self jsep user pwd now sid eid offer r self')
  then show ?case using states_wf_accept_offer[OF signal.IH] by (metis snd_conv)
qed

section \<open>Connectivity checks\<close>

definition transport_in :: "Session \<Rightarrow> EndpointId \<Rightarrow> FourTuple \<Rightarrow> Transport option" where
  "transport_in s e f = Option.bind (get_endpoint e s) (\<lambda>ep. hm_get (transports ep) f)"

lemma transport_at_put:
  "transport_at i e f (put_session sid s self) = (if i = sid then transport_in s e f else transport_at i e f self)"
  by (simp add: transport_at_def endpoint_at_put transport_in_def)

lemma transport_at_index [simp]: "transport_at i e f (states_add_endpoint ft sid eid self) = transport_at i e f self"
  by (simp add: transport_at_def endpoint_at_def get_session_def states_add_endpoint_def)

lemma session_add_endpoint_view:
  assumes "session_add_endpoint T now clock cand tc s = (r, s1)" "transport_in s (cand_endpoint_id cand) (four_tuple_from tc) = None"
  shows "transport_in s1 e f =
      (if e = cand_endpoint_id cand \<and> f = four_tuple_from tc then Some (session_transport T now cand (four_tuple_from tc) s)
       else transport_in s e f) \<and> (\<exists>b. r = Ok b)"
proof -
  have "tr_four_tuple (session_transport T now cand ft s) = ft" for ft
    by (simp add: session_transport_def transport_new_def Let_def)
  with assms show ?thesis
    by (auto simp: session_add_endpoint_def Let_def transport_in_def get_endpoint_def has_transport_def hm_contains_key_def
        add_transport_def ep_set_remote_description_def ep_set_local_description_def endpoint_new_def modify_endpoint_def
        split: option.splits if_splits)
qed

text \<open>The condition under which a request connects a transport.\<close>

definition nominated :: "stun_lib \<Rightarrow> stun_message \<Rightarrow> ServerStates \<Rightarrow> Candidate \<Rightarrow> bool" where
  "nominated S request self c \<longleftrightarrow>
     (case get_username S request of
        None \<Rightarrow> False
      | Some name \<Rightarrow> find_candidate name self = Some c \<and>
          (case check_integrity S (password (get_local_parameters c)) request of
             (r, request1) \<Rightarrow> is_ok r \<and> contains_attr S ATTR_USE_CANDIDATE request1))"

lemma check_stun_ok:
  assumes "check_stun_message S self request = (Ok (Some c), request1)" "contains_attr S ATTR_USE_CANDIDATE request1"
  shows "nominated S request self c"
  using assms
  by (auto simp: check_stun_message_def authenticate_def nominated_def Let_def is_ok_iff split: option.splits if_splits prod.splits sum.splits)

lemma add_endpoint_view:
  assumes "gateway_add_endpoint E R request c tc self = (r, self')"
  shows "self' = self \<or>
    contains_attr (env_stun E) ATTR_USE_CANDIDATE request \<and>
    transport_at (cand_session_id c) (cand_endpoint_id c) (four_tuple_from tc) self = None \<and>
    find_endpoint f self' = (if f = four_tuple_from tc then Some (cand_session_id c, cand_endpoint_id c) else find_endpoint f self) \<and>
    (\<exists>s. get_session (cand_session_id c) self = Some s \<and>
     transport_at i e f self' =
       (if (i, e, f) = (cand_session_id c, cand_endpoint_id c, four_tuple_from tc)
        then Some (session_transport (env_transport E) (rd_now R) c (four_tuple_from tc) s)
        else transport_at i e f self))"
proof -
  let ?sid = "cand_session_id c" and ?eid = "cand_endpoint_id c" and ?ft = "four_tuple_from tc"
  consider "self' = self"
    | s r1 s1 where "get_session ?sid self = Some s" "contains_attr (env_stun E) ATTR_USE_CANDIDATE request"
      "transport_in s ?eid ?ft = None"
      "session_add_endpoint (env_transport E) (rd_now R) (rd_clock R) c tc s = (r1, s1)"
      "self' = states_add_endpoint ?ft ?sid ?eid (put_session ?sid s1 self)"
  proof -
    assume a: "self' = self \<Longrightarrow> thesis"
      and b: "\<And>s r1 s1. get_session ?sid self = Some s \<Longrightarrow> contains_attr (env_stun E) ATTR_USE_CANDIDATE request \<Longrightarrow>
        transport_in s ?eid ?ft = None \<Longrightarrow>
        session_add_endpoint (env_transport E) (rd_now R) (rd_clock R) c tc s = (r1, s1) \<Longrightarrow>
        self' = states_add_endpoint ?ft ?sid ?eid (put_session ?sid s1 self) \<Longrightarrow> thesis"
    show thesis
    proof (cases "get_session ?sid self")
      case None
      then show ?thesis using a assms by (simp add: gateway_add_endpoint_def Let_def)
    next
      case (Some s)
      obtain r1 s1 where s1: "session_add_endpoint (env_transport E) (rd_now R) (rd_clock R) c tc s = (r1, s1)" by fastforce
      show ?thesis
      proof (cases "contains_attr (env_stun E) ATTR_USE_CANDIDATE request \<and> transport_in s ?eid ?ft = None")
        case True
        obtain b1 where "r1 = Ok b1" using session_add_endpoint_view[OF s1] True by blast
        then have "self' = states_add_endpoint ?ft ?sid ?eid (put_session ?sid s1 self)"
          using assms Some s1 True
          by (auto simp: gateway_add_endpoint_def Let_def transport_in_def has_transport_def hm_contains_key_def split: option.splits if_splits)
        then show ?thesis using b Some s1 True by blast
      next
        case False
        then have "self' = self" using assms Some
          by (auto simp: gateway_add_endpoint_def Let_def transport_in_def has_transport_def hm_contains_key_def split: option.splits)
        then show ?thesis by (rule a)
      qed
    qed
  qed
  then show ?thesis
  proof cases
    case (2 s r1 s1)
    have in_at: "transport_in s e f = transport_at ?sid e f self" for e f
      using 2(1) by (simp add: transport_in_def transport_at_def endpoint_at_def)
    show ?thesis using 2 session_add_endpoint_view[OF 2(4,3), of e f]
      by (auto simp: transport_at_put in_at) (auto simp: states_add_endpoint_def find_endpoint_def)
  qed simp
qed

text \<open>
  C8: A connectivity check changes the server only if it carries the user name of a filed candidate, passes the
  integrity check under that candidate's local password and nominates the pair. It then connects exactly one transport, of
  the candidate's endpoint and the sender's four tuple, which was not connected before. Whatever it carries, only its sender
  is answered.
\<close>

theorem stun_admits_authenticated:
  assumes "handle_stun_message E R now tc request self = (r, self')"
  shows "(self' = self \<or>
      (\<exists>c. nominated (env_stun E) request self c \<and>
         transport_at (cand_session_id c) (cand_endpoint_id c) (four_tuple_from tc) self = None \<and>
         find_endpoint f self' =
           (if f = four_tuple_from tc then Some (cand_session_id c, cand_endpoint_id c) else find_endpoint f self) \<and>
         (transport_at i e f self' \<noteq> transport_at i e f self \<longrightarrow>
            (i, e, f) = (cand_session_id c, cand_endpoint_id c, four_tuple_from tc)) \<and>
         map_option tr_candidate (transport_at (cand_session_id c) (cand_endpoint_id c) (four_tuple_from tc) self') = Some c)) \<and>
    (\<forall>ms. r = Ok ms \<longrightarrow> map msg_transport ms = [tc])"
proof -
  have ans: "map msg_transport ms = [tc]" if "r = Ok ms" for ms
    using that assms
    by (auto simp: handle_stun_message_def create_server_reflective_address_message_event_def result_simps
        split: prod.splits sum.splits option.splits)
  have cand: "tr_candidate (session_transport T n c ft s) = c" for T n c ft s
    by (simp add: session_transport_def transport_new_def Let_def)
  obtain k request1 where chk: "check_stun_message (env_stun E) self request = (k, request1)" by fastforce
  show ?thesis
  proof (cases "\<exists>c. k = Ok (Some c)")
    case True
    then obtain c where c: "k = Ok (Some c)" by blast
    obtain r1 self1 where add: "gateway_add_endpoint E R request1 c tc self = (r1, self1)" by fastforce
    then have "self' = self1" using assms chk c by (auto simp: handle_stun_message_def split: sum.splits)
    then show ?thesis
      using add_endpoint_view[OF add, of f i e] add_endpoint_view[OF add, of "four_tuple_from tc" "cand_session_id c" "cand_endpoint_id c"]
        check_stun_ok[OF chk[unfolded c]] ans cand by fastforce
  next
    case False
    then have "self' = self" using assms chk by (auto simp: handle_stun_message_def split: sum.splits option.splits)
    then show ?thesis using ans by blast
  qed
qed

section \<open>Eviction of idle transports\<close>

text \<open>The index knows every transport, hence no two endpoints share a four tuple.\<close>

definition indexed :: "ServerStates \<Rightarrow> bool" where
  "indexed self \<longleftrightarrow> (\<forall>sid eid ft t. transport_at sid eid ft self = Some t \<longrightarrow> find_endpoint ft self = Some (sid, eid))"

lemma remove_transport_find:
  "find_endpoint f (states_remove_transport ft self) = find_endpoint f self \<or>
   f = ft \<and> find_endpoint f (states_remove_transport ft self) = None"
proof (cases "\<exists>sid eid ep. find_endpoint ft self = Some (sid, eid) \<and> endpoint_at sid eid self = Some ep")
  case True
  then show ?thesis using remove_transport_view(2) by (metis (full_types))
next
  case False
  then show ?thesis using remove_transport_nothing[of ft self] by (cases "find_endpoint ft self") fastforce+
qed

lemma indexed_remove: "indexed self \<Longrightarrow> indexed (states_remove_transport ft self)"
  unfolding indexed_def using remove_transport_find by (metis option.distinct(1) option.inject remove_transport_at)

lemma remove_transports_at:
  assumes "indexed self"
  shows "transport_at i e f (fold states_remove_transport fts self) = (if f \<in> set fts then None else transport_at i e f self)
    \<and> indexed (fold states_remove_transport fts self)"
  using assms
proof (induction fts arbitrary: self)
  case (Cons ft fts)
  have "transport_at i e f (states_remove_transport ft self) = (if f = ft then None else transport_at i e f self)"
    using Cons.prems by (auto simp: remove_transport_at indexed_def) (metis not_Some_eq)
  then show ?case using Cons.IH[OF indexed_remove[OF Cons.prems, of ft]] by auto
qed simp

lemma idle_four_tuples_set:
  assumes wf: "states_wf d self"
  shows "set (idle_four_tuples now idle self) =
    {ft. \<exists>sid eid t. transport_at sid eid ft self = Some t \<and> last_activity t \<le> now - int idle}"
proof -
  have ss: "(sid, s) \<in> set (sessions self) \<longleftrightarrow> get_session sid self = Some s" for sid s
    using wf by (simp add: states_wf_def hm.entries_get get_session_def)
  have es: "(eid, ep) \<in> set (endpoints s) \<longleftrightarrow> get_endpoint eid s = Some ep" if "get_session sid self = Some s" for sid s eid ep
    using states_wf_session[OF wf that] by (simp add: session_wf_def hm.entries_get get_endpoint_def)
  have ts: "((ft, t) \<in> set (transports ep) \<longleftrightarrow> hm_get (transports ep) ft = Some t) \<and> (hm_get (transports ep) ft = Some t \<longrightarrow> tr_four_tuple t = ft)"
    if "get_session sid self = Some s" "get_endpoint eid s = Some ep" for sid s eid ep ft t
    using states_wf_session[OF wf that(1)] that(2)
    by (auto simp: session_wf_def get_endpoint_def ep_ok_def endpoint_wf_def hm.entries_get)
  have "\<exists>sid eid t. transport_at sid eid ft self = Some t \<and> last_activity t \<le> now - int idle"
    if in_fts: "ft \<in> set (idle_four_tuples now idle self)" for ft
  proof -
    obtain sid s eid ep f t where "(sid, s) \<in> set (sessions self)" "(eid, ep) \<in> set (endpoints s)" "(f, t) \<in> set (transports ep)"
      and t: "last_activity t \<le> now - int idle" "ft = tr_four_tuple t"
      using in_fts by (auto simp: idle_four_tuples_def)
    then have "get_session sid self = Some s" "get_endpoint eid s = Some ep" "hm_get (transports ep) ft = Some t"
      using ss es ts by auto
    then have "transport_at sid eid ft self = Some t" by (simp add: transport_at_def endpoint_at_def)
    then show ?thesis using t by blast
  qed
  moreover have "ft \<in> set (idle_four_tuples now idle self)"
    if at: "transport_at sid eid ft self = Some t" and t: "last_activity t \<le> now - int idle" for sid eid ft t
  proof -
    obtain s ep where "get_session sid self = Some s" "get_endpoint eid s = Some ep" "hm_get (transports ep) ft = Some t"
      using at by (auto simp: transport_at_def endpoint_at_def bind_eq_Some_conv)
    then have "(sid, s) \<in> set (sessions self)" "(eid, ep) \<in> set (endpoints s)" "(ft, t) \<in> set (transports ep)" "tr_four_tuple t = ft"
      using ss es ts by auto
    then show ?thesis using t unfolding idle_four_tuples_def by (force intro!: rev_bexI)
  qed
  ultimately show ?thesis by blast
qed

text \<open>
  C20: When the idle timer is due and every transport is indexed, the gateway evicts exactly the transports that
  have been idle for the timeout, the others stay as they are, and the timer moves on by one timeout. Before it is due
  nothing happens.
\<close>

theorem idle_transports_evicted:
  assumes "states_wf d self" "indexed self" "gateway_handle_timeout now h self = (h', self')"
  shows "if gw_next_timeout h \<le> now then
      transport_at i e f self' =
        (case transport_at i e f self of
           Some t \<Rightarrow> if last_activity t \<le> now - int (gw_idle_timeout h) then None else Some t
         | None \<Rightarrow> None) \<and>
      indexed self' \<and> gw_next_timeout h' = gw_next_timeout h + int (gw_idle_timeout h)
    else (h', self') = (h, self)"
proof (cases "gw_next_timeout h \<le> now")
  case True
  let ?fts = "idle_four_tuples now (gw_idle_timeout h) self"
  have "self' = fold states_remove_transport ?fts self"
    "h' = h\<lparr>gw_next_timeout := gw_next_timeout h + int (gw_idle_timeout h)\<rparr>"
    using assms(3) True by (auto simp: gateway_handle_timeout_def)
  moreover have "f \<in> set ?fts \<longleftrightarrow> (\<exists>t. transport_at i e f self = Some t \<and> last_activity t \<le> now - int (gw_idle_timeout h))"
    if "transport_at i e f self \<noteq> None"
    using that assms(2) by (auto simp: idle_four_tuples_set[OF assms(1)] indexed_def) (metis option.inject prod.inject)
  ultimately show ?thesis using True remove_transports_at[OF assms(2), of i e f ?fts]
    by (auto split: option.splits)
qed (use assms(3) in \<open>auto simp: gateway_handle_timeout_def\<close>)

text \<open>
  If two endpoints have a transport with the same four tuple, as after a check from a four tuple that another
  endpoint used before, the idle transport of the endpoint that lost the index entry evicts the transport of the other
  endpoint, however active it is, and stays itself.
\<close>

theorem shared_four_tuple_evicts_active:
  assumes "states_wf d self" "gateway_handle_timeout now h self = (h', self')" "gw_next_timeout h \<le> now"
    "find_endpoint ft self = Some (sid, eid)" "transport_at sid' eid' ft self = Some t" "(sid', eid') \<noteq> (sid, eid)"
    "last_activity t \<le> now - int (gw_idle_timeout h)"
  shows "transport_at sid eid ft self' = None \<and> transport_at sid' eid' ft self' = Some t"
proof -
  let ?fts = "idle_four_tuples now (gw_idle_timeout h) self"
  have self': "self' = fold states_remove_transport ?fts self" using assms(2,3) by (simp add: gateway_handle_timeout_def)
  have ft: "ft \<in> set ?fts" using assms(5,7) by (auto simp: idle_four_tuples_set[OF assms(1)])
  have gone: "transport_at sid eid ft s = None \<Longrightarrow> transport_at sid eid ft (fold states_remove_transport fts s) = None" for fts s
    by (induction fts arbitrary: s) (simp_all add: remove_transport_at)
  have "transport_at sid' eid' ft (fold states_remove_transport fts s) = Some t"
    if "transport_at sid' eid' ft s = Some t" "find_endpoint ft s \<noteq> Some (sid', eid')" for fts s
    using that
  proof (induction fts arbitrary: s)
    case (Cons f fts)
    have "find_endpoint ft (states_remove_transport f s) \<noteq> Some (sid', eid')"
      using Cons.prems(2) remove_transport_find[of ft f s] by auto
    moreover have "transport_at sid' eid' ft (states_remove_transport f s) = Some t"
      using Cons.prems by (auto simp: remove_transport_at)
    ultimately show ?case using Cons.IH by simp
  qed simp
  moreover have "transport_at sid eid ft (fold states_remove_transport fts s) = None"
    if "ft \<in> set fts" "find_endpoint ft s = Some (sid, eid)" for fts s
    using that
  proof (induction fts arbitrary: s)
    case (Cons f fts)
    show ?case
    proof (cases "f = ft")
      case True
      then show ?thesis using gone[of "states_remove_transport ft s" fts] Cons.prems(2) by (simp add: remove_transport_at)
    next
      case False
      then have "find_endpoint ft (states_remove_transport f s) = Some (sid, eid)"
        using Cons.prems(2) remove_transport_find[of ft f s] by auto
      then show ?thesis using Cons False by simp
    qed
  qed simp
  ultimately show ?thesis using self' ft assms(4-6) by auto
qed

section \<open>Witnesses\<close>

definition sample_stun :: stun_lib where
  "sample_stun = \<lparr>get_username = (\<lambda>_. Some (username (sample_candidate 1 7))),
     contains_attr = (\<lambda>a _. a \<in> {ATTR_PRIORITY, ATTR_ICE_CONTROLLING, ATTR_USE_CANDIDATE}),
     stun_transaction_id = (\<lambda>_. undefined), check_integrity = (\<lambda>_ m. (Ok (), m)),
     build_binding_success = (\<lambda>_ _ _. Ok undefined), add_integrity = (\<lambda>_ m. Ok m), add_stun_fingerprint = (\<lambda>m. Ok m)\<rparr>"

definition sample_env :: gateway_env where
  "sample_env = \<lparr>env_sdp = offer_lib, env_transport = sample_transport_lib, env_stun = sample_stun,
     env_json = \<lparr>from_json = (\<lambda>_. Inl []), to_json = (\<lambda>_. Inr [])\<rparr>, env_sha256 = id, env_b64 = sample_b64\<rparr>"

definition sample_readings :: readings where
  "sample_readings = \<lparr>rd_now = 0, rd_clock = (\<lambda>_. 0), rd_jsep = (\<lambda>_. empty_session),
     rd_user = replicate 9 0, rd_pwd = replicate 18 0\<rparr>"

lemma sample_env_sel [simp]: "env_sha256 sample_env = id" "env_stun sample_env = sample_stun"
  by (simp_all add: sample_env_def)

lemma sample_states_find:
  "find_endpoint ft sample_states =
     (if ft = four_tuple_from (sample_context 7) then Some (1, 7)
      else if ft = four_tuple_from (sample_context 8) then Some (1, 8) else None)"
  by (simp add: sample_states_def find_endpoint_def hm_get_def)

lemma sample_transport_cases:
  "transport_at sid eid ft sample_states \<noteq> None \<longleftrightarrow>
     sid = 1 \<and> (eid = 7 \<and> ft = four_tuple_from (sample_context 7) \<or> eid = 8 \<and> ft = four_tuple_from (sample_context 8))"
proof (cases "sid = 1")
  case True
  obtain ep7 ep8 t7 t8 where "endpoint_at 1 7 sample_states = Some ep7" "transports ep7 = [(four_tuple_from (sample_context 7), t7)]"
    "endpoint_at 1 8 sample_states = Some ep8" "transports ep8 = [(four_tuple_from (sample_context 8), t8)]"
    using sample_endpoint_at(1,2) by blast
  then show ?thesis using True sample_endpoint_at(3)[of eid]
    by (cases "eid = 7"; cases "eid = 8") (simp_all add: transport_at_def)
next
  case False
  then show ?thesis by (simp add: transport_at_def endpoint_at_def get_session_def sample_states_def)
qed

lemma sample_indexed: "indexed sample_states"
  using sample_transport_cases by (auto simp: indexed_def sample_states_find)
    (auto simp: four_tuple_from_def sample_context_def)

theorem reachable_states_wf_witness:
  "\<exists>self. states_new id sample_server_config (SocketAddrV4 0 0) = Ok self \<and> states_wf False self"
proof -
  obtain self where self: "states_new id sample_server_config (SocketAddrV4 0 0) = Ok self"
    by (simp add: states_new_def sample_server_config_def server_config_new_def get_fingerprints_def sample_certificate_def
        certificate_from_existing_def)
  then have "gateway_reach sample_env (gateway_new 0 self) self" by (simp add: gateway_reach.init)
  from reachable_states_wf[OF this] self show ?thesis by blast
qed

theorem idle_transports_evicted_witness:
  "\<exists>h' self'. gateway_handle_timeout (10 ^ 12) (gateway_new 0 sample_states) sample_states = (h', self') \<and>
     transport_at 1 7 (four_tuple_from (sample_context 7)) self' = None"
proof -
  let ?h = "gateway_new 0 sample_states" and ?ft = "four_tuple_from (sample_context 7)"
  obtain h' self' where r: "gateway_handle_timeout (10 ^ 12) ?h sample_states = (h', self')" by fastforce
  have idle: "gw_next_timeout ?h = 30 * 10 ^ 9" "gw_idle_timeout ?h = 30 * 10 ^ 9"
    by (simp_all add: gateway_new_def sample_states_def sample_server_config_def server_config_new_def)
  obtain t where t: "transport_at 1 7 ?ft sample_states = Some t" "last_activity t = 0"
    using sample_endpoint_at(1) by (auto simp: transport_at_def session_transport_def transport_new_def Let_def)
  show ?thesis
    using idle_transports_evicted[OF sample_states_wf sample_indexed r, of 1 7 ?ft] r t idle by simp
qed

theorem stun_admits_authenticated_witness:
  "\<exists>r self'. handle_stun_message sample_env sample_readings 0 (sample_context 9) undefined sample_states = (r, self') \<and>
     find_endpoint (four_tuple_from (sample_context 9)) self' = Some (1, 7)"
proof -
  let ?ft = "four_tuple_from (sample_context 9)"
  obtain r self' where r: "handle_stun_message sample_env sample_readings 0 (sample_context 9) undefined sample_states = (r, self')"
    by fastforce
  have ft: "?ft \<noteq> four_tuple_from (sample_context 7)" "?ft \<noteq> four_tuple_from (sample_context 8)"
    by (simp_all add: four_tuple_from_def sample_context_def)
  have cand: "find_candidate (username (sample_candidate 1 7)) sample_states = Some (sample_candidate 1 7)"
    by (simp add: find_candidate_def sample_states_def)
  have s: "get_session 1 sample_states = Some (sample_session [7, 8])" by (simp add: get_session_def sample_states_def)
  have ids: "cand_session_id (sample_candidate 1 7) = 1" "cand_endpoint_id (sample_candidate 1 7) = 7"
    by (simp_all add: sample_candidate_def candidate_new_def)
  have chk: "check_stun_message sample_stun sample_states undefined = (Ok (Some (sample_candidate 1 7)), undefined)"
    by (simp add: check_stun_message_def authenticate_def sample_stun_def cand Let_def)
  have none: "transport_in (sample_session [7, 8]) 7 ?ft = None"
    using sample_transport_cases[of 1 7 ?ft] ft s by (simp add: transport_in_def transport_at_def endpoint_at_def)
  obtain r1 s1 where s1: "session_add_endpoint (env_transport sample_env) (rd_now sample_readings) (rd_clock sample_readings)
      (sample_candidate 1 7) (sample_context 9) (sample_session [7, 8]) = (r1, s1)" by fastforce
  obtain b where "r1 = Ok b" using session_add_endpoint_view[OF s1] none ids by auto
  then have "gateway_add_endpoint sample_env sample_readings undefined (sample_candidate 1 7) (sample_context 9) sample_states
      = (Ok b, states_add_endpoint ?ft 1 7 (put_session 1 s1 sample_states))"
    using s s1 none by (auto simp: gateway_add_endpoint_def Let_def ids sample_stun_def transport_in_def has_transport_def
        hm_contains_key_def split: option.splits)
  then have "self' = states_add_endpoint ?ft 1 7 (put_session 1 s1 sample_states)"
    using r chk by (simp add: handle_stun_message_def)
  then have "find_endpoint ?ft self' = Some (1, 7)" by (simp add: find_endpoint_def states_add_endpoint_def)
  with r stun_admits_authenticated[OF r] show ?thesis by blast
qed

theorem shared_four_tuple_evicts_active_witness:
  "\<exists>h' self'. gateway_handle_timeout (10 ^ 12) (gateway_new 0 sample_states)
       (states_add_endpoint (four_tuple_from (sample_context 7)) 1 8 sample_states) = (h', self') \<and>
     transport_at 1 7 (four_tuple_from (sample_context 7)) self' \<noteq> None"
proof -
  let ?ft = "four_tuple_from (sample_context 7)" and ?h = "gateway_new 0 sample_states"
  let ?self = "states_add_endpoint ?ft 1 8 sample_states"
  obtain h' self' where r: "gateway_handle_timeout (10 ^ 12) ?h ?self = (h', self')" by fastforce
  have idle: "gw_next_timeout ?h = 30 * 10 ^ 9" "gw_idle_timeout ?h = 30 * 10 ^ 9"
    by (simp_all add: gateway_new_def sample_states_def sample_server_config_def server_config_new_def)
  obtain t where t: "transport_at 1 7 ?ft sample_states = Some t" "last_activity t = 0"
    using sample_endpoint_at(1) by (auto simp: transport_at_def session_transport_def transport_new_def Let_def)
  have "find_endpoint ?ft ?self = Some (1, 8)" by (simp add: find_endpoint_def states_add_endpoint_def)
  then show ?thesis
    using shared_four_tuple_evicts_active[OF states_wf_index(1)[OF sample_states_wf] r, of ?ft 1 8 1 7 t] r t idle by simp
qed

end
