(* ===== verification/Pipeline.thy ===== *)
theory Pipeline
  imports Demuxer Stun_Handler Data_Channel_Handler Srtp_Handler Interceptor_Handler Sctp_Handler Gateway_Steps
begin

text \<open>
  The pipeline that the example servers build (\<open>build_pipeline\<close> in \<open>examples/sync_signal/mod.rs\<close>): the handlers in
  the order demultiplexer, STUN, DTLS, SCTP, data channels, SRTP, interceptors, gateway, exceptions, around one
  \<open>ServerStates\<close>. The \<open>retty\<close> crate hands a message that a handler fires to the next handler, asks the
  next handler when a handler polls, and hands exceptions down to the last handler, which logs them; a handler
  without an operation of its own passes the call on.

  A call that may block in a loop of a handler is an option. The exceptions that a call raises are part of its result.
\<close>

section \<open>State and environment\<close>

record pipeline_env =
  pe_stun :: stun_codec
  pe_dtls :: dtls_lib
  pe_sctp :: sctp_lib
  pe_datachannel :: datachannel_lib
  pe_srtp :: srtp_lib
  pe_packet_types :: packet_types
  pe_gateway :: gateway_env

text \<open>\<open>pl_reads\<close> counts the calls of the gateway; each has its own readings of clock and random source.\<close>

record Pipeline =
  pl_dtls :: DtlsHandler
  pl_sctp :: SctpHandler
  pl_datachannel :: "TaggedMessageEvent vecdeque"
  pl_interceptor :: "TaggedMessageEvent vecdeque"
  pl_gateway :: GatewayHandler
  pl_states :: ServerStates
  pl_reads :: nat

definition build_pipeline :: "instant \<Rightarrow> socket_addr \<Rightarrow> ServerStates \<Rightarrow> Pipeline" where
  "build_pipeline now addr self =
     \<lparr>pl_dtls = dtls_new addr, pl_sctp = sctp_new addr self, pl_datachannel = [], pl_interceptor = [],
      pl_gateway = gateway_new now self, pl_states = self, pl_reads = 0\<rparr>"

section \<open>Reading\<close>

text \<open>The calls that a handler made, handed to the next stage in order.\<close>

fun feed :: "('m \<Rightarrow> 'p \<Rightarrow> (error list \<times> 'p) option) \<Rightarrow> 'm ctx_call list \<Rightarrow> 'p \<Rightarrow> (error list \<times> 'p) option" where
  "feed stage [] p = Some ([], p)"
| "feed stage (FireRead m # calls) p =
     Option.bind (stage m p) (\<lambda>(errs, p1).
     Option.bind (feed stage calls p1) (\<lambda>(errs', p2). Some (errs @ errs', p2)))"
| "feed stage (FireException err # calls) p =
     Option.bind (feed stage calls p) (\<lambda>(errs, p1). Some (err # errs, p1))"
| "feed stage (FireTimeout t # calls) p = feed stage calls p"

text \<open>A message that no handler takes is dropped at the end of the pipeline.\<close>

definition exception_stage :: "TaggedMessageEvent \<Rightarrow> Pipeline \<Rightarrow> (error list \<times> Pipeline) option" where
  "exception_stage msg p = feed (\<lambda>_ p. Some ([], p)) (exception_handle_read msg) p"

definition gateway_stage ::
  "pipeline_env \<Rightarrow> (nat \<Rightarrow> readings) \<Rightarrow> TaggedMessageEvent \<Rightarrow> Pipeline \<Rightarrow> (error list \<times> Pipeline) option" where
  "gateway_stage E R msg p =
     (let (calls, h, self) = gateway_handle_read (pe_gateway E) (R (pl_reads p)) msg (pl_gateway p) (pl_states p)
      in feed exception_stage calls (p\<lparr>pl_gateway := h, pl_states := self, pl_reads := Suc (pl_reads p)\<rparr>))"

definition interceptor_stage ::
  "pipeline_env \<Rightarrow> (nat \<Rightarrow> readings) \<Rightarrow> TaggedMessageEvent \<Rightarrow> Pipeline \<Rightarrow> (error list \<times> Pipeline) option" where
  "interceptor_stage E R msg p =
     (let (calls, q, self) = interceptor_handler_read (pe_packet_types E) msg (pl_interceptor p) (pl_states p)
      in feed (gateway_stage E R) calls (p\<lparr>pl_interceptor := q, pl_states := self\<rparr>))"

definition srtp_stage ::
  "pipeline_env \<Rightarrow> (nat \<Rightarrow> readings) \<Rightarrow> TaggedMessageEvent \<Rightarrow> Pipeline \<Rightarrow> (error list \<times> Pipeline) option" where
  "srtp_stage E R msg p =
     (let (calls, self) = srtp_handle_read (pe_srtp E) msg (pl_states p)
      in feed (interceptor_stage E R) calls (p\<lparr>pl_states := self\<rparr>))"

definition datachannel_stage ::
  "pipeline_env \<Rightarrow> (nat \<Rightarrow> readings) \<Rightarrow> TaggedMessageEvent \<Rightarrow> Pipeline \<Rightarrow> (error list \<times> Pipeline) option" where
  "datachannel_stage E R msg p =
     (let (calls, q) = datachannel_handle_read (pe_datachannel E) msg (pl_datachannel p)
      in feed (srtp_stage E R) calls (p\<lparr>pl_datachannel := q\<rparr>))"

definition sctp_stage ::
  "pipeline_env \<Rightarrow> (nat \<Rightarrow> readings) \<Rightarrow> TaggedMessageEvent \<Rightarrow> Pipeline \<Rightarrow> (error list \<times> Pipeline) option" where
  "sctp_stage E R msg p =
     Option.bind (sctp_handle_read (pe_sctp E) msg (pl_sctp p) (pl_states p)) (\<lambda>(calls, h, self).
       feed (datachannel_stage E R) calls (p\<lparr>pl_sctp := h, pl_states := self\<rparr>))"

definition dtls_stage ::
  "pipeline_env \<Rightarrow> (nat \<Rightarrow> readings) \<Rightarrow> TaggedMessageEvent \<Rightarrow> Pipeline \<Rightarrow> (error list \<times> Pipeline) option" where
  "dtls_stage E R msg p =
     Option.bind (dtls_handle_read (pe_dtls E) msg (pl_dtls p) (pl_states p)) (\<lambda>(calls, h, self).
       feed (sctp_stage E R) calls (p\<lparr>pl_dtls := h, pl_states := self\<rparr>))"

definition stun_stage ::
  "pipeline_env \<Rightarrow> (nat \<Rightarrow> readings) \<Rightarrow> TaggedMessageEvent \<Rightarrow> Pipeline \<Rightarrow> (error list \<times> Pipeline) option" where
  "stun_stage E R msg p = feed (dtls_stage E R) (stun_handle_read (pe_stun E) msg) p"

definition pipeline_read ::
  "pipeline_env \<Rightarrow> (nat \<Rightarrow> readings) \<Rightarrow> TaggedBytesMut \<Rightarrow> Pipeline \<Rightarrow> (error list \<times> Pipeline) option" where
  "pipeline_read E R msg p = feed (stun_stage E R) (demuxer_handle_read msg) p"

section \<open>Time\<close>

text \<open>The exceptions among the calls of a handler.\<close>

definition exceptions :: "'m ctx_call list \<Rightarrow> error list" where
  "exceptions calls = concat (map (\<lambda>c. case c of FireException err \<Rightarrow> [err] | _ \<Rightarrow> []) calls)"

definition pipeline_handle_timeout :: "pipeline_env \<Rightarrow> instant \<Rightarrow> Pipeline \<Rightarrow> (error list \<times> Pipeline) option" where
  "pipeline_handle_timeout E now p =
     Option.bind (dtls_handler_timeout (pe_dtls E) now (pl_dtls p) (pl_states p)) (\<lambda>(c1, dtls, self1).
     Option.bind (sctp_handler_timeout (pe_sctp E) now (pl_sctp p) self1) (\<lambda>(c2, sctp, self2).
       let (c3, q, self3) = interceptor_handler_timeout now (pl_interceptor p) self2;
           (gw, self4) = gateway_handle_timeout now (pl_gateway p) self3
       in Some (exceptions (c1 @ c2 @ c3),
                p\<lparr>pl_dtls := dtls, pl_sctp := sctp, pl_interceptor := q, pl_gateway := gw, pl_states := self4\<rparr>)))"

definition pipeline_poll_timeout :: "pipeline_env \<Rightarrow> instant \<Rightarrow> Pipeline \<Rightarrow> instant" where
  "pipeline_poll_timeout E deadline p =
     gateway_poll_timeout
       (interceptor_handler_poll_timeout
          (sctp_handler_poll_timeout (pe_sctp E) (dtls_handler_poll_timeout (pe_dtls E) deadline (pl_states p)) (pl_states p))
          (pl_states p)) (pl_gateway p)"

section \<open>Writing\<close>

text \<open>
  Every handler first asks the next one for a message; what it returns is its own answer to the one before. The
  instant is the one that the SRTP handler reads.
\<close>

definition pipeline_poll_transmit ::
  "pipeline_env \<Rightarrow> instant \<Rightarrow> Pipeline \<Rightarrow> (error list \<times> TaggedBytesMut option \<times> Pipeline) option" where
  "pipeline_poll_transmit E now p =
     (let (m1, gw) = gateway_poll_write (exception_poll_write None) (pl_gateway p);
          (c2, m2, iq, self2) = interceptor_handler_poll_write m1 (pl_interceptor p) (pl_states p);
          (c3, m3, self3) = srtp_poll_write (pe_srtp E) now m2 self2;
          (m4, dq) = datachannel_poll_write m3 (pl_datachannel p)
      in Option.bind (sctp_poll_write (pe_sctp E) m4 (pl_sctp p) self3) (\<lambda>(c5, m5, sctp, self5).
         Option.bind (dtls_poll_write (pe_dtls E) m5 (pl_dtls p) self5) (\<lambda>(c6, m6, dtls, self6).
           Some (exceptions (c2 @ c3 @ c5 @ c6), demuxer_poll_write (stun_poll_write (pe_stun E) m6),
                 p\<lparr>pl_gateway := gw, pl_interceptor := iq, pl_datachannel := dq, pl_sctp := sctp, pl_dtls := dtls,
                    pl_states := self6\<rparr>))))"

end
