(* ===== verification/Pipeline_Types.thy ===== *)
theory Pipeline_Types
  imports Pipeline
begin

text \<open>
  Which kinds of messages the queues of the pipeline hold. Every handler turns the kinds that the next one sends
  into kinds that the one before it can send, down to datagrams.
\<close>

section \<open>Invariants of stages\<close>

lemma feed_one: "feed stage [FireRead m] p = stage m p"
  by (auto simp: case_prod_beta' split: Option.bind_splits)

lemma feed_invariant:
  assumes "feed stage calls p = Some (errs, p')" "I p"
    "\<And>m p errs p'. FireRead m \<in> set calls \<Longrightarrow> I p \<Longrightarrow> stage m p = Some (errs, p') \<Longrightarrow> I p'"
  shows "I p'"
  using assms
proof (induction calls arbitrary: p errs)
  case (Cons c calls)
  have rest: "I p'" if "feed stage calls q = Some (e, p')" "I q" for q e
    using Cons.IH[OF that] Cons.prems(3) by (metis list.set_intros(2))
  show ?case
  proof (cases c)
    case (FireRead m)
    obtain e1 p1 e2 where m: "stage m p = Some (e1, p1)" "feed stage calls p1 = Some (e2, p')"
      using Cons.prems(1) FireRead by (auto simp: bind_eq_Some_conv)
    have "I p1" using Cons.prems(3)[OF _ Cons.prems(2) m(1)] FireRead by simp
    with m(2) show ?thesis by (rule rest)
  next
    case (FireException err)
    then show ?thesis using Cons.prems(1,2) rest by (auto simp: bind_eq_Some_conv)
  qed (use Cons.prems(1,2) rest in auto)
qed simp

lemma feed_returns: "(\<And>m p. stage m p \<noteq> None) \<Longrightarrow> feed stage calls p \<noteq> None"
proof (induction calls arbitrary: p)
  case (Cons c calls)
  have rest: "\<exists>e q. feed stage calls p = Some (e, q)" for p using Cons.IH[OF Cons.prems, of p] by auto
  show ?case
  proof (cases c)
    case (FireRead m)
    obtain e p1 where "stage m p = Some (e, p1)" using Cons.prems[of m p] by auto
    then show ?thesis using FireRead rest[of p1] by auto
  qed (use rest[of p] in auto)
qed simp

section \<open>The messages in the queues\<close>

text \<open>
  What a handler may queue. The gateway and the interceptors send decoded messages; from SRTP on media is raw, from
  the data channel handler on application data is a message of SCTP, from SCTP on it is raw.
\<close>

fun decoded_event :: "MessageEvent \<Rightarrow> bool" where
  "decoded_event (Stun (StunMsg m)) = True"
| "decoded_event (Dtls (DtlsDataChannel m)) = (\<exists>b. app_data_channel_event m = DcMessage b)"
| "decoded_event (Rtp (RtpPacket pkt)) = True"
| "decoded_event (Rtp (RtcpPackets pkts)) = True"
| "decoded_event _ = False"

fun channel_event :: "MessageEvent \<Rightarrow> bool" where
  "channel_event (Stun (StunMsg m)) = True"
| "channel_event (Dtls (DtlsSctp m)) = True"
| "channel_event (Rtp (RtpRaw b)) = True"
| "channel_event _ = False"

fun wire_event :: "MessageEvent \<Rightarrow> bool" where
  "wire_event (Stun (StunMsg m)) = True"
| "wire_event (Dtls (DtlsRaw b)) = True"
| "wire_event (Rtp (RtpRaw b)) = True"
| "wire_event _ = False"

definition all_events :: "(MessageEvent \<Rightarrow> bool) \<Rightarrow> TaggedMessageEvent list \<Rightarrow> bool" where
  "all_events P q \<longleftrightarrow> (\<forall>m\<in>set q. P (msg_message m))"

lemma all_events_simps [simp]:
  "all_events P []" "all_events P (push_back m q) \<longleftrightarrow> all_events P q \<and> P (msg_message m)"
  "all_events P (q @ q') \<longleftrightarrow> all_events P q \<and> all_events P q'" "all_events P (m # q) \<longleftrightarrow> P (msg_message m) \<and> all_events P q"
  by (auto simp: all_events_def push_back_def)

lemma all_events_pop: "pop_front q = (m, q') \<Longrightarrow> all_events P q \<Longrightarrow> all_events P q' \<and> (\<forall>x. m = Some x \<longrightarrow> P (msg_message x))"
  by (auto simp: pop_front_def all_events_def split: list.splits)

definition queues_typed :: "Pipeline \<Rightarrow> bool" where
  "queues_typed p \<longleftrightarrow>
     all_events decoded_event (gw_transmits (pl_gateway p)) \<and> all_events decoded_event (pl_interceptor p) \<and>
     all_events channel_event (pl_datachannel p) \<and> all_events wire_event (sctp_transmits (pl_sctp p)) \<and>
     all_events wire_event (dtls_transmits (pl_dtls p))"

lemma gateway_messages_decoded:
  assumes "gateway_try_read E R msg self = (Ok ms, self')"
  shows "all_events decoded_event ms"
proof -
  have offer_event: "decoded_event (msg_message m)" if "create_offer_message_event E jsep now tc h s st = (Ok m, st')" for jsep now tc h s st m st'
    using that by (auto simp: create_offer_message_event_def Let_def result_simps channel_message_def split: sum.splits option.splits prod.splits)
  have offers: "all_events decoded_event ms" if "offer_to_peers E jsep now i peers st = (Ok ms, st')" for jsep now i peers st ms st'
    using that offer_event
  proof (induction E jsep now i peers st arbitrary: ms st' rule: offer_to_peers.induct)
    case (2 E jsep now i tc h s needed peers self)
    from 2(3) show ?case using 2(1,2,4)
      by (auto split: if_splits sum.splits prod.splits)
  qed simp
  have offer: "all_events decoded_event ms" if "handle_offer_message E R now tc h s sid eid request st = (Ok ms, st')"
    for now tc h s sid eid request st st'
    using that offers by (auto simp: handle_offer_message_def result_simps channel_message_def split: sum.splits prod.splits)
  have msgs: "all_events decoded_event ms" if "handle_datachannel_message E R now tc h s b st = (Ok ms, st')" for now tc h s b st st'
    using that offer by (auto simp: handle_datachannel_message_def split: sum.splits prod.splits option.splits RTCSdpType.splits)
  have media: "all_events decoded_event ms" if "forward_media R now tc ev st = (Ok ms, st')" "\<nexists>raw. ev = RtpRaw raw" for now tc ev st st'
    using that by (cases ev) (auto simp: forward_media_def result_simps all_events_def split: sum.splits prod.splits)
  show ?thesis
    using assms media msgs offer_event
    by (auto simp: gateway_try_read_def handle_rtp_message_def handle_rtcp_message_def handle_dtls_message_def
        handle_stun_message_def create_server_reflective_address_message_event_def handle_datachannel_open_def
        handle_datachannel_close_def Let_def result_simps
        split: MessageEvent.splits STUNMessageEvent.splits DTLSMessageEvent.splits RTPMessageEvent.splits DataChannelEvent.splits
          prod.splits sum.splits option.splits if_splits)
qed

text \<open>What each handler puts into its queue.\<close>

lemma sctp_enqueue_typed: "all_events wire_event (sctp_transmits h) \<Longrightarrow> all_events wire_event (sctp_transmits (sctp_enqueue xs h))"
proof -
  have "all_events wire_event (sctp_outgoing a x)" for a x
    by (auto simp: sctp_outgoing_def all_events_def split: sctp_payload.splits)
  then have "all_events wire_event (fold (\<lambda>x q. fold push_back (sctp_outgoing a x) q) xs q)" if "all_events wire_event q" for a q
    using that by (induction xs arbitrary: q) (simp_all add: fold_push_back)
  then show "all_events wire_event (sctp_transmits h) \<Longrightarrow> ?thesis" by (simp add: sctp_enqueue_def)
qed

lemma dtls_enqueue_typed: "all_events wire_event (dtls_transmits h) \<Longrightarrow> all_events wire_event (dtls_transmits (dtls_enqueue xs h))"
proof -
  have "all_events wire_event (fold (\<lambda>x. push_back (dtls_outgoing a x)) xs q)" if "all_events wire_event q" for a q
    using that by (induction xs arbitrary: q) (simp_all add: dtls_outgoing_def)
  then show "all_events wire_event (dtls_transmits h) \<Longrightarrow> ?thesis" by (simp add: dtls_enqueue_def)
qed

lemma dtls_read_typed:
  assumes "dtls_handle_read D msg h self = Some (calls, h', self')" "all_events wire_event (dtls_transmits h)"
  shows "all_events wire_event (dtls_transmits h')"
proof (cases "\<exists>m. msg_message msg = Dtls (DtlsRaw m)")
  case True
  then obtain m r h1 self1 where m: "msg_message msg = Dtls (DtlsRaw m)" "dtls_try_read D msg m h self = Some (r, h1, self1)"
    using assms(1) by (auto simp: dtls_handle_read_def)
  have "all_events wire_event (dtls_transmits h1)"
    using m(2) assms(2) dtls_enqueue_typed by (auto simp: dtls_try_read_def Let_def split: sum.splits prod.splits)
  then show ?thesis using assms(1) m by (auto simp: dtls_handle_read_def split: sum.splits if_splits)
next
  case False
  then show ?thesis using assms by (auto simp: dtls_handle_read_def split: MessageEvent.splits DTLSMessageEvent.splits)
qed

lemma sctp_read_typed:
  assumes "sctp_handle_read S msg h self = Some (calls, h', self')" "all_events wire_event (sctp_transmits h)"
  shows "all_events wire_event (sctp_transmits h')"
proof (cases "\<exists>m. msg_message msg = Dtls (DtlsRaw m)")
  case True
  then obtain m r h1 self1 where m: "msg_message msg = Dtls (DtlsRaw m)" "sctp_try_read S msg m h self = Some (r, h1, self1)"
    using assms(1) by (auto simp: sctp_handle_read_def)
  have "sctp_transmits h1 = sctp_transmits h"
    using m(2) by (cases rule: sctp_try_read_cases) simp_all
  then show ?thesis using assms m sctp_enqueue_typed by (auto simp: sctp_handle_read_def split: sum.splits)
next
  case False
  then show ?thesis using assms by (auto simp: sctp_handle_read_def split: MessageEvent.splits DTLSMessageEvent.splits)
qed

lemma datachannel_read_typed:
  "datachannel_handle_read D msg q = (calls, q') \<Longrightarrow> all_events channel_event q \<Longrightarrow> all_events channel_event q'"
  by (auto simp: datachannel_handle_read_def split: MessageEvent.splits DTLSMessageEvent.splits sum.splits option.splits)

lemma interceptor_read_queue:
  "interceptor_handler_read pt msg q self = (calls, q', self') \<Longrightarrow> q' = q"
proof -
  have "process_read_events (fst (interceptor_read pt msg i)) q = (x, q1) \<Longrightarrow> q1 = q" for i x q1
    using process_read_events_inbound[of "fst (interceptor_read pt msg i)" q]
    by (auto simp: read_events sender_report_read_def Let_def split: MessageEvent.splits RTPMessageEvent.splits if_splits)
  then show "interceptor_handler_read pt msg q self = (calls, q', self') \<Longrightarrow> ?thesis"
    by (auto simp: interceptor_handler_read_def endpoint_intercept_def case_prod_beta Let_def
        split: if_splits sum.splits MessageEvent.splits RTPMessageEvent.splits) (metis prod.collapse)+
qed

lemma interceptor_timeout_typed:
  assumes "interceptor_handler_timeout now q self = (calls, q', self')" "all_events decoded_event q"
  shows "all_events decoded_event q'"
proof -
  have ev: "\<exists>m. e = Outbound m \<and> decoded_event (msg_message m)" if "e \<in> set (fst (interceptors_timeout now self))" for e
    using that ic.tick_events
    by (fastforce simp: interceptors_timeout_def timeout_endpoint_def case_prod_beta report_to_def)
  then have "process_events (fst (interceptors_timeout now self)) q =
      ([], q @ map (\<lambda>e. case e of Outbound m \<Rightarrow> m) (fst (interceptors_timeout now self)))"
    by (intro process_events_outbound) blast
  moreover have "all_events decoded_event (map (\<lambda>e. case e of Outbound m \<Rightarrow> m) (fst (interceptors_timeout now self)))"
    using ev by (force simp: all_events_def)
  ultimately show ?thesis using assms by (auto simp: interceptor_handler_timeout_def case_prod_beta Let_def)
qed

lemma interceptor_write_typed:
  assumes "interceptor_handler_poll_write polled q self = (calls, m, q', self')"
    "all_events decoded_event q" "\<And>x. polled = Some x \<Longrightarrow> decoded_event (msg_message x)"
  shows "all_events decoded_event q' \<and> (\<forall>x. m = Some x \<longrightarrow> decoded_event (msg_message x))"
proof -
  have "\<exists>q1. all_events decoded_event q1 \<and> pop_front q1 = (m, q')"
  proof (cases polled)
    case None
    then show ?thesis using assms(1,2) by (auto simp: interceptor_handler_poll_write_def case_prod_beta)
  next
    case (Some x)
    then have "pop_front (push_back x q) = (m, q')"
      using assms(1)
      by (auto simp: interceptor_handler_poll_write_def endpoint_intercept_def case_prod_beta Let_def write_identity
          split: if_splits sum.splits)
    then show ?thesis using assms(2) assms(3)[OF Some] by (intro exI[of _ "push_back x q"]) simp
  qed
  then show ?thesis using all_events_pop by blast
qed

lemma srtp_write_typed:
  assumes "srtp_poll_write L now polled self = (calls, Some x, self')" "\<And>x. polled = Some x \<Longrightarrow> decoded_event (msg_message x)"
  shows "channel_event (msg_message x) \<or> (\<exists>m b. msg_message x = Dtls (DtlsDataChannel m) \<and> app_data_channel_event m = DcMessage b)"
  using assms
  by (auto simp: srtp_poll_write_def split: option.splits MessageEvent.splits prod.splits sum.splits elim!: decoded_event.elims)

lemma datachannel_write_typed:
  assumes "datachannel_poll_write polled q = (m, q')" "all_events channel_event q"
    "\<And>x. polled = Some x \<Longrightarrow> channel_event (msg_message x) \<or>
       (\<exists>m b. msg_message x = Dtls (DtlsDataChannel m) \<and> app_data_channel_event m = DcMessage b)"
  shows "all_events channel_event q' \<and> (\<forall>x. m = Some x \<longrightarrow> channel_event (msg_message x))"
proof (cases polled)
  case (Some x)
  then show ?thesis
    using assms(1,2) assms(3)[OF Some] all_events_pop[of "push_back _ q" m q' channel_event]
    by (auto simp: datachannel_poll_write_def split: MessageEvent.splits DTLSMessageEvent.splits DataChannelEvent.splits)
qed (use assms(1,2) all_events_pop[of q m q' channel_event] in \<open>auto simp: datachannel_poll_write_def\<close>)

lemma sctp_write_typed:
  assumes "sctp_poll_write S polled h self = Some (calls, m, h', self')" "all_events wire_event (sctp_transmits h)"
    "\<And>x. polled = Some x \<Longrightarrow> channel_event (msg_message x)"
  shows "all_events wire_event (sctp_transmits h') \<and> (\<forall>x. m = Some x \<longrightarrow> wire_event (msg_message x))"
proof -
  have "\<exists>q. all_events wire_event q \<and> pop_front q = (m, sctp_transmits h')"
  proof (cases "\<exists>x b. polled = Some x \<and> msg_message x = Dtls (DtlsSctp b)")
    case True
    then obtain x b r self1 where x: "polled = Some x" "msg_message x = Dtls (DtlsSctp b)"
      "sctp_try_write S x b self = Some (r, self1)" using assms(1) by (auto simp: sctp_poll_write_def)
    moreover have "all_events wire_event (sctp_transmits (case r of Inr xs \<Rightarrow> sctp_enqueue xs h | Inl _ \<Rightarrow> h))"
      using assms(2) sctp_enqueue_typed by (cases r) auto
    ultimately show ?thesis using assms(1)
      by (cases r) (auto simp: sctp_poll_write_def case_prod_beta Let_def)
  next
    case False
    then have "polled = Some x \<Longrightarrow> wire_event (msg_message x)" for x
      using assms(3)[of x] by (auto elim!: channel_event.elims)
    then show ?thesis using False assms(1,2)
      by (intro exI[of _ "case polled of None \<Rightarrow> sctp_transmits h | Some x \<Rightarrow> push_back x (sctp_transmits h)"])
        (auto simp: sctp_poll_write_def case_prod_beta Let_def split: option.splits MessageEvent.splits DTLSMessageEvent.splits)
  qed
  then show ?thesis using all_events_pop by blast
qed

lemma dtls_write_typed:
  assumes "dtls_poll_write D polled h self = Some (calls, m, h', self')" "all_events wire_event (dtls_transmits h)"
    "\<And>x. polled = Some x \<Longrightarrow> wire_event (msg_message x)"
  shows "all_events wire_event (dtls_transmits h') \<and> (\<forall>x. m = Some x \<longrightarrow> wire_event (msg_message x))"
proof -
  have "\<exists>q. all_events wire_event q \<and> pop_front q = (m, dtls_transmits h')"
  proof (cases "\<exists>x b. polled = Some x \<and> msg_message x = Dtls (DtlsRaw b)")
    case True
    then obtain x b r h1 self1 where x: "polled = Some x" "msg_message x = Dtls (DtlsRaw b)"
      "dtls_try_write D (msg_transport x) b h self = Some (r, h1, self1)" using assms(1) by (auto simp: dtls_poll_write_def)
    have "all_events wire_event (dtls_transmits h1)"
      using x(3) assms(2) dtls_enqueue_typed by (auto simp: dtls_try_write_def Let_def split: sum.splits prod.splits)
    then show ?thesis using assms(1) x
      by (cases r) (auto simp: dtls_poll_write_def case_prod_beta Let_def)
  next
    case False
    then show ?thesis using assms
      by (intro exI[of _ "case polled of None \<Rightarrow> dtls_transmits h | Some x \<Rightarrow> push_back x (dtls_transmits h)"])
        (auto simp: dtls_poll_write_def case_prod_beta Let_def split: option.splits MessageEvent.splits DTLSMessageEvent.splits)
  qed
  then show ?thesis using all_events_pop by blast
qed

end
