(* ===== verification/Pipeline_Steps.thy ===== *)
theory Pipeline_Steps
  imports Pipeline_Types
begin

text \<open>
  The pipeline as a state machine, and what holds in every state it can reach: the server states are well formed,
  and the queues hold only messages that the handlers can put on the wire.
\<close>

section \<open>Every call keeps the invariant\<close>

definition pipeline_inv :: "Pipeline \<Rightarrow> bool" where
  "pipeline_inv p \<longleftrightarrow> states_wf False (pl_states p) \<and> queues_typed p"

lemma inv_feed:
  assumes "pipeline_inv p" "feed stage calls p = Some (errs, p')"
    "\<And>p m errs p'. pipeline_inv p \<Longrightarrow> stage m p = Some (errs, p') \<Longrightarrow> pipeline_inv p'"
  shows "pipeline_inv p'"
  using assms(2,1) by (rule feed_invariant) (rule assms(3))

lemma inv_exception_stage: "pipeline_inv p \<Longrightarrow> exception_stage m p = Some (errs, p') \<Longrightarrow> pipeline_inv p'"
  by (auto simp: exception_stage_def exception_handle_read_def)

lemma inv_gateway_stage:
  assumes "pipeline_inv p" "gateway_stage E R m p = Some (errs, p')"
  shows "pipeline_inv p'"
proof -
  obtain calls h self where g: "gateway_handle_read (pe_gateway E) (R (pl_reads p)) m (pl_gateway p) (pl_states p) = (calls, h, self)"
    by (metis prod.collapse)
  have "states_wf False self" "all_events decoded_event (gw_transmits h)"
    using g assms(1) states_wf_try_read[of "pl_states p" "pe_gateway E" "R (pl_reads p)" m]
      gateway_messages_decoded[of "pe_gateway E" "R (pl_reads p)" m "pl_states p"]
    by (auto simp: gateway_handle_read_def pipeline_inv_def queues_typed_def fold_push_back split: prod.splits sum.splits)
  then have "pipeline_inv (p\<lparr>pl_gateway := h, pl_states := self, pl_reads := Suc (pl_reads p)\<rparr>)"
    using assms(1) by (simp add: pipeline_inv_def queues_typed_def)
  moreover have "feed exception_stage calls (p\<lparr>pl_gateway := h, pl_states := self, pl_reads := Suc (pl_reads p)\<rparr>) = Some (errs, p')"
    using assms(2) g by (simp add: gateway_stage_def)
  ultimately show ?thesis using inv_exception_stage by (rule inv_feed)
qed

lemma inv_interceptor_stage:
  assumes "pipeline_inv p" "interceptor_stage E R m p = Some (errs, p')"
  shows "pipeline_inv p'"
proof -
  obtain calls q self where g: "interceptor_handler_read (pe_packet_types E) m (pl_interceptor p) (pl_states p) = (calls, q, self)"
    by (metis prod.collapse)
  have "pipeline_inv (p\<lparr>pl_interceptor := q, pl_states := self\<rparr>)"
    using assms(1) interceptor_read_queue[OF g] states_wf_interceptor_read[OF _ g] by (simp add: pipeline_inv_def queues_typed_def)
  moreover have "feed (gateway_stage E R) calls (p\<lparr>pl_interceptor := q, pl_states := self\<rparr>) = Some (errs, p')"
    using assms(2) g by (simp add: interceptor_stage_def)
  ultimately show ?thesis using inv_gateway_stage by (rule inv_feed)
qed

lemma inv_srtp_stage:
  assumes "pipeline_inv p" "srtp_stage E R m p = Some (errs, p')"
  shows "pipeline_inv p'"
proof -
  obtain calls self where g: "srtp_handle_read (pe_srtp E) m (pl_states p) = (calls, self)" by fastforce
  have "pipeline_inv (p\<lparr>pl_states := self\<rparr>)"
    using assms(1) states_wf_srtp_read[OF _ g] by (simp add: pipeline_inv_def queues_typed_def)
  moreover have "feed (interceptor_stage E R) calls (p\<lparr>pl_states := self\<rparr>) = Some (errs, p')"
    using assms(2) g by (simp add: srtp_stage_def)
  ultimately show ?thesis using inv_interceptor_stage by (rule inv_feed)
qed

lemma inv_datachannel_stage:
  assumes "pipeline_inv p" "datachannel_stage E R m p = Some (errs, p')"
  shows "pipeline_inv p'"
proof -
  obtain calls q where g: "datachannel_handle_read (pe_datachannel E) m (pl_datachannel p) = (calls, q)" by fastforce
  have "pipeline_inv (p\<lparr>pl_datachannel := q\<rparr>)"
    using assms(1) datachannel_read_typed[OF g] by (simp add: pipeline_inv_def queues_typed_def)
  moreover have "feed (srtp_stage E R) calls (p\<lparr>pl_datachannel := q\<rparr>) = Some (errs, p')"
    using assms(2) g by (simp add: datachannel_stage_def)
  ultimately show ?thesis using inv_srtp_stage by (rule inv_feed)
qed

lemma inv_sctp_stage:
  assumes "pipeline_inv p" "sctp_stage E R m p = Some (errs, p')"
  shows "pipeline_inv p'"
proof -
  obtain calls h self where g: "sctp_handle_read (pe_sctp E) m (pl_sctp p) (pl_states p) = Some (calls, h, self)"
    and f: "feed (datachannel_stage E R) calls (p\<lparr>pl_sctp := h, pl_states := self\<rparr>) = Some (errs, p')"
    using assms(2) by (auto simp: sctp_stage_def bind_eq_Some_conv)
  have "pipeline_inv (p\<lparr>pl_sctp := h, pl_states := self\<rparr>)"
    using assms(1) sctp_read_typed[OF g] states_wf_sctp_read[OF _ g] by (simp add: pipeline_inv_def queues_typed_def)
  then show ?thesis using f inv_datachannel_stage by (rule inv_feed)
qed

lemma inv_dtls_stage:
  assumes "pipeline_inv p" "dtls_stage E R m p = Some (errs, p')"
  shows "pipeline_inv p'"
proof -
  obtain calls h self where g: "dtls_handle_read (pe_dtls E) m (pl_dtls p) (pl_states p) = Some (calls, h, self)"
    and f: "feed (sctp_stage E R) calls (p\<lparr>pl_dtls := h, pl_states := self\<rparr>) = Some (errs, p')"
    using assms(2) by (auto simp: dtls_stage_def bind_eq_Some_conv)
  have "pipeline_inv (p\<lparr>pl_dtls := h, pl_states := self\<rparr>)"
    using assms(1) dtls_read_typed[OF g] states_wf_dtls_read[OF _ g] by (simp add: pipeline_inv_def queues_typed_def)
  then show ?thesis using f inv_sctp_stage by (rule inv_feed)
qed

lemma inv_read:
  assumes "pipeline_inv p" "pipeline_read E R msg p = Some (errs, p')"
  shows "pipeline_inv p'"
proof -
  have "pipeline_inv p'" if "pipeline_inv p" "stun_stage E R m p = Some (errs, p')" for m p errs p'
    using that(1) that(2)[unfolded stun_stage_def] inv_dtls_stage by (rule inv_feed)
  then show ?thesis using inv_feed[OF assms(1) assms(2)[unfolded pipeline_read_def]] by blast
qed

lemma inv_timeout:
  assumes "pipeline_inv p" "pipeline_handle_timeout E now p = Some (errs, p')"
  shows "pipeline_inv p'"
proof -
  obtain c1 dtls self1 c2 sctp self2 where
    1: "dtls_handler_timeout (pe_dtls E) now (pl_dtls p) (pl_states p) = Some (c1, dtls, self1)"
    and 2: "sctp_handler_timeout (pe_sctp E) now (pl_sctp p) self1 = Some (c2, sctp, self2)"
    using assms(2) by (auto simp: pipeline_handle_timeout_def bind_eq_Some_conv)
  obtain c3 q self3 where 3: "interceptor_handler_timeout now (pl_interceptor p) self2 = (c3, q, self3)" by (metis prod.collapse)
  obtain gw self4 where 4: "gateway_handle_timeout now (pl_gateway p) self3 = (gw, self4)" by fastforce
  have p': "p' = p\<lparr>pl_dtls := dtls, pl_sctp := sctp, pl_interceptor := q, pl_gateway := gw, pl_states := self4\<rparr>"
    using assms(2) 1 2 3 4 by (simp add: pipeline_handle_timeout_def)
  have "states_wf False self4"
    using assms(1) states_wf_dtls_timeout[OF _ 1] states_wf_sctp_timeout[OF _ 2] states_wf_interceptor_timeout[OF _ 3]
      states_wf_timeout[of False self3 now "pl_gateway p"] 4 by (simp add: pipeline_inv_def)
  moreover have "all_events wire_event (dtls_transmits dtls)" "all_events wire_event (sctp_transmits sctp)"
    using assms(1) 1 2 dtls_enqueue_typed sctp_enqueue_typed
    by (auto simp: pipeline_inv_def queues_typed_def dtls_handler_timeout_def sctp_handler_timeout_def)
  moreover have "gw_transmits gw = gw_transmits (pl_gateway p)"
    using 4 by (auto simp: gateway_handle_timeout_def split: if_splits)
  ultimately show ?thesis using assms(1) interceptor_timeout_typed[OF 3]
    by (simp add: p' pipeline_inv_def queues_typed_def)
qed

lemma inv_poll:
  assumes "pipeline_inv p" "pipeline_poll_transmit E now p = Some (errs, m, p')"
  shows "pipeline_inv p'"
proof -
  obtain m1 gw where 1: "gateway_poll_write (exception_poll_write None) (pl_gateway p) = (m1, gw)" by fastforce
  obtain c2 m2 iq self2 where 2: "interceptor_handler_poll_write m1 (pl_interceptor p) (pl_states p) = (c2, m2, iq, self2)"
    by (metis prod.collapse)
  obtain c3 m3 self3 where 3: "srtp_poll_write (pe_srtp E) now m2 self2 = (c3, m3, self3)" by (metis prod.collapse)
  obtain m4 dq where 4: "datachannel_poll_write m3 (pl_datachannel p) = (m4, dq)" by fastforce
  obtain c5 m5 sctp self5 where 5: "sctp_poll_write (pe_sctp E) m4 (pl_sctp p) self3 = Some (c5, m5, sctp, self5)"
    using assms(2) 1 2 3 4 by (auto simp: pipeline_poll_transmit_def bind_eq_Some_conv)
  obtain c6 m6 dtls self6 where 6: "dtls_poll_write (pe_dtls E) m5 (pl_dtls p) self5 = Some (c6, m6, dtls, self6)"
    using assms(2) 1 2 3 4 5 by (auto simp: pipeline_poll_transmit_def bind_eq_Some_conv)
  have p': "p' = p\<lparr>pl_gateway := gw, pl_interceptor := iq, pl_datachannel := dq, pl_sctp := sctp, pl_dtls := dtls, pl_states := self6\<rparr>"
    using assms(2) 1 2 3 4 5 6 by (simp add: pipeline_poll_transmit_def)
  have wf: "states_wf False (pl_states p)" and q: "all_events decoded_event (gw_transmits (pl_gateway p))"
    "all_events decoded_event (pl_interceptor p)" "all_events channel_event (pl_datachannel p)"
    "all_events wire_event (sctp_transmits (pl_sctp p))" "all_events wire_event (dtls_transmits (pl_dtls p))"
    using assms(1) by (auto simp: pipeline_inv_def queues_typed_def)
  have "pop_front (gw_transmits (pl_gateway p)) = (m1, gw_transmits gw)"
    using 1 by (auto simp: gateway_poll_write_def exception_poll_write_def poll_queue_def case_prod_beta Let_def)
  then have g: "all_events decoded_event (gw_transmits gw)" "m1 = Some x \<Longrightarrow> decoded_event (msg_message x)" for x
    using all_events_pop[OF _ q(1)] by auto
  note i = interceptor_write_typed[OF 2 q(2) g(2)]
  have s: "m3 = Some x \<Longrightarrow> channel_event (msg_message x) \<or> (\<exists>m b. msg_message x = Dtls (DtlsDataChannel m) \<and> app_data_channel_event m = DcMessage b)" for x
    using srtp_write_typed[of "pe_srtp E" now m2 self2 c3 x self3] 3 i by auto
  note d = datachannel_write_typed[OF 4 q(3) s]
  have "all_events wire_event (sctp_transmits sctp) \<and> (\<forall>x. m5 = Some x \<longrightarrow> wire_event (msg_message x))"
    using sctp_write_typed[OF 5 q(4)] d by blast
  moreover from this have "all_events wire_event (dtls_transmits dtls)" using dtls_write_typed[OF 6 q(5)] by blast
  moreover have "states_wf False self6"
    using states_wf_dtls_write[OF states_wf_sctp_write[OF states_wf_srtp_write[OF states_wf_interceptor_write[OF wf 2] 3] 5] 6] .
  ultimately show ?thesis using g(1) i d by (simp add: p' pipeline_inv_def queues_typed_def)
qed

section \<open>Reachable states\<close>

inductive pipeline_reach :: "pipeline_env \<Rightarrow> Pipeline \<Rightarrow> bool" for E where
  built: "states_new (env_sha256 (pe_gateway E)) sc addr = Ok self \<Longrightarrow> pipeline_reach E (build_pipeline now addr self)"
| datagram: "pipeline_reach E p \<Longrightarrow> pipeline_read E R msg p = Some (errs, p') \<Longrightarrow> pipeline_reach E p'"
| tick: "pipeline_reach E p \<Longrightarrow> pipeline_handle_timeout E now p = Some (errs, p') \<Longrightarrow> pipeline_reach E p'"
| transmit: "pipeline_reach E p \<Longrightarrow> pipeline_poll_transmit E now p = Some (errs, m, p') \<Longrightarrow> pipeline_reach E p'"
| offer: "pipeline_reach E p \<Longrightarrow>
     accept_offer (env_sdp (pe_gateway E)) (env_sha256 (pe_gateway E)) jsep (env_b64 (pe_gateway E)) user pwd now sid eid None
       offer (pl_states p) = (r, self) \<Longrightarrow> pipeline_reach E (p\<lparr>pl_states := self\<rparr>)"

inductive_cases pipeline_reach_cases: "pipeline_reach E p"

lemma reach_inv: "pipeline_reach E p \<Longrightarrow> pipeline_inv p"
proof (induction rule: pipeline_reach.induct)
  case (built sc addr self now)
  then have "states_wf False self"
    by (auto simp: states_new_def states_wf_def get_session_def find_candidate_def split: list.splits)
  then show ?case
    by (simp add: pipeline_inv_def build_pipeline_def queues_typed_def dtls_new_def sctp_new_def gateway_new_def Let_def)
next
  case (offer p jsep user pwd now sid eid offer r self)
  have "states_wf False self"
    using states_wf_accept_offer[of False "pl_states p"] offer by (metis pipeline_inv_def snd_conv)
  then show ?case using offer.IH by (simp add: pipeline_inv_def queues_typed_def)
qed (blast intro: inv_read inv_timeout inv_poll)+

text \<open>
  In every state that the pipeline can reach, through any sequence of datagrams, polls, timeouts and offers, also
  failing ones, the server states are well formed: sessions, endpoints, transports and candidates are filed under
  their own keys, every session has the server's configuration, and there is a certificate.
\<close>

theorem pipeline_states_wf:
  assumes "pipeline_reach E p"
  shows "states_wf False (pl_states p)"
  using reach_inv[OF assms] by (simp add: pipeline_inv_def)

text \<open>
  C12: The handlers agree on the kinds of messages: in every reachable state each queue holds only messages that the
  handlers before it turn into datagrams. In particular every message that waits in front of the demultiplexer
  leaves as a datagram to its own transport.
\<close>

theorem pipeline_queues_typed:
  assumes "pipeline_reach E p"
  shows "queues_typed p \<and>
    (\<forall>m\<in>set (dtls_transmits (pl_dtls p)). \<exists>b.
       demuxer_poll_write (stun_poll_write S (Some m)) = Some \<lparr>raw_now = msg_now m, raw_transport = msg_transport m, raw_message = b\<rparr>)"
proof -
  have "\<exists>b. demuxer_poll_write (stun_poll_write S (Some m)) = Some \<lparr>raw_now = msg_now m, raw_transport = msg_transport m, raw_message = b\<rparr>"
    if "wire_event (msg_message m)" for m
    using that by (auto simp: demuxer_poll_write_def stun_poll_write_def elim!: wire_event.elims)
  then show ?thesis using reach_inv[OF assms] by (auto simp: pipeline_inv_def queues_typed_def all_events_def)
qed

section \<open>The pipeline returns\<close>

lemma stages_return:
  assumes "pollable (dtls_poll_transmit (pe_dtls E)) pending" "sctp_finite (pe_sctp E) readable closing sending"
  shows "pipeline_read E R msg p \<noteq> None"
proof -
  have "feed exception_stage calls p \<noteq> None" for calls p
    by (rule feed_returns) (simp add: exception_stage_def exception_handle_read_def)
  then have "gateway_stage E R m p \<noteq> None" for m p by (simp add: gateway_stage_def case_prod_beta)
  then have "interceptor_stage E R m p \<noteq> None" for m p by (simp add: interceptor_stage_def case_prod_beta feed_returns)
  then have "srtp_stage E R m p \<noteq> None" for m p by (simp add: srtp_stage_def case_prod_beta feed_returns)
  then have "datachannel_stage E R m p \<noteq> None" for m p by (simp add: datachannel_stage_def case_prod_beta feed_returns)
  note 1 = feed_returns[of "datachannel_stage E R", OF this]
  have "sctp_stage E R m p \<noteq> None" for m p
  proof -
    obtain calls h self where "sctp_handle_read (pe_sctp E) m (pl_sctp p) (pl_states p) = Some (calls, h, self)"
      using sctp_read_returns[OF assms(2), of m "pl_sctp p" "pl_states p"] by auto
    then show ?thesis using 1 by (simp add: sctp_stage_def)
  qed
  note 2 = feed_returns[of "sctp_stage E R", OF this]
  have "dtls_stage E R m p \<noteq> None" for m p
  proof -
    obtain calls h self where "dtls_handle_read (pe_dtls E) m (pl_dtls p) (pl_states p) = Some (calls, h, self)"
      using dtls_read_returns[OF assms(1), of m "pl_dtls p" "pl_states p"] by auto
    then show ?thesis using 2 by (simp add: dtls_stage_def)
  qed
  then have "stun_stage E R m p \<noteq> None" for m p by (simp add: stun_stage_def feed_returns)
  then show ?thesis by (simp add: pipeline_read_def feed_returns)
qed

lemma timeout_returns:
  assumes "pollable (dtls_poll_transmit (pe_dtls E)) pending" "sctp_finite (pe_sctp E) readable closing sending"
  shows "pipeline_handle_timeout E now p \<noteq> None"
proof -
  obtain c1 dtls self1 where "dtls_handler_timeout (pe_dtls E) now (pl_dtls p) (pl_states p) = Some (c1, dtls, self1)"
    using dtls_timeout_returns[OF assms(1), of now "pl_dtls p" "pl_states p"] by auto
  moreover obtain c2 sctp self2 where "sctp_handler_timeout (pe_sctp E) now (pl_sctp p) self1 = Some (c2, sctp, self2)"
    using sctp_timeout_returns[OF assms(2), of now "pl_sctp p" self1] by auto
  ultimately show ?thesis by (simp add: pipeline_handle_timeout_def case_prod_beta Let_def)
qed

lemma poll_returns:
  assumes "pollable (dtls_poll_transmit (pe_dtls E)) pending" "sctp_finite (pe_sctp E) readable closing sending"
  shows "pipeline_poll_transmit E now p \<noteq> None"
proof -
  have s: "\<exists>c m h st. sctp_poll_write (pe_sctp E) x (pl_sctp p) self = Some (c, m, h, st)" for x self
    using sctp_write_returns[OF assms(2), of x "pl_sctp p" self] by auto
  have d: "\<exists>c m h st. dtls_poll_write (pe_dtls E) x (pl_dtls p) self = Some (c, m, h, st)" for x self
    using dtls_write_returns[OF assms(1), of x "pl_dtls p" self] by auto
  show ?thesis unfolding pipeline_poll_transmit_def Let_def case_prod_beta using s d by (auto simp: bind_eq_Some_conv) (metis (no_types, lifting))
qed

text \<open>
  No call of the pipeline blocks in a loop, as long as a DTLS endpoint and an SCTP association have finitely many
  pending items that polling uses up: reading a datagram, the timer and the poll for an outgoing datagram all return.
\<close>

theorem pipeline_returns:
  assumes "pollable (dtls_poll_transmit (pe_dtls E)) pending" "sctp_finite (pe_sctp E) readable closing sending"
  shows "pipeline_read E R msg p \<noteq> None \<and> pipeline_handle_timeout E now p \<noteq> None \<and> pipeline_poll_transmit E now p \<noteq> None"
  using stages_return[OF assms] timeout_returns[OF assms] poll_returns[OF assms] by blast

section \<open>The properties on a sample server\<close>

definition sample_pipeline_env :: pipeline_env where
  "sample_pipeline_env =
     \<lparr>pe_stun = \<lparr>stun_decode = \<lambda>_. Err ErrUtf8, stun_encode = \<lambda>_. []\<rparr>, pe_dtls = sample_dtls (Ok []), pe_sctp = sample_sctp,
      pe_datachannel = sample_datachannel, pe_srtp = sample_srtp, pe_packet_types = sample_packet_type, pe_gateway = sample_env\<rparr>"

lemma sample_pipeline_reach:
  obtains self where "states_new id sample_server_config (SocketAddrV4 0 0) = Ok self"
    "pipeline_reach sample_pipeline_env (build_pipeline 0 (SocketAddrV4 0 0) self)"
proof -
  obtain self where self: "states_new id sample_server_config (SocketAddrV4 0 0) = Ok self"
    by (simp add: states_new_def sample_server_config_def server_config_new_def get_fingerprints_def sample_certificate_def
        certificate_from_existing_def)
  then have "pipeline_reach sample_pipeline_env (build_pipeline 0 (SocketAddrV4 0 0) self)"
    by (intro pipeline_reach.built) (simp add: sample_pipeline_env_def)
  with self show thesis by (rule that)
qed

theorem pipeline_states_wf_witness:
  "\<exists>self. states_new id sample_server_config (SocketAddrV4 0 0) = Ok self \<and>
     pipeline_reach sample_pipeline_env (build_pipeline 0 (SocketAddrV4 0 0) self) \<and> states_wf False self"
proof -
  obtain self where self: "states_new id sample_server_config (SocketAddrV4 0 0) = Ok self"
    "pipeline_reach sample_pipeline_env (build_pipeline 0 (SocketAddrV4 0 0) self)" by (rule sample_pipeline_reach)
  with pipeline_states_wf[OF self(2)] show ?thesis by (auto simp: build_pipeline_def)
qed

theorem pipeline_queues_typed_witness:
  "\<exists>p. pipeline_reach sample_pipeline_env p \<and> queues_typed p"
proof -
  obtain self where "pipeline_reach sample_pipeline_env (build_pipeline 0 (SocketAddrV4 0 0) self)" by (rule sample_pipeline_reach)
  with pipeline_queues_typed[OF this] show ?thesis by blast
qed

theorem pipeline_returns_witness:
  "pipeline_read sample_pipeline_env (\<lambda>_. sample_readings) \<lparr>raw_now = 0, raw_transport = sample_context 7, raw_message = [128]\<rparr>
     (build_pipeline 0 (SocketAddrV4 0 0) sample_states) \<noteq> None"
  using pipeline_returns[of sample_pipeline_env "\<lambda>_. 0" "\<lambda>_. 0" "\<lambda>_. 0" "\<lambda>_. 0"] sample_dtls_pollable sample_sctp_finite
  by (simp add: sample_pipeline_env_def del: not_None_eq)

end
