(* ===== verification/Signaling.thy ===== *)
theory Signaling
  imports Gateway_Steps
begin

text \<open>
  The signalling of the example server (\<open>examples/sync_signal/mod.rs\<close>): the web handler that turns a request into a
  message to the media thread of its session, and the function of the media thread that answers such a message.

  \<open>show_error\<close> is the \<open>Display\<close> of errors, which belongs to the error crates. A request's body is absent when it
  has been taken before and an error when reading it fails. A media thread is seen through its reply to a message.
\<close>

section \<open>Messages\<close>

datatype SignalingProtocolMessage =
    SigOk SessionId EndpointId
  | SigErr SessionId EndpointId bytes
  | SigOffer SessionId EndpointId bytes
  | SigAnswer SessionId EndpointId bytes
  | SigLeave SessionId EndpointId

text \<open>\<open>response_open\<close>: the receiving side of the response channel still exists. The channel has room for one response.\<close>

record SignalingMessage =
  sig_request :: SignalingProtocolMessage
  response_open :: bool

definition send_response :: "bool \<Rightarrow> SignalingProtocolMessage \<Rightarrow> unit result \<times> SignalingProtocolMessage option" where
  "send_response is_open response =
     (if is_open then (Ok (), Some response)
      else (Err (Other ''failed to send back signaling message response''), None))"

section \<open>The media thread\<close>

definition try_handle_offer ::
  "gateway_env \<Rightarrow> (error \<Rightarrow> string) \<Rightarrow> readings \<Rightarrow> SessionId \<Rightarrow> EndpointId \<Rightarrow> bytes \<Rightarrow> ServerStates
   \<Rightarrow> (string + bytes) \<times> ServerStates" where
  "try_handle_offer E show_error R session_id endpoint_id offer self =
     (case from_utf8 offer of
        Inl err \<Rightarrow> (Inl (show_error err), self)
      | Inr offer_str \<Rightarrow>
          (case from_json (env_json E) offer_str of
             Inl err \<Rightarrow> (Inl err, self)
           | Inr offer_sdp \<Rightarrow>
               (case accept_offer (env_sdp E) (env_sha256 E) (rd_jsep R 0) (env_b64 E) (rd_user R) (rd_pwd R) (rd_now R)
                       session_id endpoint_id None offer_sdp self of
                  (Inl err, self1) \<Rightarrow> (Inl (show_error err), self1)
                | (Inr answer, self1) \<Rightarrow>
                    (case to_json (env_json E) answer of
                       Inl err \<Rightarrow> (Inl err, self1)
                     | Inr answer_str \<Rightarrow> (Inr (str_bytes answer_str), self1)))))"

definition signal_offer ::
  "gateway_env \<Rightarrow> (error \<Rightarrow> string) \<Rightarrow> readings \<Rightarrow> SessionId \<Rightarrow> EndpointId \<Rightarrow> bytes \<Rightarrow> bool \<Rightarrow> ServerStates
   \<Rightarrow> unit result \<times> SignalingProtocolMessage option \<times> ServerStates" where
  "signal_offer E show_error R session_id endpoint_id offer is_open self =
     (case try_handle_offer E show_error R session_id endpoint_id offer self of
        (Inr answer_sdp, self1) \<Rightarrow>
          (let (r, sent) = send_response is_open (SigAnswer session_id endpoint_id answer_sdp) in (r, sent, self1))
      | (Inl reason, self1) \<Rightarrow>
          (let (r, sent) = send_response is_open (SigErr session_id endpoint_id (str_bytes reason)) in (r, sent, self1)))"

text \<open>The closure in \<open>handle_leave_message\<close> only logs, so its error branch is not taken.\<close>

definition signal_leave ::
  "SessionId \<Rightarrow> EndpointId \<Rightarrow> bool \<Rightarrow> ServerStates \<Rightarrow> unit result \<times> SignalingProtocolMessage option \<times> ServerStates" where
  "signal_leave session_id endpoint_id is_open self =
     (let (r, sent) = send_response is_open (SigOk session_id endpoint_id) in (r, sent, self))"

definition signal_invalid ::
  "SessionId \<Rightarrow> EndpointId \<Rightarrow> bool \<Rightarrow> ServerStates \<Rightarrow> unit result \<times> SignalingProtocolMessage option \<times> ServerStates" where
  "signal_invalid session_id endpoint_id is_open self =
     (let (r, sent) = send_response is_open (SigErr session_id endpoint_id (str_bytes ''Invalid Request'')) in (r, sent, self))"

definition handle_signaling_message ::
  "gateway_env \<Rightarrow> (error \<Rightarrow> string) \<Rightarrow> readings \<Rightarrow> SignalingMessage \<Rightarrow> ServerStates
   \<Rightarrow> unit result \<times> SignalingProtocolMessage option \<times> ServerStates" where
  "handle_signaling_message E show_error R signaling_msg self =
     (case sig_request signaling_msg of
        SigOffer session_id endpoint_id offer_sdp \<Rightarrow>
          signal_offer E show_error R session_id endpoint_id offer_sdp (response_open signaling_msg) self
      | SigLeave session_id endpoint_id \<Rightarrow> signal_leave session_id endpoint_id (response_open signaling_msg) self
      | SigOk session_id endpoint_id \<Rightarrow> signal_invalid session_id endpoint_id (response_open signaling_msg) self
      | SigErr session_id endpoint_id _ \<Rightarrow> signal_invalid session_id endpoint_id (response_open signaling_msg) self
      | SigAnswer session_id endpoint_id _ \<Rightarrow> signal_invalid session_id endpoint_id (response_open signaling_msg) self)"

section \<open>The web handler\<close>

record Request =
  rq_method :: string
  rq_url :: string
  rq_data :: "bytes result option"

datatype Response = HtmlPage | JsonData bytes | EmptyStatus nat

text \<open>What a media thread does with a message: it has ended, it drops the response channel, or it replies.\<close>

datatype thread_reply = ThreadGone | ReplyDropped | Reply SignalingProtocolMessage

definition parse_u64 :: "string \<Rightarrow> u64 result" where
  "parse_u64 s = (case parse_uint 18446744073709551615 s of Inl k \<Rightarrow> Inl (ErrParseInt k) | Inr n \<Rightarrow> Inr (of_nat n))"

definition media_port :: "u16 list \<Rightarrow> SessionId \<Rightarrow> u16" where
  "media_port ports session_id = (let sorted_ports = sort ports in sorted_ports ! (unat session_id mod length sorted_ports))"

definition web_request ::
  "(u16, SignalingProtocolMessage \<Rightarrow> thread_reply) hashmap \<Rightarrow> Request
   \<Rightarrow> Response result \<times> (u16 \<times> SignalingProtocolMessage) option" where
  "web_request media_port_thread_map request =
     (if rq_method request = ''GET'' then (Ok HtmlPage, None)
      else let path = split_on (CHR ''/'') (rq_url request)
        in if length path \<noteq> 4 \<or> \<not> is_ok (parse_u64 (path ! 2)) \<or> \<not> is_ok (parse_u64 (path ! 3))
           then (Ok (EmptyStatus 400), None)
           else case (parse_u64 (path ! 2), parse_u64 (path ! 3)) of
             (Inr session_id, Inr endpoint_id) \<Rightarrow>
               if media_port_thread_map = [] then (Err (Panic ''assertion failed: !sorted_ports.is_empty()''), None)
               else let port = media_port (hm_keys media_port_thread_map) session_id
                 in (case rq_data request of
                       None \<Rightarrow> (Err (Panic ''body to be available''), None)
                     | Some (Inl err) \<Rightarrow> (Err (Panic ''unwrap''), None)
                     | Some (Inr offer_sdp) \<Rightarrow>
                         (case hm_get media_port_thread_map port of
                            Some tx \<Rightarrow>
                              if path ! 1 = ''offer'' then
                                (let message = SigOffer session_id endpoint_id offer_sdp
                                 in case tx message of
                                      ThreadGone \<Rightarrow> (Err (Panic ''to send SignalingMessage instance''), None)
                                    | ReplyDropped \<Rightarrow> (Err (Panic ''receive answer offer''), Some (port, message))
                                    | Reply (SigAnswer _ _ answer_sdp) \<Rightarrow> (Ok (JsonData answer_sdp), Some (port, message))
                                    | Reply _ \<Rightarrow> (Ok (EmptyStatus 404), Some (port, message)))
                              else (Ok (EmptyStatus 200), None)
                          | None \<Rightarrow> (Ok (EmptyStatus 406), None)))
           | _ \<Rightarrow> (Err (Panic ''unwrap''), None))"

section \<open>Routing\<close>

lemma parse_u64_show [simp]: "parse_u64 (show_word (n :: u64)) = Ok n"
proof -
  have "unat n < 2 ^ 64" using unsigned_less[of n] by simp
  then have "unat n \<le> 18446744073709551615" by simp
  then show ?thesis by (simp add: parse_u64_def show_word_def parse_uint_show)
qed

lemma request_path:
  assumes "CHR ''/'' \<notin> set verb"
  shows "split_on (CHR ''/'') (CHR ''/'' # verb @ ''/'' @ show_word sid @ ''/'' @ show_word eid) = ['''', verb, show_word sid, show_word eid]"
  using assms by (simp add: split_on_append split_on_no_sep show_word_no_sep is_digit_char_def)

lemma media_port_in: "ports \<noteq> [] \<Longrightarrow> media_port ports sid \<in> set ports"
proof -
  assume "ports \<noteq> []"
  then have "unat sid mod length (sort ports) < length (sort ports)" by simp
  then show ?thesis using nth_mem[of _ "sort ports"] by (simp add: media_port_def Let_def)
qed

lemma media_port_order:
  "distinct ports \<Longrightarrow> distinct ports' \<Longrightarrow> set ports = set ports' \<Longrightarrow> media_port ports sid = media_port ports' sid"
  using sorted_distinct_set_unique[of "sort ports" "sort ports'"] by (simp add: media_port_def)

lemma media_port_thread:
  assumes "threads \<noteq> []"
  shows "\<exists>tx. hm_get threads (media_port (hm_keys threads) sid) = Some tx"
proof -
  have "media_port (hm_keys threads) sid \<in> set (hm_keys threads)" using assms by (intro media_port_in) (simp add: hm_keys_def)
  then show ?thesis by (auto simp: hm_keys_def hm_get_def dest: weak_map_of_SomeI)
qed

text \<open>The thread that serves a session, and the reply of that thread.\<close>

lemma web_request_valid:
  assumes "rq_method rq \<noteq> ''GET''" "rq_url rq = CHR ''/'' # verb @ ''/'' @ show_word sid @ ''/'' @ show_word eid"
    "CHR ''/'' \<notin> set verb" "rq_data rq = Some (Ok body)" "threads \<noteq> []"
  obtains tx where "hm_get threads (media_port (hm_keys threads) sid) = Some tx"
    "web_request threads rq =
       (let port = media_port (hm_keys threads) sid; message = SigOffer sid eid body
        in if verb = ''offer'' then
             (case tx message of
                ThreadGone \<Rightarrow> (Err (Panic ''to send SignalingMessage instance''), None)
              | ReplyDropped \<Rightarrow> (Err (Panic ''receive answer offer''), Some (port, message))
              | Reply (SigAnswer _ _ answer_sdp) \<Rightarrow> (Ok (JsonData answer_sdp), Some (port, message))
              | Reply _ \<Rightarrow> (Ok (EmptyStatus 404), Some (port, message)))
           else (Ok (EmptyStatus 200), None))"
proof -
  obtain tx where tx: "hm_get threads (media_port (hm_keys threads) sid) = Some tx" using media_port_thread[OF assms(5)] by blast
  have path: "split_on (CHR ''/'') (rq_url rq) = ['''', verb, show_word sid, show_word eid]"
    unfolding assms(2) by (rule request_path[OF assms(3)])
  show thesis
    by (rule that[OF tx]) (use assms(1,4,5) tx in \<open>simp add: web_request_def path Let_def\<close>)
qed

section \<open>Replies of the media thread\<close>

fun sig_ids :: "SignalingProtocolMessage \<Rightarrow> SessionId \<times> EndpointId" where
  "sig_ids (SigOk s e) = (s, e)"
| "sig_ids (SigErr s e _) = (s, e)"
| "sig_ids (SigOffer s e _) = (s, e)"
| "sig_ids (SigAnswer s e _) = (s, e)"
| "sig_ids (SigLeave s e) = (s, e)"

text \<open>A media thread whose states are \<open>self\<close>, as the web handler sees it.\<close>

definition media_thread ::
  "gateway_env \<Rightarrow> (error \<Rightarrow> string) \<Rightarrow> readings \<Rightarrow> ServerStates \<Rightarrow> SignalingProtocolMessage \<Rightarrow> thread_reply" where
  "media_thread E show_error R self m =
     (case handle_signaling_message E show_error R \<lparr>sig_request = m, response_open = True\<rparr> self of
        (_, Some reply, _) \<Rightarrow> Reply reply
      | _ \<Rightarrow> ReplyDropped)"

lemmas signal_defs = handle_signaling_message_def signal_offer_def signal_leave_def signal_invalid_def send_response_def

lemma try_handle_offer_states:
  "snd (try_handle_offer E sh R s e body self) = self \<or>
   (\<exists>offer. snd (try_handle_offer E sh R s e body self) =
       snd (accept_offer (env_sdp E) (env_sha256 E) (rd_jsep R 0) (env_b64 E) (rd_user R) (rd_pwd R) (rd_now R) s e None offer self))"
  unfolding try_handle_offer_def by (auto split: sum.splits prod.splits) (metis snd_conv)+

lemma signaling_states:
  "snd (snd (handle_signaling_message E sh R m self)) =
     (case sig_request m of SigOffer s e body \<Rightarrow> snd (try_handle_offer E sh R s e body self) | _ \<Rightarrow> self)"
  by (auto simp: signal_defs Let_def case_prod_beta split: SignalingProtocolMessage.splits sum.splits prod.splits)


text \<open>
  C22: A request to the web server with an offer reaches the media thread of its session, whatever the endpoint, and
  returns that thread's answer: the description that \<open>accept_offer\<close> built, as JSON. The port of a session depends only
  on the set of ports, not on the order in which the map yields them, so all endpoints of a session meet in one thread.
\<close>

theorem offer_request_answered:
  assumes "rq_method rq \<noteq> ''GET''" "rq_url rq = ''/offer/'' @ show_word sid @ ''/'' @ show_word eid"
    "rq_data rq = Some (Ok body)" "hm_wf threads" "threads \<noteq> []"
    "hm_get threads (media_port (hm_keys threads) sid) = Some (media_thread E sh R self)"
    "from_utf8 body = Ok text" "from_json (env_json E) text = Inr offer" "to_json (env_json E) answer = Inr json"
    "accept_offer (env_sdp E) (env_sha256 E) (rd_jsep R 0) (env_b64 E) (rd_user R) (rd_pwd R) (rd_now R)
       sid eid None offer self = (Ok answer, self')"
  shows "web_request threads rq =
      (Ok (JsonData (str_bytes json)), Some (media_port (hm_keys threads) sid, SigOffer sid eid body)) \<and>
    (\<forall>ports. distinct ports \<and> set ports = fst ` set threads \<longrightarrow> media_port ports sid = media_port (hm_keys threads) sid)"
proof -
  have url: "rq_url rq = CHR ''/'' # ''offer'' @ ''/'' @ show_word sid @ ''/'' @ show_word eid" using assms(2) by simp
  obtain tx where tx: "hm_get threads (media_port (hm_keys threads) sid) = Some tx"
    "web_request threads rq =
       (let port = media_port (hm_keys threads) sid; message = SigOffer sid eid body
        in if ''offer'' = ''offer'' then
             (case tx message of
                ThreadGone \<Rightarrow> (Err (Panic ''to send SignalingMessage instance''), None)
              | ReplyDropped \<Rightarrow> (Err (Panic ''receive answer offer''), Some (port, message))
              | Reply (SigAnswer _ _ answer_sdp) \<Rightarrow> (Ok (JsonData answer_sdp), Some (port, message))
              | Reply _ \<Rightarrow> (Ok (EmptyStatus 404), Some (port, message)))
           else (Ok (EmptyStatus 200), None))"
    by (rule web_request_valid[OF assms(1) url _ assms(3,5)]) simp
  have "media_thread E sh R self (SigOffer sid eid body) = Reply (SigAnswer sid eid (str_bytes json))"
    using assms(7-10) by (simp add: media_thread_def signal_defs try_handle_offer_def)
  then have "web_request threads rq =
      (Ok (JsonData (str_bytes json)), Some (media_port (hm_keys threads) sid, SigOffer sid eid body))"
    using tx assms(6) by (simp add: Let_def)
  moreover have "media_port ports sid = media_port (hm_keys threads) sid" if "distinct ports" "set ports = fst ` set threads" for ports
    using that assms(4) by (intro media_port_order) (auto simp: hm_keys_def hm_wf_def)
  ultimately show ?thesis by blast
qed

text \<open>A request to leave never reaches a media thread, and a leave message that does leaves the endpoint in place.\<close>

lemma leave_request_ignored:
  assumes "rq_method rq \<noteq> ''GET''" "rq_url rq = ''/leave/'' @ show_word (sid :: u64) @ ''/'' @ show_word (eid :: u64)"
    "rq_data rq = Some (Ok body)" "threads \<noteq> []"
  shows "web_request threads rq = (Ok (EmptyStatus 200), None)"
  by (rule web_request_valid[of rq "''leave''" sid eid body threads]) (use assms in simp_all)

lemma leave_message_keeps_states: "snd (snd (handle_signaling_message E sh R \<lparr>sig_request = SigLeave s e, response_open = b\<rparr> self)) = self"
  by (simp add: signal_defs)

section \<open>A sample request\<close>

definition signal_env :: gateway_env where
  "signal_env = sample_env\<lparr>env_json := \<lparr>from_json = (\<lambda>_. Inr (sample_description Offer [])), to_json = (\<lambda>_. Inr ''{}'')\<rparr>\<rparr>"

theorem offer_request_answered_witness:
  "web_request [(3478, media_thread signal_env (\<lambda>_. []) sample_readings sample_states)]
     \<lparr>rq_method = ''POST'', rq_url = ''/offer/1/9'', rq_data = Some (Ok [])\<rparr> =
   (Ok (JsonData (str_bytes ''{}'')), Some (3478, SigOffer 1 9 []))"
proof -
  let ?threads = "[(3478, media_thread signal_env (\<lambda>_. []) sample_readings sample_states)]"
  let ?rq = "\<lparr>rq_method = ''POST'', rq_url = ''/offer/1/9'', rq_data = Some (Ok [])\<rparr>"
  obtain ans self' where r: "accept_offer offer_lib id empty_session sample_b64 (replicate 9 0) (replicate 18 0) 0 1 9 None
      (sample_description Offer []) sample_states = (Ok ans, self')" by (rule sample_first_offer)
  have port: "media_port (hm_keys ?threads) 1 = 3478" by (simp add: media_port_def hm_keys_def)
  have url: "rq_url ?rq = ''/offer/'' @ show_word (1 :: u64) @ ''/'' @ show_word (9 :: u64)"
    by code_simp
  show ?thesis
    using offer_request_answered[of ?rq 1 9 "[]" ?threads signal_env "\<lambda>_. []" sample_readings sample_states "[]"
        "sample_description Offer []" ans "''{}''" self'] url r
    unfolding port
    by (simp add: hm_wf_def hm_get_def from_utf8_def signal_env_def sample_env_def sample_readings_def)
qed

end
