(* ===== verification/Sync_Server.thy ===== *)
theory Sync_Server
  imports Pipeline_Steps Signaling
begin

text \<open>
  The main loop of the example server (\<open>sync_run\<close> in \<open>examples/sync_signal/mod.rs\<close>): it sends what the pipeline has
  to send, answers one signalling message, waits for a datagram until the next deadline, and drives the timers.

  What an iteration reads from outside is a \<open>turn\<close>: whether it is told to stop, the results of the socket, the
  clock, the signalling message. What it does outside is its \<open>effects\<close>. A duration that has passed is zero (\<open>unwrap_or\<close>). \<open>sync_loop\<close> works through a list of turns, and \<open>sync_run\<close> starts the server first.
\<close>

section \<open>The socket\<close>

datatype recv_result = Received bytes socket_addr instant | RecvTimeout | RecvFailed string

definition read_socket_input :: "socket_addr \<Rightarrow> recv_result \<Rightarrow> TaggedBytesMut option result" where
  "read_socket_input addr r =
     (case r of
        Received message peer now \<Rightarrow>
          Ok (Some \<lparr>raw_now = now, raw_transport = \<lparr>ctx_local_addr = addr, ctx_peer_addr = peer, ecn = None\<rparr>, raw_message = message\<rparr>)
      | RecvTimeout \<Rightarrow> Ok None
      | RecvFailed e \<Rightarrow> Err (Panic ''UdpSocket read failed''))"

text \<open>
  \<open>send\<close>: the result of the socket's \<open>send_to\<close>; \<open>clock\<close>: the instants that the SRTP handler reads, poll by poll.
  The result: whether all sends succeeded, the exceptions of the pipeline, the datagrams handed to the socket.
\<close>

partial_function (option) write_socket_output ::
  "pipeline_env \<Rightarrow> (TaggedBytesMut \<Rightarrow> unit result) \<Rightarrow> (nat \<Rightarrow> instant) \<Rightarrow> nat \<Rightarrow> Pipeline
   \<Rightarrow> (unit result \<times> error list \<times> TaggedBytesMut list \<times> Pipeline) option" where
  "write_socket_output E send clock i p =
     Option.bind (pipeline_poll_transmit E (clock i) p) (\<lambda>(errs, m, p1).
       case m of
         None \<Rightarrow> Some (Ok (), errs, [], p1)
       | Some transmit \<Rightarrow>
           (case send transmit of
              Inl err \<Rightarrow> Some (Err err, errs, [transmit], p1)
            | Inr _ \<Rightarrow>
                Option.bind (write_socket_output E send clock (Suc i) p1) (\<lambda>(r, errs', sent, p2).
                  Some (r, errs @ errs', transmit # sent, p2))))"

section \<open>The loop\<close>

datatype stop_signal = StopReceived | StopDisconnected | StopEmpty

record turn =
  tn_stop :: stop_signal
  tn_send :: "TaggedBytesMut \<Rightarrow> unit result"
  tn_clock :: "nat \<Rightarrow> instant"
  tn_signal :: "SignalingMessage option"
  tn_signal_readings :: readings
  tn_deadline_now :: instant
  tn_delay_now :: instant
  tn_recv :: "duration \<Rightarrow> recv_result"
  tn_readings :: "nat \<Rightarrow> readings"
  tn_timeout_now :: instant

datatype turn_end = Continue | Break | Return error

record effects =
  ef_sent :: "TaggedBytesMut list"
  ef_reply :: "SignalingProtocolMessage option"
  ef_errors :: "error list"

text \<open>The second half of an iteration: the wait for a datagram and the timers.\<close>

definition poll_clients ::
  "pipeline_env \<Rightarrow> socket_addr \<Rightarrow> turn \<Rightarrow> Pipeline \<Rightarrow> (turn_end \<times> error list \<times> Pipeline) option" where
  "poll_clients E addr T p =
     (let deadline = pipeline_poll_timeout E (tn_deadline_now T + 100 * 1000000) p;
          delay_from_now = nat (deadline - tn_delay_now T)
      in if delay_from_now = 0 then
           map_option (\<lambda>(errs, p1). (Continue, errs, p1)) (pipeline_handle_timeout E (tn_timeout_now T) p)
         else
           (case read_socket_input addr (tn_recv T delay_from_now) of
              Inl err \<Rightarrow> Some (Return err, [], p)
            | Inr input \<Rightarrow>
                Option.bind (case input of
                               Some msg \<Rightarrow> pipeline_read E (tn_readings T) msg p
                             | None \<Rightarrow> Some ([], p)) (\<lambda>(errs1, p1).
                Option.bind (pipeline_handle_timeout E (tn_timeout_now T) p1) (\<lambda>(errs2, p2).
                  Some (Continue, errs1 @ errs2, p2)))))"

definition sync_turn ::
  "pipeline_env \<Rightarrow> (error \<Rightarrow> string) \<Rightarrow> socket_addr \<Rightarrow> turn \<Rightarrow> Pipeline \<Rightarrow> (turn_end \<times> effects \<times> Pipeline) option" where
  "sync_turn E show_error addr T p =
     (if tn_stop T \<noteq> StopEmpty then Some (Break, \<lparr>ef_sent = [], ef_reply = None, ef_errors = []\<rparr>, p)
      else
        Option.bind (write_socket_output E (tn_send T) (tn_clock T) 0 p) (\<lambda>(r, errs, sent, p1).
          case r of
            Inl err \<Rightarrow> Some (Return err, \<lparr>ef_sent = sent, ef_reply = None, ef_errors = errs\<rparr>, p1)
          | Inr _ \<Rightarrow>
              (let (s, reply, p2) =
                     (case tn_signal T of
                        None \<Rightarrow> (Ok (), None, p1)
                      | Some m \<Rightarrow>
                          (let (s, reply, self) =
                                 handle_signaling_message (pe_gateway E) show_error (tn_signal_readings T) m (pl_states p1)
                           in (s, reply, p1\<lparr>pl_states := self\<rparr>)))
               in case s of
                    Inl _ \<Rightarrow> Some (Continue, \<lparr>ef_sent = sent, ef_reply = reply, ef_errors = errs\<rparr>, p2)
                  | Inr _ \<Rightarrow>
                      map_option (\<lambda>(e, errs', p3). (e, \<lparr>ef_sent = sent, ef_reply = reply, ef_errors = errs @ errs'\<rparr>, p3))
                        (poll_clients E addr T p2))))"

fun sync_loop ::
  "pipeline_env \<Rightarrow> (error \<Rightarrow> string) \<Rightarrow> socket_addr \<Rightarrow> turn list \<Rightarrow> Pipeline \<Rightarrow> (turn_end \<times> effects list \<times> Pipeline) option" where
  "sync_loop E show_error addr [] p = Some (Continue, [], p)"
| "sync_loop E show_error addr (T # turns) p =
     Option.bind (sync_turn E show_error addr T p) (\<lambda>(e, ef, p1).
       if e = Continue
       then Option.bind (sync_loop E show_error addr turns p1) (\<lambda>(e', efs, p2). Some (e', ef # efs, p2))
       else Some (e, [ef], p1))"

text \<open>
  The whole run: the states and the pipeline are built, then the loop works through its turns. The last component of the
  result is the pipeline, unless the states could not be built.
\<close>

definition sync_run ::
  "pipeline_env \<Rightarrow> (error \<Rightarrow> string) \<Rightarrow> instant \<Rightarrow> socket_addr \<Rightarrow> ServerConfig \<Rightarrow> turn list
   \<Rightarrow> (turn_end \<times> effects list \<times> Pipeline option) option" where
  "sync_run E show_error now addr sc turns =
     (case states_new (env_sha256 (pe_gateway E)) sc addr of
        Inl err \<Rightarrow> Some (Return err, [], None)
      | Inr server_states \<Rightarrow>
          map_option (\<lambda>(e, efs, p). (e, efs, Some p))
            (sync_loop E show_error addr turns (build_pipeline now addr server_states)))"

section \<open>The loop that sends\<close>

text \<open>
  Every datagram that leaves shortens the last non-empty queue of the pipeline and leaves the queues behind it empty,
  so the loop ends although one message can become many packets in a queue nearer to the socket.
\<close>

definition queue_lengths :: "Pipeline \<Rightarrow> nat \<times> nat \<times> nat \<times> nat \<times> nat" where
  "queue_lengths p = (length (gw_transmits (pl_gateway p)), length (pl_interceptor p), length (pl_datachannel p),
     length (sctp_transmits (pl_sctp p)), length (dtls_transmits (pl_dtls p)))"

abbreviation shorter_queues :: "(Pipeline \<times> Pipeline) set" where
  "shorter_queues \<equiv> inv_image (less_than <*lex*> less_than <*lex*> less_than <*lex*> less_than <*lex*> less_than) queue_lengths"

lemma wf_shorter_queues: "wf shorter_queues"
  by (intro wf_inv_image wf_lex_prod wf_less_than)

lemma pop_shortens: "pop_front q = (m, q') \<Longrightarrow> m = None \<and> q = [] \<and> q' = [] \<or> length q' < length q"
  by (auto simp: pop_front_def split: list.splits)

lemma poll_shortens:
  assumes "pipeline_poll_transmit E now p = Some (errs, Some m, p')"
  shows "(p', p) \<in> shorter_queues"
proof -
  obtain m1 gw where 1: "gateway_poll_write (exception_poll_write None) (pl_gateway p) = (m1, gw)" by fastforce
  obtain c2 m2 iq self2 where 2: "interceptor_handler_poll_write m1 (pl_interceptor p) (pl_states p) = (c2, m2, iq, self2)"
    by (metis prod.collapse)
  obtain c3 m3 self3 where 3: "srtp_poll_write (pe_srtp E) now m2 self2 = (c3, m3, self3)" by (metis prod.collapse)
  obtain m4 dq where 4: "datachannel_poll_write m3 (pl_datachannel p) = (m4, dq)" by fastforce
  obtain c5 m5 sctp self5 where 5: "sctp_poll_write (pe_sctp E) m4 (pl_sctp p) self3 = Some (c5, m5, sctp, self5)"
    using assms 1 2 3 4 by (auto simp: pipeline_poll_transmit_def bind_eq_Some_conv)
  obtain c6 m6 dtls self6 where 6: "dtls_poll_write (pe_dtls E) m5 (pl_dtls p) self5 = Some (c6, m6, dtls, self6)"
    using assms 1 2 3 4 5 by (auto simp: pipeline_poll_transmit_def bind_eq_Some_conv)
  have p': "p' = p\<lparr>pl_gateway := gw, pl_interceptor := iq, pl_datachannel := dq, pl_sctp := sctp, pl_dtls := dtls, pl_states := self6\<rparr>"
    and m: "demuxer_poll_write (stun_poll_write (pe_stun E) m6) = Some m"
    using assms 1 2 3 4 5 6 by (simp_all add: pipeline_poll_transmit_def)
  have g: "pop_front (gw_transmits (pl_gateway p)) = (m1, gw_transmits gw)"
    using 1 by (auto simp: gateway_poll_write_def exception_poll_write_def poll_queue_def case_prod_beta Let_def)
  have i: "m1 = None \<Longrightarrow> pop_front (pl_interceptor p) = (m2, iq)"
    using 2 by (auto simp: interceptor_handler_poll_write_def split: prod.splits)
  have d: "m2 = None \<Longrightarrow> pop_front (pl_datachannel p) = (m4, dq)"
    using 3 4 by (auto simp: srtp_poll_write_def datachannel_poll_write_def)
  have s: "m4 = None \<Longrightarrow> pop_front (sctp_transmits (pl_sctp p)) = (m5, sctp_transmits sctp)"
    using 5 by (auto simp: sctp_poll_write_def split: prod.splits)
  have t: "m5 = None \<Longrightarrow> pop_front (dtls_transmits (pl_dtls p)) = (m6, dtls_transmits dtls)"
    using 6 by (auto simp: dtls_poll_write_def split: prod.splits)
  have "m6 \<noteq> None" using m by (cases m6) (simp_all add: stun_poll_write_def demuxer_poll_write_def)
  then show ?thesis
    using pop_shortens[OF g] pop_shortens[OF i] pop_shortens[OF d] pop_shortens[OF s] pop_shortens[OF t]
    by (auto simp: p' queue_lengths_def)
qed

lemma write_socket_output_returns:
  assumes "pollable (dtls_poll_transmit (pe_dtls E)) pending" "sctp_finite (pe_sctp E) readable closing sending"
  shows "write_socket_output E send clock i p \<noteq> None"
proof (induction p arbitrary: i rule: wf_induct_rule[OF wf_shorter_queues])
  case (1 p)
  obtain errs m p1 where p1: "pipeline_poll_transmit E (clock i) p = Some (errs, m, p1)"
    using poll_returns[OF assms, of "clock i" p] by auto
  show ?case
  proof (cases m)
    case None
    then show ?thesis using p1 by (simp add: write_socket_output.simps)
  next
    case (Some transmit)
    then have "write_socket_output E send clock (Suc i) p1 \<noteq> None" using p1 poll_shortens 1 by blast
    then show ?thesis using p1 Some by (subst write_socket_output.simps) (auto split: sum.splits)
  qed
qed

section \<open>Turns\<close>

lemma bind_returns: "x \<noteq> None \<Longrightarrow> (\<And>y. f y \<noteq> None) \<Longrightarrow> Option.bind x f \<noteq> None"
  by (cases x) simp_all

lemma poll_clients_returns:
  assumes "pollable (dtls_poll_transmit (pe_dtls E)) pending" "sctp_finite (pe_sctp E) readable closing sending"
  shows "poll_clients E addr T p \<noteq> None"
proof -
  have "Option.bind (pipeline_handle_timeout E (tn_timeout_now T) p1) (\<lambda>(errs2, p2). Some (Continue, errs1 @ errs2, p2)) \<noteq> None"
    for p1 errs1 by (rule bind_returns[OF timeout_returns[OF assms]]) (simp split: prod.split)
  moreover have "(case input of Some msg \<Rightarrow> pipeline_read E (tn_readings T) msg p | None \<Rightarrow> Some ([], p)) \<noteq> None" for input
    using stages_return[OF assms] by (cases input) simp_all
  ultimately have "Option.bind (case input of Some msg \<Rightarrow> pipeline_read E (tn_readings T) msg p | None \<Rightarrow> Some ([], p)) (\<lambda>(errs1, p1).
      Option.bind (pipeline_handle_timeout E (tn_timeout_now T) p1) (\<lambda>(errs2, p2). Some (Continue, errs1 @ errs2, p2))) \<noteq> None"
    for input by (intro bind_returns) (simp_all split: prod.split)
  then show ?thesis
    using timeout_returns[OF assms, of "tn_timeout_now T" p]
    by (simp add: poll_clients_def Let_def split: sum.split del: not_None_eq)
qed

lemma sync_turn_returns:
  assumes "pollable (dtls_poll_transmit (pe_dtls E)) pending" "sctp_finite (pe_sctp E) readable closing sending"
  shows "sync_turn E sh addr T p \<noteq> None"
proof -
  obtain r errs sent p1 where "write_socket_output E (tn_send T) (tn_clock T) 0 p = Some (r, errs, sent, p1)"
    using write_socket_output_returns[OF assms, of "tn_send T" "tn_clock T" 0 p] by auto
  then show ?thesis
    using poll_clients_returns[OF assms, of addr T]
    by (simp add: sync_turn_def Let_def case_prod_beta split: sum.split del: not_None_eq)
qed

text \<open>The shape of the loop: a poll without a datagram, a send that fails, or one round and the rest.\<close>

lemma write_socket_output_cases:
  assumes "write_socket_output E send clock i p = Some (r, errs, sent, p')"
  obtains errs1 m p1 where "pipeline_poll_transmit E (clock i) p = Some (errs1, m, p1)"
      "m = None" "r = Ok ()" "errs = errs1" "sent = []" "p' = p1"
    | errs1 transmit p1 err where "pipeline_poll_transmit E (clock i) p = Some (errs1, Some transmit, p1)"
      "send transmit = Err err" "r = Err err" "errs = errs1" "sent = [transmit]" "p' = p1"
    | errs1 transmit p1 errs' sent' where "pipeline_poll_transmit E (clock i) p = Some (errs1, Some transmit, p1)"
      "send transmit = Ok ()" "write_socket_output E send clock (Suc i) p1 = Some (r, errs', sent', p')"
      "errs = errs1 @ errs'" "sent = transmit # sent'"
proof -
  obtain errs1 m p1 where p1: "pipeline_poll_transmit E (clock i) p = Some (errs1, m, p1)"
    using assms by (subst (asm) write_socket_output.simps) (auto simp: bind_eq_Some_conv)
  show thesis
  proof (cases m)
    case None
    then show thesis using assms p1 by (intro that(1)) (simp_all add: write_socket_output.simps)
  next
    case (Some transmit)
    show thesis
    proof (cases "send transmit")
      case (Inl err)
      then show thesis
        using that(2)[OF p1[unfolded Some] Inl] assms p1 Some by (simp add: write_socket_output.simps)
    next
      case (Inr u)
      then obtain errs' sent' where "write_socket_output E send clock (Suc i) p1 = Some (r, errs', sent', p')"
          "errs = errs1 @ errs'" "sent = transmit # sent'"
        using assms p1 Some by (subst (asm) write_socket_output.simps) (auto simp: bind_eq_Some_conv)
      then show thesis using p1 Some Inr by (intro that(3)) simp_all
    qed
  qed
qed

lemma write_socket_output_reach:
  assumes "write_socket_output E send clock i p = Some (r, errs, sent, p')" "pipeline_reach E p"
  shows "pipeline_reach E p'"
  using assms
proof (induction p arbitrary: i errs sent rule: wf_induct_rule[OF wf_shorter_queues])
  case (1 p)
  from 1(2) show ?case
    by (cases rule: write_socket_output_cases) (use 1 poll_shortens pipeline_reach.transmit in blast)+
qed

lemma try_handle_offer_reach:
  assumes "pipeline_reach E p"
  shows "pipeline_reach E (p\<lparr>pl_states := snd (try_handle_offer (pe_gateway E) sh R s e body (pl_states p))\<rparr>)"
  using try_handle_offer_states[of "pe_gateway E" sh R s e body "pl_states p"]
proof
  assume "\<exists>d. snd (try_handle_offer (pe_gateway E) sh R s e body (pl_states p)) = snd (accept_offer (env_sdp (pe_gateway E))
    (env_sha256 (pe_gateway E)) (rd_jsep R 0) (env_b64 (pe_gateway E)) (rd_user R) (rd_pwd R) (rd_now R) s e None d (pl_states p))"
  then obtain d where "snd (try_handle_offer (pe_gateway E) sh R s e body (pl_states p)) = snd (accept_offer (env_sdp (pe_gateway E))
    (env_sha256 (pe_gateway E)) (rd_jsep R 0) (env_b64 (pe_gateway E)) (rd_user R) (rd_pwd R) (rd_now R) s e None d (pl_states p))" by blast
  with pipeline_reach.offer[OF assms surjective_pairing] show ?thesis by (simp only:)
next
  assume "snd (try_handle_offer (pe_gateway E) sh R s e body (pl_states p)) = pl_states p"
  with assms show ?thesis by simp
qed

lemma handle_signaling_reach:
  assumes "pipeline_reach E p"
  shows "pipeline_reach E (p\<lparr>pl_states := snd (snd (handle_signaling_message (pe_gateway E) sh R m (pl_states p)))\<rparr>)"
proof -
  have "pipeline_reach E (p\<lparr>pl_states := pl_states p\<rparr>)" using assms by simp
  with try_handle_offer_reach[OF assms] show ?thesis
    by (cases "sig_request m") (simp_all only: signaling_states SignalingProtocolMessage.case)
qed

lemma poll_clients_reach:
  assumes "poll_clients E addr T p = Some (e, errs, p')" "pipeline_reach E p"
  shows "pipeline_reach E p'"
proof -
  have t: "pipeline_handle_timeout E now q = Some (errs, q') \<Longrightarrow> pipeline_reach E q \<Longrightarrow> pipeline_reach E q'" for now q errs q'
    by (rule pipeline_reach.tick)
  have r: "(case input of Some msg \<Rightarrow> pipeline_read E (tn_readings T) msg p | None \<Rightarrow> Some ([], p)) = Some (errs, q) \<Longrightarrow> pipeline_reach E q"
    for input errs q
    using assms(2) by (cases input) (auto intro: pipeline_reach.datagram)
  show ?thesis
    using assms t r by (auto simp: poll_clients_def Let_def bind_eq_Some_conv split: if_splits sum.splits)
qed

lemma sync_turn_reach:
  assumes "sync_turn E sh addr T p = Some (e, ef, p')" "pipeline_reach E p"
  shows "pipeline_reach E p'"
proof (cases "tn_stop T = StopEmpty")
  case True
  obtain r errs sent p1 where w: "write_socket_output E (tn_send T) (tn_clock T) 0 p = Some (r, errs, sent, p1)"
    using assms(1) True by (auto simp: sync_turn_def bind_eq_Some_conv)
  have p1: "pipeline_reach E p1" by (rule write_socket_output_reach[OF w assms(2)])
  obtain s reply p2 where s: "(case tn_signal T of None \<Rightarrow> (Ok (), None, p1)
      | Some m \<Rightarrow> (let (s, reply, self) = handle_signaling_message (pe_gateway E) sh (tn_signal_readings T) m (pl_states p1)
           in (s, reply, p1\<lparr>pl_states := self\<rparr>))) = (s, reply, p2)" by (metis prod.collapse)
  then have p2: "pipeline_reach E p2"
    using p1 handle_signaling_reach[OF p1] by (auto simp: case_prod_beta Let_def split: option.splits)
  show ?thesis
    using assms(1) True p1 p2 poll_clients_reach[of E addr T p2]
    by (auto simp: sync_turn_def w s split: sum.splits)
qed (use assms in \<open>simp add: sync_turn_def\<close>)

lemma sync_loop_reach:
  "sync_loop E sh addr turns p = Some (e, efs, p') \<Longrightarrow> pipeline_reach E p \<Longrightarrow> pipeline_reach E p'"
  by (induction turns arbitrary: p efs) (auto simp: bind_eq_Some_conv split: if_splits dest: sync_turn_reach)

lemma sync_loop_returns:
  assumes "pollable (dtls_poll_transmit (pe_dtls E)) pending" "sctp_finite (pe_sctp E) readable closing sending"
  shows "sync_loop E sh addr turns p \<noteq> None"
proof (induction turns arbitrary: p)
  case (Cons T turns)
  have rest: "Option.bind (sync_loop E sh addr turns p1) (\<lambda>(e', efs, p2). Some (e', ef # efs, p2)) \<noteq> None" for p1 ef
    by (rule bind_returns[OF Cons]) (simp split: prod.split)
  have "Option.bind (sync_turn E sh addr T p) (\<lambda>(e, ef, p1). if e = Continue
      then Option.bind (sync_loop E sh addr turns p1) (\<lambda>(e', efs, p2). Some (e', ef # efs, p2)) else Some (e, [ef], p1)) \<noteq> None"
    by (rule bind_returns[OF sync_turn_returns[OF assms]]) (simp add: rest split: prod.split del: not_None_eq)
  then show ?case unfolding sync_loop.simps .
qed simp

lemma sync_loop_length:
  "sync_loop E sh addr turns p = Some (e, efs, p') \<Longrightarrow> length efs \<le> length turns \<and> (e = Continue \<longrightarrow> length efs = length turns)"
  by (induction turns arbitrary: p efs) (fastforce simp: bind_eq_Some_conv split: if_splits)+

text \<open>
  C5: Every run of the server keeps its invariants, from the start and through any number of iterations of the main
  loop, with any datagrams, signalling messages, timers and socket errors: the states are well formed and the queues of
  the pipeline hold messages that the handlers in front of them can send.
\<close>

theorem server_run_invariant:
  assumes "sync_run E sh now addr sc turns = Some (e, efs, Some p)"
  shows "states_wf False (pl_states p) \<and> queues_typed p"
proof -
  obtain self where "states_new (env_sha256 (pe_gateway E)) sc addr = Ok self"
      "sync_loop E sh addr turns (build_pipeline now addr self) = Some (e, efs, p)"
    using assms by (auto simp: sync_run_def split: sum.splits)
  from reach_inv[OF sync_loop_reach[OF this(2) pipeline_reach.built[OF this(1)]]] show ?thesis by (simp add: pipeline_inv_def)
qed

text \<open>
  C6: The server never hangs: as long as a DTLS endpoint and an SCTP association have finitely many pending items that
  polling uses up, every iteration of the main loop finishes, the loop that sends all pending datagrams included,
  although a message can turn into many packets on its way out. An iteration that does not stop the server is followed
  by the next one, and a configuration without certificate ends the run before the first.
\<close>

theorem server_run_returns:
  assumes "pollable (dtls_poll_transmit (pe_dtls E)) pending" "sctp_finite (pe_sctp E) readable closing sending"
  shows "\<exists>e efs p. sync_run E sh now addr sc turns = Some (e, efs, p) \<and> length efs \<le> length turns \<and>
    (e = Continue \<longrightarrow> length efs = length turns) \<and>
    (p = None \<longleftrightarrow> (\<exists>err. states_new (env_sha256 (pe_gateway E)) sc addr = Err err \<and> e = Return err \<and> efs = []))"
proof (cases "states_new (env_sha256 (pe_gateway E)) sc addr")
  case (Inr self)
  obtain e efs p where "sync_loop E sh addr turns (build_pipeline now addr self) = Some (e, efs, p)"
    using sync_loop_returns[OF assms, of sh addr turns "build_pipeline now addr self"] by auto
  then show ?thesis using Inr sync_loop_length by (fastforce simp: sync_run_def)
qed (simp add: sync_run_def)

section \<open>A sample run\<close>

definition sample_turn :: "SignalingMessage option \<Rightarrow> recv_result \<Rightarrow> turn" where
  "sample_turn m r = \<lparr>tn_stop = StopEmpty, tn_send = (\<lambda>_. Ok ()), tn_clock = (\<lambda>_. 0), tn_signal = m,
     tn_signal_readings = sample_readings, tn_deadline_now = 0, tn_delay_now = 0, tn_recv = (\<lambda>_. r),
     tn_readings = (\<lambda>_. sample_readings), tn_timeout_now = 0\<rparr>"

definition sample_turns :: "turn list" where
  "sample_turns =
     [sample_turn (Some \<lparr>sig_request = SigLeave 1 7, response_open = True\<rparr>) RecvTimeout,
      sample_turn None (Received [128] (SocketAddrV4 1 2) 0)]"

lemma sample_pipeline_finite:
  "pollable (dtls_poll_transmit (pe_dtls sample_pipeline_env)) (\<lambda>_. 0)" "sctp_finite (pe_sctp sample_pipeline_env) (\<lambda>_. 0) (\<lambda>_. 0) (\<lambda>_. 0)"
  by (simp_all add: sample_pipeline_env_def sample_dtls_pollable sample_sctp_finite)

theorem server_run_invariant_witness:
  "\<exists>e efs p. sync_run sample_pipeline_env (\<lambda>_. []) 0 (SocketAddrV4 0 0) sample_server_config sample_turns = Some (e, efs, Some p) \<and>
     states_wf False (pl_states p)"
proof -
  obtain self where "states_new id sample_server_config (SocketAddrV4 0 0) = Ok self" by (rule sample_pipeline_reach)
  then have self: "states_new (env_sha256 (pe_gateway sample_pipeline_env)) sample_server_config (SocketAddrV4 0 0) = Ok self"
    by (simp add: sample_pipeline_env_def)
  obtain e efs p where "sync_loop sample_pipeline_env (\<lambda>_. []) (SocketAddrV4 0 0) sample_turns (build_pipeline 0 (SocketAddrV4 0 0) self) = Some (e, efs, p)"
    using sync_loop_returns[OF sample_pipeline_finite] by (metis not_None_eq prod_cases3)
  then have r: "sync_run sample_pipeline_env (\<lambda>_. []) 0 (SocketAddrV4 0 0) sample_server_config sample_turns = Some (e, efs, Some p)"
    by (simp add: sync_run_def self)
  from server_run_invariant[OF this] r show ?thesis by blast
qed

theorem server_run_returns_witness:
  "\<exists>e efs p. sync_run sample_pipeline_env (\<lambda>_. []) 0 (SocketAddrV4 0 0) sample_server_config sample_turns = Some (e, efs, p) \<and>
     length efs \<le> 2"
  using server_run_returns[OF sample_pipeline_finite, of "\<lambda>_. []" 0 "SocketAddrV4 0 0" sample_server_config sample_turns]
  by (auto simp: sample_turns_def)

end
