(* ===== verification/Channels.thy ===== *)
theory Channels
  imports Gateway_Steps
begin

text \<open>
  The gateway's data channels: what opening a channel adds to an endpoint, and who receives the messages that an
  event produces.
\<close>

section \<open>Transports are left alone by signalling\<close>

definition transports_kept :: "Session \<Rightarrow> Session \<Rightarrow> bool" where
  "transports_kept s s' \<longleftrightarrow> (\<forall>e. map_option transports (get_endpoint e s') = map_option transports (get_endpoint e s))"

lemma transports_kept_refl [simp]: "transports_kept s s"
  by (simp add: transports_kept_def)

lemma transports_kept_modify:
  assumes "transports_kept s s'" "\<And>ep. transports (f ep) = transports ep"
  shows "transports_kept s (modify_endpoint eid f s')"
  using assms by (simp add: transports_kept_def option.map_comp comp_def)

lemma transports_kept_map:
  assumes "transports_kept s s'" "\<And>e ep. transports (f e ep) = transports ep"
  shows "transports_kept s (s'\<lparr>endpoints := hm_map f (endpoints s')\<rparr>)"
  using assms by (simp add: transports_kept_def get_endpoint_def option.map_comp comp_def)

lemma transports_mirror: "transports (mirror_to_other eid md dir sd ps k oid other) = transports other"
  by (simp add: mirror_to_other_def Let_def set_renegotiation_needed_def split: option.splits)

lemma transports_kept_remote: "transports_kept s (snd (session_set_remote_description L eid desc s))"
proof -
  have "transports_kept s (snd (remote_media_step L eid off m s'))" if "transports_kept s s'" for off m s'
    using that
    by (auto simp: remote_media_step_def offered_media_step_def answered_media_step_def Let_def add_own_transceiver_def
        transports_mirror split: media_guard.splits option.splits sum.splits intro!: transports_kept_map transports_kept_modify)
  then show ?thesis
    by (auto simp: session_set_remote_description_def split: option.splits
        intro!: for_each_invariant[where I = "transports_kept s"])
qed

lemma transports_kept_local: "transports_kept s (snd (session_set_local_description eid desc s))"
proof -
  have "transports_kept s (snd (local_media_step eid m s'))" if "transports_kept s s'" for m s'
    using that by (auto simp: local_media_step_def split: media_guard.splits intro!: transports_kept_modify)
  then show ?thesis
    by (auto simp: session_set_local_description_def split: option.splits
        intro!: for_each_invariant[where I = "transports_kept s"])
qed

lemma transports_kept_trans: "transports_kept a b \<Longrightarrow> transports_kept b c \<Longrightarrow> transports_kept a c"
  by (simp add: transports_kept_def)

lemma transports_kept_known: "transports_kept s (snd (accept_known_offer L sha256 jsep eid ft offer s))"
proof -
  obtain r s1 where 1: "session_set_remote_description L eid offer s = (r, s1)" by fastforce
  then have s1: "transports_kept s s1" using transports_kept_remote[of s L eid offer] by simp
  have "transports_kept s (snd (session_set_local_description eid ans s1))" for ans
    using transports_kept_trans[OF s1 transports_kept_local] .
  then show ?thesis using 1 s1
    by (auto simp: accept_known_offer_def split: sum.splits prod.splits) (metis snd_conv)+
qed

lemma transport_in_kept: "transports_kept s s' \<Longrightarrow> transport_in s' e f = transport_in s e f"
  unfolding transports_kept_def transport_in_def
  by (drule spec[of _ e]) (auto split: option.splits simp: map_option_case)

lemma transport_at_in: "get_session sid self = Some s \<Longrightarrow> transport_at sid e f self = transport_in s e f"
  by (simp add: transport_at_def transport_in_def endpoint_at_def)

lemma put_kept:
  assumes "get_session sid self = Some s" "transports_kept s s'"
  shows "transport_at i e f (put_session sid s' self) = transport_at i e f self"
  using assms transport_in_kept[OF assms(2)] transport_at_in[OF assms(1)] by (simp add: transport_at_put)

lemma accept_offer_transports:
  assumes "accept_offer L sha256 jsep b64 user pwd now sid eid ft offer self = (r, self')"
  shows "transport_at i e f self' = transport_at i e f self \<and> find_endpoint f self' = find_endpoint f self"
proof -
  obtain s self1 where c: "create_or_get_mut_session sid self = (s, self1)" by fastforce
  note view = create_session_view[OF c]
  have at1: "transport_at i e f self1 = transport_at i e f self" using view(5) by (simp add: transport_at_def)
  have s: "get_session sid self1 = Some s" using view(4) by simp
  have "transport_at i e f (put_session sid (snd (accept_known_offer L sha256 jsep eid ft x s)) self1) = transport_at i e f self1" for x
    by (rule put_kept[OF s transports_kept_known])
  moreover have "transport_at i e f (snd (add_candidate x self1)) = transport_at i e f self1"
    "find_endpoint f (snd (add_candidate x self1)) = find_endpoint f self1" for x
    by (simp_all add: transport_at_def endpoint_at_def get_session_def add_candidate_def find_endpoint_def)
  moreover have "find_endpoint f self1 = find_endpoint f self" by (simp add: find_endpoint_def view)
  ultimately show ?thesis using assms c at1
    by (auto simp: accept_offer_def Let_def case_prod_beta split: sum.splits list.splits if_splits) 
qed

section \<open>Messages stay within the session\<close>

lemma offer_event_transport:
  "create_offer_message_event E jsep now tc h s self = (Ok m, self') \<Longrightarrow> msg_transport m = tc"
  by (auto simp: create_offer_message_event_def Let_def result_simps channel_message_def split: sum.splits option.splits prod.splits)

lemma offers_transports:
  "offer_to_peers E jsep now i peers self = (Ok ms, self') \<Longrightarrow> m \<in> set ms \<Longrightarrow>
   \<exists>h s. (msg_transport m, h, s, True) \<in> set peers"
proof (induction E jsep now i peers self arbitrary: ms self' rule: offer_to_peers.induct)
  case (2 E jsep now i tc h s needed peers self)
  then show ?case using offer_event_transport
    by (auto split: if_splits sum.splits prod.splits) blast+
qed simp

lemma four_tuple_context [simp]: "four_tuple_from (context_of tc ft) = ft"
  by (simp add: four_tuple_from_def context_of_def)

lemma set_map_filter: "x \<in> set (List.map_filter f xs) \<longleftrightarrow> (\<exists>a\<in>set xs. f a = Some x)"
  by (induction xs) (auto simp: map_filter_simps split: option.splits)

lemma channel_peers:
  assumes "states_wf d self" "get_other_datachannel_transport_contexts tc self = Ok peers" "(c, h, s, b) \<in> set peers"
  shows "\<exists>sid eid e. find_endpoint (four_tuple_from tc) self = Some (sid, eid) \<and> e \<noteq> eid \<and>
    transport_at sid e (four_tuple_from c) self \<noteq> None"
proof -
  obtain sid eid sess where so: "session_of tc self = Ok (sid, eid, sess)"
    using assms(2) by (auto simp: get_other_datachannel_transport_contexts_def result_simps)
  then have s: "find_endpoint (four_tuple_from tc) self = Some (sid, eid)" "get_session sid self = Some sess"
    by (auto simp: session_of_def result_simps)
  have peers: "peers = concat (map (\<lambda>(other_id, other).
             if other_id \<noteq> eid then
               List.map_filter (\<lambda>(ft, t).
                  case association_handle_and_stream_id t of
                    (Some h, Some s) \<Rightarrow> Some (context_of tc ft, h, s, is_renegotiation_needed other)
                  | _ \<Rightarrow> None) (transports other)
             else []) (endpoints sess))"
    using assms(2) so by (simp add: get_other_datachannel_transport_contexts_def)
  obtain e ep where ep: "(e, ep) \<in> set (endpoints sess)" "e \<noteq> eid"
    and in_ep: "(c, h, s, b) \<in> set (List.map_filter (\<lambda>(ft, t).
                  case association_handle_and_stream_id t of
                    (Some h, Some s) \<Rightarrow> Some (context_of tc ft, h, s, is_renegotiation_needed ep)
                  | _ \<Rightarrow> None) (transports ep))"
    using assms(3) unfolding peers by (auto split: if_splits)
  then obtain ft t where t: "(ft, t) \<in> set (transports ep)"
    "(case association_handle_and_stream_id t of
        (Some h, Some s) \<Rightarrow> Some (context_of tc ft, h, s, is_renegotiation_needed ep) | _ \<Rightarrow> None) = Some (c, h, s, b)"
    by (auto simp: set_map_filter)
  then have e: "c = context_of tc ft"
    by (cases "association_handle t"; cases "tr_stream_id t") (simp_all add: association_handle_and_stream_id_def)
  have "session_wf d sess" using states_wf_session[OF assms(1) s(2)] .
  then have "get_endpoint e sess = Some ep" "hm_get (transports ep) ft = Some t"
    using ep t by (auto simp: session_wf_def ep_ok_def endpoint_wf_def hm.entries_get get_endpoint_def)
  then show ?thesis using s ep e by (auto simp: transport_at_def endpoint_at_def)
qed

lemma forward_ok:
  assumes "forward_media R now tc ev self = (Ok ms, self')"
  shows "\<exists>sid eid t. find_endpoint (four_tuple_from tc) self = Some (sid, eid) \<and>
    transport_at sid eid (four_tuple_from tc) self = Some t"
proof -
  obtain sid eid t where t: "states_get_transport (four_tuple_from tc) self = Ok (sid, eid, t)"
    using assms by (auto simp: forward_media_def get_mut_transport_def split: sum.splits prod.splits)
  then have f: "find_endpoint (four_tuple_from tc) self = Some (sid, eid)"
    by (auto simp: states_get_transport_def states_get_endpoint_def result_simps split: option.splits)
  then show ?thesis using t get_transport_at[OF f] by blast
qed



section \<open>Opening a channel\<close>

lemma mids_fold_add [simp]: "mids (fold add_own_transceiver new ep) = mids ep @ map mid new"
  by (induction new arbitrary: ep) (simp_all add: add_own_transceiver_def)

lemma transceivers_fold_add:
  assumes "distinct (map mid new)"
  shows "hm_get (transceivers (fold add_own_transceiver new ep)) y =
     (case find (\<lambda>t. mid t = y) new of Some t \<Rightarrow> Some t | None \<Rightarrow> hm_get (transceivers ep) y)"
  using assms
proof (induction new arbitrary: ep)
  case (Cons t new)
  have "find (\<lambda>u. mid u = mid t) new = None" using Cons.prems unfolding find_None_iff by (metis distinct.simps(2) imageI list.map(2) list.set_map)
  then show ?case using Cons by (auto simp: add_own_transceiver_def split: option.splits)
qed simp

lemma open_channel_sel [simp]:
  "mids (open_channel ft h s new ep) = mids ep @ map mid new"
  "is_renegotiation_needed (fold add_own_transceiver new ep) = is_renegotiation_needed ep"
  "transports (fold add_own_transceiver new ep) = transports ep"
proof -
  show "is_renegotiation_needed (fold add_own_transceiver new ep) = is_renegotiation_needed ep"
    "transports (fold add_own_transceiver new ep) = transports ep"
    by (induction new arbitrary: ep) (simp_all add: add_own_transceiver_def)
qed (simp add: open_channel_def set_renegotiation_needed_def modify_transport_def)

lemma offer_event_endpoint:
  assumes "create_offer_message_event E jsep now tc h s self = (r, self')"
  shows "endpoint_at i e self' = endpoint_at i e self \<or>
    endpoint_at i e self' = map_option (set_renegotiation_needed False) (endpoint_at i e self)"
proof -
  have loc: "snd (session_set_local_description eid offer sess) = sess" if "sdp_type offer = Offer" for eid offer sess
    using that by (simp add: session_set_local_description_def split: option.splits)
  have ty: "sdp_type offer = Offer" if "create_offer L sha256 jsep eid remote ice sess = Ok offer" for L sha256 eid remote ice sess offer
    using that by (auto simp: create_offer_def result_simps case_prod_beta)
  have so: "get_session sid self = Some sess" if "session_of tc self = Ok (sid, eid, sess)" for sid eid sess
    using that by (auto simp: session_of_def result_simps)
  have put: "endpoint_at i e (put_session sid (modify_endpoint eid f sess) self) =
      (if (i, e) = (sid, eid) then map_option f (endpoint_at i e self) else endpoint_at i e self)"
    if "get_session sid self = Some sess" for sid eid sess f
    using that by (auto simp: endpoint_at_put) (simp_all add: endpoint_at_def)
  show ?thesis
  proof (cases "session_of tc self")
    case (Inr x)
    obtain sid eid sess where x: "x = (sid, eid, sess)" by (cases x)
    note s = so[of sid eid sess]
    show ?thesis
    proof (cases "get_endpoint eid sess")
      case (Some ep)
      let ?s1 = "modify_endpoint eid (set_renegotiation_needed False) sess"
      let ?c = "and_then (ok_or (ep_remote_description ep) (Other ''remote_description is not set'')) (\<lambda>remote.
        and_then (ok_or (hm_get (transports ep) (four_tuple_from tc)) (no_transport eid (four_tuple_from tc))) (\<lambda>t.
          create_offer (env_sdp E) (env_sha256 E) jsep eid remote (ice_params (local_conn_cred (tr_candidate t))) ?s1))"
      have "self' = put_session sid ?s1 self"
      proof (cases ?c)
        case (Inl err)
        then show ?thesis using assms \<open>session_of tc self = Inr x\<close> x Some by (simp add: create_offer_message_event_def Let_def)
      next
        case (Inr offer)
        then have "sdp_type offer = Offer" using ty by (auto simp: result_simps)
        then have "snd (session_set_local_description eid offer ?s1) = ?s1" by (rule loc)
        then show ?thesis using assms \<open>session_of tc self = Inr x\<close> x Some Inr
          by (auto simp: create_offer_message_event_def Let_def split: sum.splits prod.splits)
      qed
      then show ?thesis using put[OF s] Inr x by auto
    qed (use assms Inr x in \<open>simp add: create_offer_message_event_def\<close>)
  qed (use assms in \<open>simp add: create_offer_message_event_def\<close>)
qed

definition received_mids :: "EndpointId \<Rightarrow> Session \<Rightarrow> (EndpointId \<times> Mid) list" where
  "received_mids eid session =
     concat (map (\<lambda>(oid, other). map (Pair oid)
       (if oid \<noteq> eid then map fst (filter (\<lambda>(_, t). direction t = Recvonly) (transceivers other)) else []))
       (endpoints session))"

lemma mids_new_transceivers: "map mid (new_transceivers eid s) = map (\<lambda>(oid, m). other_mid oid m) (received_mids eid s)"
  by (auto simp: new_transceivers_def received_mids_def map_concat comp_def case_prod_beta intro!: arg_cong[where f = concat])

lemma distinct_new_transceivers:
  assumes "session_wf d s"
  shows "distinct (map mid (new_transceivers eid s))"
proof -
  have "distinct (received_mids eid s)"
    unfolding received_mids_def
  proof (rule distinct_concat_pairs)
    show "distinct (map fst (endpoints s))" using assms by (simp add: session_wf_def hm_wf_def)
    fix k v assume "(k, v) \<in> set (endpoints s)"
    then have "hm_wf (transceivers v)" using assms by (auto simp: session_wf_def ep_ok_def endpoint_wf_def hm.entries_get)
    then show "distinct (if k \<noteq> eid then map fst (filter (\<lambda>(_, t). direction t = Recvonly) (transceivers v)) else [])"
      by (simp add: hm_wf_def distinct_map_filter)
  qed
  then show ?thesis unfolding mids_new_transceivers
    by (auto simp: distinct_map inj_on_def other_mid_eq)
qed

lemma new_transceivers_mem:
  assumes "session_wf d s" "oid \<noteq> eid" "get_endpoint oid s = Some other" "hm_get (transceivers other) m = Some t" "direction t = Recvonly"
  shows "t\<lparr>mid := other_mid oid m, direction := Sendonly\<rparr> \<in> set (new_transceivers eid s)"
proof -
  have "(oid, other) \<in> set (endpoints s)" using assms(1,3) by (simp add: session_wf_def hm.entries_get get_endpoint_def)
  moreover have "(m, t) \<in> set (transceivers other)"
    using assms by (auto simp: session_wf_def ep_ok_def endpoint_wf_def hm.entries_get get_endpoint_def)
  ultimately show ?thesis using assms(2,5) unfolding new_transceivers_def by (force intro!: rev_bexI)
qed

lemma find_distinct: "distinct (map f xs) \<Longrightarrow> x \<in> set xs \<Longrightarrow> find (\<lambda>u. f u = f x) xs = Some x"
  by (induction xs) (auto simp: rev_image_eqI)

lemma open_state:
  assumes r: "handle_datachannel_open E R now tc h s self = (r, self')" and wf: "states_wf d self"
    and idx: "find_endpoint (four_tuple_from tc) self = Some (sid, eid)" and sess: "get_session sid self = Some sess"
    and ep: "get_endpoint eid sess = Some ep" and tr: "has_transport (four_tuple_from tc) ep"
  shows "\<exists>ep'. endpoint_at sid eid self' = Some ep' \<and> mids ep' = mids ep @ map mid (new_transceivers eid sess) \<and>
    transports ep' = hm_modify (four_tuple_from tc) (set_association_handle_and_stream_id h s) (transports ep) \<and>
    (\<forall>y. hm_get (transceivers ep') y = (case find (\<lambda>t. mid t = y) (new_transceivers eid sess) of
        Some t \<Rightarrow> Some t | None \<Rightarrow> hm_get (transceivers ep) y))"
proof -
  let ?new = "new_transceivers eid sess"
  let ?ep = "open_channel (four_tuple_from tc) h s ?new ep"
  let ?self = "put_session sid (modify_endpoint eid (\<lambda>_. ?ep) sess) self"
  have dist: "distinct (map mid ?new)" using distinct_new_transceivers[OF states_wf_session[OF wf sess]] .
  have so: "session_of tc self = Ok (sid, eid, sess)" using session_of_known[OF idx sess] .
  have at: "endpoint_at sid eid ?self = Some ?ep" using ep by (simp add: endpoint_at_put)
  have tcv: "hm_get (transceivers ?ep) y = (case find (\<lambda>t. mid t = y) ?new of Some t \<Rightarrow> Some t | None \<Rightarrow> hm_get (transceivers ep) y)" for y
    using dist
    by (simp add: open_channel_def transceivers_fold_add set_renegotiation_needed_def modify_transport_def split: option.split)
  have trv: "transports ?ep = hm_modify (four_tuple_from tc) (set_association_handle_and_stream_id h s) (transports ep)"
    by (simp add: open_channel_def set_renegotiation_needed_def modify_transport_def)
  have "endpoint_at sid eid self' = Some ?ep \<or> endpoint_at sid eid self' = Some (set_renegotiation_needed False ?ep)"
  proof (cases "is_renegotiation_needed ?ep")
    case True
    obtain r1 where "create_offer_message_event E (rd_jsep R 0) now tc h s ?self = (r1, self')"
      using r so ep tr True by (auto simp: handle_datachannel_open_def Let_def split: sum.splits prod.splits)
    from offer_event_endpoint[OF this, of sid eid] at show ?thesis by auto
  next
    case False
    then have "self' = ?self" using r so ep tr by (simp add: handle_datachannel_open_def Let_def)
    then show ?thesis using at by simp
  qed
  then show ?thesis using tcv trv by (auto simp: set_renegotiation_needed_def)
qed


text \<open>
  Opening a data channel does not check which media an endpoint already mirrors: if another endpoint's offer came in
  between, the mid of that media is listed twice, and so are its sections in every later offer.
\<close>

theorem open_channel_repeats_mids:
  assumes "handle_datachannel_open E R now tc h s self = (r, self')" "states_wf d self"
    "find_endpoint (four_tuple_from tc) self = Some (sid, eid)" "transport_at sid eid (four_tuple_from tc) self = Some tr"
    "endpoint_at sid eid self = Some ep" "hm_get (transceivers ep) (other_mid oid m) \<noteq> None"
    "oid \<noteq> eid" "endpoint_at sid oid self = Some other" "hm_get (transceivers other) m = Some t" "direction t = Recvonly"
  shows "\<exists>ep'. endpoint_at sid eid self' = Some ep' \<and> \<not> mids_distinct ep'"
proof -
  obtain sess where s: "get_session sid self = Some sess" "get_endpoint eid sess = Some ep" "hm_get (transports ep) (four_tuple_from tc) = Some tr"
    using assms(4,5) by (auto simp: transport_at_def endpoint_at_def bind_eq_Some_conv)
  have tr: "has_transport (four_tuple_from tc) ep" using s(3) by (simp add: has_transport_def hm_contains_key_def)
  have swf: "session_wf d sess" using states_wf_session[OF assms(2) s(1)] .
  have "get_endpoint oid sess = Some other" using assms(8) s(1) by (simp add: endpoint_at_def)
  then have "t\<lparr>mid := other_mid oid m, direction := Sendonly\<rparr> \<in> set (new_transceivers eid sess)"
    using new_transceivers_mem[OF swf assms(7) _ assms(9,10)] by blast
  then have "other_mid oid m \<in> set (map mid (new_transceivers eid sess))" by force
  moreover have "endpoint_wf ep" using swf s(2) by (auto simp: session_wf_def get_endpoint_def ep_ok_def)
  then have "other_mid oid m \<in> set (mids ep)" using assms(6) by (simp add: endpoint_wf_def hm.entries_keys)
  ultimately have "\<not> distinct (mids ep @ map mid (new_transceivers eid sess))"
    unfolding distinct_append by blast
  then show ?thesis using open_state[OF assms(1,2,3) s(1,2) tr] by (metis mids_distinct_def)
qed

text \<open>The sample session after endpoint 7 offered one audio section.\<close>

definition sample_offered_session :: Session where
  "sample_offered_session = snd (session_set_remote_description sample_lib 7
     (sample_description Offer [offered_audio ''0'' ''sendonly'']) (sample_session [7, 8]))"

definition sample_offered_states :: ServerStates where
  "sample_offered_states = put_session 1 sample_offered_session sample_states"

lemma sample_offered_transceivers:
  "\<exists>t. transceiver_at 7 ''0'' sample_offered_session = Some t \<and> direction t = Recvonly"
  "transceiver_at 8 (other_mid 7 ''0'') sample_offered_session \<noteq> None"
proof -
  let ?desc = "sample_description Offer [offered_audio ''0'' ''sendonly'']"
  obtain self' where self': "session_set_remote_description sample_lib 7 ?desc (sample_session [7, 8]) = (Ok (), self')"
    using sample_session_endpoints(1) sample_session_endpoints(3)[of "''0''"]
    by (auto simp: session_set_remote_description_def sample_description_def remote_media_step_def
        guard_offered_audio offered_media_step_def read_offered_audio has_endpoint_get transceiver_at_def
        hm_contains_key_def Let_def)
  then have loop: "for_each (remote_media_step sample_lib 7 False) [offered_audio ''0'' ''sendonly''] (sample_session [7, 8]) = (Ok (), self')"
    using sample_session_endpoints(1)
    by (simp add: session_set_remote_description_def sample_description_def split: if_splits)
  have "self' = sample_offered_session" using self' by (simp add: sample_offered_session_def)
  with remote_sections_effect[OF loop sample_session_endpoints(1)] sample_session_endpoints
  show "\<exists>t. transceiver_at 7 ''0'' sample_offered_session = Some t \<and> direction t = Recvonly"
    "transceiver_at 8 (other_mid 7 ''0'') sample_offered_session \<noteq> None"
    by (auto simp: guard_offered_audio read_offered_audio local_direction_for_def)
qed

lemma sample_offered_states_facts:
  "states_wf True sample_offered_states"
  "find_endpoint (four_tuple_from (sample_context 8)) sample_offered_states = Some (1, 8)"
  "\<exists>tr. transport_at 1 8 (four_tuple_from (sample_context 8)) sample_offered_states = Some tr"
  "endpoint_at 1 e sample_offered_states = get_endpoint e sample_offered_session"
proof -
  have s: "get_session 1 sample_states = Some (sample_session [7, 8])" by (simp add: get_session_def sample_states_def)
  have "session_ok True sample_states 1 (sample_session [7, 8])" using sample_states_wf[of True] s by (simp add: states_wf_def)
  then have "session_ok True sample_states 1 sample_offered_session"
    using session_wf_set_remote[OF sample_session_wf] same_identity_remote
    by (metis sample_offered_session_def session_ok_step)
  then show "states_wf True sample_offered_states" unfolding sample_offered_states_def by (rule states_wf_put[OF sample_states_wf])
  show "find_endpoint (four_tuple_from (sample_context 8)) sample_offered_states = Some (1, 8)"
    by (simp add: sample_offered_states_def sample_states_find) (simp add: four_tuple_from_def sample_context_def)
  show "\<exists>tr. transport_at 1 8 (four_tuple_from (sample_context 8)) sample_offered_states = Some tr"
    using put_kept[OF s transports_kept_remote] sample_transport_cases[of 1 8 "four_tuple_from (sample_context 8)"]
    unfolding sample_offered_states_def sample_offered_session_def by simp
  show "endpoint_at 1 e sample_offered_states = get_endpoint e sample_offered_session"
    by (simp add: sample_offered_states_def endpoint_at_put)
qed


theorem open_channel_repeats_mids_witness:
  "\<exists>r self' ep'. handle_datachannel_open sample_env sample_readings 0 (sample_context 8) 1 1 sample_offered_states = (r, self') \<and>
     endpoint_at 1 8 self' = Some ep' \<and> \<not> mids_distinct ep'"
proof -
  obtain r self' where r: "handle_datachannel_open sample_env sample_readings 0 (sample_context 8) 1 1 sample_offered_states = (r, self')"
    by fastforce
  obtain tr where tr: "transport_at 1 8 (four_tuple_from (sample_context 8)) sample_offered_states = Some tr"
    using sample_offered_states_facts(3) by blast
  obtain ep where ep: "endpoint_at 1 8 sample_offered_states = Some ep" "hm_get (transceivers ep) (other_mid 7 ''0'') \<noteq> None"
    using sample_offered_transceivers(2) by (auto simp: sample_offered_states_facts(4) transceiver_at_def bind_eq_Some_conv)
  obtain other t where "endpoint_at 1 7 sample_offered_states = Some other" "hm_get (transceivers other) ''0'' = Some t" "direction t = Recvonly"
    using sample_offered_transceivers(1) by (auto simp: sample_offered_states_facts(4) transceiver_at_def bind_eq_Some_conv)
  from open_channel_repeats_mids[OF r sample_offered_states_facts(1,2) tr ep _ this] r show ?thesis by auto
qed

end
