(* ===== verification/Media_Path.thy ===== *)
theory Media_Path
  imports Sync_Server Channels
begin

text \<open>
  The way of a media packet through the whole server: an encrypted datagram comes in, passes the demultiplexer and the
  handlers for STUN, DTLS, SCTP and data channels, is decrypted, passes the interceptors, is multiplied by the gateway,
  and every copy is encrypted for its receiver on the way out.
\<close>

section \<open>The way in\<close>

lemma intercept_find [simp]: "find_endpoint f (snd (endpoint_intercept g ft self)) = find_endpoint f self"
  by (auto simp: endpoint_intercept_def case_prod_beta Let_def split: sum.splits)

lemma interceptor_read_find:
  "interceptor_handler_read pt msg q self = (calls, q', self') \<Longrightarrow> find_endpoint f self' = find_endpoint f self"
  using intercept_find[of f "interceptor_read pt msg" "four_tuple_from (msg_transport msg)" self]
  by (auto simp: interceptor_handler_read_def case_prod_beta Let_def split: if_splits MessageEvent.splits RTPMessageEvent.splits)

lemma rtp_reaches_gateway:
  assumes "raw_message dg \<noteq> []" "match_srtp (raw_message dg)"
    "find_endpoint ft (pl_states p) = Some (sid, eid)" "ft = four_tuple_from (raw_transport dg)"
    "transport_at sid eid ft (pl_states p) = Some t" "remote_srtp_context t = Some c" "\<not> is_rtcp (pe_srtp E) (raw_message dg)"
    "decrypt_rtp (pe_srtp E) (raw_message dg) c = (Ok plain, c1)" "rtp_unmarshal (pe_srtp E) plain = Ok packet"
  obtains self where
    "pipeline_read E R dg p = gateway_stage E R
       \<lparr>msg_now = raw_now dg, msg_transport = raw_transport dg, msg_message = Rtp (RtpPacket packet)\<rparr> (p\<lparr>pl_states := self\<rparr>)"
    "\<forall>i e f. transport_at i e f self =
       (if (i, e, f) = (sid, eid, ft) then Some (t\<lparr>remote_srtp_context := Some c1\<rparr>) else transport_at i e f (pl_states p))"
    "\<forall>f. find_endpoint f self = find_endpoint f (pl_states p)"
    "states_wf d (pl_states p) \<longrightarrow> states_wf d self"
proof -
  let ?raw = "\<lparr>msg_now = raw_now dg, msg_transport = raw_transport dg, msg_message = Rtp (RtpRaw (raw_message dg))\<rparr>"
  let ?msg = "\<lparr>msg_now = raw_now dg, msg_transport = raw_transport dg, msg_message = Rtp (RtpPacket packet)\<rparr>"
  let ?self = "with_metrics (record_rtp_packet_in_count 1 []) (put_remote_context sid eid ft c1 (pl_states p))"
  have "\<not> match_dtls (raw_message dg)" using demux_ranges_disjoint assms(2) by blast
  then have demux: "demuxer_handle_read dg = [FireRead ?raw]" using assms(1,2) by (simp add: demuxer_handle_read_def)
  have "states_get_transport ft (pl_states p) = Ok (sid, eid, t)" using get_transport_at[OF assms(3)] assms(5) by simp
  then have srtp: "srtp_handle_read (pe_srtp E) ?raw (pl_states p) = ([FireRead ?msg], ?self)"
    using assms(4,6-9) by (simp add: srtp_handle_read_def srtp_try_read_def read_rtp_def)
  have ep: "\<exists>ep. endpoint_at sid eid ?self = Some ep"
    using assms(5) by (auto simp: transport_at_def bind_eq_Some_conv put_remote_context_def endpoint_at_modify)
  then obtain ep where "states_get_endpoint ft ?self = Ok (sid, eid, ep)"
    using assms(3) by (auto simp: states_get_endpoint_def context_frames endpoint_at_def bind_eq_Some_conv split: option.splits)
  then have "\<exists>self. interceptor_handler_read (pe_packet_types E) ?msg (pl_interceptor p) ?self = ([FireRead ?msg], pl_interceptor p, self) \<and>
      (\<forall>i e f. transport_at i e f self = transport_at i e f ?self)"
    using interceptor_read_view[of ?msg ?self sid eid ep "pe_packet_types E" "pl_interceptor p"] assms(4) by (simp add: is_media_def)
  then obtain self where i: "interceptor_handler_read (pe_packet_types E) ?msg (pl_interceptor p) ?self = ([FireRead ?msg], pl_interceptor p, self)"
    "\<forall>i e f. transport_at i e f self = transport_at i e f ?self" by blast
  have "pipeline_read E R dg p = gateway_stage E R ?msg (p\<lparr>pl_states := self\<rparr>)"
    using srtp i(1)
    by (simp add: pipeline_read_def demux feed_one stun_stage_def stun_handle_read_def dtls_stage_def dtls_handle_read_def
        sctp_stage_def sctp_handle_read_def datachannel_stage_def datachannel_handle_read_def srtp_stage_def interceptor_stage_def
        del: feed.simps)
  moreover have "\<forall>i e f. transport_at i e f self =
      (if (i, e, f) = (sid, eid, ft) then Some (t\<lparr>remote_srtp_context := Some c1\<rparr>) else transport_at i e f (pl_states p))"
    using i(2) assms(5) by (simp add: context_frames set_remote_srtp_context_def)
  moreover have "\<forall>f. find_endpoint f self = find_endpoint f (pl_states p)"
    using interceptor_read_find[OF i(1)] by (simp add: context_frames)
  moreover have "states_wf d (pl_states p) \<longrightarrow> states_wf d self"
    using states_wf_interceptor_read[OF _ i(1)] by (simp add: states_wf_contexts)
  ultimately show thesis by (rule that)
qed

section \<open>The way out\<close>

text \<open>Only messages of the gateway are waiting.\<close>

definition only_gateway :: "TaggedMessageEvent list \<Rightarrow> Pipeline \<Rightarrow> bool" where
  "only_gateway q p \<longleftrightarrow> gw_transmits (pl_gateway p) = q \<and> pl_interceptor p = [] \<and> pl_datachannel p = [] \<and>
     sctp_transmits (pl_sctp p) = [] \<and> dtls_transmits (pl_dtls p) = []"

lemma interceptor_write_none [simp]: "fst (interceptor_write msg i) = []"
  by (induction msg i rule: interceptor_write.induct) (simp_all add: case_prod_beta Let_def)

text \<open>What the interceptors do with an outgoing packet, and how the packet goes on behind the SRTP handler.\<close>

lemma interceptor_write_media:
  assumes "transport_at sid eid ft self = Some t" "find_endpoint ft self = Some (sid, eid)"
    "ft = four_tuple_from (msg_transport msg)" "msg_message msg = Rtp (RtpPacket packet)"
  obtains self' where "interceptor_handler_poll_write (Some msg) [] self = ([], Some msg, [], self')"
    "\<forall>i e f. transport_at i e f self' = transport_at i e f self" "\<forall>f. find_endpoint f self' = find_endpoint f self"
proof -
  obtain ep where ep: "states_get_endpoint ft self = Ok (sid, eid, ep)"
    using assms(1,2) by (auto simp: states_get_endpoint_def transport_at_def endpoint_at_def bind_eq_Some_conv split: option.splits)
  let ?self = "states_modify_endpoint sid eid (\<lambda>ep'. ep'\<lparr>ep_interceptor := snd (interceptor_write msg (ep_interceptor ep))\<rparr>) self"
  have "endpoint_intercept (interceptor_write msg) ft self = (Ok [], ?self)"
    using ep by (simp add: endpoint_intercept_def case_prod_beta)
  then have "interceptor_handler_poll_write (Some msg) [] self = ([], Some msg, [], ?self)"
    using assms(3,4) by (simp add: interceptor_handler_poll_write_def is_media_def push_back_def pop_front_def)
  moreover have "transport_at i e f ?self = transport_at i e f self" for i e f
    by (cases "endpoint_at i e self") (auto simp: transport_at_def endpoint_at_modify)
  ultimately show thesis using that by simp
qed

lemma wire_passes:
  assumes "msg_message m = Rtp (RtpRaw b)"
  shows "datachannel_poll_write (Some m) [] = (Some m, [])"
    "sctp_transmits sctp = [] \<Longrightarrow> sctp_poll_write S (Some m) sctp self = Some ([], Some m, sctp, self)"
    "dtls_transmits dtls = [] \<Longrightarrow> dtls_poll_write D (Some m) dtls self = Some ([], Some m, dtls, self)"
    "demuxer_poll_write (stun_poll_write C (Some m)) = Some \<lparr>raw_now = msg_now m, raw_transport = msg_transport m, raw_message = b\<rparr>"
  using assms
  by (simp_all add: datachannel_poll_write_def sctp_poll_write_def dtls_poll_write_def stun_poll_write_def demuxer_poll_write_def
      push_back_def pop_front_def)

lemma poll_media_packet:
  assumes q: "only_gateway (msg # q) p" and m: "msg_message msg = Rtp (RtpPacket packet)"
    and ft: "ft = four_tuple_from (msg_transport msg)" "find_endpoint ft (pl_states p) = Some (sid, eid)"
    and t: "transport_at sid eid ft (pl_states p) = Some t" "local_srtp_context t = Some c"
    and enc: "rtp_marshal (pe_srtp E) packet = Ok out" "encrypt_rtp (pe_srtp E) out c = (Ok b, c1)"
  obtains p' where "pipeline_poll_transmit E now p =
      Some ([], Some \<lparr>raw_now = msg_now msg, raw_transport = msg_transport msg, raw_message = b\<rparr>, p')"
    "only_gateway q p'"
    "\<forall>i e f. (i, e, f) \<noteq> (sid, eid, ft) \<longrightarrow> transport_at i e f (pl_states p') = transport_at i e f (pl_states p)"
    "\<forall>f. find_endpoint f (pl_states p') = find_endpoint f (pl_states p)"
proof -
  obtain self1 where 1: "interceptor_handler_poll_write (Some msg) [] (pl_states p) = ([], Some msg, [], self1)"
    "\<forall>i e f. transport_at i e f self1 = transport_at i e f (pl_states p)" "\<forall>f. find_endpoint f self1 = find_endpoint f (pl_states p)"
    by (rule interceptor_write_media[OF t(1) ft(2,1) m])
  let ?self = "with_metrics (record_rtp_packet_processing_time (micros_since now (msg_now msg)) [] \<circ> record_rtp_packet_out_count 1 [])
      (put_local_context sid eid ft c1 self1)"
  let ?m = "msg\<lparr>msg_message := Rtp (RtpRaw b)\<rparr>"
  have "states_get_transport ft self1 = Ok (sid, eid, t)" using get_transport_at[of ft self1] 1 ft t by simp
  then have 2: "srtp_poll_write (pe_srtp E) now (Some msg) self1 = ([], Some ?m, ?self)"
    using m ft(1) t enc by (simp add: srtp_poll_write_def srtp_try_write_def encrypt_with_def)
  have g: "gateway_poll_write (exception_poll_write None) (pl_gateway p) = (Some msg, (pl_gateway p)\<lparr>gw_transmits := q\<rparr>)"
    using q by (simp add: gateway_poll_write_def exception_poll_write_def poll_queue_def pop_front_def only_gateway_def)
  let ?p = "p\<lparr>pl_gateway := (pl_gateway p)\<lparr>gw_transmits := q\<rparr>, pl_interceptor := [], pl_datachannel := [],
      pl_sctp := pl_sctp p, pl_dtls := pl_dtls p, pl_states := ?self\<rparr>"
  have "pipeline_poll_transmit E now p =
      Some ([], Some \<lparr>raw_now = msg_now msg, raw_transport = msg_transport msg, raw_message = b\<rparr>, ?p)"
    using q 1(1) 2 wire_passes[of ?m b] by (simp add: pipeline_poll_transmit_def g only_gateway_def exceptions_def)
  moreover have "only_gateway q ?p" using q by (simp add: only_gateway_def)
  moreover have "\<forall>i e f. (i, e, f) \<noteq> (sid, eid, ft) \<longrightarrow> transport_at i e f (pl_states ?p) = transport_at i e f (pl_states p)"
    using 1(2) by (simp add: context_frames)
  moreover have "\<forall>f. find_endpoint f (pl_states ?p) = find_endpoint f (pl_states p)" using 1(3) by (simp add: context_frames)
  ultimately show thesis by (rule that)
qed

lemma poll_nothing:
  assumes "only_gateway [] p"
  shows "\<exists>p'. pipeline_poll_transmit E now p = Some ([], None, p') \<and> only_gateway [] p' \<and> pl_states p' = pl_states p"
  using assms
  by (simp add: pipeline_poll_transmit_def only_gateway_def gateway_poll_write_def exception_poll_write_def poll_queue_def
      pop_front_def interceptor_handler_poll_write_def srtp_poll_write_def datachannel_poll_write_def sctp_poll_write_def
      dtls_poll_write_def stun_poll_write_def demuxer_poll_write_def exceptions_def)

text \<open>The datagram for a receiver: the packet, encrypted with the context of the receiver's transport, sent on that transport.\<close>

definition sealed ::
  "srtp_lib \<Rightarrow> bytes \<Rightarrow> TaggedBytesMut \<Rightarrow> SessionId \<Rightarrow> ServerStates \<Rightarrow> EndpointId \<times> FourTuple \<Rightarrow> TaggedBytesMut \<Rightarrow> bool" where
  "sealed L out dg sid self r sent \<longleftrightarrow> (case r of (e, f) \<Rightarrow>
     \<exists>t c b c1. transport_at sid e f self = Some t \<and> local_srtp_context t = Some c \<and> encrypt_rtp L out c = (Ok b, c1) \<and>
       sent = \<lparr>raw_now = raw_now dg, raw_transport = context_of (raw_transport dg) f, raw_message = b\<rparr>)"

definition forwarded :: "TaggedBytesMut \<Rightarrow> rtp_packet \<Rightarrow> EndpointId \<times> FourTuple \<Rightarrow> TaggedMessageEvent" where
  "forwarded dg packet r =
     \<lparr>msg_now = raw_now dg, msg_transport = context_of (raw_transport dg) (snd r), msg_message = Rtp (RtpPacket packet)\<rparr>"

lemma forwarded_sel [simp]:
  "msg_now (forwarded dg packet r) = raw_now dg" "msg_transport (forwarded dg packet r) = context_of (raw_transport dg) (snd r)"
  "msg_message (forwarded dg packet r) = Rtp (RtpPacket packet)"
  by (simp_all add: forwarded_def)

lemma write_media_packets:
  assumes "only_gateway (map (forwarded dg packet) rs) p" "distinct (map snd rs)"
    "\<And>e f. (e, f) \<in> set rs \<Longrightarrow> find_endpoint f (pl_states p) = Some (sid, e) \<and>
       (\<exists>t. transport_at sid e f (pl_states p) = Some t \<and> is_local_srtp_context_ready t)"
    "rtp_marshal (pe_srtp E) packet = Ok out" "\<And>c. \<exists>b c1. encrypt_rtp (pe_srtp E) out c = (Ok b, c1)" "\<And>m. send m = Ok ()"
  shows "\<exists>sent p'. write_socket_output E send clock i p = Some (Ok (), [], sent, p') \<and> only_gateway [] p' \<and>
    list_all2 (sealed (pe_srtp E) out dg sid (pl_states p)) rs sent"
  using assms(1-3)
proof (induction rs arbitrary: i p)
  case Nil
  then show ?case using poll_nothing[of p E "clock i"] by (auto simp: write_socket_output.simps)
next
  case (Cons r rs)
  obtain e f where r: "r = (e, f)" by fastforce
  then obtain t c where t: "find_endpoint f (pl_states p) = Some (sid, e)" "transport_at sid e f (pl_states p) = Some t"
    "local_srtp_context t = Some c" using Cons.prems(3)[of e f] by (auto simp: is_local_srtp_context_ready_def)
  obtain b c1 where b: "encrypt_rtp (pe_srtp E) out c = (Ok b, c1)" using assms(5) by blast
  let ?m = "\<lparr>raw_now = raw_now dg, raw_transport = context_of (raw_transport dg) f, raw_message = b\<rparr>"
  let ?r = "forwarded dg packet r"
  have q: "only_gateway (?r # map (forwarded dg packet) rs) p" using Cons.prems(1) by simp
  have m: "msg_message ?r = Rtp (RtpPacket packet)" "f = four_tuple_from (msg_transport ?r)" by (simp_all add: r)
  obtain p1 where p1: "pipeline_poll_transmit E (clock i) p =
      Some ([], Some \<lparr>raw_now = msg_now ?r, raw_transport = msg_transport ?r, raw_message = b\<rparr>, p1)"
    "only_gateway (map (forwarded dg packet) rs) p1"
    "\<forall>i e' f'. (i, e', f') \<noteq> (sid, e, f) \<longrightarrow> transport_at i e' f' (pl_states p1) = transport_at i e' f' (pl_states p)"
    "\<forall>f'. find_endpoint f' (pl_states p1) = find_endpoint f' (pl_states p)"
    by (rule poll_media_packet[OF q m t assms(4) b, of "clock i"])
  have poll: "pipeline_poll_transmit E (clock i) p = Some ([], Some ?m, p1)" using p1(1) by (simp add: r)
  have other: "f' \<noteq> f" if "(e', f') \<in> set rs" for e' f' using Cons.prems(2) that r by force
  have "\<exists>sent p'. write_socket_output E send clock (Suc i) p1 = Some (Ok (), [], sent, p') \<and> only_gateway [] p' \<and>
      list_all2 (sealed (pe_srtp E) out dg sid (pl_states p1)) rs sent"
    by (rule Cons.IH[OF p1(2)]) (use Cons.prems(2,3) p1(3,4) other in auto)
  then obtain sent p' where rest: "write_socket_output E send clock (Suc i) p1 = Some (Ok (), [], sent, p')" "only_gateway [] p'"
    "list_all2 (sealed (pe_srtp E) out dg sid (pl_states p1)) rs sent" by blast
  have "list_all2 (sealed (pe_srtp E) out dg sid (pl_states p)) rs sent"
  proof (rule list.rel_mono_strong[OF rest(3)])
    fix r' s' assume r': "r' \<in> set rs" "sealed (pe_srtp E) out dg sid (pl_states p1) r' s'"
    obtain e' f' where ef: "r' = (e', f')" by fastforce
    then have "transport_at sid e' f' (pl_states p1) = transport_at sid e' f' (pl_states p)" using p1(3) other r'(1) by blast
    then show "sealed (pe_srtp E) out dg sid (pl_states p) r' s'" using r'(2) by (simp add: sealed_def ef)
  qed
  moreover have "sealed (pe_srtp E) out dg sid (pl_states p) r ?m" using t b by (auto simp: sealed_def r)
  ultimately show ?case using rest poll assms(6)[of ?m] by (subst write_socket_output.simps) auto
qed

section \<open>End to end\<close>

lemma gateway_forwards:
  assumes "states_wf d (pl_states p)" "gw_transmits (pl_gateway p) = []"
    "ft = four_tuple_from (raw_transport dg)" "find_endpoint ft (pl_states p) = Some (sid, eid)"
    "transport_at sid eid ft (pl_states p) = Some t"
  obtains rs p1 where
    "gateway_stage E R \<lparr>msg_now = raw_now dg, msg_transport = raw_transport dg, msg_message = Rtp (RtpPacket packet)\<rparr> p = Some ([], p1)"
    "gw_transmits (pl_gateway p1) = map (forwarded dg packet) rs" "distinct rs"
    "set rs = {(e, f). e \<noteq> eid \<and> (\<exists>t. transport_at sid e f (pl_states p) = Some t \<and> is_local_srtp_context_ready t)}"
    "\<forall>i e f. e \<noteq> eid \<longrightarrow> transport_at i e f (pl_states p1) = transport_at i e f (pl_states p)"
    "\<forall>f. find_endpoint f (pl_states p1) = find_endpoint f (pl_states p)"
    "pl_interceptor p1 = pl_interceptor p" "pl_datachannel p1 = pl_datachannel p" "pl_sctp p1 = pl_sctp p" "pl_dtls p1 = pl_dtls p"
proof -
  let ?R = "R (pl_reads p)"
  obtain rs where rs: "forward_media ?R (raw_now dg) (raw_transport dg) (RtpPacket packet) (pl_states p) =
      (Ok (map (\<lambda>(_, ft). \<lparr>msg_now = raw_now dg, msg_transport = context_of (raw_transport dg) ft, msg_message = Rtp (RtpPacket packet)\<rparr>) rs),
       states_modify_endpoint sid eid (modify_transport ft (keep_alive (rd_now ?R))) (pl_states p))" "distinct rs"
    "set rs = {(e, f). e \<noteq> eid \<and> (\<exists>t. transport_at sid e f (pl_states p) = Some t \<and> is_local_srtp_context_ready t)}"
    using forward_media_exact[OF assms(1,3,4,5), of ?R "raw_now dg" "RtpPacket packet"] by blast
  have "(\<lambda>(_, ft). \<lparr>msg_now = raw_now dg, msg_transport = context_of (raw_transport dg) ft, msg_message = Rtp (RtpPacket packet)\<rparr>)
      = forwarded dg packet" by (auto simp: forwarded_def)
  with rs(1) have fwd: "forward_media ?R (raw_now dg) (raw_transport dg) (RtpPacket packet) (pl_states p) =
      (Ok (map (forwarded dg packet) rs), states_modify_endpoint sid eid (modify_transport ft (keep_alive (rd_now ?R))) (pl_states p))"
    by simp
  show thesis
    by (rule that[of "p\<lparr>pl_gateway := (pl_gateway p)\<lparr>gw_transmits := map (forwarded dg packet) rs\<rparr>,
          pl_states := states_modify_endpoint sid eid (modify_transport ft (keep_alive (rd_now ?R))) (pl_states p),
          pl_reads := Suc (pl_reads p)\<rparr>" rs])
      (use assms(2) rs(2,3) fwd in \<open>simp_all add: gateway_stage_def gateway_handle_read_def gateway_try_read_def handle_rtp_message_def
          fold_push_back transport_at_modify\<close>)
qed

text \<open>
  C1: A media packet crosses the whole server. An encrypted RTP datagram from a connected endpoint, read by the pipeline
  and followed by the loop that sends, leaves as one datagram for every transport with an SRTP context of every other
  endpoint of its session: the decrypted packet, encrypted with the context of that receiver, on that receiver's
  transport. Nobody else gets a datagram, nothing is reported as an error and nothing is left in a queue.
\<close>

theorem rtp_end_to_end:
  assumes "states_wf d (pl_states p)" "indexed (pl_states p)" "only_gateway [] p"
    and "raw_message dg \<noteq> []" "match_srtp (raw_message dg)" "\<not> is_rtcp (pe_srtp E) (raw_message dg)"
    and "ft = four_tuple_from (raw_transport dg)" "transport_at sid eid ft (pl_states p) = Some t" "remote_srtp_context t = Some c"
    and "decrypt_rtp (pe_srtp E) (raw_message dg) c = (Ok plain, c1)" "rtp_unmarshal (pe_srtp E) plain = Ok packet"
    and "rtp_marshal (pe_srtp E) packet = Ok out" "\<And>c. \<exists>b c1. encrypt_rtp (pe_srtp E) out c = (Ok b, c1)" "\<And>m. send m = Ok ()"
  shows "\<exists>p1 rs sent p2. pipeline_read E R dg p = Some ([], p1) \<and>
    write_socket_output E send clock 0 p1 = Some (Ok (), [], sent, p2) \<and> only_gateway [] p2 \<and> distinct rs \<and>
    set rs = {(e, f). e \<noteq> eid \<and> (\<exists>t. transport_at sid e f (pl_states p) = Some t \<and> is_local_srtp_context_ready t)} \<and>
    list_all2 (sealed (pe_srtp E) out dg sid (pl_states p)) rs sent"
proof -
  have idx: "find_endpoint ft (pl_states p) = Some (sid, eid)" using assms(2,8) by (auto simp: indexed_def)
  obtain self where self: "pipeline_read E R dg p = gateway_stage E R
       \<lparr>msg_now = raw_now dg, msg_transport = raw_transport dg, msg_message = Rtp (RtpPacket packet)\<rparr> (p\<lparr>pl_states := self\<rparr>)"
    "\<forall>i e f. transport_at i e f self =
       (if (i, e, f) = (sid, eid, ft) then Some (t\<lparr>remote_srtp_context := Some c1\<rparr>) else transport_at i e f (pl_states p))"
    "\<forall>f. find_endpoint f self = find_endpoint f (pl_states p)" "states_wf d (pl_states p) \<longrightarrow> states_wf d self"
    by (rule rtp_reaches_gateway[OF assms(4,5) idx assms(7,8,9,6,10,11)])
  let ?p = "p\<lparr>pl_states := self\<rparr>"
  have "find_endpoint ft (pl_states ?p) = Some (sid, eid)"
    "transport_at sid eid ft (pl_states ?p) = Some (t\<lparr>remote_srtp_context := Some c1\<rparr>)" "states_wf d (pl_states ?p)"
    "gw_transmits (pl_gateway ?p) = []"
    using self idx assms(1,3) by (simp_all add: only_gateway_def)
  note at = this
  obtain rs p1 where p1: "gateway_stage E R
       \<lparr>msg_now = raw_now dg, msg_transport = raw_transport dg, msg_message = Rtp (RtpPacket packet)\<rparr> ?p = Some ([], p1)"
    "gw_transmits (pl_gateway p1) = map (forwarded dg packet) rs" "distinct rs"
    "set rs = {(e, f). e \<noteq> eid \<and> (\<exists>t. transport_at sid e f (pl_states ?p) = Some t \<and> is_local_srtp_context_ready t)}"
    "\<forall>i e f. e \<noteq> eid \<longrightarrow> transport_at i e f (pl_states p1) = transport_at i e f (pl_states ?p)"
    "\<forall>f. find_endpoint f (pl_states p1) = find_endpoint f (pl_states ?p)"
    "pl_interceptor p1 = pl_interceptor ?p" "pl_datachannel p1 = pl_datachannel ?p" "pl_sctp p1 = pl_sctp ?p" "pl_dtls p1 = pl_dtls ?p"
    by (rule gateway_forwards[OF at(3,4) assms(7) at(1,2)])
  have same: "transport_at sid e f (pl_states p1) = transport_at sid e f (pl_states p)" if "e \<noteq> eid" for e f
    using that p1(5) self(2) by simp
  have rs: "set rs = {(e, f). e \<noteq> eid \<and> (\<exists>t. transport_at sid e f (pl_states p) = Some t \<and> is_local_srtp_context_ready t)}"
    using p1(4) self(2) by auto
  have find: "find_endpoint f (pl_states p) = Some (sid, e)" if "(e, f) \<in> set rs" for e f
    using that assms(2) unfolding rs indexed_def by blast
  have key: "find_endpoint (snd x) (pl_states p) = Some (sid, fst x)" if "x \<in> set rs" for x
    using find[of "fst x" "snd x"] that by simp
  have "inj_on snd (set rs)"
  proof (rule inj_onI)
    fix x y assume "x \<in> set rs" "y \<in> set rs" "snd x = snd y"
    then show "x = y" using key[of x] key[of y] by (simp add: prod_eq_iff)
  qed
  then have "distinct (map snd rs)" using p1(3) by (simp add: distinct_map)
  moreover have "only_gateway (map (forwarded dg packet) rs) p1" using p1 assms(3) by (simp add: only_gateway_def)
  moreover have "find_endpoint f (pl_states p1) = Some (sid, e) \<and>
      (\<exists>t. transport_at sid e f (pl_states p1) = Some t \<and> is_local_srtp_context_ready t)" if "(e, f) \<in> set rs" for e f
    using find[OF that] that p1(6) self(3) same unfolding rs by auto
  ultimately obtain sent p2 where w: "write_socket_output E send clock 0 p1 = Some (Ok (), [], sent, p2)" "only_gateway [] p2"
    "list_all2 (sealed (pe_srtp E) out dg sid (pl_states p1)) rs sent"
    using write_media_packets[of dg packet rs p1 sid E out send clock 0] assms(12-14) by blast
  have "list_all2 (sealed (pe_srtp E) out dg sid (pl_states p)) rs sent"
    by (rule list.rel_mono_strong[OF w(3)]) (use same rs in \<open>auto simp: sealed_def\<close>)
  with w p1(1,3) rs self(1) show ?thesis by auto
qed

text \<open>
  The loop that sends ends at the first poll without a datagram, also when the poll failed: a packet that cannot be
  encrypted holds up all packets behind it until the next iteration of the main loop.
\<close>

lemma write_stops_at_failed_packet:
  assumes q: "only_gateway (msg # q) p" and m: "msg_message msg = Rtp (RtpPacket packet)"
    and ft: "ft = four_tuple_from (msg_transport msg)" "find_endpoint ft (pl_states p) = Some (sid, eid)"
    and t: "transport_at sid eid ft (pl_states p) = Some t" "local_srtp_context t = Some c"
    and enc: "rtp_marshal (pe_srtp E) packet = Ok out" "encrypt_rtp (pe_srtp E) out c = (Err err, c1)"
  shows "\<exists>p'. write_socket_output E send clock i p = Some (Ok (), [err], [], p') \<and> only_gateway q p'"
proof -
  obtain self1 where 1: "interceptor_handler_poll_write (Some msg) [] (pl_states p) = ([], Some msg, [], self1)"
    "\<forall>i e f. transport_at i e f self1 = transport_at i e f (pl_states p)" "\<forall>f. find_endpoint f self1 = find_endpoint f (pl_states p)"
    by (rule interceptor_write_media[OF t(1) ft(2,1) m])
  have "states_get_transport ft self1 = Ok (sid, eid, t)" using get_transport_at[of ft self1] 1 ft t by simp
  then obtain self2 where 2: "srtp_poll_write (pe_srtp E) (clock i) (Some msg) self1 = ([FireException err], None, self2)"
    using m ft(1) t enc by (simp add: srtp_poll_write_def srtp_try_write_def encrypt_with_def)
  have "gateway_poll_write (exception_poll_write None) (pl_gateway p) = (Some msg, (pl_gateway p)\<lparr>gw_transmits := q\<rparr>)"
    using q by (simp add: gateway_poll_write_def exception_poll_write_def poll_queue_def pop_front_def only_gateway_def)
  then show ?thesis
    using q 1(1) 2
    by (subst write_socket_output.simps)
      (simp add: pipeline_poll_transmit_def only_gateway_def exceptions_def datachannel_poll_write_def sctp_poll_write_def
        dtls_poll_write_def pop_front_def stun_poll_write_def demuxer_poll_write_def)
qed

section \<open>A sample session\<close>

definition sample_call :: Pipeline where
  "sample_call = build_pipeline 0 (SocketAddrV4 0 0)
     (put_remote_context 1 7 (four_tuple_from (sample_context 7)) undefined sample_media_states)"

theorem rtp_end_to_end_witness:
  "\<exists>p1 p2. pipeline_read sample_pipeline_env (\<lambda>_. sample_readings)
       \<lparr>raw_now = 0, raw_transport = sample_context 7, raw_message = [128]\<rparr> sample_call = Some ([], p1) \<and>
     write_socket_output sample_pipeline_env (\<lambda>_. Ok ()) (\<lambda>_. 0) 0 p1 =
       Some (Ok (), [], [\<lparr>raw_now = 0, raw_transport = sample_context 8, raw_message = [128]\<rparr>], p2)"
proof -
  let ?ft = "four_tuple_from (sample_context 7)" and ?self = "pl_states sample_call"
  let ?dg = "\<lparr>raw_now = 0, raw_transport = sample_context 7, raw_message = [128]\<rparr>"
  have self: "?self = put_remote_context 1 7 ?ft undefined sample_media_states" by (simp add: sample_call_def build_pipeline_def)
  have wf: "states_wf True ?self" unfolding self by (rule states_wf_contexts(1)[OF sample_media_wf])
  have idx: "indexed ?self"
    using sample_indexed
    by (auto simp: indexed_def self context_frames sample_media_states_def transport_at_modify split: if_splits)
  obtain t where t: "transport_at 1 7 ?ft ?self = Some t" "remote_srtp_context t = Some undefined"
    using sample_media_sender by (auto simp: self context_frames set_remote_srtp_context_def)
  have q: "only_gateway [] sample_call"
    by (simp add: only_gateway_def sample_call_def build_pipeline_def gateway_new_def sctp_new_def dtls_new_def Let_def)
  have rs: "{(e, f). e \<noteq> 7 \<and> (\<exists>t. transport_at 1 e f ?self = Some t \<and> is_local_srtp_context_ready t)} = {(8, four_tuple_from (sample_context 8))}"
    unfolding sample_media_receivers[symmetric] by (auto simp: self context_frames)
  have E: "pe_srtp sample_pipeline_env = sample_srtp" by (simp add: sample_pipeline_env_def)
  obtain p1 rs sent p2 where r: "pipeline_read sample_pipeline_env (\<lambda>_. sample_readings) ?dg sample_call = Some ([], p1)"
    "write_socket_output sample_pipeline_env (\<lambda>_. Ok ()) (\<lambda>_. 0) 0 p1 = Some (Ok (), [], sent, p2)"
    "distinct rs" "set rs = {(8, four_tuple_from (sample_context 8))}" "list_all2 (sealed sample_srtp [128] ?dg 1 ?self) rs sent"
    using rtp_end_to_end[of True sample_call ?dg sample_pipeline_env ?ft 1 7 t undefined "[128]" undefined undefined "[128]" "\<lambda>_. Ok ()"
        "\<lambda>_. sample_readings" "\<lambda>_. 0"] wf idx q t rs
    by (auto simp: E sample_srtp_def match_srtp_def match_range_Cons)
  have "sent = [\<lparr>raw_now = 0, raw_transport = sample_context 8, raw_message = [128]\<rparr>]"
    using r(5) one_receiver[OF r(3,4)]
    by (auto simp: list_all2_Cons1 sealed_def sample_srtp_def context_of_def four_tuple_from_def sample_context_def)
  with r(1,2) show ?thesis by blast
qed

end
