(* ===== verification/Async_Signaling.thy ===== *)
theory Async_Signaling
  imports Signaling
begin

text \<open>
  The signalling of the asynchronous example server (\<open>examples/async_signal/mod.rs\<close>): the HTTP handler
  \<open>remote_handler\<close> and the function of the media task that answers its messages. A session is joined before an offer,
  and a task that is gone or drops the response leads to a server error instead of a panic.

  The body of a request is an error when reading it fails; \<open>html\<close> is the content of the page, if its file can be opened.
\<close>

section \<open>Messages\<close>

datatype AsyncProtocolMessage =
    ASigOk SessionId EndpointId
  | ASigErr SessionId EndpointId bytes
  | ASigJoin SessionId
  | ASigOffer SessionId EndpointId bytes
  | ASigAnswer SessionId EndpointId bytes
  | ASigTrickle SessionId EndpointId bytes
  | ASigLeave SessionId EndpointId

record AsyncMessage =
  asig_request :: AsyncProtocolMessage
  asig_response_open :: bool

section \<open>The media task\<close>

definition send_async :: "bool \<Rightarrow> AsyncProtocolMessage \<Rightarrow> unit result \<times> AsyncProtocolMessage option" where
  "send_async is_open response =
     (if is_open then (Ok (), Some response)
      else (Err (Other ''failed to send back signaling message response''), None))"

definition async_offer ::
  "gateway_env \<Rightarrow> (error \<Rightarrow> string) \<Rightarrow> readings \<Rightarrow> SessionId \<Rightarrow> EndpointId \<Rightarrow> bytes \<Rightarrow> bool \<Rightarrow> ServerStates
   \<Rightarrow> unit result \<times> AsyncProtocolMessage option \<times> ServerStates" where
  "async_offer E show_error R session_id endpoint_id offer is_open self =
     (case try_handle_offer E show_error R session_id endpoint_id offer self of
        (Inr answer_sdp, self1) \<Rightarrow>
          (let (r, sent) = send_async is_open (ASigAnswer session_id endpoint_id answer_sdp) in (r, sent, self1))
      | (Inl reason, self1) \<Rightarrow>
          (let (r, sent) = send_async is_open (ASigErr session_id endpoint_id (str_bytes reason)) in (r, sent, self1)))"

definition async_answer ::
  "(error \<Rightarrow> string) \<Rightarrow> SessionId \<Rightarrow> EndpointId \<Rightarrow> bytes \<Rightarrow> bool \<Rightarrow> unit result \<times> AsyncProtocolMessage option" where
  "async_answer show_error session_id endpoint_id answer_sdp is_open =
     (case from_utf8 answer_sdp of
        Inr _ \<Rightarrow> send_async is_open (ASigOk session_id endpoint_id)
      | Inl err \<Rightarrow> send_async is_open (ASigErr session_id endpoint_id (str_bytes (show_error err))))"

text \<open>As in the synchronous server, the closure of the leave handler only logs.\<close>

definition async_leave :: "SessionId \<Rightarrow> EndpointId \<Rightarrow> bool \<Rightarrow> unit result \<times> AsyncProtocolMessage option" where
  "async_leave session_id endpoint_id is_open = send_async is_open (ASigOk session_id endpoint_id)"

definition async_invalid :: "SessionId \<Rightarrow> EndpointId \<Rightarrow> bool \<Rightarrow> unit result \<times> AsyncProtocolMessage option" where
  "async_invalid session_id endpoint_id is_open =
     send_async is_open (ASigErr session_id endpoint_id (str_bytes ''Invalid Request''))"

text \<open>\<open>fresh\<close> is the random identifier for an endpoint that joins.\<close>

definition async_handle_signaling_message ::
  "gateway_env \<Rightarrow> (error \<Rightarrow> string) \<Rightarrow> readings \<Rightarrow> EndpointId \<Rightarrow> AsyncMessage \<Rightarrow> ServerStates
   \<Rightarrow> unit result \<times> AsyncProtocolMessage option \<times> ServerStates" where
  "async_handle_signaling_message E show_error R fresh signaling_msg self =
     (let is_open = asig_response_open signaling_msg;
          keep = (\<lambda>(r, sent). (r, sent, self))
      in case asig_request signaling_msg of
           ASigJoin session_id \<Rightarrow> keep (send_async is_open (ASigOk session_id fresh))
         | ASigOffer session_id endpoint_id offer_sdp \<Rightarrow>
             async_offer E show_error R session_id endpoint_id offer_sdp is_open self
         | ASigAnswer session_id endpoint_id answer_sdp \<Rightarrow>
             keep (async_answer show_error session_id endpoint_id answer_sdp is_open)
         | ASigLeave session_id endpoint_id \<Rightarrow> keep (async_leave session_id endpoint_id is_open)
         | ASigOk session_id endpoint_id \<Rightarrow> keep (async_invalid session_id endpoint_id is_open)
         | ASigErr session_id endpoint_id _ \<Rightarrow> keep (async_invalid session_id endpoint_id is_open)
         | ASigTrickle session_id endpoint_id _ \<Rightarrow> keep (async_invalid session_id endpoint_id is_open))"

section \<open>The HTTP handler\<close>

record HttpResponse =
  http_status :: nat
  http_body :: bytes

datatype task_reply = SendFailed | ResponseDropped | TaskReply AsyncProtocolMessage

abbreviation http_empty :: "nat \<Rightarrow> HttpResponse" where
  "http_empty status \<equiv> \<lparr>http_status = status, http_body = []\<rparr>"

text \<open>What the handler answers when it understands the reply; anything else falls through to the last statement.\<close>

fun join_response :: "AsyncProtocolMessage \<Rightarrow> HttpResponse option" where
  "join_response (ASigOk _ endpoint_id) = Some \<lparr>http_status = 200, http_body = str_bytes (show_word endpoint_id)\<rparr>"
| "join_response (ASigErr _ _ reason) = Some \<lparr>http_status = 500, http_body = reason\<rparr>"
| "join_response _ = None"

fun offer_response :: "AsyncProtocolMessage \<Rightarrow> HttpResponse option" where
  "offer_response (ASigAnswer _ _ answer_sdp) = Some \<lparr>http_status = 200, http_body = answer_sdp\<rparr>"
| "offer_response (ASigErr _ _ reason) = Some \<lparr>http_status = 500, http_body = reason\<rparr>"
| "offer_response _ = None"

fun ok_response :: "AsyncProtocolMessage \<Rightarrow> HttpResponse option" where
  "ok_response (ASigOk _ _) = Some (http_empty 200)"
| "ok_response (ASigErr _ _ reason) = Some \<lparr>http_status = 500, http_body = reason\<rparr>"
| "ok_response _ = None"

definition ask_task ::
  "(AsyncProtocolMessage \<Rightarrow> task_reply) \<Rightarrow> AsyncProtocolMessage \<Rightarrow> (AsyncProtocolMessage \<Rightarrow> HttpResponse option)
   \<Rightarrow> HttpResponse result" where
  "ask_task event_base message response =
     Ok (case event_base message of
           TaskReply reply \<Rightarrow> (case response reply of Some r \<Rightarrow> r | None \<Rightarrow> http_empty 500)
         | _ \<Rightarrow> http_empty 500)"

text \<open>\<open>path[i].parse::<u64>().unwrap()\<close>; the handler has checked that it can be parsed.\<close>

definition unwrap_u64 :: "string \<Rightarrow> u64 result" where
  "unwrap_u64 s = (case parse_u64 s of Inr n \<Rightarrow> Ok n | Inl _ \<Rightarrow> Err (Panic ''unwrap''))"

definition index_path :: "string list \<Rightarrow> nat \<Rightarrow> string result" where
  "index_path path i = (if i < length path then Ok (path ! i) else Err (Panic ''index out of bounds''))"

definition bad_request :: "string list \<Rightarrow> bool" where
  "bad_request path \<longleftrightarrow> length path < 3 \<or> \<not> is_ok (parse_u64 (path ! 2)) \<or>
     ((path ! 1 = ''offer'' \<or> path ! 1 = ''answer'' \<or> path ! 1 = ''leave'') \<and>
      (length path < 4 \<or> \<not> is_ok (parse_u64 (path ! 3))))"

text \<open>The arms of the handler, one for each route.\<close>

type_synonym event_base = "AsyncProtocolMessage \<Rightarrow> task_reply"

definition remote_join :: "event_base \<Rightarrow> SessionId \<Rightarrow> HttpResponse result" where
  "remote_join event_base session_id = ask_task event_base (ASigJoin session_id) join_response"

definition remote_offer :: "event_base \<Rightarrow> SessionId \<Rightarrow> string list \<Rightarrow> bytes result \<Rightarrow> HttpResponse result" where
  "remote_offer event_base session_id path body =
     and_then (and_then (index_path path 3) unwrap_u64) (\<lambda>endpoint_id.
     and_then body (\<lambda>offer_sdp. ask_task event_base (ASigOffer session_id endpoint_id offer_sdp) offer_response))"

definition remote_answer :: "event_base \<Rightarrow> SessionId \<Rightarrow> string list \<Rightarrow> bytes result \<Rightarrow> HttpResponse result" where
  "remote_answer event_base session_id path body =
     and_then (and_then (index_path path 3) unwrap_u64) (\<lambda>endpoint_id.
     and_then body (\<lambda>answer_sdp. ask_task event_base (ASigAnswer session_id endpoint_id answer_sdp) ok_response))"

definition remote_leave :: "event_base \<Rightarrow> SessionId \<Rightarrow> string list \<Rightarrow> HttpResponse result" where
  "remote_leave event_base session_id path =
     and_then (and_then (index_path path 3) unwrap_u64) (\<lambda>endpoint_id.
     ask_task event_base (ASigLeave session_id endpoint_id) ok_response)"

lemmas remote_routes = remote_join_def remote_offer_def remote_answer_def remote_leave_def

definition remote_handler ::
  "bytes option \<Rightarrow> (u16, event_base) hashmap \<Rightarrow> string \<Rightarrow> string \<Rightarrow> bytes result \<Rightarrow> HttpResponse result" where
  "remote_handler html media_port_thread_map method uri_path body =
     (if method = ''GET'' \<and> (uri_path = ''/'' \<or> uri_path = ''/index.html'') then
        Ok (case html of Some page \<Rightarrow> \<lparr>http_status = 200, http_body = page\<rparr> | None \<Rightarrow> http_empty 404)
      else let path = split_on (CHR ''/'') uri_path
        in if bad_request path then Ok (http_empty 400)
           else
             and_then (and_then (index_path path 2) unwrap_u64) (\<lambda>session_id.
             if media_port_thread_map = [] then Err (Panic ''assertion failed: !sorted_ports.is_empty()'')
             else
               and_then (ok_or (hm_get media_port_thread_map (media_port (hm_keys media_port_thread_map) session_id))
                          (Panic ''unwrap'')) (\<lambda>event_base.
               if method = ''POST'' \<and> path ! 1 = ''join'' then remote_join event_base session_id
               else if method = ''POST'' \<and> path ! 1 = ''offer'' then remote_offer event_base session_id path body
               else if method = ''POST'' \<and> path ! 1 = ''answer'' then remote_answer event_base session_id path body
               else if method = ''POST'' \<and> path ! 1 = ''leave'' then remote_leave event_base session_id path
               else Ok (http_empty 404))))"

section \<open>Properties\<close>

definition answered :: "HttpResponse result \<Rightarrow> bool" where
  "answered r = (case r of Inr x \<Rightarrow> http_status x \<in> {200, 400, 404, 500} | Inl _ \<Rightarrow> False)"

lemma answered_ask [simp]:
  "answered (ask_task tx m join_response)" "answered (ask_task tx m offer_response)" "answered (ask_task tx m ok_response)"
  by (auto simp: answered_def ask_task_def split: task_reply.splits option.splits
      elim: join_response.elims offer_response.elims ok_response.elims)

lemma good_path:
  assumes "\<not> bad_request path"
  obtains sid where "and_then (index_path path 2) unwrap_u64 = Ok sid"
    "path ! 1 = ''offer'' \<or> path ! 1 = ''answer'' \<or> path ! 1 = ''leave'' \<longrightarrow> is_ok (and_then (index_path path 3) unwrap_u64)"
proof -
  have "is_ok (and_then (index_path path 2) unwrap_u64)"
    "path ! 1 = ''offer'' \<or> path ! 1 = ''answer'' \<or> path ! 1 = ''leave'' \<longrightarrow> is_ok (and_then (index_path path 3) unwrap_u64)"
    using assms by (auto simp: bad_request_def index_path_def unwrap_u64_def is_ok_iff)
  then show thesis using that by (auto simp: is_ok_iff)
qed

text \<open>
  C24: The HTTP handler never panics while there is a media task: whatever the method, the path, the reply of the task or
  its absence, a request whose body can be read gets a response, with status 200, 400, 404 or 500. The checks at the
  start cover every index and every number that is unwrapped later.
\<close>

theorem remote_handler_total:
  assumes "threads \<noteq> []" "body = Ok b"
  shows "\<exists>r. remote_handler html threads verb uri_path body = Ok r \<and> http_status r \<in> {200, 400, 404, 500}"
proof -
  let ?path = "split_on (CHR ''/'') uri_path"
  have "answered (remote_handler html threads verb uri_path body)"
  proof (cases "verb = ''GET'' \<and> (uri_path = ''/'' \<or> uri_path = ''/index.html'') \<or> bad_request ?path")
    case True
    then show ?thesis by (auto simp: remote_handler_def answered_def split: option.splits)
  next
    case False
    then obtain sid where sid: "and_then (index_path ?path 2) unwrap_u64 = Ok sid"
      "?path ! 1 = ''offer'' \<or> ?path ! 1 = ''answer'' \<or> ?path ! 1 = ''leave'' \<longrightarrow> is_ok (and_then (index_path ?path 3) unwrap_u64)"
      using good_path by blast
    obtain tx where tx: "hm_get threads (media_port (hm_keys threads) sid) = Some tx" using media_port_thread[OF assms(1)] by blast
    have "answered (Ok (http_empty 404))" by (simp add: answered_def)
    then show ?thesis using False assms sid tx
      by (cases "and_then (index_path ?path 3) unwrap_u64") (auto simp: remote_handler_def remote_routes Let_def)
  qed
  then show ?thesis by (auto simp: answered_def split: sum.splits)
qed

text \<open>A media task with the given states, as the handler sees it, and what an offer to it returns.\<close>

definition media_task ::
  "gateway_env \<Rightarrow> (error \<Rightarrow> string) \<Rightarrow> readings \<Rightarrow> EndpointId \<Rightarrow> ServerStates \<Rightarrow> AsyncProtocolMessage \<Rightarrow> task_reply" where
  "media_task E show_error R fresh self m =
     (case async_handle_signaling_message E show_error R fresh \<lparr>asig_request = m, asig_response_open = True\<rparr> self of
        (_, Some reply, _) \<Rightarrow> TaskReply reply
      | _ \<Rightarrow> ResponseDropped)"

lemma remote_offer_answered:
  assumes "threads \<noteq> []" "hm_get threads (media_port (hm_keys threads) sid) = Some (media_task E sh R fresh self)"
  shows "remote_handler html threads ''POST'' (''/offer/'' @ show_word sid @ ''/'' @ show_word eid) (Ok body) =
    Ok (case fst (try_handle_offer E sh R sid eid body self) of
          Inr answer \<Rightarrow> \<lparr>http_status = 200, http_body = answer\<rparr>
        | Inl reason \<Rightarrow> \<lparr>http_status = 500, http_body = str_bytes reason\<rparr>)"
proof -
  have path: "split_on (CHR ''/'') (''/offer/'' @ show_word sid @ ''/'' @ show_word eid) = ['''', ''offer'', show_word sid, show_word eid]"
    using request_path[of "''offer''" sid eid] by simp
  obtain r self' where r: "try_handle_offer E sh R sid eid body self = (r, self')" by fastforce
  have "media_task E sh R fresh self (ASigOffer sid eid body) =
      TaskReply (case r of Inr answer \<Rightarrow> ASigAnswer sid eid answer | Inl reason \<Rightarrow> ASigErr sid eid (str_bytes reason))"
    by (cases r) (simp_all add: media_task_def async_handle_signaling_message_def async_offer_def r send_async_def)
  then show ?thesis
    using assms unfolding remote_handler_def path
    by (cases r) (simp_all add: remote_routes bad_request_def index_path_def unwrap_u64_def ask_task_def r)
qed

theorem remote_handler_total_witness:
  "\<exists>r. remote_handler None [(3478, \<lambda>_. SendFailed)] ''POST'' ''/offer/1'' (Ok []) = Ok r \<and> http_status r \<in> {200, 400, 404, 500}"
  by (rule remote_handler_total[of "[(3478, \<lambda>_. SendFailed)]" "Ok []" "[]"]) simp_all

end
