(* ===== verification/Certificate_Files.thy ===== *)
theory Certificate_Files
  imports Certificate
begin

text \<open>
  How certificates are generated and stored (\<open>from_params\<close>, \<open>from_key_pair\<close>, \<open>from_pem\<close> and \<open>serialize_pem\<close> in
  \<open>src/server/certificate.rs\<close>). \<open>keygen_lib\<close> holds the functions of the \<open>rcgen\<close> and \<open>ring\<close> crates, with the fields of
  the certificate parameters that the program touches; \<open>pem_lib\<close> those of the \<open>pem\<close> crate and the PEM form of a
  DTLS certificate. The two PEM functions are compiled under the feature \<open>pem\<close>.
\<close>

section \<open>Generation\<close>

typedecl key_pair
typedecl x509_cert
typedecl other_params

datatype signature_algorithm = PKCS_ED25519 | PKCS_ECDSA_P256_SHA256 | PKCS_RSA_SHA256 | PKCS_OTHER nat

record CertificateParams =
  params_alg :: signature_algorithm
  params_key_pair :: "key_pair option"
  params_not_after :: system_time
  params_other :: other_params

record keygen_lib =
  certificate_params_new :: "string list \<Rightarrow> CertificateParams"
  x509_from_params :: "CertificateParams \<Rightarrow> x509_cert result"
  get_key_pair :: "x509_cert \<Rightarrow> key_pair"
  is_compatible :: "key_pair \<Rightarrow> signature_algorithm \<Rightarrow> bool"
  key_serialize_der :: "key_pair \<Rightarrow> bytes"
  x509_serialize_der :: "x509_cert \<Rightarrow> bytes result"
  ed25519_from_pkcs8 :: "bytes \<Rightarrow> string + ed25519_key_pair"
  ecdsa_from_pkcs8 :: "bytes \<Rightarrow> string + ecdsa_key_pair"
  rsa_from_pkcs8 :: "bytes \<Rightarrow> string + rsa_key_pair"

definition map_key :: "('k \<Rightarrow> CryptoPrivateKeyKind) \<Rightarrow> bytes \<Rightarrow> string + 'k \<Rightarrow> CryptoPrivateKey result" where
  "map_key wrap der r =
     (case r of
        Inl e \<Rightarrow> Err (Other e)
      | Inr k \<Rightarrow> Ok \<lparr>key_kind = wrap k, key_serialized_der = der\<rparr>)"

definition private_key_of :: "keygen_lib \<Rightarrow> key_pair \<Rightarrow> CryptoPrivateKey result" where
  "private_key_of K kp =
     (let serialized_der = key_serialize_der K kp
      in if is_compatible K kp PKCS_ED25519 then map_key KeyEd25519 serialized_der (ed25519_from_pkcs8 K serialized_der)
         else if is_compatible K kp PKCS_ECDSA_P256_SHA256 then
           map_key KeyEcdsa256 serialized_der (ecdsa_from_pkcs8 K serialized_der)
         else if is_compatible K kp PKCS_RSA_SHA256 then map_key KeyRsa256 serialized_der (rsa_from_pkcs8 K serialized_der)
         else Err (Other ''Unsupported key_pair''))"

text \<open>\<open>arm\<close>: the target is a 32 bit ARM, where the expiry is two days after \<open>now\<close>.\<close>

definition certificate_from_params ::
  "keygen_lib \<Rightarrow> bool \<Rightarrow> system_time \<Rightarrow> CertificateParams \<Rightarrow> RTCCertificate result" where
  "certificate_from_params K arm now params =
     (let not_after = params_not_after params
      in and_then (x509_from_params K params) (\<lambda>cert.
         and_then (private_key_of K (get_key_pair K cert)) (\<lambda>private_key.
           let expires = (if arm then now + 172800 * 10 ^ 9 else not_after)
           in and_then (x509_serialize_der K cert) (\<lambda>der.
                Ok \<lparr>cert_dtls_certificate = \<lparr>certificate = [der], cert_private_key = private_key\<rparr>, cert_expires = expires\<rparr>))))"

text \<open>The indices are those of \<open>math_rand_alpha(16)\<close>.\<close>

definition certificate_from_key_pair ::
  "keygen_lib \<Rightarrow> bool \<Rightarrow> system_time \<Rightarrow> nat list \<Rightarrow> key_pair \<Rightarrow> RTCCertificate result" where
  "certificate_from_key_pair K arm now idxs kp =
     (let params = certificate_params_new K [math_rand_alpha idxs];
          with_alg = (\<lambda>a. certificate_from_params K arm now (params\<lparr>params_alg := a, params_key_pair := Some kp\<rparr>))
      in if is_compatible K kp PKCS_ED25519 then with_alg PKCS_ED25519
         else if is_compatible K kp PKCS_ECDSA_P256_SHA256 then with_alg PKCS_ECDSA_P256_SHA256
         else if is_compatible K kp PKCS_RSA_SHA256 then with_alg PKCS_RSA_SHA256
         else Err (Other ''Unsupported key_pair''))"

section \<open>PEM\<close>

record Pem =
  pem_tag :: string
  pem_contents :: bytes

record pem_lib =
  pem_parse :: "string \<Rightarrow> string + Pem"
  pem_encode :: "Pem \<Rightarrow> string"
  dtls_from_pem :: "string \<Rightarrow> dtls_certificate result"
  dtls_serialize_pem :: "dtls_certificate \<Rightarrow> string"

abbreviation newline :: char where
  "newline \<equiv> CHR 0x0A"

abbreviation quoted :: "string \<Rightarrow> string" where
  "quoted s \<equiv> CHR 0x27 # s @ [CHR 0x27]"

text \<open>\<open>str::split\<close> at a blank line.\<close>

fun split_blocks :: "string \<Rightarrow> string list" where
  "split_blocks [] = [[]]"
| "split_blocks [c] = [[c]]"
| "split_blocks (c # d # s) =
     (if c = newline \<and> d = newline then [] # split_blocks s
      else case split_blocks (d # s) of [] \<Rightarrow> [[c]] | b # bs \<Rightarrow> (c # b) # bs)"

definition to_le_bytes :: "u64 \<Rightarrow> bytes" where
  "to_le_bytes w = map (\<lambda>i. ucast (drop_bit (8 * i) w)) [0..<8]"

definition from_le_bytes :: "bytes \<Rightarrow> u64" where
  "from_le_bytes bs = foldr (\<lambda>b w. push_bit 8 w + ucast b) bs 0"

text \<open>\<open>UNIX_EPOCH.checked_add\<close>, with seconds in 64 signed bits.\<close>

definition epoch_checked_add :: "u64 \<Rightarrow> system_time option" where
  "epoch_checked_add secs = (if unat secs < 2 ^ 63 then Some (int (unat secs) * 10 ^ 9) else None)"

definition certificate_from_pem :: "pem_lib \<Rightarrow> string \<Rightarrow> RTCCertificate result" where
  "certificate_from_pem P pem_str =
     (case split_blocks pem_str of
        [] \<Rightarrow> Err (Other ''empty PEM'')
      | first_block # blocks \<Rightarrow>
          (case pem_parse P first_block of
             Inl e \<Rightarrow> Err (Other (''can't parse PEM: '' @ e))
           | Inr expires_pem \<Rightarrow>
               if pem_tag expires_pem \<noteq> ''EXPIRES'' then
                 Err (Other (''invalid tag (expected: '' @ quoted ''EXPIRES'' @ '', got '' @ quoted (pem_tag expires_pem) @ '')''))
               else if length (pem_contents expires_pem) < 8 then Err (Panic ''range end index 8 out of range'')
               else
                 (case epoch_checked_add (from_le_bytes (take 8 (pem_contents expires_pem))) of
                    None \<Rightarrow> Err (Other ''failed to calculate SystemTime'')
                  | Some expires \<Rightarrow>
                      and_then (dtls_from_pem P (join [newline, newline] blocks)) (\<lambda>c.
                        Ok (certificate_from_existing c expires)))))"

definition certificate_serialize_pem :: "pem_lib \<Rightarrow> RTCCertificate \<Rightarrow> string result" where
  "certificate_serialize_pem P self =
     (if cert_expires self < 0 then Err (Panic ''expires to be valid'')
      else Ok (pem_encode P \<lparr>pem_tag = ''EXPIRES'', pem_contents = to_le_bytes (of_int (cert_expires self div 10 ^ 9))\<rparr>
               @ [newline] @ dtls_serialize_pem P (cert_dtls_certificate self)))"

section \<open>Files can be read back\<close>

lemma split_blocks_not_Nil [simp]: "split_blocks s \<noteq> []"
  by (induction s rule: split_blocks.induct) (auto split: list.splits)

lemma join_split_blocks: "join [newline, newline] (split_blocks s) = s"
proof (induction s rule: split_blocks.induct)
  case (3 c d s)
  show ?case
  proof (cases "c = newline \<and> d = newline")
    case True
    obtain b bs where "split_blocks s = b # bs" by (cases "split_blocks s") auto
    then show ?thesis using 3(1) True by simp
  next
    case False
    obtain b bs where b: "split_blocks (d # s) = b # bs" by (cases "split_blocks (d # s)") auto
    then show ?thesis using 3(2)[OF False] False by (cases bs) auto
  qed
qed simp_all

text \<open>A text without a blank line that does not end in a newline is the first block.\<close>

fun no_blank_line :: "string \<Rightarrow> bool" where
  "no_blank_line [] = True"
| "no_blank_line [c] = (c \<noteq> newline)"
| "no_blank_line (c # d # s) = (\<not> (c = newline \<and> d = newline) \<and> no_blank_line (d # s))"

lemma split_blocks_first: "no_blank_line b \<Longrightarrow> split_blocks (b @ newline # newline # s) = b # split_blocks s"
  by (induction b rule: no_blank_line.induct) auto

lemma ucast_byte: "ucast (ucast w :: u8) = (take_bit 8 w :: u64)"
  by (rule bit_word_eqI) (auto simp: bit_ucast_iff bit_take_bit_iff dest: bit_imp_le_length)

lemma take_bytes: "push_bit 8 (take_bit m (drop_bit 8 x)) + take_bit 8 x = take_bit (8 + m) (x :: u64)"
  using bits_ident[of 8 "take_bit (8 + m) x"] by (simp add: drop_bit_take_bit)

lemma from_bytes_of:
  "foldr (\<lambda>b w. push_bit 8 w + ucast b) (map (\<lambda>i. ucast (drop_bit (8 * i) w) :: u8) [k..<k + n]) 0 = take_bit (8 * n) (drop_bit (8 * k) (w :: u64))"
proof (induction n arbitrary: k)
  case (Suc n)
  have "[k..<k + Suc n] = k # [Suc k..<Suc k + n]" by (simp add: upt_conv_Cons)
  then have "foldr (\<lambda>b w. push_bit 8 w + ucast b) (map (\<lambda>i. ucast (drop_bit (8 * i) w) :: u8) [k..<k + Suc n]) 0 =
      push_bit 8 (take_bit (8 * n) (drop_bit (8 * Suc k) w)) + take_bit 8 (drop_bit (8 * k) w)"
    using Suc[of "Suc k"] by (simp only: list.map foldr.simps o_apply ucast_byte)
  also have "drop_bit (8 * Suc k) w = drop_bit 8 (drop_bit (8 * k) w)" by simp
  finally show ?case by (simp only: take_bytes) simp
qed simp

lemma le_bytes_roundtrip: "from_le_bytes (to_le_bytes w) = w"
  using from_bytes_of[of w 0 8] by (simp add: from_le_bytes_def to_le_bytes_def take_bit_word_eq_self)

lemma le_bytes_length [simp]: "length (to_le_bytes w) = 8"
  by (simp add: to_le_bytes_def)

text \<open>
  C38: A certificate that was written to PEM is read back unchanged, except that its expiry time loses the fraction of
  a second. This rests on the \<open>pem\<close> crate: an encoded block ends in a newline, contains no blank line and is parsed
  back to what was encoded, also without its last newline; and on the DTLS crate: a certificate is read back from its PEM.
\<close>

theorem certificate_pem_roundtrip:
  assumes "0 \<le> cert_expires cert" "cert_expires cert div 10 ^ 9 < 2 ^ 63"
    and "p = \<lparr>pem_tag = ''EXPIRES'', pem_contents = to_le_bytes (of_int (cert_expires cert div 10 ^ 9))\<rparr>"
    and "pem_encode P p = block @ [newline]" "no_blank_line block" "pem_parse P block = Inr p"
    and "dtls_from_pem P (dtls_serialize_pem P (cert_dtls_certificate cert)) = Ok (cert_dtls_certificate cert)"
  shows "and_then (certificate_serialize_pem P cert) (certificate_from_pem P) =
    Ok (cert\<lparr>cert_expires := cert_expires cert - cert_expires cert mod 10 ^ 9\<rparr>)"
proof -
  let ?secs = "cert_expires cert div 10 ^ 9" and ?pem = "dtls_serialize_pem P (cert_dtls_certificate cert)"
  have ser: "certificate_serialize_pem P cert = Ok (block @ newline # newline # ?pem)"
    using assms(1,3,4) by (simp add: certificate_serialize_pem_def)
  have "0 \<le> ?secs" using assms(1) by (simp add: div_int_pos_iff)
  then have u: "int (unat (of_int ?secs :: u64)) = ?secs" using assms(2) by (simp add: unsigned_of_int take_bit_int_eq_self)
  then have "int (unat (of_int ?secs :: u64)) < int (2 ^ 63)" using assms(2) by simp
  then have "unat (of_int ?secs :: u64) < 2 ^ 63" by (simp only: of_nat_less_iff)
  then have "epoch_checked_add (of_int ?secs) = Some (?secs * 10 ^ 9)" by (simp only: epoch_checked_add_def if_True u)
  then have "certificate_from_pem P (block @ newline # newline # ?pem) =
      Ok (certificate_from_existing (cert_dtls_certificate cert) (?secs * 10 ^ 9))"
    using assms(3-7) by (simp add: certificate_from_pem_def split_blocks_first join_split_blocks le_bytes_roundtrip)
  moreover have "?secs * 10 ^ 9 = cert_expires cert - cert_expires cert mod 10 ^ 9" by (simp only: minus_mod_eq_div_mult)
  ultimately show ?thesis by (simp add: ser certificate_from_existing_def)
qed

definition sample_pem :: pem_lib where
  "sample_pem = \<lparr>pem_parse = \<lambda>_. Inr \<lparr>pem_tag = ''EXPIRES'', pem_contents = to_le_bytes 2\<rparr>, pem_encode = \<lambda>_. ''-'' @ [newline],
     dtls_from_pem = \<lambda>_. Ok (cert_dtls_certificate sample_certificate), dtls_serialize_pem = \<lambda>_. []\<rparr>"

theorem certificate_pem_roundtrip_witness:
  "and_then (certificate_serialize_pem sample_pem (sample_certificate\<lparr>cert_expires := 2500000000\<rparr>)) (certificate_from_pem sample_pem) =
     Ok (sample_certificate\<lparr>cert_expires := 2000000000\<rparr>)"
  using certificate_pem_roundtrip[of "sample_certificate\<lparr>cert_expires := 2500000000\<rparr>"
      "\<lparr>pem_tag = ''EXPIRES'', pem_contents = to_le_bytes 2\<rparr>" sample_pem "''-''"]
  by (simp add: sample_pem_def)

text \<open>A short block of expiry makes the reader panic.\<close>

lemma from_pem_short_block_panics:
  assumes "no_blank_line block" "pem_parse P block = Inr \<lparr>pem_tag = ''EXPIRES'', pem_contents = b\<rparr>" "length b < 8"
  shows "certificate_from_pem P (block @ newline # newline # rest) = Err (Panic ''range end index 8 out of range'')"
  using assms by (simp add: certificate_from_pem_def split_blocks_first)

section \<open>The key of a generated certificate\<close>

lemma private_key_of_der: "private_key_of K kp = Ok k \<Longrightarrow> key_serialized_der k = key_serialize_der K kp"
  by (auto simp: private_key_of_def map_key_def Let_def split: if_splits sum.splits)

text \<open>
  A generated certificate is a single DER encoding with the given key pair: its private key has the kind of the first
  of the three algorithms that the key pair is compatible with. The hypothesis is that \<open>rcgen\<close> uses the key pair that
  the parameters contain.
\<close>

lemma from_key_pair_key:
  assumes "\<And>params cert kp. x509_from_params K params = Ok cert \<Longrightarrow> params_key_pair params = Some kp \<Longrightarrow> get_key_pair K cert = kp"
    and "certificate_from_key_pair K arm now idxs kp = Ok cert"
  shows "private_key_of K kp = Ok (cert_private_key (cert_dtls_certificate cert)) \<and>
    length (certificate (cert_dtls_certificate cert)) = 1 \<and>
    key_serialized_der (cert_private_key (cert_dtls_certificate cert)) = key_serialize_der K kp"
proof -
  obtain params where p: "certificate_from_params K arm now params = Ok cert" "params_key_pair params = Some kp"
    using assms(2) by (auto simp: certificate_from_key_pair_def Let_def split: if_splits)
  then obtain x where x: "x509_from_params K params = Ok x" "private_key_of K (get_key_pair K x) = Ok (cert_private_key (cert_dtls_certificate cert))"
    "length (certificate (cert_dtls_certificate cert)) = 1"
    by (auto simp: certificate_from_params_def Let_def result_simps split: sum.splits)
  then show ?thesis using assms(1)[OF x(1) p(2)] private_key_of_der by simp
qed

end
