(* ===== verification/Chat_Servers.thy ===== *)
theory Chat_Servers
  imports Sync_Server Async_Signaling Certificate_Files
begin

text \<open>
  The programs \<open>examples/sync_chat.rs\<close> and \<open>examples/async_chat.rs\<close> around the servers: the choice of the address
  (\<open>examples/util/mod.rs\<close>), the configuration, one media server for each port of a range, and the task that serves a
  port in the asynchronous program. Key generation, the builder of the DTLS configuration, the network interfaces and
  the results of binding and spawning are arguments.
\<close>

section \<open>The address of the host\<close>

datatype stat_addr = StatV4 u32 | StatOther

text \<open>\<open>is_loopback\<close>, \<open>is_link_local\<close> and \<open>is_broadcast\<close> of \<open>Ipv4Addr\<close>.\<close>

definition is_loopback :: "u32 \<Rightarrow> bool" where
  "is_loopback v \<longleftrightarrow> drop_bit 24 v = 127"

definition is_link_local :: "u32 \<Rightarrow> bool" where
  "is_link_local v \<longleftrightarrow> drop_bit 16 v = 0xA9FE"

definition is_broadcast :: "u32 \<Rightarrow> bool" where
  "is_broadcast v \<longleftrightarrow> v = 0xFFFFFFFF"

fun usable_address :: "stat_addr \<Rightarrow> ip_addr option" where
  "usable_address (StatV4 v) = (if \<not> is_loopback v \<and> \<not> is_link_local v \<and> \<not> is_broadcast v then Some (IpV4 v) else None)"
| "usable_address StatOther = None"

text \<open>The argument holds the addresses of each network.\<close>

definition select_host_address :: "stat_addr list list result \<Rightarrow> ip_addr result" where
  "select_host_address networks =
     (case networks of
        Inl _ \<Rightarrow> Err (Panic ''unwrap'')
      | Inr nets \<Rightarrow>
          (case List.map_filter usable_address (concat nets) of
             a # _ \<Rightarrow> Ok a
           | [] \<Rightarrow> Err (Panic ''Found no usable network interface'')))"

section \<open>The configuration\<close>

datatype ExtendedMasterSecretType = EmsRequest | EmsRequire | EmsDisable

record config_lib =
  key_pair_generate :: "signature_algorithm \<Rightarrow> key_pair result"
  dtls_config_build :: "dtls_certificate list \<Rightarrow> SrtpProtectionProfile list \<Rightarrow> ExtendedMasterSecretType \<Rightarrow> bool \<Rightarrow> dtls_handshake_config result"
  sctp_endpoint_default :: sctp_endpoint_config
  sctp_server_default :: sctp_server_config
  dtls_default :: dtls_handshake_config

definition async_chat_config ::
  "config_lib \<Rightarrow> keygen_lib \<Rightarrow> bool \<Rightarrow> system_time \<Rightarrow> nat list \<Rightarrow> ServerConfig result" where
  "async_chat_config C K arm now idxs =
     and_then (key_pair_generate C PKCS_ECDSA_P256_SHA256) (\<lambda>kp.
     and_then (certificate_from_key_pair K arm now idxs kp) (\<lambda>cert.
     let certs = [cert]
     in and_then (dtls_config_build C (map cert_dtls_certificate certs) [Srtp_Aes128_Cm_Hmac_Sha1_80] EmsRequire False) (\<lambda>dtls.
        Ok (with_sctp_server_config (sctp_server_default C)
             (with_sctp_endpoint_config (sctp_endpoint_default C)
               (with_dtls_handshake_config dtls
                 (server_config_new (sctp_endpoint_default C) (sctp_server_default C) (dtls_default C) certs)))))))"

definition sync_chat_config ::
  "config_lib \<Rightarrow> keygen_lib \<Rightarrow> bool \<Rightarrow> system_time \<Rightarrow> nat list \<Rightarrow> ServerConfig result" where
  "sync_chat_config C K arm now idxs =
     and_then (key_pair_generate C PKCS_ECDSA_P256_SHA256) (\<lambda>kp.
     and_then (certificate_from_key_pair K arm now idxs kp) (\<lambda>cert.
     let certs = [cert]
     in and_then (dtls_config_build C (map cert_dtls_certificate certs) [Srtp_Aes128_Cm_Hmac_Sha1_80] EmsRequire False) (\<lambda>dtls.
        Ok (with_idle_timeout (30 * 10 ^ 9)
             (with_sctp_server_config (sctp_server_default C)
               (with_sctp_endpoint_config (sctp_endpoint_default C)
                 (with_dtls_handshake_config dtls
                   (server_config_new (sctp_endpoint_default C) (sctp_server_default C) (dtls_default C) certs))))))))"

section \<open>The media ports\<close>

definition media_ports :: "u16 \<Rightarrow> u16 \<Rightarrow> u16 list" where
  "media_ports media_port_min media_port_max = map word_of_nat [unat media_port_min..<Suc (unat media_port_max)]"

text \<open>The loop of the synchronous program; \<open>signaling_tx\<close> is the channel to the thread of a port.\<close>

fun sync_spawn_ports ::
  "ip_addr \<Rightarrow> (u16 \<Rightarrow> unit result) \<Rightarrow> (u16 \<Rightarrow> 'tx) \<Rightarrow> u16 list \<Rightarrow> (u16, 'tx) hashmap \<Rightarrow> (u16, 'tx) hashmap result" where
  "sync_spawn_ports host_addr bind_socket signaling_tx [] media_port_thread_map = Ok media_port_thread_map"
| "sync_spawn_ports host_addr bind_socket signaling_tx (prt # ports) media_port_thread_map =
     (case bind_socket prt of
        Inl _ \<Rightarrow> Err (Panic (''binding to '' @ show_ip host_addr @ '':'' @ show_word prt))
      | Inr _ \<Rightarrow> sync_spawn_ports host_addr bind_socket signaling_tx ports (hm_insert prt (signaling_tx prt) media_port_thread_map))"

fun async_spawn_ports ::
  "(u16 \<Rightarrow> unit result) \<Rightarrow> (u16 \<Rightarrow> 'tx) \<Rightarrow> u16 list \<Rightarrow> (u16, 'tx) hashmap \<Rightarrow> (u16, 'tx) hashmap result" where
  "async_spawn_ports spawn signaling_tx [] media_port_thread_map = Ok media_port_thread_map"
| "async_spawn_ports spawn signaling_tx (prt # ports) media_port_thread_map =
     (let map1 = hm_insert prt (signaling_tx prt) media_port_thread_map
      in and_then (spawn prt) (\<lambda>_. async_spawn_ports spawn signaling_tx ports map1))"

section \<open>The task of a port\<close>

text \<open>
  What the executor of a port runs, in the order in which it happens: the loop of the task is woken by a stop signal
  or a signalling message, and between that the network part drives the pipeline.
\<close>

datatype media_event =
    MediaStop
  | MediaSignal readings EndpointId AsyncMessage
  | MediaSignalClosed
  | MediaRead "nat \<Rightarrow> readings" TaggedBytesMut
  | MediaTimeout instant
  | MediaTransmit instant

text \<open>The result: whether the loop has ended, the replies to signalling messages, the datagrams sent, the pipeline.\<close>

fun async_media_loop ::
  "pipeline_env \<Rightarrow> (error \<Rightarrow> string) \<Rightarrow> media_event list \<Rightarrow> Pipeline
   \<Rightarrow> (bool \<times> AsyncProtocolMessage list \<times> TaggedBytesMut list \<times> Pipeline) option" where
  "async_media_loop E show_error [] p = Some (False, [], [], p)"
| "async_media_loop E show_error (MediaStop # events) p = Some (True, [], [], p)"
| "async_media_loop E show_error (MediaSignalClosed # events) p = Some (True, [], [], p)"
| "async_media_loop E show_error (MediaSignal R fresh signaling_msg # events) p =
     (let (_, reply, self) = async_handle_signaling_message (pe_gateway E) show_error R fresh signaling_msg (pl_states p)
      in map_option (\<lambda>(ended, replies, sent, p'). (ended, (case reply of Some m \<Rightarrow> [m] | None \<Rightarrow> []) @ replies, sent, p'))
           (async_media_loop E show_error events (p\<lparr>pl_states := self\<rparr>)))"
| "async_media_loop E show_error (MediaRead R msg # events) p =
     Option.bind (pipeline_read E R msg p) (\<lambda>(_, p1). async_media_loop E show_error events p1)"
| "async_media_loop E show_error (MediaTimeout now # events) p =
     Option.bind (pipeline_handle_timeout E now p) (\<lambda>(_, p1). async_media_loop E show_error events p1)"
| "async_media_loop E show_error (MediaTransmit now # events) p =
     Option.bind (pipeline_poll_transmit E now p) (\<lambda>(_, m, p1).
       map_option (\<lambda>(ended, replies, sent, p'). (ended, replies, (case m of Some x \<Rightarrow> [x] | None \<Rightarrow> []) @ sent, p'))
         (async_media_loop E show_error events p1))"

text \<open>\<open>bound\<close> is the result of binding the socket; if that fails the task logs the error and ends.\<close>

definition async_media_task ::
  "pipeline_env \<Rightarrow> (error \<Rightarrow> string) \<Rightarrow> instant \<Rightarrow> socket_addr \<Rightarrow> ServerConfig \<Rightarrow> unit result \<Rightarrow> media_event list
   \<Rightarrow> (bool \<times> AsyncProtocolMessage list \<times> TaggedBytesMut list \<times> Pipeline) option result" where
  "async_media_task E show_error now addr sc bound events =
     (case states_new (env_sha256 (pe_gateway E)) sc addr of
        Inl _ \<Rightarrow> Err (Panic ''unwrap'')
      | Inr server_states \<Rightarrow>
          (let p = build_pipeline now addr server_states
           in case bound of
                Inl _ \<Rightarrow> Ok (Some (True, [], [], p))
              | Inr _ \<Rightarrow> Ok (async_media_loop E show_error events p)))"

section \<open>Lemmas\<close>

lemma spawned_keys:
  assumes "distinct ports" "\<forall>p\<in>set ports. p \<notin> fst ` set m"
  shows "sync_spawn_ports host bind_socket tx ports m = Ok m' \<Longrightarrow> m' = m @ map (\<lambda>p. (p, tx p)) ports"
    and "async_spawn_ports spawn tx ports m = Ok m' \<Longrightarrow> m' = m @ map (\<lambda>p. (p, tx p)) ports"
proof -
  have ins: "k \<notin> fst ` set m \<Longrightarrow> hm_insert k v m = m @ [(k, v)]" for k and v :: 'a and m
    unfolding hm_insert_def by (induction m) auto
  show "sync_spawn_ports host bind_socket tx ports m = Ok m' \<Longrightarrow> m' = m @ map (\<lambda>p. (p, tx p)) ports"
    using assms
  proof (induction ports arbitrary: m)
    case (Cons p ports)
    then show ?case using Cons.IH[of "m @ [(p, tx p)]"] by (auto simp: ins split: sum.splits)
  qed simp
  show "async_spawn_ports spawn tx ports m = Ok m' \<Longrightarrow> m' = m @ map (\<lambda>p. (p, tx p)) ports"
    using assms
  proof (induction ports arbitrary: m)
    case (Cons p ports)
    then show ?case using Cons.IH[of "m @ [(p, tx p)]"] by (auto simp: ins result_simps Let_def)
  qed simp
qed

lemma unat_port: "i < length (media_ports lo hi) \<Longrightarrow> unat (media_ports lo hi ! i) = unat lo + i"
proof -
  assume "i < length (media_ports lo hi)"
  then have "i < Suc (unat hi) - unat lo" by (simp add: media_ports_def del: upt_Suc)
  moreover have "unat hi < 65536" using unsigned_less[of hi] by simp
  moreover from calculation have "unat lo + i < 65536" by linarith
  ultimately have "media_ports lo hi ! i = word_of_nat (unat lo + i)" "unat (word_of_nat (unat lo + i) :: u16) = unat lo + i"
    by (simp_all add: media_ports_def unsigned_of_nat take_bit_nat_def del: upt_Suc of_nat_add)
  then show ?thesis by simp
qed

lemma media_ports_sorted: "sorted (media_ports lo hi)" "distinct (media_ports lo hi)"
proof -
  show "sorted (media_ports lo hi)" by (auto simp: sorted_iff_nth_mono word_le_nat_alt unat_port)
  show "distinct (media_ports lo hi)" by (auto simp: distinct_conv_nth dest!: arg_cong[of _ _ unat] simp: unat_port)
qed

lemma chat_config_certificate:
  "async_chat_config C K arm now idxs = Ok sc \<Longrightarrow> \<exists>cert. certificates sc = [cert] \<and> get_fingerprints sha256 cert \<noteq> []"
  "sync_chat_config C K arm now idxs = Ok sc \<Longrightarrow> \<exists>cert. certificates sc = [cert] \<and> get_fingerprints sha256 cert \<noteq> []"
  by (auto simp: async_chat_config_def sync_chat_config_def certificate_from_key_pair_def certificate_from_params_def Let_def result_simps
      server_config_new_def with_sctp_server_config_def with_sctp_endpoint_config_def with_dtls_handshake_config_def with_idle_timeout_def
      get_fingerprints_def split: if_splits)

lemma chat_states_new:
  assumes "async_chat_config C K arm created idxs = Ok sc \<or> sync_chat_config C K arm created idxs = Ok sc"
  obtains self where "states_new sha256 sc addr = Ok self"
proof -
  obtain cert where "certificates sc = [cert]" "get_fingerprints sha256 cert \<noteq> []"
    using chat_config_certificate[of C K arm created idxs sc sha256] assms by blast
  then show thesis using that by (cases "get_fingerprints sha256 cert") (auto simp: states_new_def)
qed

text \<open>An address that is selected can be reached by other hosts.\<close>

lemma selected_address_usable:
  "select_host_address networks = Ok a \<Longrightarrow> \<exists>v. a = IpV4 v \<and> \<not> is_loopback v \<and> \<not> is_link_local v \<and> \<not> is_broadcast v"
proof -
  assume "select_host_address networks = Ok a"
  then obtain nets where "a \<in> set (List.map_filter usable_address (concat nets))"
    by (auto simp: select_host_address_def split: sum.splits list.splits) (metis list.set_intros(1))
  then obtain x where "usable_address x = Some a" by (auto simp: List.map_filter_def)
  then show ?thesis by (cases x) (auto split: if_splits)
qed

lemma async_states:
  "snd (snd (async_handle_signaling_message E sh R fresh m self)) =
     (case asig_request m of ASigOffer s e body \<Rightarrow> snd (try_handle_offer E sh R s e body self) | _ \<Rightarrow> self)"
  by (auto simp: async_handle_signaling_message_def async_offer_def case_prod_beta Let_def split: AsyncProtocolMessage.splits sum.splits)

lemma async_media_loop_reach:
  assumes "async_media_loop E sh events p = Some (ended, replies, sent, p')" "pipeline_reach E p"
  shows "pipeline_reach E p'"
  using assms
proof (induction events arbitrary: p ended replies sent)
  case (Cons ev events)
  have signal: "pipeline_reach E (p\<lparr>pl_states := snd (snd (async_handle_signaling_message (pe_gateway E) sh R fresh m (pl_states p)))\<rparr>)"
    for R fresh m using try_handle_offer_reach[OF Cons.prems(2)] Cons.prems(2) by (cases "asig_request m") (simp_all add: async_states)
  show ?case using Cons signal pipeline_reach.datagram[OF Cons.prems(2)] pipeline_reach.tick[OF Cons.prems(2)] pipeline_reach.transmit[OF Cons.prems(2)]
    by (cases ev) (auto simp: bind_eq_Some_conv case_prod_beta Let_def)
qed simp

lemma async_media_loop_returns:
  assumes "pollable (dtls_poll_transmit (pe_dtls E)) pending" "sctp_finite (pe_sctp E) readable closing sending"
  shows "async_media_loop E sh events p \<noteq> None"
proof (induction events arbitrary: p)
  case (Cons ev events)
  show ?case
    by (cases ev) (simp_all add: case_prod_beta Let_def Cons bind_returns[OF stages_return[OF assms]] bind_returns[OF timeout_returns[OF assms]]
        bind_returns[OF poll_returns[OF assms]] del: not_None_eq)
qed simp

lemma spawned_threads:
  assumes "sync_spawn_ports host bind_socket tx (media_ports lo hi) [] = Ok threads \<or>
    async_spawn_ports spawn tx (media_ports lo hi) [] = Ok threads"
  shows "threads = map (\<lambda>p. (p, tx p)) (media_ports lo hi)"
  using assms spawned_keys[OF media_ports_sorted(2), where m = "[]"] by auto

section \<open>Properties\<close>

text \<open>
  C26: The media ports share the sessions evenly, in both programs: once the loop over the ports has ended, every request for
  a session goes to one port, which is the session's number modulo the number of ports, counted from the lowest port, and
  to the server that was started for that port.
\<close>

theorem chat_sessions_partitioned:
  assumes "lo \<le> hi" "sync_spawn_ports host bind_socket tx (media_ports lo hi) [] = Ok threads \<or>
    async_spawn_ports spawn tx (media_ports lo hi) [] = Ok threads"
  shows "unat (media_port (hm_keys threads) sid) = unat lo + unat sid mod (unat hi - unat lo + 1) \<and>
    hm_get threads (media_port (hm_keys threads) sid) = Some (tx (media_port (hm_keys threads) sid))"
proof -
  have t: "threads = map (\<lambda>p. (p, tx p)) (media_ports lo hi)" using assms(2) by (rule spawned_threads)
  then have keys: "hm_keys threads = media_ports lo hi" by (simp add: hm_keys_def comp_def)
  have len: "length (media_ports lo hi) = unat hi - unat lo + 1" using assms(1) by (simp add: media_ports_def word_le_nat_alt del: upt_Suc)
  then have "unat (media_port (hm_keys threads) sid) = unat lo + unat sid mod (unat hi - unat lo + 1)"
    by (simp add: media_port_def keys sorted_sort_id media_ports_sorted(1) unat_port)
  moreover have "media_port (hm_keys threads) sid \<in> set (media_ports lo hi)"
    using media_port_in[of "hm_keys threads" sid] len by (cases "media_ports lo hi") (simp_all add: keys)
  ultimately show ?thesis by (simp add: t hm_get_def map_of_map_restrict)
qed

text \<open>A range that is empty is accepted; the server then has no media thread and every valid offer fails an assertion.\<close>

lemma empty_port_range_panics:
  assumes "hi < lo" "rq_method rq \<noteq> ''GET''" "rq_url rq = ''/offer/'' @ show_word (sid :: SessionId) @ ''/'' @ show_word (eid :: EndpointId)"
  shows "sync_spawn_ports host bind_socket tx (media_ports lo hi) [] = Ok [] \<and>
    web_request [] rq = (Err (Panic ''assertion failed: !sorted_ports.is_empty()''), None)"
  using assms request_path[of "''offer''" sid eid] by (simp add: media_ports_def word_less_nat_alt web_request_def Let_def)


section \<open>Sample programs\<close>

definition sample_keygen :: keygen_lib where
  "sample_keygen = \<lparr>certificate_params_new = \<lambda>_. undefined, x509_from_params = \<lambda>_. Ok undefined, get_key_pair = \<lambda>_. undefined,
     is_compatible = \<lambda>_ a. a = PKCS_ECDSA_P256_SHA256, key_serialize_der = \<lambda>_. [], x509_serialize_der = \<lambda>_. Ok [],
     ed25519_from_pkcs8 = \<lambda>_. Inl [], ecdsa_from_pkcs8 = \<lambda>_. Inr undefined, rsa_from_pkcs8 = \<lambda>_. Inl []\<rparr>"

definition sample_config_lib :: config_lib where
  "sample_config_lib = \<lparr>key_pair_generate = \<lambda>_. Ok undefined, dtls_config_build = \<lambda>_ _ _ _. Ok undefined,
     sctp_endpoint_default = undefined, sctp_server_default = undefined, dtls_default = undefined\<rparr>"

theorem chat_sessions_partitioned_witness:
  "sync_spawn_ports (IpV4 0) (\<lambda>_. Ok ()) id (media_ports 3478 3480) [] = Ok [(3478, 3478), (3479, 3479), (3480, 3480)] \<and>
   unat (media_port (hm_keys [(3478, 3478), (3479, 3479 :: u16), (3480, 3480)]) 7) = 3479"
proof -
  have s: "sync_spawn_ports (IpV4 0) (\<lambda>_. Ok ()) id (media_ports 3478 3480) [] = Ok [(3478, 3478), (3479, 3479), (3480, 3480)]"
    by (simp add: media_ports_def hm_insert_def upt_rec)
  show ?thesis using s chat_sessions_partitioned[OF _ disjI1[OF s], where sid = 7] by simp
qed


end
