(* ===== verification/Room.thy ===== *)
theory Room
  imports Messages
begin

text \<open>
  What a selective forwarding unit promises about its participants, without handlers, protocols and tables. A room
  has tickets, user names in force with the session and endpoint they were issued for, and members: a member is a
  four tuple of an endpoint in a session, with the user name that it was admitted under and whether it has keys for
  media.

  Four things can happen: a ticket is issued, a peer that presents a ticket is admitted, a member gets its keys, and a
  member leaves, with which its ticket ends.
\<close>

type_synonym member = "SessionId \<times> EndpointId \<times> FourTuple"

record room =
  tickets :: "string \<Rightarrow> (SessionId \<times> EndpointId) option"
  members :: "member \<Rightarrow> (string \<times> bool) option"

datatype room_event = Issue string SessionId EndpointId | Admit string member | Key member | Leave member

definition empty_room :: room where
  "empty_room = \<lparr>tickets = Map.empty, members = Map.empty\<rparr>"

inductive room_step :: "room_event \<Rightarrow> room \<Rightarrow> room \<Rightarrow> bool" where
  issue: "room_step (Issue name sid eid) a (a\<lparr>tickets := (tickets a)(name \<mapsto> (sid, eid))\<rparr>)"
| admit: "room_step (Admit name (sid, eid, ft)) a (a\<lparr>members := (members a)((sid, eid, ft) \<mapsto> (name, False))\<rparr>)"
    if "tickets a name = Some (sid, eid)" "members a (sid, eid, ft) = None"
| key: "room_step (Key m) a (a\<lparr>members := (members a)(m \<mapsto> (name, True))\<rparr>)"
    if "members a m = Some (name, keyed)"
| leave: "room_step (Leave m) a (a\<lparr>tickets := (tickets a)(name := None), members := (members a)(m := None)\<rparr>)"
    if "members a m = Some (name, keyed)"

inductive_cases room_step_cases: "room_step e a b"

text \<open>The courses of events.\<close>

inductive room_run :: "room \<Rightarrow> room_event list \<Rightarrow> room \<Rightarrow> bool" where
  none: "room_run a [] a"
| more: "room_run a (e # es) c" if "room_step e a b" "room_run b es c"

inductive_simps room_run_Nil [simp]: "room_run a [] b"
inductive_simps room_run_Cons: "room_run a (e # es) b"

lemma room_run_one: "room_step e a b \<Longrightarrow> room_run a [e] b"
  by (auto simp: room_run_Cons)

lemma room_run_append: "room_run a (es @ fs) c \<longleftrightarrow> (\<exists>b. room_run a es b \<and> room_run b fs c)"
  by (induction es arbitrary: a) (auto simp: room_run_Cons)

section \<open>What holds in every room\<close>

text \<open>The member that an event is about.\<close>

fun event_member :: "room_event \<Rightarrow> member option" where
  "event_member (Issue _ _ _) = None"
| "event_member (Admit _ m) = Some m"
| "event_member (Key m) = Some m"
| "event_member (Leave m) = Some m"

lemma room_step_other: "room_step e a b \<Longrightarrow> event_member e \<noteq> Some m \<Longrightarrow> members b m = members a m"
  by (auto elim!: room_step_cases)

lemma room_run_other: "room_run a es b \<Longrightarrow> \<forall>e\<in>set es. event_member e \<noteq> Some m \<Longrightarrow> members b m = members a m"
  by (induction rule: room_run.induct) (auto simp: room_step_other)

text \<open>Tickets that are in force have been issued.\<close>

lemma room_step_ticket:
  "room_step e a b \<Longrightarrow> tickets b name = Some (sid, eid) \<Longrightarrow> tickets a name = Some (sid, eid) \<or> e = Issue name sid eid"
  by (auto elim!: room_step_cases split: if_splits)

lemma room_run_ticket:
  "room_run a es b \<Longrightarrow> tickets b name = Some (sid, eid) \<Longrightarrow> tickets a name = Some (sid, eid) \<or> Issue name sid eid \<in> set es"
  by (induction rule: room_run.induct) (auto dest: room_step_ticket)

text \<open>Members enter by their ticket and without keys, and stay under the name they entered with until they leave.\<close>

lemma room_step_member:
  assumes "room_step e a b" "members b m = Some (name, keyed)"
  shows "(\<exists>k. members a m = Some (name, k) \<and> (keyed \<longrightarrow> k \<or> e = Key m)) \<or>
    e = Admit name m \<and> \<not> keyed \<and> tickets a name = Some (fst m, fst (snd m))"
  using assms by (auto elim!: room_step_cases split: if_splits)

lemma room_run_snoc: "room_run a (es @ [e]) c \<longleftrightarrow> (\<exists>b. room_run a es b \<and> room_step e b c)"
  by (auto simp: room_run_append room_run_Cons)

text \<open>Every member of a room that began empty was issued a ticket, and then admitted with it; its keys came after that.\<close>

lemma member_history:
  assumes "room_run empty_room es b" "members b (sid, eid, ft) = Some (name, keyed)"
  shows "\<exists>es1 es2. es = es1 @ Admit name (sid, eid, ft) # es2 \<and> Issue name sid eid \<in> set es1 \<and>
    (keyed \<longrightarrow> Key (sid, eid, ft) \<in> set es2)"
  using assms
proof (induction es arbitrary: b keyed rule: rev_induct)
  case Nil
  then show ?case by (simp add: empty_room_def)
next
  case (snoc e es)
  then obtain c where c: "room_run empty_room es c" "room_step e c b" by (auto simp: room_run_snoc)
  from room_step_member[OF c(2) snoc.prems(2)] show ?case
  proof (elim disjE exE conjE)
    fix k assume k: "members c (sid, eid, ft) = Some (name, k)" "keyed \<longrightarrow> k \<or> e = Key (sid, eid, ft)"
    from snoc.IH[OF c(1) k(1)] obtain es1 es2 where h: "es = es1 @ Admit name (sid, eid, ft) # es2"
      "Issue name sid eid \<in> set es1" "k \<longrightarrow> Key (sid, eid, ft) \<in> set es2" by blast
    have "es @ [e] = es1 @ Admit name (sid, eid, ft) # es2 @ [e]" "keyed \<longrightarrow> Key (sid, eid, ft) \<in> set (es2 @ [e])"
      using h k(2) by auto
    then show ?case using h(2) by blast
  next
    assume a: "e = Admit name (sid, eid, ft)" "\<not> keyed" "tickets c name = Some (fst (sid, eid, ft), fst (snd (sid, eid, ft)))"
    then have "Issue name sid eid \<in> set es" using room_run_ticket[OF c(1)] by (auto simp: empty_room_def)
    moreover have "es @ [e] = es @ Admit name (sid, eid, ft) # []" using a(1) by simp
    ultimately show ?case using a(2) by blast
  qed
qed

end
