(* ===== verification/Room_Refinement.thy ===== *)
theory Room_Refinement
  imports Pipeline_Steps Channels Room
begin

text \<open>
  The server implements a room. The tickets of the room are the candidates that the server keeps, its members are the
  transports, under the user names of their candidates; a member has keys when its transport has an SRTP context for
  outgoing media. Every call of every handler is a course of events of the room, in most cases of no events at all.
\<close>

section \<open>The abstraction\<close>

definition badge :: "Transport \<Rightarrow> string \<times> bool" where
  "badge t = (username (tr_candidate t), is_local_srtp_context_ready t)"

definition room_of :: "ServerStates \<Rightarrow> room" where
  "room_of self =
     \<lparr>tickets = (\<lambda>u. map_option (\<lambda>c. (cand_session_id c, cand_endpoint_id c)) (find_candidate u self)),
      members = (\<lambda>(sid, eid, ft). map_option badge (transport_at sid eid ft self))\<rparr>"

lemma members_room_of [simp]: "members (room_of self) (sid, eid, ft) = map_option badge (transport_at sid eid ft self)"
  by (simp add: room_of_def)

lemma tickets_room_of [simp]:
  "tickets (room_of self) u = map_option (\<lambda>c. (cand_session_id c, cand_endpoint_id c)) (find_candidate u self)"
  by (simp add: room_of_def)

lemma room_eqI:
  assumes "\<And>u. tickets a u = tickets b u" "\<And>i e f. members a (i, e, f) = members b (i, e, f)"
  shows "(a :: room) = b"
  using assms by (cases a; cases b) (auto simp: fun_eq_iff)

text \<open>A change of the states that is a course of events of a kind.\<close>

definition follows :: "(room_event \<Rightarrow> bool) \<Rightarrow> ServerStates \<Rightarrow> ServerStates \<Rightarrow> bool" where
  "follows P self self' \<longleftrightarrow> (\<exists>es. list_all P es \<and> room_run (room_of self) es (room_of self'))"

lemma follows_refl [simp, intro]: "follows P self self"
  by (auto simp: follows_def intro: exI[of _ "[]"])

lemma follows_trans [trans]: "follows P s1 s2 \<Longrightarrow> follows P s2 s3 \<Longrightarrow> follows P s1 s3"
  unfolding follows_def by (metis list_all_append room_run_append)

lemma follows_mono: "follows P self self' \<Longrightarrow> (\<And>e. P e \<Longrightarrow> Q e) \<Longrightarrow> follows Q self self'"
  unfolding follows_def by (metis list.pred_mono_strong)

lemma follows_one: "P e \<Longrightarrow> room_step e (room_of self) (room_of self') \<Longrightarrow> follows P self self'"
  unfolding follows_def by (intro exI[of _ "[e]"]) (simp add: room_run_one)

text \<open>A change that a room does not notice.\<close>

definition quiet :: "ServerStates \<Rightarrow> ServerStates \<Rightarrow> bool" where
  "quiet self self' \<longleftrightarrow> room_of self' = room_of self"

lemma quiet_follows: "quiet self self' \<Longrightarrow> follows P self self'"
  unfolding quiet_def follows_def by (intro exI[of _ "[]"]) simp

lemma quietI:
  assumes "\<And>i e f. map_option badge (transport_at i e f self') = map_option badge (transport_at i e f self)"
    "candidates self' = candidates self"
  shows "quiet self self'"
  unfolding quiet_def using assms by (intro room_eqI) (simp_all add: find_candidate_def)

lemma quiet_refl [simp, intro]: "quiet self self"
  by (simp add: quiet_def)

lemma quiet_trans [trans]: "quiet s1 s2 \<Longrightarrow> quiet s2 s3 \<Longrightarrow> quiet s1 s3"
  by (simp add: quiet_def)

section \<open>Changes to transports\<close>

lemma candidates_put [simp]:
  "candidates (states_modify_endpoint sid eid f self) = candidates self" "candidates (put_transport sid eid ft t self) = candidates self"
  "candidates (put_session sid s self) = candidates self" "candidates (states_add_endpoint ft sid eid self) = candidates self"
  "candidates (with_metrics g self) = candidates self"
  by (simp_all add: states_modify_endpoint_def put_transport_def put_session_def states_add_endpoint_def with_metrics_def)

lemma quiet_put_transport:
  assumes "states_get_transport ft self = Ok (sid, eid, t)" "badge t' = badge t"
  shows "quiet self (put_transport sid eid ft t' self)"
  using assms get_transport_find[OF assms(1)] by (intro quietI) (auto simp: transport_at_put_transport[OF assms(1)])

lemma quiet_modify_transport:
  assumes "\<And>t. transport_at sid eid ft self = Some t \<Longrightarrow> badge (g t) = badge t"
  shows "quiet self (states_modify_endpoint sid eid (modify_transport ft g) self)"
  using assms by (intro quietI) (auto simp: transport_at_modify option.map_comp comp_def intro!: map_option_cong)

lemma quiet_modify_endpoint:
  assumes "\<And>ep. transports (g ep) = transports ep"
  shows "quiet self (states_modify_endpoint sid eid g self)"
proof (rule quietI)
  show "map_option badge (transport_at i e f (states_modify_endpoint sid eid g self)) = map_option badge (transport_at i e f self)" for i e f
    using assms by (cases "endpoint_at i e self") (auto simp: transport_at_def endpoint_at_modify)
qed simp

lemma quiet_put_session:
  assumes "get_session sid self = Some s" "transports_kept s s'"
  shows "quiet self (put_session sid s' self)"
  using put_kept[OF assms] by (intro quietI) simp_all

lemma traverse_badge:
  assumes "traverse f m = Some (es, m')" "\<And>v e v'. f v = Some (e, v') \<Longrightarrow> view v' = view v"
  shows "map_option view (hm_get m' k) = map_option view (hm_get m k)"
  using traverse_get[OF assms(1), of k] assms(2) by (auto split: option.splits)

lemma quiet_walk:
  assumes "walk_transports f self = Some (es, self')" "\<And>t e t'. f t = Some (e, t') \<Longrightarrow> badge t' = badge t"
  shows "quiet self self'"
proof -
  let ?ep = "\<lambda>ep ft. map_option badge (hm_get (transports ep) ft)"
  let ?s = "\<lambda>s e ft. Option.bind (hm_get (endpoints s) e) (\<lambda>ep. map_option badge (hm_get (transports ep) ft))"
  have 1: "?ep ep' = ?ep ep" if "walk_endpoint f ep = Some (es, ep')" for ep ep' es
    using that traverse_badge[of f _ _ _ badge] assms(2) by (fastforce simp: walk_endpoint_def)
  have 2: "?s s' = ?s s" if w: "walk_session f s = Some (es, s')" for s s' es
  proof (intro ext)
    fix e ft
    obtain eps where eps: "traverse (walk_endpoint f) (endpoints s) = Some (es, eps)" "s' = s\<lparr>endpoints := eps\<rparr>"
      using w by (auto simp: walk_session_def)
    from traverse_badge[OF eps(1), of ?ep e] 1 show "?s s' e ft = ?s s e ft"
      by (cases "hm_get (endpoints s) e"; cases "hm_get eps e") (auto simp: eps(2) dest: fun_cong)
  qed
  obtain ss where ss: "traverse (walk_session f) (sessions self) = Some (es, ss)" "self' = self\<lparr>sessions := ss\<rparr>"
    using assms(1) by (auto simp: walk_transports_def)
  show ?thesis
  proof (rule quietI)
    fix i e ft
    have at: "map_option badge (transport_at i e ft st) = Option.bind (hm_get (sessions st) i) (\<lambda>s. ?s s e ft)" for st
      by (auto simp: transport_at_def endpoint_at_def get_session_def get_endpoint_def split: option.splits bind_splits)
    from traverse_badge[OF ss(1), of ?s i] 2 show "map_option badge (transport_at i e ft self') = map_option badge (transport_at i e ft self)"
      unfolding at by (cases "hm_get (sessions self) i"; cases "hm_get ss i") (auto simp: ss(2) dest!: fun_cong)
  qed (simp add: ss(2))
qed

section \<open>Events that the room notices\<close>

fun by_peer :: "FourTuple \<Rightarrow> room_event \<Rightarrow> bool" where
  "by_peer ft (Issue _ _ _) = True"
| "by_peer ft (Admit _ (_, _, f)) = (f = ft)"
| "by_peer ft (Key (_, _, f)) = (f = ft)"
| "by_peer ft (Leave (_, _, f)) = (f = ft)"

fun is_leave :: "room_event \<Rightarrow> bool" where
  "is_leave (Leave _) = True"
| "is_leave _ = False"

fun issues_for :: "SessionId \<Rightarrow> EndpointId \<Rightarrow> room_event \<Rightarrow> bool" where
  "issues_for sid eid (Issue _ i e) = (i = sid \<and> e = eid)"
| "issues_for sid eid _ = False"

lemma remove_candidates:
  "find_endpoint ft self = Some (sid, eid) \<Longrightarrow> find_candidate u (states_remove_transport ft self) =
     (if map_option (\<lambda>t. username (tr_candidate t)) (transport_at sid eid ft self) = Some u then None else find_candidate u self)"
  by (cases "endpoint_at sid eid self") (simp_all add: remove_transport_view(3) remove_transport_nothing transport_at_def)

lemma follows_remove: "follows (\<lambda>e. is_leave e \<and> by_peer ft e) self (states_remove_transport ft self)"
proof (cases "\<exists>sid eid t. find_endpoint ft self = Some (sid, eid) \<and> transport_at sid eid ft self = Some t")
  case True
  then obtain sid eid t where t: "find_endpoint ft self = Some (sid, eid)" "transport_at sid eid ft self = Some t" by blast
  have "room_of (states_remove_transport ft self) = (room_of self)
      \<lparr>tickets := (tickets (room_of self))(fst (badge t) := None), members := (members (room_of self))((sid, eid, ft) := None)\<rparr>"
    using t by (intro room_eqI) (auto simp: remove_candidates remove_transport_at badge_def)
  moreover have "members (room_of self) (sid, eid, ft) = Some (fst (badge t), snd (badge t))" using t(2) by simp
  ultimately have "room_step (Leave (sid, eid, ft)) (room_of self) (room_of (states_remove_transport ft self))"
    using room_step.leave by metis
  then show ?thesis by (intro follows_one[of _ "Leave (sid, eid, ft)"]) simp_all
next
  case False
  then have "room_of (states_remove_transport ft self) = room_of self"
    by (cases "find_endpoint ft self") (auto intro!: room_eqI simp: remove_candidates remove_transport_at remove_transport_nothing)
  then show ?thesis by (intro quiet_follows) (simp add: quiet_def)
qed

lemma follows_fold_remove: "follows is_leave self (fold states_remove_transport fts self)"
proof (induction fts arbitrary: self)
  case (Cons ft fts)
  have "follows is_leave self (states_remove_transport ft self)" using follows_remove by (rule follows_mono) simp
  then show ?case using Cons follows_trans by fastforce
qed simp

lemma follows_key:
  assumes "states_get_transport ft self = Ok (sid, eid, t)" "fst (badge t') = fst (badge t)" "snd (badge t')"
  shows "follows (by_peer ft) self (put_transport sid eid ft t' self)"
proof (rule follows_one)
  have "room_of (put_transport sid eid ft t' self) =
      (room_of self)\<lparr>members := (members (room_of self))((sid, eid, ft) \<mapsto> (fst (badge t), True))\<rparr>"
    using assms(2,3) by (intro room_eqI) (auto simp: transport_at_put_transport[OF assms(1)] find_candidate_def prod_eq_iff)
  moreover have "members (room_of self) (sid, eid, ft) = Some (fst (badge t), snd (badge t))"
    using get_transport_find[OF assms(1)] by simp
  ultimately show "room_step (Key (sid, eid, ft)) (room_of self) (room_of (put_transport sid eid ft t' self))"
    using room_step.key by metis
qed simp

lemma follows_accept_offer:
  assumes "accept_offer L sha256 jsep b64 user pwd now sid eid ft offer self = (r, self')"
  shows "follows (issues_for sid eid) self self'"
proof (cases "candidates self' = candidates self")
  case True
  then show ?thesis using accept_offer_transports[OF assms] by (intro quiet_follows quietI) simp_all
next
  case False
  obtain s self1 where c: "create_or_get_mut_session sid self = (s, self1)" by fastforce
  obtain cand where cand: "candidates self' = hm_insert (username cand) cand (candidates self)" "cand_session_id cand = sid" "cand_endpoint_id cand = eid"
    using assms False create_session_view(2)[OF c] c
    by (auto simp: accept_offer_def Let_def add_candidate_def candidate_new_def case_prod_beta split: sum.splits list.splits if_splits)
  have "room_of self' = (room_of self)\<lparr>tickets := (tickets (room_of self))(username cand \<mapsto> (sid, eid))\<rparr>"
    using accept_offer_transports[OF assms] cand by (intro room_eqI) (simp_all add: find_candidate_def)
  then show ?thesis using room_step.issue by (intro follows_one[of _ "Issue (username cand) sid eid"]) simp_all
qed

lemma add_endpoint_candidates: "gateway_add_endpoint E R request c tc self = (r, self') \<Longrightarrow> candidates self' = candidates self"
  by (auto simp: gateway_add_endpoint_def Let_def split: option.splits if_splits prod.splits sum.splits)

lemma session_transport_badge [simp]: "badge (session_transport T now c ft s) = (username c, False)"
  by (simp add: badge_def session_transport_def transport_new_def is_local_srtp_context_ready_def Let_def)

lemma follows_add_endpoint:
  assumes "gateway_add_endpoint E R request c tc self = (r, self')" "find_candidate (username c) self = Some c"
  shows "follows (by_peer (four_tuple_from tc)) self self'"
proof (cases "self' = self")
  case False
  let ?ft = "four_tuple_from tc" and ?i = "cand_session_id c" and ?e = "cand_endpoint_id c"
  note view = add_endpoint_view[OF assms(1)]
  have "map_option badge (transport_at i e f self') =
      (if (i, e, f) = (?i, ?e, ?ft) then Some (username c, False) else map_option badge (transport_at i e f self))" for i e f
    using view[of f i e] False by auto
  then have "room_of self' = (room_of self)\<lparr>members := (members (room_of self))((?i, ?e, ?ft) \<mapsto> (username c, False))\<rparr>"
    by (intro room_eqI) (simp_all add: find_candidate_def add_endpoint_candidates[OF assms(1)])
  moreover have "tickets (room_of self) (username c) = Some (?i, ?e)" "members (room_of self) (?i, ?e, ?ft) = None"
    using assms(2) view False by simp_all
  ultimately show ?thesis using room_step.admit by (intro follows_one[of _ "Admit (username c) (?i, ?e, ?ft)"]) simp_all
qed simp

lemma follows_stun:
  assumes "handle_stun_message E R now tc request self = (r, self')" "states_wf d self"
  shows "follows (by_peer (four_tuple_from tc)) self self'"
proof -
  obtain k request1 where chk: "check_stun_message (env_stun E) self request = (k, request1)" by fastforce
  consider c where "k = Ok (Some c)" | "self' = self"
    using assms chk by (auto simp: handle_stun_message_def split: sum.splits option.splits)
  then show ?thesis
  proof cases
    case (1 c)
    obtain r1 self1 where add: "gateway_add_endpoint E R request1 c tc self = (r1, self1)" by fastforce
    have "self' = self1" using assms chk 1 add by (auto simp: handle_stun_message_def split: sum.splits)
    moreover obtain name where "find_candidate name self = Some c"
      using chk[unfolded 1] by (auto simp: check_stun_message_def authenticate_def Let_def split: option.splits if_splits prod.splits sum.splits)
    then have "find_candidate (username c) self = Some c" using assms(2) by (auto simp: states_wf_def)
    ultimately show ?thesis using follows_add_endpoint[OF add] by simp
  qed simp
qed

section \<open>The protocol handlers\<close>

lemma badge_updates [simp]:
  "badge (t\<lparr>tr_dtls_endpoint := ep\<rparr>) = badge t" "badge (t\<lparr>tr_sctp_endpoint := sep\<rparr>) = badge t"
  "badge (t\<lparr>sctp_associations := as\<rparr>) = badge t" "badge (set_remote_srtp_context c t) = badge t"
  "badge (keep_alive now t) = badge t" "badge (set_association_handle_and_stream_id h s t) = badge t"
  by (simp_all add: badge_def is_local_srtp_context_ready_def set_remote_srtp_context_def keep_alive_def
      set_association_handle_and_stream_id_def)

lemma badge_end_associations [simp]: "badge (end_associations S events t) = badge t"
  by (induction events arbitrary: t) (auto simp: end_associations_def)

lemma badge_set_local: "badge (set_local_srtp_context c t) = (username (tr_candidate t), True)"
  by (simp add: badge_def set_local_srtp_context_def is_local_srtp_context_ready_def)

lemma badge_contexts: "badge (set_srtp_contexts cs t) = (if cs = [] then badge t else (username (tr_candidate t), True))"
proof (induction cs arbitrary: t)
  case (Cons c cs)
  have "tr_candidate (set_remote_srtp_context a (set_local_srtp_context b t)) = tr_candidate t" for a b
    by (simp add: set_remote_srtp_context_def set_local_srtp_context_def)
  with Cons show ?case by (auto simp: set_srtp_contexts_def badge_set_local split: prod.splits)
qed (simp add: set_srtp_contexts_def)

lemma follows_dtls_try_read:
  assumes "dtls_try_read D msg m h self = Some (r, h', self')"
  shows "follows (by_peer (four_tuple_from (msg_transport msg))) self self'"
proof -
  have "follows (by_peer ft) self (put_transport sid eid ft (set_srtp_contexts cs (t\<lparr>tr_dtls_endpoint := ep\<rparr>)) self)"
    if "states_get_transport ft self = Ok (sid, eid, t)" for sid eid ft t cs ep
  proof (cases "cs = []")
    case True
    then show ?thesis using quiet_follows[OF quiet_put_transport[OF that]] by (simp add: badge_contexts)
  next
    case False
    then show ?thesis using follows_key[OF that, of "set_srtp_contexts cs (t\<lparr>tr_dtls_endpoint := ep\<rparr>)"]
      by (simp add: badge_contexts) (simp add: badge_def)
  qed
  moreover note quiet_follows[OF quiet_put_transport]
  ultimately show ?thesis using assms
    by (auto simp: dtls_try_read_def Let_def split: sum.splits prod.splits option.splits)
qed

lemma follows_dtls_read:
  assumes "dtls_handle_read D msg h self = Some (calls, h', self')"
  shows "follows (by_peer (four_tuple_from (msg_transport msg))) self self'"
proof (cases "\<exists>m. msg_message msg = Dtls (DtlsRaw m)")
  case True
  let ?ft = "four_tuple_from (msg_transport msg)"
  obtain m r h1 self1 where m: "msg_message msg = Dtls (DtlsRaw m)" and r: "dtls_try_read D msg m h self = Some (r, h1, self1)"
    using True assms by (auto simp: dtls_handle_read_def)
  then have "self' = self1 \<or> self' = states_remove_transport ?ft self1"
    using assms by (auto simp: dtls_handle_read_def split: sum.splits if_splits)
  moreover have "follows (by_peer ?ft) self1 (states_remove_transport ?ft self1)" using follows_remove by (rule follows_mono) simp
  ultimately show ?thesis using follows_dtls_try_read[OF r] follows_trans by blast
next
  case False
  then show ?thesis using assms
    by (auto simp: dtls_handle_read_def split: MessageEvent.splits DTLSMessageEvent.splits)
qed

lemma quiet_dtls_timeout: "dtls_handler_timeout D now h self = Some (calls, h', self') \<Longrightarrow> quiet self self'"
  by (auto simp: dtls_handler_timeout_def dtls_timeout_transport_def Let_def elim!: quiet_walk)

lemma quiet_dtls_write:
  assumes "dtls_poll_write D polled h self = Some (calls, m, h', self')"
  shows "quiet self self'"
proof -
  have "quiet self self'" if "dtls_try_write D tc b h self = Some (r, h1, self')" for tc b r h1
    using that by (auto simp: dtls_try_write_def Let_def intro!: quiet_put_transport split: sum.split_asm prod.split_asm)
  then show ?thesis using dtls_poll_write_states[OF assms] by auto
qed

lemma quiet_sctp_try_read: "sctp_try_read S msg m h self = Some (r, h', self') \<Longrightarrow> quiet self self'"
  by (erule sctp_try_read_cases) (auto simp: badge_def is_local_srtp_context_ready_def intro!: quiet_put_transport)

lemma quiet_sctp_read: 
  assumes "sctp_handle_read S msg h self = Some (calls, h', self')"
  shows "quiet self self'"
proof (cases "\<exists>m. msg_message msg = Dtls (DtlsRaw m)")
  case True
  then obtain m r h1 self1 where "msg_message msg = Dtls (DtlsRaw m)" and r: "sctp_try_read S msg m h self = Some (r, h1, self1)"
    using assms by (auto simp: sctp_handle_read_def)
  then have "self1 = self'" using assms by (auto simp: sctp_handle_read_def split: sum.splits)
  then show ?thesis using quiet_sctp_try_read[OF r] by simp
next
  case False
  then show ?thesis using assms
    by (auto simp: sctp_handle_read_def split: MessageEvent.splits DTLSMessageEvent.splits)
qed

lemma quiet_sctp_timeout: "sctp_handler_timeout S now h self = Some (calls, h', self') \<Longrightarrow> quiet self self'"
  by (auto simp: sctp_handler_timeout_def sctp_timeout_transport_def elim!: quiet_walk)

lemma quiet_sctp_write:
  assumes "sctp_poll_write S polled h self = Some (calls, m, h', self')"
  shows "quiet self self'"
proof -
  have "quiet self self'" if "sctp_try_write S msg b self = Some (r, self')" for msg b r
    using that by (auto simp: sctp_try_write_def Let_def intro!: quiet_put_transport
        split: if_split_asm sum.split_asm prod.split_asm option.split_asm)
  then show ?thesis using sctp_poll_write_states[OF assms] by auto
qed

lemma quiet_with_metrics [simp]: "quiet self' (with_metrics g self) = quiet self' self"
  by (simp add: quiet_def room_of_def find_candidate_def)

lemma quiet_contexts:
  "quiet self (put_remote_context sid eid ft c self)"
  "states_get_transport ft self = Ok (sid, eid, t) \<Longrightarrow> local_srtp_context t \<noteq> None \<Longrightarrow> quiet self (put_local_context sid eid ft c self)"
proof -
  show "quiet self (put_remote_context sid eid ft c self)"
    unfolding put_remote_context_def by (rule quiet_modify_transport) simp
  show "quiet self (put_local_context sid eid ft c self)"
    if "states_get_transport ft self = Ok (sid, eid, t)" "local_srtp_context t \<noteq> None"
    unfolding put_local_context_def using that get_transport_find[OF that(1)]
    by (intro quiet_modify_transport, unfold badge_set_local) (auto simp: badge_def is_local_srtp_context_ready_def)
qed

lemma quiet_srtp_read: "srtp_handle_read L msg self = (calls, self') \<Longrightarrow> quiet self self'"
  using quiet_contexts(1)
  by (auto simp: srtp_handle_read_def srtp_try_read_def case_prod_beta Let_def
      split: MessageEvent.splits RTPMessageEvent.splits sum.splits option.splits if_splits prod.splits)

lemma quiet_srtp_try_write: "quiet self (snd (srtp_try_write L now sent ft message self))"
  using quiet_contexts(2)
  by (auto simp: srtp_try_write_def encrypt_with_def case_prod_beta Let_def split: RTPMessageEvent.splits sum.splits option.splits)

lemma quiet_srtp_write: "srtp_poll_write L now polled self = (calls, m, self') \<Longrightarrow> quiet self self'"
  using quiet_srtp_try_write[of self L now]
  by (auto simp: srtp_poll_write_def split: option.splits MessageEvent.splits prod.splits sum.splits) (metis snd_conv)+

lemma quiet_intercept: "quiet self (snd (endpoint_intercept f ft self))"
  by (auto simp: endpoint_intercept_def case_prod_beta Let_def split: sum.splits intro!: quiet_modify_endpoint)

lemma quiet_interceptor_read: "interceptor_handler_read pt msg q self = (calls, q', self') \<Longrightarrow> quiet self self'"
  using quiet_intercept[of self "interceptor_read pt msg" "four_tuple_from (msg_transport msg)"]
  by (auto simp: interceptor_handler_read_def case_prod_beta Let_def split: if_splits MessageEvent.splits RTPMessageEvent.splits)

lemma quiet_interceptor_write: "interceptor_handler_poll_write polled q self = (calls, m, q', self') \<Longrightarrow> quiet self self'"
  using quiet_intercept[of self "interceptor_write (the polled)" "four_tuple_from (msg_transport (the polled))"]
  by (auto simp: interceptor_handler_poll_write_def case_prod_beta Let_def split: option.splits if_splits prod.splits sum.splits)

lemma quiet_interceptor_timeout:
  assumes "interceptor_handler_timeout now q self = (calls, q', self')"
  shows "quiet self self'"
proof -
  have "self' = snd (interceptors_timeout now self)"
    using assms by (auto simp: interceptor_handler_timeout_def case_prod_beta Let_def)
  then show ?thesis
    by (intro quietI) (auto simp: interceptors_timeout_def timeout_endpoint_def case_prod_beta Let_def transport_at_def endpoint_at_def
        get_session_def get_endpoint_def split: bind_splits)
qed

section \<open>The gateway\<close>

lemma session_of_get: "session_of tc self = Ok (sid, eid, s) \<Longrightarrow> get_session sid self = Some s"
  by (auto simp: session_of_def result_simps)

lemma quiet_offer_event:
  assumes "create_offer_message_event E jsep now tc h s self = (r, self')"
  shows "quiet self self'"
proof -
  have kept: "transports_kept session (modify_endpoint eid (set_renegotiation_needed False) session)" for session eid
    by (rule transports_kept_modify) (simp_all add: set_renegotiation_needed_def)
  then have "transports_kept session (snd (session_set_local_description eid offer (modify_endpoint eid (set_renegotiation_needed False) session)))"
    for session eid offer using transports_kept_trans transports_kept_local by blast
  with kept show ?thesis using assms quiet_put_session[OF session_of_get]
    by (auto simp: create_offer_message_event_def Let_def split: prod.splits sum.splits option.splits) (metis snd_conv)+
qed

lemma quiet_offer_to_peers: "offer_to_peers E jsep now i peers self = (r, self') \<Longrightarrow> quiet self self'"
proof (induction E jsep now i peers self arbitrary: r self' rule: offer_to_peers.induct)
  case (2 E jsep now i tc h s needed peers self)
  obtain r1 self1 where 1: "create_offer_message_event E (jsep i) now tc h s self = (r1, self1)" by fastforce
  with 2 show ?case using quiet_offer_event[OF 1] by (auto split: if_splits sum.splits prod.splits intro: quiet_trans)
qed simp

lemma open_channel_transports:
  "transports (open_channel ft h s new ep) = hm_modify ft (set_association_handle_and_stream_id h s) (transports ep)"
proof -
  have "transports (fold add_own_transceiver new e) = transports e" for e
    by (induction new arbitrary: e) (simp_all add: add_own_transceiver_def)
  then show ?thesis by (simp add: open_channel_def set_renegotiation_needed_def modify_transport_def)
qed

lemma quiet_open:
  assumes "handle_datachannel_open E R now tc h s self = (r, self')"
  shows "quiet self self'"
proof -
  have put: "quiet self (put_session sid (modify_endpoint eid (\<lambda>_. open_channel ft h s new ep) session) self)"
    if "session_of tc self = Ok (sid, eid, session)" "get_endpoint eid session = Some ep" for sid eid session ep ft new
  proof (rule quietI)
    fix i e f
    show "map_option badge (transport_at i e f (put_session sid (modify_endpoint eid (\<lambda>_. open_channel ft h s new ep) session) self)) =
        map_option badge (transport_at i e f self)"
      using that(2) transport_at_in[OF session_of_get[OF that(1)]]
      by (cases "get_endpoint e session")
        (auto simp: transport_at_put transport_in_def open_channel_transports option.map_comp comp_def split: option.splits)
  qed simp
  show ?thesis using assms put quiet_trans[OF put quiet_offer_event]
    by (auto simp: handle_datachannel_open_def Let_def split: prod.splits sum.splits option.splits if_splits)
qed

lemma quiet_accept_answer:
  assumes "accept_answer L sid eid ft answer self = (r, self')"
  shows "quiet self self'"
proof -
  obtain s self1 where c: "create_or_get_mut_session sid self = (s, self1)" by fastforce
  note view = create_session_view[OF c]
  have "quiet self self1" using view by (intro quietI) (simp_all add: transport_at_def)
  moreover have "quiet self1 (put_session sid (snd (session_set_remote_description L eid x s)) self1)" for x
    using view(4) by (intro quiet_put_session[OF _ transports_kept_remote]) simp
  ultimately show ?thesis using assms c quiet_trans
    by (auto simp: accept_answer_def Let_def case_prod_beta split: sum.splits if_splits)
qed

lemma follows_offer:
  assumes "handle_offer_message E R now tc h s sid eid request self = (r, self')"
  shows "follows (by_peer ft) self self'"
proof -
  obtain r1 self1 where 1: "accept_offer (env_sdp E) (env_sha256 E) (rd_jsep R 0) (env_b64 E) (rd_user R) (rd_pwd R) (rd_now R)
      sid eid (Some (four_tuple_from tc)) request self = (r1, self1)" by fastforce
  have "by_peer ft e" if "issues_for sid eid e" for e using that by (cases e) simp_all
  then have "follows (by_peer ft) self self1" using follows_accept_offer[OF 1] follows_mono by blast
  moreover have "quiet self1 self'" using assms 1 quiet_offer_to_peers
    by (auto simp: handle_offer_message_def split: prod.split_asm sum.split_asm)
  ultimately show ?thesis using quiet_follows follows_trans by blast
qed

lemma follows_message:
  assumes "handle_datachannel_message E R now tc h s payload self = (r, self')"
  shows "follows (by_peer ft) self self'"
  using assms follows_offer quiet_follows[OF quiet_accept_answer]
  by (auto simp: handle_datachannel_message_def split: prod.split_asm sum.split_asm RTCSdpType.split_asm)

lemma quiet_forward_media: "forward_media R now tc ev self = (r, self') \<Longrightarrow> quiet self self'"
  by (auto simp: forward_media_def get_mut_transport_def intro!: quiet_modify_transport split: prod.splits sum.splits)

lemma follows_try_read:
  assumes "gateway_try_read E R msg self = (r, self')" "states_wf d self"
  shows "follows (by_peer (four_tuple_from (msg_transport msg))) self self'"
  using assms(1) follows_stun[OF _ assms(2)] quiet_follows[OF quiet_open] follows_message quiet_follows[OF quiet_forward_media]
  by (auto simp: gateway_try_read_def handle_rtp_message_def handle_rtcp_message_def handle_dtls_message_def handle_datachannel_close_def
      split: MessageEvent.splits STUNMessageEvent.splits DTLSMessageEvent.splits RTPMessageEvent.splits DataChannelEvent.splits)

lemma follows_gateway_read:
  "gateway_handle_read E R msg h self = (calls, h', self') \<Longrightarrow> states_wf d self \<Longrightarrow>
   follows (by_peer (four_tuple_from (msg_transport msg))) self self'"
  by (auto simp: gateway_handle_read_def dest: follows_try_read split: prod.splits sum.splits)

lemma follows_gateway_timeout: "gateway_handle_timeout now h self = (h', self') \<Longrightarrow> follows is_leave self self'"
  by (auto simp: gateway_handle_timeout_def follows_fold_remove split: if_splits)

end
