(* ===== verification/Room_Server.thy ===== *)
theory Room_Server
  imports Room_Refinement
begin

text \<open>
  The whole pipeline refines a room. What a datagram does to the states, through all the handlers that read it, is a
  course of events about its sender; every state that the server can reach is the end of a course of events that began
  in the empty room.
\<close>

section \<open>A datagram keeps its sender\<close>

lemma demuxer_sender: "FireRead m \<in> set (demuxer_handle_read dg) \<Longrightarrow> msg_transport m = raw_transport dg"
  by (auto simp: demuxer_handle_read_def split: if_splits)

lemma stun_sender: "FireRead m \<in> set (stun_handle_read S msg) \<Longrightarrow> msg_transport m = msg_transport msg"
  by (auto simp: stun_handle_read_def split: MessageEvent.splits STUNMessageEvent.splits sum.splits)

lemma dtls_sender:
  assumes "dtls_handle_read D msg h self = Some (calls, h', self')" "FireRead m \<in> set calls"
  shows "msg_transport m = msg_transport msg"
proof (cases "\<exists>b. msg_message msg = Dtls (DtlsRaw b)")
  case True
  then obtain b r h1 self1 where "msg_message msg = Dtls (DtlsRaw b)" "dtls_try_read D msg b h self = Some (r, h1, self1)"
    using assms(1) by (auto simp: dtls_handle_read_def)
  then show ?thesis using assms by (cases r) (auto simp: dtls_handle_read_def split: if_splits)
next
  case False
  then show ?thesis using assms by (auto simp: dtls_handle_read_def split: MessageEvent.splits DTLSMessageEvent.splits)
qed

lemma sctp_sender:
  assumes "sctp_handle_read S msg h self = Some (calls, h', self')" "FireRead m \<in> set calls"
  shows "msg_transport m = msg_transport msg"
proof (cases "\<exists>b. msg_message msg = Dtls (DtlsRaw b)")
  case True
  then obtain b r h1 self1 where "msg_message msg = Dtls (DtlsRaw b)" "sctp_try_read S msg b h self = Some (r, h1, self1)"
    using assms(1) by (auto simp: sctp_handle_read_def)
  then show ?thesis using assms by (cases r) (auto simp: sctp_handle_read_def sctp_inbound_def split: SctpMessage.splits)
next
  case False
  then show ?thesis using assms by (auto simp: sctp_handle_read_def split: MessageEvent.splits DTLSMessageEvent.splits)
qed

lemma datachannel_sender:
  "datachannel_handle_read D msg q = (calls, q') \<Longrightarrow> FireRead m \<in> set calls \<Longrightarrow> msg_transport m = msg_transport msg"
  by (auto simp: datachannel_handle_read_def
      split: MessageEvent.split_asm DTLSMessageEvent.split_asm sum.split_asm option.split_asm)

lemma srtp_sender:
  "srtp_handle_read L msg self = (calls, self') \<Longrightarrow> FireRead m \<in> set calls \<Longrightarrow> msg_transport m = msg_transport msg"
  by (auto simp: srtp_handle_read_def split: MessageEvent.split_asm RTPMessageEvent.split_asm prod.split_asm sum.split_asm)

lemma interceptor_sender:
  assumes "interceptor_handler_read pt msg q self = (calls, q', self')" "FireRead m \<in> set calls"
  shows "msg_transport m = msg_transport msg"
proof (cases "is_media (msg_message msg)")
  case True
  show ?thesis
  proof (cases "states_get_endpoint (four_tuple_from (msg_transport msg)) self")
    case (Inl err)
    then show ?thesis using assms True
      by (auto simp: interceptor_handler_read_def endpoint_intercept_def split: MessageEvent.splits RTPMessageEvent.splits)
  next
    case (Inr x)
    then obtain sid eid ep where "states_get_endpoint (four_tuple_from (msg_transport msg)) self = Ok (sid, eid, ep)" by (cases x) simp
    from interceptor_read_view[OF this True, of pt q] show ?thesis using assms
      by (auto simp: Let_def split: MessageEvent.split_asm RTPMessageEvent.split_asm if_split_asm)
  qed
next
  case False
  then show ?thesis using assms by (auto simp: interceptor_handler_read_def)
qed

section \<open>From handlers to the pipeline\<close>

definition moved :: "(ServerStates \<Rightarrow> ServerStates \<Rightarrow> bool) \<Rightarrow> Pipeline \<Rightarrow> Pipeline \<Rightarrow> bool" where
  "moved rel p p' \<longleftrightarrow> (states_wf False (pl_states p) \<longrightarrow> states_wf False (pl_states p') \<and> rel (pl_states p) (pl_states p'))"

text \<open>A relation that every handler respects when it reads a message from \<open>ft\<close>.\<close>

locale caused_by =
  fixes ft :: FourTuple and rel :: "ServerStates \<Rightarrow> ServerStates \<Rightarrow> bool"
  assumes rel_refl: "rel self self"
    and rel_trans: "rel s1 s2 \<Longrightarrow> rel s2 s3 \<Longrightarrow> rel s1 s3"
    and rel_dtls: "four_tuple_from (msg_transport msg) = ft \<Longrightarrow> dtls_handle_read D msg dh self = Some (calls, dh', self') \<Longrightarrow> rel self self'"
    and rel_sctp: "four_tuple_from (msg_transport msg) = ft \<Longrightarrow> sctp_handle_read S msg sh self = Some (calls, sh', self') \<Longrightarrow> rel self self'"
    and rel_srtp: "four_tuple_from (msg_transport msg) = ft \<Longrightarrow> srtp_handle_read L msg self = (calls, self') \<Longrightarrow> rel self self'"
    and rel_interceptor:
      "four_tuple_from (msg_transport msg) = ft \<Longrightarrow> interceptor_handler_read pt msg q self = (calls, q', self') \<Longrightarrow> rel self self'"
    and rel_gateway: "four_tuple_from (msg_transport msg) = ft \<Longrightarrow> states_wf False self \<Longrightarrow>
      gateway_handle_read E R msg gh self = (calls, gh', self') \<Longrightarrow> rel self self'"
begin

lemma moved_refl: "pl_states p' = pl_states p \<Longrightarrow> moved rel p p'"
  by (simp add: moved_def rel_refl)

lemma moved_trans: "moved rel p1 p2 \<Longrightarrow> moved rel p2 p3 \<Longrightarrow> moved rel p1 p3"
  using rel_trans by (auto simp: moved_def)

lemma moved_feed:
  assumes "moved rel p p1" "feed stage calls p1 = Some (errs, p')"
    "\<And>m p errs p'. FireRead m \<in> set calls \<Longrightarrow> stage m p = Some (errs, p') \<Longrightarrow> moved rel p p'"
  shows "moved rel p p'"
  using assms(2,1) by (rule feed_invariant) (blast intro: moved_trans assms(3))

lemma moved_gateway:
  assumes "four_tuple_from (msg_transport msg) = ft" "gateway_stage E R msg p = Some (errs, p')"
  shows "moved rel p p'"
proof -
  obtain calls h self where g: "gateway_handle_read (pe_gateway E) (R (pl_reads p)) msg (pl_gateway p) (pl_states p) = (calls, h, self)"
    by (metis prod.collapse)
  then have "states_wf False (pl_states p) \<Longrightarrow> states_wf False self"
    using states_wf_try_read[of "pl_states p" "pe_gateway E" "R (pl_reads p)" msg]
    by (auto simp: gateway_handle_read_def split: prod.splits sum.splits)
  then have "moved rel p (p\<lparr>pl_gateway := h, pl_states := self, pl_reads := Suc (pl_reads p)\<rparr>)"
    using rel_gateway[OF assms(1) _ g] by (simp add: moved_def)
  moreover have "feed exception_stage calls (p\<lparr>pl_gateway := h, pl_states := self, pl_reads := Suc (pl_reads p)\<rparr>) = Some (errs, p')"
    using assms(2) g by (simp add: gateway_stage_def)
  ultimately show ?thesis
    by (rule moved_feed) (auto simp: exception_stage_def exception_handle_read_def intro: moved_refl)
qed

lemma moved_interceptor:
  assumes "four_tuple_from (msg_transport msg) = ft" "interceptor_stage E R msg p = Some (errs, p')"
  shows "moved rel p p'"
proof -
  obtain calls q self where g: "interceptor_handler_read (pe_packet_types E) msg (pl_interceptor p) (pl_states p) = (calls, q, self)"
    by (metis prod.collapse)
  have "moved rel p (p\<lparr>pl_interceptor := q, pl_states := self\<rparr>)"
    using rel_interceptor[OF assms(1) g] states_wf_interceptor_read[OF _ g] by (simp add: moved_def)
  moreover have "feed (gateway_stage E R) calls (p\<lparr>pl_interceptor := q, pl_states := self\<rparr>) = Some (errs, p')"
    using assms(2) g by (simp add: interceptor_stage_def)
  ultimately show ?thesis by (rule moved_feed) (metis moved_gateway interceptor_sender[OF g] assms(1))
qed

lemma moved_srtp:
  assumes "four_tuple_from (msg_transport msg) = ft" "srtp_stage E R msg p = Some (errs, p')"
  shows "moved rel p p'"
proof -
  obtain calls self where g: "srtp_handle_read (pe_srtp E) msg (pl_states p) = (calls, self)" by fastforce
  have "moved rel p (p\<lparr>pl_states := self\<rparr>)"
    using rel_srtp[OF assms(1) g] states_wf_srtp_read[OF _ g] by (simp add: moved_def)
  moreover have "feed (interceptor_stage E R) calls (p\<lparr>pl_states := self\<rparr>) = Some (errs, p')"
    using assms(2) g by (simp add: srtp_stage_def)
  ultimately show ?thesis by (rule moved_feed) (metis moved_interceptor srtp_sender[OF g] assms(1))
qed

lemma moved_datachannel:
  assumes "four_tuple_from (msg_transport msg) = ft" "datachannel_stage E R msg p = Some (errs, p')"
  shows "moved rel p p'"
proof -
  obtain calls q where g: "datachannel_handle_read (pe_datachannel E) msg (pl_datachannel p) = (calls, q)" by fastforce
  have "moved rel p (p\<lparr>pl_datachannel := q\<rparr>)" by (rule moved_refl) simp
  moreover have "feed (srtp_stage E R) calls (p\<lparr>pl_datachannel := q\<rparr>) = Some (errs, p')"
    using assms(2) g by (simp add: datachannel_stage_def)
  ultimately show ?thesis by (rule moved_feed) (metis moved_srtp datachannel_sender[OF g] assms(1))
qed

lemma moved_sctp:
  assumes "four_tuple_from (msg_transport msg) = ft" "sctp_stage E R msg p = Some (errs, p')"
  shows "moved rel p p'"
proof -
  obtain calls h self where g: "sctp_handle_read (pe_sctp E) msg (pl_sctp p) (pl_states p) = Some (calls, h, self)"
    and f: "feed (datachannel_stage E R) calls (p\<lparr>pl_sctp := h, pl_states := self\<rparr>) = Some (errs, p')"
    using assms(2) by (auto simp: sctp_stage_def bind_eq_Some_conv)
  have "moved rel p (p\<lparr>pl_sctp := h, pl_states := self\<rparr>)"
    using rel_sctp[OF assms(1) g] states_wf_sctp_read[OF _ g] by (simp add: moved_def)
  then show ?thesis using f by (rule moved_feed) (metis moved_datachannel sctp_sender[OF g] assms(1))
qed

lemma moved_dtls:
  assumes "four_tuple_from (msg_transport msg) = ft" "dtls_stage E R msg p = Some (errs, p')"
  shows "moved rel p p'"
proof -
  obtain calls h self where g: "dtls_handle_read (pe_dtls E) msg (pl_dtls p) (pl_states p) = Some (calls, h, self)"
    and f: "feed (sctp_stage E R) calls (p\<lparr>pl_dtls := h, pl_states := self\<rparr>) = Some (errs, p')"
    using assms(2) by (auto simp: dtls_stage_def bind_eq_Some_conv)
  have "moved rel p (p\<lparr>pl_dtls := h, pl_states := self\<rparr>)"
    using rel_dtls[OF assms(1) g] states_wf_dtls_read[OF _ g] by (simp add: moved_def)
  then show ?thesis using f by (rule moved_feed) (metis moved_sctp dtls_sender[OF g] assms(1))
qed

lemma moved_read:
  assumes "four_tuple_from (raw_transport dg) = ft" "pipeline_read E R dg p = Some (errs, p')"
  shows "moved rel p p'"
proof -
  have "moved rel p p'" if "four_tuple_from (msg_transport m) = ft" "stun_stage E R m p = Some (errs, p')" for m p errs p'
    using moved_refl[OF refl] that(2)[unfolded stun_stage_def] by (rule moved_feed) (metis moved_dtls stun_sender that(1))
  note stun = this
  show ?thesis
    using moved_refl[OF refl] assms(2)[unfolded pipeline_read_def] by (rule moved_feed) (metis stun demuxer_sender assms(1))
qed

end

interpretation peer: caused_by ft "follows (by_peer ft)" for ft
proof
  show "follows (by_peer ft) s1 s3" if "follows (by_peer ft) s1 s2" "follows (by_peer ft) s2 s3" for s1 s2 s3
    using that by (rule follows_trans)
qed (auto intro: follows_dtls_read follows_gateway_read
    quiet_follows[OF quiet_sctp_read] quiet_follows[OF quiet_srtp_read] quiet_follows[OF quiet_interceptor_read])

section \<open>The calls of the server\<close>

lemma follows_timeout:
  assumes "pipeline_handle_timeout E now p = Some (errs, p')"
  shows "follows is_leave (pl_states p) (pl_states p')"
proof -
  obtain c1 dtls self1 c2 sctp self2 where
    1: "dtls_handler_timeout (pe_dtls E) now (pl_dtls p) (pl_states p) = Some (c1, dtls, self1)"
    and 2: "sctp_handler_timeout (pe_sctp E) now (pl_sctp p) self1 = Some (c2, sctp, self2)"
    using assms by (auto simp: pipeline_handle_timeout_def bind_eq_Some_conv)
  obtain c3 q self3 where 3: "interceptor_handler_timeout now (pl_interceptor p) self2 = (c3, q, self3)" by (metis prod.collapse)
  obtain gw self4 where 4: "gateway_handle_timeout now (pl_gateway p) self3 = (gw, self4)" by fastforce
  have "quiet (pl_states p) self3"
    using quiet_dtls_timeout[OF 1] quiet_sctp_timeout[OF 2] quiet_interceptor_timeout[OF 3] by (simp add: quiet_def)
  moreover have "pl_states p' = self4" using assms 1 2 3 4 by (auto simp: pipeline_handle_timeout_def)
  ultimately show ?thesis using follows_gateway_timeout[OF 4] quiet_follows follows_trans by blast
qed

lemma quiet_poll:
  assumes "pipeline_poll_transmit E now p = Some (errs, m, p')"
  shows "quiet (pl_states p) (pl_states p')"
proof -
  obtain m1 gw where 1: "gateway_poll_write (exception_poll_write None) (pl_gateway p) = (m1, gw)" by fastforce
  obtain c2 m2 iq self2 where 2: "interceptor_handler_poll_write m1 (pl_interceptor p) (pl_states p) = (c2, m2, iq, self2)"
    by (metis prod.collapse)
  obtain c3 m3 self3 where 3: "srtp_poll_write (pe_srtp E) now m2 self2 = (c3, m3, self3)" by (metis prod.collapse)
  obtain m4 dq where 4: "datachannel_poll_write m3 (pl_datachannel p) = (m4, dq)" by fastforce
  obtain c5 m5 sctp self5 where 5: "sctp_poll_write (pe_sctp E) m4 (pl_sctp p) self3 = Some (c5, m5, sctp, self5)"
    using assms 1 2 3 4 by (auto simp: pipeline_poll_transmit_def bind_eq_Some_conv)
  obtain c6 m6 dtls self6 where 6: "dtls_poll_write (pe_dtls E) m5 (pl_dtls p) self5 = Some (c6, m6, dtls, self6)"
    using assms 1 2 3 4 5 by (auto simp: pipeline_poll_transmit_def bind_eq_Some_conv)
  have "pl_states p' = self6" using assms 1 2 3 4 5 6 by (auto simp: pipeline_poll_transmit_def)
  then show ?thesis
    using quiet_interceptor_write[OF 2] quiet_srtp_write[OF 3] quiet_sctp_write[OF 5] quiet_dtls_write[OF 6] by (simp add: quiet_def)
qed

lemma follows_read:
  "pipeline_reach E p \<Longrightarrow> pipeline_read E R dg p = Some (errs, p') \<Longrightarrow>
   follows (by_peer (four_tuple_from (raw_transport dg))) (pl_states p) (pl_states p')"
  using peer.moved_read[OF refl, of E R dg p errs p'] reach_inv[of E p] by (simp add: moved_def pipeline_inv_def)

lemma run_follows: "room_run a es (room_of self) \<Longrightarrow> follows P self self' \<Longrightarrow> \<exists>es'. room_run a es' (room_of self')"
  unfolding follows_def using room_run_append by blast

text \<open>Every reachable state is the end of a course of events from the empty room.\<close>

lemma reach_room: "pipeline_reach E p \<Longrightarrow> \<exists>es. room_run empty_room es (room_of (pl_states p))"
proof (induction rule: pipeline_reach.induct)
  case (built sc addr self now)
  then have "room_of self = empty_room"
    by (intro room_eqI) (auto simp: states_new_def empty_room_def find_candidate_def transport_at_def endpoint_at_def get_session_def split: list.splits)
  then show ?case by (auto simp: build_pipeline_def intro: exI[of _ "[]"])
next
  case (datagram p R msg errs p')
  then show ?case using run_follows[OF _ follows_read[OF datagram(1,2)]] by auto
next
  case (tick p now errs p')
  then show ?case using run_follows[OF _ follows_timeout[OF tick(2)]] by auto
next
  case (transmit p now errs m p')
  then show ?case using quiet_poll[OF transmit(2)] by (auto simp: quiet_def)
next
  case (offer p jsep user pwd now sid eid offer r self)
  then show ?case using run_follows[OF _ follows_accept_offer[OF offer(2)]] by auto
qed



section \<open>A sample peer joins\<close>

definition joining_env :: "string \<Rightarrow> pipeline_env" where
  "joining_env u = sample_pipeline_env\<lparr>pe_stun := \<lparr>stun_decode = \<lambda>_. Ok undefined, stun_encode = \<lambda>_. []\<rparr>,
     pe_gateway := sample_env\<lparr>env_stun := sample_stun\<lparr>get_username := \<lambda>_. Some u\<rparr>\<rparr>\<rparr>"

definition joining_datagram :: TaggedBytesMut where
  "joining_datagram = \<lparr>raw_now = 0, raw_transport = sample_context 9, raw_message = [0]\<rparr>"

definition fresh_states :: ServerStates where
  "fresh_states = \<lparr>st_server_config = sample_server_config, st_local_addr = SocketAddrV4 0x7F000001 3478, metrics = metrics_new,
     sessions = [], st_endpoints = [], candidates = []\<rparr>"

lemma fresh_offer:
  obtains ans c where "accept_offer offer_lib id empty_session sample_b64 (replicate 9 0) (replicate 18 0) 0 1 9 None
      (sample_description Offer []) fresh_states =
      (Ok ans, fresh_states\<lparr>sessions := [(1, session_new sample_session_config 1)], candidates := [(username c, c)]\<rparr>)"
    "cand_session_id c = 1" "cand_endpoint_id c = 9"
proof -
  let ?s = "session_new sample_session_config 1"
  obtain cred where cred: "connection_credentials_from_sdp offer_lib sample_offer = Ok cred"
    using sample_offer_credentials by blast
  have un: "rsd_unmarshal offer_lib (sample_description Offer []) = Ok sample_offer"
    "(sample_description Offer [])\<lparr>parsed := Some sample_offer\<rparr> = \<lparr>sdp_type = Offer, sdp = ''v=0'', parsed = Some sample_offer\<rparr>"
    by (simp_all add: rsd_unmarshal_def offer_lib_def sample_sdp_def sample_description_def)
  have new: "get_endpoint 9 ?s = None" "session_config ?s = sample_session_config"
    by (simp_all add: session_new_def get_endpoint_def)
  have sc: "certificates (st_server_config fresh_states) = [sample_certificate]"
    by (simp add: fresh_states_def sample_server_config_def server_config_new_def)
  have none: "candidates fresh_states = []" by (simp add: fresh_states_def)
  have c: "create_or_get_mut_session 1 fresh_states = (?s, fresh_states\<lparr>sessions := [(1, ?s)]\<rparr>)"
    by (simp add: create_or_get_mut_session_def get_session_def fresh_states_def put_session_def hm_insert_def
        sample_session_config_def Let_def)
  let ?local = "connection_credentials_new sample_b64 (replicate 9 0) (replicate 18 0) (get_fingerprints id sample_certificate) (role (dtls_params cred))"
  obtain ans where ans: "create_answer offer_lib id empty_session 9 \<lparr>sdp_type = Offer, sdp = ''v=0'', parsed = Some sample_offer\<rparr>
      (ice_params ?local) ?s = Ok ans" using sample_offer_answer[OF new] by blast
  let ?c = "candidate_new 1 9 cred ?local \<lparr>sdp_type = Offer, sdp = ''v=0'', parsed = Some sample_offer\<rparr> ans
    (0 + int (idle_timeout (st_server_config fresh_states)))"
  have "accept_offer offer_lib id empty_session sample_b64 (replicate 9 0) (replicate 18 0) 0 1 9 None
      (sample_description Offer []) fresh_states =
      (Ok ans, fresh_states\<lparr>sessions := [(1, session_new sample_session_config 1)], candidates := [(username ?c, ?c)]\<rparr>)"
    using ans by (simp add: accept_offer_def un cred sc c has_endpoint_get new add_candidate_def none hm_insert_def Let_def)
  then show thesis by (rule that) (simp_all add: candidate_new_def)
qed

lemma sample_join:
  obtains u p errs p' t where "pipeline_reach (joining_env u) p"
    "pipeline_read (joining_env u) (\<lambda>_. sample_readings) joining_datagram p = Some (errs, p')" "pipeline_reach (joining_env u) p'"
    "transport_at 1 9 (four_tuple_from (sample_context 9)) (pl_states p') = Some t"
proof -
  let ?ft = "four_tuple_from (sample_context 9)" and ?s = "session_new sample_session_config 1"
  obtain ans c where o: "accept_offer offer_lib id empty_session sample_b64 (replicate 9 0) (replicate 18 0) 0 1 9 None
      (sample_description Offer []) fresh_states =
      (Ok ans, fresh_states\<lparr>sessions := [(1, ?s)], candidates := [(username c, c)]\<rparr>)"
    and c: "cand_session_id c = 1" "cand_endpoint_id c = 9" by (rule fresh_offer)
  let ?E = "joining_env (username c)" and ?self = "fresh_states\<lparr>sessions := [(1, ?s)], candidates := [(username c, c)]\<rparr>"
  let ?built = "build_pipeline 0 (SocketAddrV4 0x7F000001 3478) fresh_states"
  let ?p = "?built\<lparr>pl_states := ?self\<rparr>"
  have "states_new (env_sha256 (pe_gateway ?E)) sample_server_config (SocketAddrV4 0x7F000001 3478) = Ok fresh_states"
    by (simp add: joining_env_def states_new_def sample_server_config_def server_config_new_def get_fingerprints_def
        sample_certificate_def certificate_from_existing_def fresh_states_def)
  then have "pipeline_reach ?E ?built" by (rule pipeline_reach.built)
  moreover have "accept_offer (env_sdp (pe_gateway ?E)) (env_sha256 (pe_gateway ?E)) empty_session (env_b64 (pe_gateway ?E))
      (replicate 9 0) (replicate 18 0) 0 1 9 None (sample_description Offer []) (pl_states ?built) = (Ok ans, ?self)"
    using o by (simp add: joining_env_def sample_env_def build_pipeline_def)
  ultimately have reach: "pipeline_reach ?E ?p" by (rule pipeline_reach.offer)
  let ?m = "\<lparr>msg_now = 0, msg_transport = sample_context 9, msg_message = Stun (StunMsg undefined)\<rparr>"
  have read: "pipeline_read ?E (\<lambda>_. sample_readings) joining_datagram ?p = gateway_stage ?E (\<lambda>_. sample_readings) ?m ?p"
    by (simp add: joining_datagram_def joining_env_def pipeline_read_def demuxer_handle_read_def match_dtls_def match_srtp_def
        match_range_Cons feed_one stun_stage_def stun_handle_read_def dtls_stage_def dtls_handle_read_def sctp_stage_def sctp_handle_read_def
        datachannel_stage_def datachannel_handle_read_def srtp_stage_def srtp_handle_read_def interceptor_stage_def
        interceptor_handler_read_def is_media_def del: feed.simps)
  obtain r self' where h: "handle_stun_message (pe_gateway ?E) sample_readings 0 (sample_context 9) undefined ?self = (r, self')" by fastforce
  have chk: "check_stun_message (env_stun (pe_gateway ?E)) ?self undefined = (Ok (Some c), undefined)"
    by (simp add: joining_env_def check_stun_message_def authenticate_def sample_stun_def find_candidate_def Let_def)
  have none: "get_endpoint 9 ?s = None" "transport_in ?s 9 ?ft = None" by (simp_all add: session_new_def get_endpoint_def transport_in_def)
  obtain r1 s1 where s1: "session_add_endpoint (env_transport (pe_gateway ?E)) (rd_now sample_readings) (rd_clock sample_readings)
      c (sample_context 9) ?s = (r1, s1)" by fastforce
  note view = session_add_endpoint_view[OF s1, unfolded c, OF none(2)]
  then obtain b where "r1 = Ok b" by blast
  then have "gateway_add_endpoint (pe_gateway ?E) sample_readings undefined c (sample_context 9) ?self =
      (Ok b, states_add_endpoint ?ft 1 9 (put_session 1 s1 ?self))"
    using s1 none by (simp add: gateway_add_endpoint_def get_session_def c Let_def) (simp add: joining_env_def sample_stun_def)
  then have "self' = states_add_endpoint ?ft 1 9 (put_session 1 s1 ?self)" using h chk by (simp add: handle_stun_message_def)
  then have at: "transport_at 1 9 ?ft self' \<noteq> None" using view by (simp add: transport_at_put)
  obtain errs p' where p': "gateway_stage ?E (\<lambda>_. sample_readings) ?m ?p = Some (errs, p')" "pl_states p' = self'"
    using h by (cases r) (auto simp: gateway_stage_def gateway_handle_read_def gateway_try_read_def)
  show thesis using that[OF reach] read p' at pipeline_reach.datagram[OF reach] by auto
qed



end
