(* ===== verification/Spec2Isabelle.thy ===== *)
theory Spec2Isabelle
  imports Media_Path Chat_Servers Room_Server
begin

text \<open>
  A verification of a selective forwarding unit (SFU) for WebRTC: the crate \<open>sfu\<close> (\<open>src/src/\<close>) and the example
  servers that run it (\<open>src/examples/\<close>).

  \<^bold>\<open>The program.\<close> A client sends an offer over HTTP. The server answers it and files a \<^emph>\<open>candidate\<close> with fresh
  credentials under a user name. The client then sends datagrams to a media port. A chain of handlers reads them:
  the demultiplexer sorts them into STUN, DTLS and SRTP; connectivity checks (STUN) that present the credentials of a
  candidate connect a \<^emph>\<open>transport\<close> of an \<^emph>\<open>endpoint\<close> in a \<^emph>\<open>session\<close>; DTLS gives the transport its keys and carries SCTP,
  which carries data channels; media is decrypted, passes the interceptors and reaches the gateway. The gateway forwards
  media to the other endpoints of the session and renegotiates descriptions over the data channels. Outgoing messages
  wait in the queues of the handlers and pass the chain in the other direction. All handlers share one \<open>ServerStates\<close>.

  \<^bold>\<open>How it is modelled.\<close> A struct is a \<open>record\<close>, an enum a \<open>datatype\<close>, a function of the source one definition of the
  same name (with the name of its type in front where two would clash); integers are words of their width. Fallible code
  returns a \<open>result\<close>, and panics are the error \<open>Panic\<close>, so that every early return and every \<open>unwrap\<close> is a branch.
  Code that changes state takes it as an argument and returns it; a function that fails after it has changed something
  returns the changed state with the error (\<open>outcome\<close>). Writes through \<open>&mut\<close> references that a lookup returns are
  modifications at the key of the lookup. A \<open>HashMap\<close> is an association list, so that iteration has an order; statements
  do not depend on it, or hold for every order. Calls of a handler to its context (\<open>fire_read\<close>, \<open>fire_exception\<close>,
  \<open>fire_timeout\<close>) are values of \<open>ctx_call\<close>, in the order in which they are made.

  Crates that are not part of the repository are arguments, as records of functions over opaque types: \<open>sdp_lib\<close>,
  \<open>stun_lib\<close> and \<open>stun_codec\<close>, \<open>dtls_lib\<close>, \<open>sctp_lib\<close>, \<open>datachannel_lib\<close>, \<open>srtp_lib\<close>, \<open>json_lib\<close>, \<open>transport_lib\<close>,
  \<open>keygen_lib\<close>, \<open>pem_lib\<close>, \<open>config_lib\<close>. The clock and random numbers are arguments too (\<open>readings\<close>). What a statement
  needs of a crate is one of its hypotheses: for example that decrypting undoes encrypting, or that an endpoint has finitely
  many pending items that polling uses up.

  \<^bold>\<open>Foundations.\<close>
  \<^item> \<open>Prelude\<close>, \<open>Rust_Text\<close>, \<open>Utf8\<close>: results and their lemmas, the operations on strings and bytes of the standard library.
  \<^item> \<open>Hash_Map\<close>, \<open>Transmit_Queue\<close>: \<open>HashMap\<close> and \<open>VecDeque\<close>, each with a locale for its contract (\<open>map_contract\<close>, \<open>fifo\<close>)
    that the model's operations interpret.
  \<^item> \<open>Polling\<close>: loops that poll a source until it is empty, with the locale \<open>pollable\<close> under which they return.
  \<^item> \<open>Messages\<close>, \<open>Metrics\<close>: \<open>messages.rs\<close>, \<open>types.rs\<close>, \<open>metrics/mod.rs\<close>.

  \<^bold>\<open>Descriptions and configuration.\<close>
  \<^item> \<open>Direction\<close>, \<open>Fmtp\<close>, \<open>Codec\<close>: the enumerations, format parameters and codecs of \<open>description/\<close>; the algebra of
    directions, matching of format parameters as a contract of both matchers, the fuzzy codec search.
  \<^item> \<open>Sdp\<close>, \<open>Sdp_Extract\<close>, \<open>Sdp_Populate\<close>: \<open>description/mod.rs\<close>; what is read from a description and how one is
    built, section by section, with round trips between the two.
  \<^item> \<open>Media_Config\<close>, \<open>Config\<close>: \<open>configs/\<close>; registration and negotiation keep codecs and header extension ids unique and
    never add a codec that the server does not support.
  \<^item> \<open>Certificate\<close>, \<open>Certificate_Files\<close>: \<open>server/certificate.rs\<close>; fingerprints and PEM files are read back.

  \<^bold>\<open>State.\<close>
  \<^item> \<open>Candidate\<close>, \<open>Endpoint\<close>: \<open>endpoint/\<close>. \<open>Session\<close>, \<open>Session_Sdp\<close>: \<open>session/mod.rs\<close>; accepting an offer refines a
    declarative update of all transceivers of the session, and the sections of offers and answers are characterised.
  \<^item> \<open>Server_States\<close>, \<open>Transport_Access\<close>, \<open>Transport_Walk\<close>: \<open>server/states.rs\<close> and the ways in which handlers reach
    transports; the invariant \<open>states_wf\<close> (every record is filed under its own key) and that every operation keeps it.
  \<^item> \<open>Receiver_Stream\<close>, \<open>Interceptor\<close>: \<open>interceptors/\<close>; what a receiver report counts as lost, chains of interceptors.

  \<^bold>\<open>Handlers\<close> (\<open>handlers/\<close>).
  \<^item> \<open>Demuxer\<close>, \<open>Stun_Handler\<close> (with the exception handler), \<open>Dtls_Handler\<close>, \<open>Sctp_Handler\<close>, \<open>Data_Channel_Handler\<close>,
    \<open>Srtp_Handler\<close>, \<open>Interceptor_Handler\<close>: reads, timers and writes, each on every branch; keys come from handshakes only, messages
    stay within their bounds, errors leave the states alone.
  \<^item> \<open>Gateway\<close>, \<open>Forwarding\<close>, \<open>Gateway_Steps\<close>, \<open>Channels\<close>: \<open>gateway.rs\<close>; who receives what, who is admitted, who is
    evicted, and what the data channels negotiate.

  \<^bold>\<open>The whole server.\<close>
  \<^item> \<open>Pipeline\<close>, \<open>Pipeline_Types\<close>, \<open>Pipeline_Steps\<close>: the chain of handlers as both example servers build it; the
    inductive predicate \<open>pipeline_reach\<close> of the states that datagrams, timers, polls and offers lead to; in all of them the
    states are well formed and each queue holds messages that the handlers before it can send.
  \<^item> \<open>Signaling\<close>, \<open>Sync_Server\<close>: \<open>examples/sync_signal/mod.rs\<close>; the web handler, the media thread and its main loop, which
    keeps the invariants and never hangs.
  \<^item> \<open>Async_Signaling\<close>, \<open>Chat_Servers\<close>: \<open>examples/async_signal/mod.rs\<close>, \<open>async_chat.rs\<close>, \<open>sync_chat.rs\<close> and
    \<open>util/mod.rs\<close>; the HTTP handler never panics, the tasks run, the ports share the sessions.
  \<^item> \<open>Media_Path\<close>: one encrypted packet through all of it, from the socket to the sockets of all receivers.
  \<^item> \<open>Room\<close>, \<open>Room_Refinement\<close>, \<open>Room_Server\<close>: an abstract room in which tickets are issued, peers are admitted, get keys
    and leave; the map \<open>room_of\<close> from server states to rooms; every handler call and thereby every call of the pipeline is a
    course of events of the room. The locale \<open>caused_by\<close> lifts a relation that the handlers respect to the
    pipeline. What holds in all rooms, above all that every member was invited, then holds for the server.

  \<^bold>\<open>Loops.\<close> There is no fuel. Loops over data are structural recursions or have a termination proof. Loops over sources
  of other crates are partial functions into \<open>option\<close> (\<open>drain\<close>, \<open>read_stream\<close>, \<open>read_events\<close>, \<open>write_socket_output\<close>), and that
  they return is proved from the finiteness of the source; for the loop that sends, the lengths of the queues decrease
  lexicographically. The endless main loops work through a list of turns or events of any length.

  \<^bold>\<open>Not modelled.\<close> The command line, logging, the exporter of metrics, the start and stop of threads and of the HTTP
  servers (\<open>main\<close> of \<open>sync_chat.rs\<close> and \<open>async_chat.rs\<close>, \<open>SignalingServer::run\<close>): they only call other crates. The
  \<open>retty\<close> framework that drives a pipeline: its calls are the steps of \<open>pipeline_reach\<close>. Crate roots, modules without
  code, and \<open>extract_ice_details\<close>, which is commented out. Functions that only return a field by reference are the
  selectors of the records. Tests.
\<close>

end
